(* ===== verification/Go_Prelude.thy ===== *)
theory Go_Prelude
  imports Main "HOL-Library.Word"
begin

text \<open>
  Shared ground of the development: the Go values every component of the agent handles.

  \<^item> bytes and byte slices (\<open>[]byte\<close> is a list of 8-bit words; a slice handed over by a reader
    has capacity equal to its length, so a slice expression beyond the length panics);
  \<^item> Go strings (byte sequences, HOL's \<open>string\<close>);
  \<^item> error values, and the outcome of a Go call that may panic;
  \<^item> decimal numbers and \<open>strings.Split\<close>;
  \<^item> little-endian integers and their bytes.
\<close>

named_theorems go_simps \<open>equations of the Go run-time model, for evaluation\<close>
named_theorems wire_simps \<open>sizes and encodings of wire formats\<close>

section \<open>Values\<close>

type_synonym byte = "8 word"
type_synonym bytes = "8 word list"
type_synonym u8 = "8 word"
type_synonym u16 = "16 word"
type_synonym u32 = "32 word"
type_synonym u64 = "64 word"
type_synonym i64 = "64 word" \<comment> \<open>read with \<open>sint\<close>\<close>
type_synonym i32 = "32 word" \<comment> \<open>read with \<open>sint\<close>\<close>

text \<open>
  Error values. \<open>Errorf\<close> is \<open>fmt.Errorf\<close>/\<open>errors.New\<close> with its text, \<open>Errorw pre err suf\<close> is
  \<open>fmt.Errorf\<close> of a format that prints \<open>err\<close> between two texts, \<open>Wrap\<close> is
  \<open>errors.Wrap\<close> of the package \<open>github.com/pkg/errors\<close>, \<open>ErrClosed\<close> is the sentinel of the
  ring-buffer and perf readers, \<open>LibError\<close> any other error of a library.
\<close>

datatype goerr =
    EOF
  | ErrUnexpectedEOF
  | ErrNotExist
  | ErrClosed
  | PathError string string goerr
  | Errorf string
  | Errorw string goerr string
  | Wrap goerr string
  | LibError string

text \<open>A call returns a value or panics with a message.\<close>

datatype 'a go = Ret 'a | Panic string

fun go_bind :: "'a go \<Rightarrow> ('a \<Rightarrow> 'b go) \<Rightarrow> 'b go" where
  "go_bind (Ret x) f = f x"
| "go_bind (Panic m) f = Panic m"

lemma go_bind_assoc: "go_bind (go_bind m f) g = go_bind m (\<lambda>x. go_bind (f x) g)"
  by (cases m) auto

lemma go_bind_Ret_iff [go_simps]:
  "go_bind m f = Ret y \<longleftrightarrow> (\<exists>x. m = Ret x \<and> f x = Ret y)"
  by (cases m) auto

section \<open>Strings and decimal numbers\<close>

definition string_of_bytes :: "bytes \<Rightarrow> string" where
  "string_of_bytes bs = map (\<lambda>b. char_of (unat b)) bs"

definition bytes_of_string :: "string \<Rightarrow> bytes" where
  "bytes_of_string s = map (\<lambda>c. word_of_nat (of_char c)) s"

lemma length_string_of_bytes [simp]: "length (string_of_bytes bs) = length bs"
  by (simp add: string_of_bytes_def)

lemma string_of_bytes_append [simp]:
  "string_of_bytes (a @ b) = string_of_bytes a @ string_of_bytes b"
  by (simp add: string_of_bytes_def)

lemma unat_less_2p: "unat (w :: 'a::len word) < 2 ^ LENGTH('a)"
  by (rule unsigned_less)

lemma unat_byte_less: "unat (b :: 8 word) < 256"
  using unat_less_2p [of b] by simp

lemma unat_byte_mod_inject: "unat (a :: 8 word) mod 256 = unat b mod 256 \<longleftrightarrow> a = b"
  by (simp only: mod_less unat_byte_less unsigned_word_eqI word_unat_eq_iff)

lemma string_of_bytes_inject [simp]: "string_of_bytes a = string_of_bytes b \<longleftrightarrow> a = b"
  unfolding string_of_bytes_def
  by (rule inj_map_eq_map) (simp add: inj_def unat_byte_mod_inject)

lemma string_of_bytes_of_string [simp]: "string_of_bytes (bytes_of_string s) = s"
proof -
  have "char_of (unat (word_of_nat (of_char c) :: 8 word)) = c" for c :: char
    by (simp add: unat_of_nat take_bit_eq_mod)
  then show ?thesis by (simp add: string_of_bytes_def bytes_of_string_def comp_def)
qed

definition digit_char :: "nat \<Rightarrow> char" where
  "digit_char d = char_of (48 + d)"

text \<open>\<open>strconv.Itoa\<close> and the verb \<open>%d\<close>: decimal digits, most significant first.\<close>

fun itoa_nat :: "nat \<Rightarrow> string" where
  "itoa_nat n = (if n < 10 then [digit_char n] else itoa_nat (n div 10) @ [digit_char (n mod 10)])"

declare itoa_nat.simps [simp del]

definition itoa :: "int \<Rightarrow> string" where
  "itoa i = (if i < 0 then CHR ''-'' # itoa_nat (nat (- i)) else itoa_nat (nat i))"

definition is_digit :: "char \<Rightarrow> bool" where
  "is_digit c \<longleftrightarrow> 48 \<le> (of_char c :: nat) \<and> (of_char c :: nat) \<le> 57"

definition digit_val :: "char \<Rightarrow> nat" where
  "digit_val c = of_char c - 48"

text \<open>The number a digit string denotes; it inverts \<^const>\<open>itoa_nat\<close>.\<close>

definition atoi :: "string \<Rightarrow> nat" where
  "atoi s = foldl (\<lambda>a c. 10 * a + digit_val c) 0 s"

lemma digit_val_char [simp]: "d < 10 \<Longrightarrow> digit_val (digit_char d) = d"
  by (simp add: digit_val_def digit_char_def)

lemma is_digit_char [simp]: "d < 10 \<Longrightarrow> is_digit (digit_char d)"
  by (simp add: is_digit_def digit_char_def)

lemma digit_char_eval [simp]:
  "digit_char 0 = CHR ''0''" "digit_char (Suc 0) = CHR ''1''" "digit_char 1 = CHR ''1''"
  "digit_char 2 = CHR ''2''" "digit_char 3 = CHR ''3''" "digit_char 4 = CHR ''4''"
  "digit_char 5 = CHR ''5''" "digit_char 6 = CHR ''6''" "digit_char 7 = CHR ''7''"
  "digit_char 8 = CHR ''8''" "digit_char 9 = CHR ''9''"
  by code_simp+

lemma itoa_nat_digits: "c \<in> set (itoa_nat n) \<Longrightarrow> is_digit c"
proof (induction n rule: itoa_nat.induct)
  case (1 n)
  show ?case
  proof (cases "n < 10")
    case True
    with "1.prems" show ?thesis by (subst (asm) itoa_nat.simps) simp
  next
    case False
    with "1.prems" have "c \<in> set (itoa_nat (n div 10)) \<or> c = digit_char (n mod 10)"
      by (subst (asm) itoa_nat.simps) auto
    with False "1.IH" show ?thesis by auto
  qed
qed

lemma itoa_nat_nonempty [simp]: "itoa_nat n \<noteq> []"
  by (subst itoa_nat.simps) simp

lemma atoi_itoa_nat [simp]: "atoi (itoa_nat n) = n"
proof (induction n rule: itoa_nat.induct)
  case (1 n)
  show ?case
  proof (cases "n < 10")
    case True
    then show ?thesis by (subst itoa_nat.simps) (simp add: atoi_def)
  next
    case False
    with "1.IH" show ?thesis by (subst itoa_nat.simps) (simp add: atoi_def)
  qed
qed

lemma itoa_nat_inject [simp]: "itoa_nat m = itoa_nat n \<longleftrightarrow> m = n"
  by (metis atoi_itoa_nat)

lemma itoa_of_nat [simp]: "itoa (int n) = itoa_nat n"
  by (simp add: itoa_def)

lemma percent_not_digit: "is_digit c \<Longrightarrow> c \<noteq> CHR ''%''"
  by (auto simp: is_digit_def)

lemma itoa_no_percent [simp]: "CHR ''%'' \<notin> set (itoa i)"
  using itoa_nat_digits percent_not_digit by (auto simp: itoa_def)

section \<open>Splitting\<close>

text \<open>\<open>strings.Split\<close> with a one-character separator.\<close>

fun Split :: "char \<Rightarrow> string \<Rightarrow> string list" where
  "Split sep [] = [[]]"
| "Split sep (c # cs) =
     (if c = sep then [] # Split sep cs
      else (case Split sep cs of [] \<Rightarrow> [[c]] | p # ps \<Rightarrow> (c # p) # ps))"

lemma Split_nonempty [simp]: "Split sep s \<noteq> []"
  by (cases s) (auto split: list.splits)

lemma Split_no_sep: "sep \<notin> set a \<Longrightarrow> Split sep a = [a]"
  by (induction a) auto

lemma Split_append_sep: "sep \<notin> set a \<Longrightarrow> Split sep (a @ sep # b) = a # Split sep b"
  by (induction a) auto

section \<open>Little-endian integers\<close>

fun le_nat :: "bytes \<Rightarrow> nat" where
  "le_nat [] = 0"
| "le_nat (b # bs) = unat b + 256 * le_nat bs"

fun le_enc :: "nat \<Rightarrow> nat \<Rightarrow> bytes" where
  "le_enc 0 x = []"
| "le_enc (Suc n) x = word_of_nat x # le_enc n (x div 256)"

text \<open>\<open>binary.LittleEndian.Uint16/32/64\<close> and the inverse store.\<close>

definition le_word :: "bytes \<Rightarrow> 'a::len word" where
  "le_word bs = word_of_nat (le_nat bs)"

definition le16 :: "u16 \<Rightarrow> bytes" where "le16 w = le_enc 2 (unat w)"
definition le32 :: "u32 \<Rightarrow> bytes" where "le32 w = le_enc 4 (unat w)"
definition le64 :: "u64 \<Rightarrow> bytes" where "le64 w = le_enc 8 (unat w)"
definition le8 :: "u8 \<Rightarrow> bytes" where "le8 w = [w]"

lemma length_le_enc [simp]: "length (le_enc n x) = n"
  by (induction n arbitrary: x) auto

lemma length_le [simp, wire_simps]:
  "length (le8 a) = 1" "length (le16 b) = 2" "length (le32 c) = 4" "length (le64 d) = 8"
  by (simp_all add: le8_def le16_def le32_def le64_def)

lemma le_nat_le_enc: "le_nat (le_enc n x) = x mod 256 ^ n"
proof (induction n arbitrary: x)
  case 0
  then show ?case by simp
next
  case (Suc n)
  have "unat (word_of_nat x :: 8 word) = x mod 256"
    by (simp add: unat_of_nat take_bit_eq_mod)
  with Suc show ?case by (simp add: mod_mult2_eq mult.commute)
qed

lemma le_enc_numeral [simp]:
  "le_enc (numeral k) x = word_of_nat x # le_enc (pred_numeral k) (x div 256)"
  by (simp only: numeral_eq_Suc [of k] le_enc.simps)

lemma le_enc_le_nat: "le_enc (length bs) (le_nat bs) = bs"
proof (induction bs)
  case (Cons b bs)
  have z: "(256 :: byte) = 0" by simp
  have "(unat b + 256 * le_nat bs) div 256 = le_nat bs" using unat_byte_less [of b] by simp
  moreover have "(word_of_nat (unat b + 256 * le_nat bs) :: byte) = b"
    by (simp add: z)
  moreover have "length (b # bs) = Suc (length bs)" by simp
  ultimately show ?case using Cons by (simp only: le_nat.simps le_enc.simps)
qed simp

lemma le_word_le16 [simp]: "le_word (le16 w) = w"
  using unat_less_2p [of w]
  by (simp add: le_word_def le16_def le_nat_le_enc del: le_enc_numeral)

lemma le_word_le32 [simp]: "le_word (le32 w) = w"
  using unat_less_2p [of w]
  by (simp add: le_word_def le32_def le_nat_le_enc del: le_enc_numeral)

lemma le_word_le64 [simp]: "le_word (le64 w) = w"
  using unat_less_2p [of w]
  by (simp add: le_word_def le64_def le_nat_le_enc del: le_enc_numeral)

lemma le_word_le8 [simp]: "le_word (le8 w) = w"
  by (simp add: le_word_def le8_def)

lemma le_nat_append: "le_nat (a @ b) = le_nat a + 256 ^ length a * le_nat b"
  by (induction a) (simp_all add: algebra_simps)

lemma le_nat_bound: "le_nat bs < 256 ^ length bs"
proof (induction bs)
  case (Cons b bs)
  have "unat b + 256 * le_nat bs < 256 * (le_nat bs + 1)"
    using unat_byte_less [of b] by simp
  also have "\<dots> \<le> 256 * 256 ^ length bs" using Cons by (simp only: mult_le_mono2 Suc_eq_plus1 Suc_leI)
  finally show ?case by simp
qed simp

lemma unat_le_word:
  assumes "256 ^ length bs \<le> (2 :: nat) ^ LENGTH('a::len)"
  shows "unat (le_word bs :: 'a word) = le_nat bs"
proof -
  have "le_nat bs < 2 ^ LENGTH('a)" using le_nat_bound [of bs] assms by linarith
  then show ?thesis by (simp add: le_word_def unsigned_of_nat take_bit_nat_eq_self)
qed

end
