(* ===== verification/Go_Fmt.thy ===== *)
theory Go_Fmt
  imports Go_Prelude
begin

text \<open>
  The parts of \<open>fmt\<close>, \<open>time\<close> and \<open>net\<close> the agent prints with.

  \<^item> \<open>Sprintf\<close> with a constant format is given by the format split at its verbs: a list of
    literal pieces and of arguments printed by \<open>%d\<close> or \<open>%s\<close>.
  \<^item> \<open>Sprintf0\<close> is \<open>fmt.Sprintf(s)\<close> with a format known only at run time and no arguments,
    which \<open>event_udns.go\<close> and \<open>event_java_rasp.go\<close> call on an already formatted string. It
    follows \<open>(*pp).doPrintf\<close> of Go 1.17 for an empty argument list: flags, argument indexes,
    width, precision, then the verb, which is reported as missing its operand.
  \<^item> \<open>clock\<close> is \<open>Time.Format("15:04:05")\<close> in a time zone given by its offset.
  \<^item> \<open>IP_String\<close> is \<open>net.IP.String\<close>.
\<close>

section \<open>Constant formats\<close>

datatype fmt_piece = Lit string | Dec int | Str string

fun fmt_piece_text :: "fmt_piece \<Rightarrow> string" where
  "fmt_piece_text (Lit s) = s"
| "fmt_piece_text (Dec i) = itoa i"
| "fmt_piece_text (Str s) = s"

definition Sprintf :: "fmt_piece list \<Rightarrow> string" where
  "Sprintf ps = concat (map fmt_piece_text ps)"

lemma Sprintf_simps [simp]:
  "Sprintf [] = []" "Sprintf (p # ps) = fmt_piece_text p @ Sprintf ps"
  by (simp_all add: Sprintf_def)

section \<open>Formats known at run time, without arguments\<close>

text \<open>The verb of a directive is one rune of the format. An invalid encoding is one byte long and
  is written as U+FFFD. The result is what is written for it and how many bytes it takes.\<close>

definition utf8_cont :: "char \<Rightarrow> bool" where
  "utf8_cont c \<longleftrightarrow> 128 \<le> (of_char c :: nat) \<and> (of_char c :: nat) \<le> 191"

definition in_range :: "nat \<Rightarrow> nat \<Rightarrow> char \<Rightarrow> bool" where
  "in_range lo hi c \<longleftrightarrow> lo \<le> (of_char c :: nat) \<and> (of_char c :: nat) \<le> hi"

definition rune_len :: "string \<Rightarrow> nat" where
  "rune_len s = (case s of
      [] \<Rightarrow> 0
    | c # r \<Rightarrow>
       (if in_range 0 127 c then 1
        else if in_range 194 223 c then
          (case r of c1 # _ \<Rightarrow> if utf8_cont c1 then 2 else 0 | _ \<Rightarrow> 0)
        else if in_range 224 239 c then
          (case r of c1 # c2 # _ \<Rightarrow>
             if in_range (if of_char c = (224 :: nat) then 160 else 128)
                         (if of_char c = (237 :: nat) then 159 else 191) c1 \<and> utf8_cont c2
             then 3 else 0 | _ \<Rightarrow> 0)
        else if in_range 240 244 c then
          (case r of c1 # c2 # c3 # _ \<Rightarrow>
             if in_range (if of_char c = (240 :: nat) then 144 else 128)
                         (if of_char c = (244 :: nat) then 143 else 191) c1
                \<and> utf8_cont c2 \<and> utf8_cont c3
             then 4 else 0 | _ \<Rightarrow> 0)
        else 0))"

definition rune_error :: string where
  "rune_error = [char_of (239 :: nat), char_of (191 :: nat), char_of (189 :: nat)]"

definition verb_rune :: "string \<Rightarrow> string \<times> string" where
  "verb_rune s = (let n = rune_len s in
     if n = 0 then (rune_error, drop 1 s) else (take n s, drop n s))"

fun parsenum :: "string \<Rightarrow> nat \<Rightarrow> bool \<Rightarrow> nat \<times> bool \<times> string" where
  "parsenum [] num isnum = (num, isnum, [])"
| "parsenum (c # cs) num isnum =
     (if is_digit c then
        (if num > 1000000 then (0, False, []) else parsenum cs (num * 10 + digit_val c) True)
      else (num, isnum, c # cs))"

definition skipnum :: "string \<Rightarrow> string" where
  "skipnum s = snd (snd (parsenum s 0 False))"

text \<open>\<open>argNumber\<close> at position \<open>s\<close>: the rest, whether an index was read, and whether a bracket was
  seen at all (with no arguments every index is out of range, so a bracket makes it a bad index).\<close>

definition argNumber :: "string \<Rightarrow> string \<times> bool \<times> bool" where
  "argNumber s = (case s of
      [] \<Rightarrow> (s, False, False)
    | c # r \<Rightarrow>
       (if c \<noteq> CHR ''['' then (s, False, False)
        else if length s < 3 \<or> CHR '']'' \<notin> set r then (r, False, True)
        else (let body = takeWhile (\<lambda>x. x \<noteq> CHR '']'') r in
              (drop (Suc (length body)) r,
               (case parsenum body 0 False of (_, ok, rest) \<Rightarrow> ok \<and> rest = []), True))))"

text \<open>Width and precision: what is written for a \<open>*\<close> with no operand, the rest, and whether the
  last thing read was an argument index (and, for the precision, whether it was a bad one).\<close>

definition width_part :: "string \<Rightarrow> bool \<Rightarrow> string \<times> string \<times> bool" where
  "width_part s af = (case s of
      c # r \<Rightarrow> if c = CHR ''*'' then (''%!(BADWIDTH)'', r, False) else ('''', skipnum s, af)
    | [] \<Rightarrow> ('''', s, af))"

definition prec_part :: "string \<Rightarrow> bool \<Rightarrow> string \<times> string \<times> bool \<times> bool" where
  "prec_part s af = (case s of
      c # r \<Rightarrow>
       (if c = CHR ''.'' then
          (let (r1, af1, bad) = argNumber r in
           case r1 of
             d # r2 \<Rightarrow> if d = CHR ''*'' then (''%!(BADPREC)'', r2, False, bad)
                       else ('''', skipnum r1, af1, bad)
           | [] \<Rightarrow> ('''', r1, af1, bad))
        else ('''', s, af, False))
    | [] \<Rightarrow> ('''', s, af, False))"

definition index_part :: "string \<Rightarrow> bool \<Rightarrow> string \<times> bool" where
  "index_part s af = (if af then (s, False) else (let (r, _, bad) = argNumber s in (r, bad)))"

definition verb_part :: "string \<Rightarrow> bool \<Rightarrow> string \<times> string" where
  "verb_part s bad = (case s of
      [] \<Rightarrow> (''%!(NOVERB)'', [])
    | c # _ \<Rightarrow>
       (let (v, r) = verb_rune s in
        (if c = CHR ''%'' then ''%''
         else ''%!'' @ v @ (if bad then ''(BADINDEX)'' else ''(MISSING)''), r)))"

text \<open>One directive after its percent sign: what it prints and the rest of the format.\<close>

definition directive :: "string \<Rightarrow> string \<times> string" where
  "directive s =
    (let s1 = dropWhile (\<lambda>c. c \<in> set ''#0+- '') s;
         (s2, af1, bad1) = argNumber s1;
         (wid, s3, af2) = width_part s2 af1;
         (prec, s4, af3, bad2) = prec_part s3 af2;
         (s5, bad3) = index_part s4 af3;
         (out, rest) = verb_part s5 (bad1 \<or> bad2 \<or> bad3)
     in (wid @ prec @ out, rest))"

lemma parsenum_shrinks: "length (snd (snd (parsenum s n b))) \<le> length s"
  by (induction s n b rule: parsenum.induct) auto

lemma skipnum_shrinks: "length (skipnum s) \<le> length s"
  by (simp add: skipnum_def parsenum_shrinks)

lemma argNumber_shrinks: "length (fst (argNumber s)) \<le> length s"
  by (auto simp: argNumber_def Let_def split: list.splits)

lemma verb_rune_shrinks: "length (snd (verb_rune s)) \<le> length s"
  by (simp add: verb_rune_def Let_def)

lemma width_part_shrinks: "length (fst (snd (width_part s af))) \<le> length s"
  using skipnum_shrinks [of s] by (auto simp: width_part_def split: list.splits)

lemma prec_part_shrinks: "length (fst (snd (prec_part s af))) \<le> length s"
proof (cases s)
  case (Cons c r)
  obtain r1 af1 bad where a: "argNumber r = (r1, af1, bad)" by (cases "argNumber r")
  have "length r1 \<le> length r" using argNumber_shrinks [of r] a by simp
  moreover have "length (skipnum r1) \<le> length r1" by (rule skipnum_shrinks)
  ultimately show ?thesis
    using a Cons by (auto simp: prec_part_def split: list.splits)
qed (simp add: prec_part_def)

lemma index_part_shrinks: "length (fst (index_part s af)) \<le> length s"
  using argNumber_shrinks [of s] by (auto simp: index_part_def split: prod.splits)

lemma verb_part_shrinks: "length (snd (verb_part s bad)) \<le> length s"
  using verb_rune_shrinks [of s] by (auto simp: verb_part_def split: list.splits prod.splits)

lemma directive_shrinks: "length (snd (directive s)) \<le> length s"
proof -
  let ?s1 = "dropWhile (\<lambda>c. c \<in> set ''#0+- '') s"
  obtain s2 af1 bad1 where 1: "argNumber ?s1 = (s2, af1, bad1)" by (cases "argNumber ?s1")
  obtain wid s3 af2 where 2: "width_part s2 af1 = (wid, s3, af2)" by (cases "width_part s2 af1")
  obtain prec s4 af3 bad2 where 3: "prec_part s3 af2 = (prec, s4, af3, bad2)"
    by (cases "prec_part s3 af2")
  obtain s5 bad3 where 4: "index_part s4 af3 = (s5, bad3)" by (cases "index_part s4 af3")
  have "length ?s1 \<le> length s" by (rule length_dropWhile_le)
  moreover have "length s2 \<le> length ?s1" using argNumber_shrinks [of ?s1] 1 by simp
  moreover have "length s3 \<le> length s2" using width_part_shrinks [of s2 af1] 2 by simp
  moreover have "length s4 \<le> length s3" using prec_part_shrinks [of s3 af2] 3 by simp
  moreover have "length s5 \<le> length s4" using index_part_shrinks [of s4 af3] 4 by simp
  moreover have "length (snd (directive s)) = length (snd (verb_part s5 (bad1 \<or> bad2 \<or> bad3)))"
    by (simp only: directive_def Let_def 1 2 3 4 prod.case fst_conv snd_conv split_def)
  moreover have "length (snd (verb_part s5 (bad1 \<or> bad2 \<or> bad3))) \<le> length s5"
    by (rule verb_part_shrinks)
  ultimately show ?thesis by linarith
qed

function Sprintf0 :: "string \<Rightarrow> string" where
  "Sprintf0 [] = []"
| "Sprintf0 (c # cs) =
     (if c \<noteq> CHR ''%'' then c # Sprintf0 cs
      else fst (directive cs) @ Sprintf0 (snd (directive cs)))"
  by pat_completeness auto
termination
  by (relation "measure length") (auto simp: directive_shrinks le_imp_less_Suc)

lemma Sprintf0_no_percent: "CHR ''%'' \<notin> set s \<Longrightarrow> Sprintf0 s = s"
  by (induction s) auto

lemma Sprintf0_append_no_percent: "CHR ''%'' \<notin> set s \<Longrightarrow> Sprintf0 (s @ t) = s @ Sprintf0 t"
  by (induction s) auto

section \<open>Clock times\<close>

text \<open>\<open>Format("15:04:05")\<close>: hours, minutes and seconds of the local
  day, two digits each. A time is its Unix time in nanoseconds, \<open>zone\<close> the offset of the local
  time zone in seconds at a Unix second.\<close>

record goenv =
  env_now :: int \<comment> \<open>\<open>time.Now()\<close>\<close>
  env_zone :: "int \<Rightarrow> int"

definition two_digits :: "int \<Rightarrow> string" where
  "two_digits i = [digit_char (nat (i div 10 mod 10)), digit_char (nat (i mod 10))]"

definition clock :: "(int \<Rightarrow> int) \<Rightarrow> int \<Rightarrow> string" where
  "clock zone ns =
    (let sec = ns div 1000000000;
         local = (sec + zone sec) mod 86400
     in two_digits (local div 3600) @ '':'' @ two_digits (local div 60 mod 60) @ '':''
        @ two_digits (local mod 60))"

lemma two_digits_no_percent: "CHR ''%'' \<notin> set (two_digits i)"
proof -
  have "is_digit (digit_char (nat (k mod 10)))" for k :: int
    by (rule is_digit_char) (simp add: nat_less_iff)
  from this [of "i div 10"] this [of i] show ?thesis
    using percent_not_digit by (force simp: two_digits_def)
qed

lemma clock_no_percent [simp]: "CHR ''%'' \<notin> set (clock zone ns)"
  by (simp add: clock_def Let_def two_digits_no_percent)

lemma length_clock [simp]: "length (clock zone ns) = 8"
  by (simp add: clock_def Let_def two_digits_def)

section \<open>\<open>net.IP.String\<close>\<close>

definition hex_digit :: "nat \<Rightarrow> char" where
  "hex_digit d = (if d < 10 then char_of (48 + d) else char_of (87 + d))"

definition hexString :: "bytes \<Rightarrow> string" where
  "hexString bs = concat (map (\<lambda>b. [hex_digit (unat b div 16), hex_digit (unat b mod 16)]) bs)"

text \<open>\<open>appendHex\<close>: a 16-bit group without leading zeros.\<close>

definition hex_group :: "nat \<Rightarrow> string" where
  "hex_group n =
    (let s = dropWhile (\<lambda>d. d = 0) [n div 4096 mod 16, n div 256 mod 16, n div 16 mod 16, n mod 16]
     in map hex_digit (if s = [] then [0] else s))"

definition dotted :: "byte \<Rightarrow> byte \<Rightarrow> byte \<Rightarrow> byte \<Rightarrow> string" where
  "dotted a b c d = itoa_nat (unat a) @ ''.'' @ itoa_nat (unat b) @ ''.'' @ itoa_nat (unat c)
     @ ''.'' @ itoa_nat (unat d)"

text \<open>\<open>To4\<close>: four bytes, or sixteen with the IPv4-in-IPv6 prefix.\<close>

definition To4 :: "bytes \<Rightarrow> bytes option" where
  "To4 ip =
    (if length ip = 4 then Some ip
     else if length ip = 16 \<and> take 10 ip = replicate 10 0 \<and> ip ! 10 = 255 \<and> ip ! 11 = 255
     then Some (drop 12 ip) else None)"

fun groups16 :: "bytes \<Rightarrow> nat list" where
  "groups16 (a # b # r) = (unat a * 256 + unat b) # groups16 r"
| "groups16 _ = []"

text \<open>The longest run of zero groups, the first one of equal length: start and end, from group
  \<open>i\<close> on, with the best run so far. A new best run is skipped as a whole.\<close>

function zero_run :: "nat list \<Rightarrow> nat \<Rightarrow> int \<times> int \<Rightarrow> int \<times> int" where
  "zero_run gs i best =
    (if length gs \<le> i then best
     else (let j = i + length (takeWhile (\<lambda>g. g = 0) (drop i gs)) in
           if j > i \<and> int j - int i > snd best - fst best
           then zero_run gs (j + 1) (int i, int j)
           else zero_run gs (i + 1) best))"
  by pat_completeness auto
termination
  by (relation "measure (\<lambda>(gs, i, best). length gs - i)") (auto simp: Let_def)

declare zero_run.simps [simp del]

function ip6_text :: "nat list \<Rightarrow> nat \<Rightarrow> int \<times> int \<Rightarrow> string" where
  "ip6_text gs i run =
    (if length gs \<le> i then []
     else if int i = fst run \<and> int i < snd run then
       (let k = nat (snd run) in
        ''::'' @ (if length gs \<le> k then [] else hex_group (gs ! k) @ ip6_text gs (Suc k) run))
     else (if 0 < i then '':'' else '''') @ hex_group (gs ! i) @ ip6_text gs (Suc i) run)"
  by pat_completeness auto
termination
  by (relation "measure (\<lambda>(gs, i, run). length gs - i)") auto

declare ip6_text.simps [simp del]

definition IP_String :: "bytes \<Rightarrow> string" where
  "IP_String ip =
    (if ip = [] then ''<nil>''
     else case To4 ip of
       Some q \<Rightarrow> dotted (q ! 0) (q ! 1) (q ! 2) (q ! 3)
     | None \<Rightarrow>
        (if length ip \<noteq> 16 then CHR ''?'' # hexString ip
         else (let gs = groups16 ip;
                   r = zero_run gs 0 (-1, -1);
                   run = (if snd r - fst r \<le> 1 then (-1, -1) else r)
               in ip6_text gs 0 run)))"

lemma IP_String_4: "IP_String [a, b, c, d] = dotted a b c d"
  by (simp add: IP_String_def To4_def)

end
