(* ===== verification/Common.thy ===== *)
theory Common
  imports Go_Fmt
begin

text \<open>
  \<open>user/common.go\<close>: the probe types, the address families and \<open>inet_ntop\<close>.
  The lemmas relate the printed address to the bytes of the address in memory, which the kernel
  fills in network order, and show that the text determines the address.
\<close>

definition PROBE_TYPE_UPROBE :: string where "PROBE_TYPE_UPROBE = ''uprobe''"
definition PROBE_TYPE_KPROBE :: string where "PROBE_TYPE_KPROBE = ''kprobe''"
definition PROBE_TYPE_TP :: string where "PROBE_TYPE_TP = ''tracepoint''"
definition PROBE_TYPE_XDP :: string where "PROBE_TYPE_XDP = ''XDP''"

definition AF_FILE :: u16 where "AF_FILE = 1"
definition AF_INET :: u16 where "AF_INET = 2"
definition AF_INET6 :: u16 where "AF_INET6 = 10"

definition inet_ntop :: "u32 \<Rightarrow> string" where
  "inet_ntop ip = Sprintf
     [Dec (uint (ucast ip :: byte)), Lit ''.'',
      Dec (uint (ucast (drop_bit 8 ip) :: byte)), Lit ''.'',
      Dec (uint (ucast (drop_bit 16 ip) :: byte)), Lit ''.'',
      Dec (uint (ucast (drop_bit 24 ip) :: byte))]"

lemma itoa_uint: "itoa (uint w) = itoa_nat (unat w)"
  by (simp add: itoa_def not_less)

lemma byte_of_word: "(ucast (drop_bit (8 * k) w) :: byte) = word_of_nat (unat w div 256 ^ k)"
proof -
  have "unat (drop_bit (8 * k) w) = drop_bit (8 * k) (unat w)" by (rule unat_drop_bit_eq)
  also have "\<dots> = unat w div 2 ^ (8 * k)" by (rule drop_bit_eq_div)
  also have "\<dots> = unat w div 256 ^ k" by (simp add: power_mult)
  finally show ?thesis by (metis of_nat_unat)
qed

lemma le32_bytes:
  "le32 w = [ucast w, ucast (drop_bit 8 w), ucast (drop_bit 16 w), ucast (drop_bit 24 w)]"
proof -
  have "le32 w = [word_of_nat (unat w), word_of_nat (unat w div 256),
      word_of_nat (unat w div 256 ^ 2), word_of_nat (unat w div 256 ^ 3)]"
    by (simp add: le32_def div_mult2_eq [symmetric])
  then show ?thesis
    using byte_of_word [of 0 w] byte_of_word [of 1 w] byte_of_word [of 2 w] byte_of_word [of 3 w]
    by simp
qed

lemma inet_ntop_dotted: "inet_ntop w = (case le32 w of [a, b, c, d] \<Rightarrow> dotted a b c d)"
  by (simp add: inet_ntop_def le32_bytes dotted_def itoa_uint)

lemma le32_le_word: "length bs = 4 \<Longrightarrow> le32 (le_word bs) = bs"
proof -
  assume l: "length bs = 4"
  then have "le_nat bs < 256 ^ 4" using le_nat_bound [of bs] by simp
  then have "unat (le_word bs :: u32) = le_nat bs"
    by (simp add: le_word_def unat_of_nat take_bit_eq_mod)
  then show ?thesis using le_enc_le_nat [of bs] l by (simp only: le32_def)
qed

text \<open>The address in memory order \<open>a, b, c, d\<close> prints as \<open>a.b.c.d\<close>.\<close>

lemma inet_ntop_memory: "inet_ntop (le_word [a, b, c, d]) = dotted a b c d"
  by (simp add: inet_ntop_dotted le32_le_word)

text \<open>A reader of dotted addresses.\<close>

definition dotted_value :: "string \<Rightarrow> u32" where
  "dotted_value s = le_word (map (\<lambda>p. word_of_nat (atoi p)) (Split (CHR ''.'') s))"

lemma dot_not_in_itoa [simp]: "CHR ''.'' \<notin> set (itoa_nat n)"
  using itoa_nat_digits [of "CHR ''.''" n] by (auto simp: is_digit_def)

lemma dotted_value_dotted: "dotted_value (dotted a b c d) = le_word [a, b, c, d]"
  by (simp add: dotted_value_def dotted_def Split_append_sep Split_no_sep)

lemma dotted_value_inet_ntop: "dotted_value (inet_ntop w) = w"
proof -
  obtain a b c d where w: "le32 w = [a, b, c, d]" by (simp add: le32_bytes)
  then have "inet_ntop w = dotted a b c d" by (simp add: inet_ntop_dotted)
  moreover have "le_word [a, b, c, d] = w" using le_word_le32 [of w] w by simp
  ultimately show ?thesis by (simp add: dotted_value_dotted)
qed

lemma inet_ntop_no_percent [simp]: "CHR ''%'' \<notin> set (inet_ntop w)"
  by (simp add: inet_ntop_def)

section \<open>Properties\<close>

text \<open>C37. \<open>inet_ntop\<close> prints the address bytes in memory order: four bytes \<open>a, b, c, d\<close> in the
  order the kernel stores them (network order) give \<open>a.b.c.d\<close>, and reading the printed text back
  gives the address, so no two addresses print alike.\<close>

theorem inet_ntop_roundtrip:
  "inet_ntop (le_word [a, b, c, d]) = dotted a b c d
   \<and> dotted_value (inet_ntop w) = w
   \<and> (inet_ntop w = inet_ntop v \<longleftrightarrow> w = v)"
  using inet_ntop_memory dotted_value_inet_ntop by metis

end
