(* ===== verification/Go_Binary.thy ===== *)
theory Go_Binary
  imports Go_Prelude
begin

text \<open>
  \<open>encoding/binary\<close> and \<open>bytes\<close> as the event decoders use them.

  A decoder of the agent is a sequence of statements
  \<^verbatim>\<open>if err = binary.Read(buf, binary.LittleEndian, &e.F); err != nil { return }\<close>
  over one \<open>bytes.Buffer\<close>. Such a sequence is a list of \<open>ReadStmt\<close>s: how many bytes the
  destination takes, how they are stored into the receiver, and what the error branch does
  (return an error, or carry on). \<open>exec_reads\<close> runs it. The lemmas below are proved once for any
  such list and carry the event theories: success exactly for long enough payloads, independence
  of trailing padding, and which error a short payload gives.

  The contract of the interface \<open>IEventStruct\<close> (\<open>user/ievent.go\<close>) is the locale
  \<open>event_struct\<close>, with the extension \<open>strict_event_struct\<close> for decoders that never accept a
  short payload.
\<close>

section \<open>Reading a buffer\<close>

text \<open>\<open>io.ReadFull\<close> on a \<open>bytes.Buffer\<close>.\<close>

definition ReadFull :: "nat \<Rightarrow> bytes \<Rightarrow> goerr + (bytes \<times> bytes)" where
  "ReadFull n buf =
     (if n \<le> length buf then Inr (take n buf, drop n buf)
      else if buf = [] then Inl EOF
      else Inl ErrUnexpectedEOF)"

datatype 'e rd_stmt =
  ReadStmt (rd_size: nat) (rd_store: "bytes \<Rightarrow> 'e \<Rightarrow> 'e") (rd_onerr: "goerr \<Rightarrow> goerr option")

text \<open>A failed read has emptied the buffer, so a statement that ignores the error goes on with
  an empty one.\<close>

fun exec_reads :: "'e rd_stmt list \<Rightarrow> bytes \<Rightarrow> 'e \<Rightarrow> goerr option \<times> 'e" where
  "exec_reads [] buf e = (None, e)"
| "exec_reads (ReadStmt n st h # ss) buf e =
     (case ReadFull n buf of
        Inr (bs, rest) \<Rightarrow> exec_reads ss rest (st bs e)
      | Inl err \<Rightarrow> (case h err of
            Some err' \<Rightarrow> (Some err', e)
          | None \<Rightarrow> exec_reads ss [] e))"

text \<open>The statement shapes of the source. The field is given by its record update.\<close>

definition read_word :: "nat \<Rightarrow> (('a::len word \<Rightarrow> 'a word) \<Rightarrow> 'e \<Rightarrow> 'e) \<Rightarrow> 'e rd_stmt" where
  "read_word n upd = ReadStmt n (\<lambda>bs. upd (\<lambda>_. le_word bs)) Some"

definition read_u8 :: "((u8 \<Rightarrow> u8) \<Rightarrow> 'e \<Rightarrow> 'e) \<Rightarrow> 'e rd_stmt" where "read_u8 = read_word 1"
definition read_u16 :: "((u16 \<Rightarrow> u16) \<Rightarrow> 'e \<Rightarrow> 'e) \<Rightarrow> 'e rd_stmt" where "read_u16 = read_word 2"
definition read_u32 :: "((u32 \<Rightarrow> u32) \<Rightarrow> 'e \<Rightarrow> 'e) \<Rightarrow> 'e rd_stmt" where "read_u32 = read_word 4"
definition read_u64 :: "((u64 \<Rightarrow> u64) \<Rightarrow> 'e \<Rightarrow> 'e) \<Rightarrow> 'e rd_stmt" where "read_u64 = read_word 8"

definition read_array :: "nat \<Rightarrow> ((bytes \<Rightarrow> bytes) \<Rightarrow> 'e \<Rightarrow> 'e) \<Rightarrow> 'e rd_stmt" where
  "read_array n upd = ReadStmt n (\<lambda>bs. upd (\<lambda>_. bs)) Some"

text \<open>The error branch replaces the error (\<open>err = fmt.Errorf(...); return\<close>) or ignores it.\<close>

definition on_err :: "(goerr \<Rightarrow> goerr option) \<Rightarrow> 'e rd_stmt \<Rightarrow> 'e rd_stmt" where
  "on_err h s = ReadStmt (rd_size s) (rd_store s) h"

lemmas read_stmt_defs [wire_simps] =
  read_word_def read_u8_def read_u16_def read_u32_def read_u64_def read_array_def on_err_def

section \<open>Lists of read statements\<close>

definition stmts_size :: "'e rd_stmt list \<Rightarrow> nat" where
  "stmts_size ss = sum_list (map rd_size ss)"

fun store_all :: "'e rd_stmt list \<Rightarrow> bytes \<Rightarrow> 'e \<Rightarrow> 'e" where
  "store_all [] bs e = e"
| "store_all (ReadStmt n st h # ss) bs e = store_all ss (drop n bs) (st (take n bs) e)"

lemma stmts_size_simps [simp, wire_simps]:
  "stmts_size [] = 0" "stmts_size (s # ss) = rd_size s + stmts_size ss"
  by (simp_all add: stmts_size_def)

definition strict_stmts :: "'e rd_stmt list \<Rightarrow> bool" where
  "strict_stmts ss \<longleftrightarrow> (\<forall>s\<in>set ss. \<forall>err. rd_onerr s err \<noteq> None)"

definition plain_stmts :: "'e rd_stmt list \<Rightarrow> bool" where
  "plain_stmts ss \<longleftrightarrow> (\<forall>s\<in>set ss. rd_onerr s = Some)"

lemma strict_stmts_simps [simp]:
  "strict_stmts []"
  "strict_stmts (s # ss) \<longleftrightarrow> (\<forall>err. rd_onerr s err \<noteq> None) \<and> strict_stmts ss"
  by (auto simp: strict_stmts_def)

lemma plain_stmts_simps [simp]:
  "plain_stmts []" "plain_stmts (s # ss) \<longleftrightarrow> rd_onerr s = Some \<and> plain_stmts ss"
  by (auto simp: plain_stmts_def)

lemma plain_imp_strict: "plain_stmts ss \<Longrightarrow> strict_stmts ss"
  by (auto simp: plain_stmts_def strict_stmts_def)

lemma exec_reads_keeps:
  assumes "\<forall>s\<in>set ss. \<forall>bs e. length bs = rd_size s \<longrightarrow> I e \<longrightarrow> I (rd_store s bs e)" and "I e"
  shows "I (snd (exec_reads ss p e))"
  using assms
  by (induction ss p e rule: exec_reads.induct) (auto simp: ReadFull_def split: option.splits)

lemma exec_reads_long:
  "stmts_size ss \<le> length buf \<Longrightarrow> exec_reads ss buf e = (None, store_all ss buf e)"
proof (induction ss buf e rule: exec_reads.induct)
  case (2 n st h ss buf e)
  then show ?case by (simp add: ReadFull_def)
qed simp

lemma store_all_padding:
  "stmts_size ss \<le> length bs \<Longrightarrow> store_all ss (bs @ pad) e = store_all ss bs e"
proof (induction ss bs e rule: store_all.induct)
  case (2 n st h ss bs e)
  then show ?case by simp
qed simp

lemma exec_reads_padding:
  "stmts_size ss \<le> length buf \<Longrightarrow> exec_reads ss (buf @ pad) e = exec_reads ss buf e"
  by (simp add: exec_reads_long store_all_padding)

lemma exec_reads_short_strict:
  "strict_stmts ss \<Longrightarrow> length buf < stmts_size ss \<Longrightarrow> fst (exec_reads ss buf e) \<noteq> None"
proof (induction ss buf e rule: exec_reads.induct)
  case (2 n st h ss buf e)
  show ?case
  proof (cases "n \<le> length buf")
    case True
    with 2 show ?thesis by (simp add: ReadFull_def)
  next
    case False
    then obtain err where r: "ReadFull n buf = Inl err"
      by (cases "buf = []") (simp_all add: ReadFull_def)
    from 2(3) obtain err' where "h err = Some err'" by auto
    with r show ?thesis by simp
  qed
qed simp

lemma exec_reads_append_long:
  "stmts_size ss \<le> length buf \<Longrightarrow>
     exec_reads (ss @ ts) buf e = exec_reads ts (drop (stmts_size ss) buf) (store_all ss buf e)"
proof (induction ss buf e rule: store_all.induct)
  case (2 n st h ss buf e)
  then show ?case by (simp add: ReadFull_def add.commute)
qed simp

lemma exec_reads_append_short:
  "strict_stmts ss \<Longrightarrow> length buf < stmts_size ss \<Longrightarrow> exec_reads (ss @ ts) buf e = exec_reads ss buf e"
proof (induction ss buf e rule: store_all.induct)
  case (2 n st h ss buf e)
  show ?case
  proof (cases "n \<le> length buf")
    case True
    with 2 show ?thesis by (simp add: ReadFull_def)
  next
    case False
    then obtain err where "ReadFull n buf = Inl err"
      by (cases "buf = []") (simp_all add: ReadFull_def)
    moreover from 2(2) obtain err' where "h err = Some err'" by auto
    ultimately show ?thesis by simp
  qed
qed simp

lemma exec_reads_ok_iff:
  "strict_stmts ss \<Longrightarrow> fst (exec_reads ss buf e) = None \<longleftrightarrow> stmts_size ss \<le> length buf"
  by (metis exec_reads_long exec_reads_short_strict fst_conv not_le)

text \<open>
  Which error a short payload gives: \<open>io.EOF\<close> when it ends at a field boundary, otherwise
  \<open>io.ErrUnexpectedEOF\<close>.
\<close>

definition field_boundaries :: "'e rd_stmt list \<Rightarrow> nat set" where
  "field_boundaries ss = {stmts_size (take k ss) | k. k < length ss}"

lemma field_boundaries_Cons:
  "field_boundaries (s # ss) = insert 0 ((+) (rd_size s) ` field_boundaries ss)"
proof -
  have "{stmts_size (take k (s # ss)) | k. k < Suc (length ss)}
      = insert 0 {rd_size s + stmts_size (take k ss) | k. k < length ss}"
  proof (intro equalityI subsetI)
    fix x assume "x \<in> {stmts_size (take k (s # ss)) | k. k < Suc (length ss)}"
    then obtain k where "k < Suc (length ss)" "x = stmts_size (take k (s # ss))" by blast
    then show "x \<in> insert 0 {rd_size s + stmts_size (take k ss) | k. k < length ss}"
      by (cases k) auto
  next
    fix x assume "x \<in> insert 0 {rd_size s + stmts_size (take k ss) | k. k < length ss}"
    then consider "x = 0" | k where "k < length ss" "x = rd_size s + stmts_size (take k ss)" by blast
    then show "x \<in> {stmts_size (take k (s # ss)) | k. k < Suc (length ss)}"
    proof cases
      case 1
      then show ?thesis by (intro CollectI exI [of _ 0]) simp
    next
      case (2 k)
      then show ?thesis by (intro CollectI exI [of _ "Suc k"]) simp
    qed
  qed
  then show ?thesis by (auto simp: field_boundaries_def)
qed

lemma field_boundaries_Nil [simp]: "field_boundaries [] = {}"
  by (simp add: field_boundaries_def)

lemma exec_reads_short_error:
  assumes "plain_stmts ss" and "\<forall>s\<in>set ss. 0 < rd_size s" and "length buf < stmts_size ss"
  shows "fst (exec_reads ss buf e) =
           Some (if length buf \<in> field_boundaries ss then EOF else ErrUnexpectedEOF)"
  using assms
proof (induction ss buf e rule: exec_reads.induct)
  case (2 n st h ss buf e)
  then have h: "h = Some" and n: "0 < n" by simp_all
  show ?case
  proof (cases "n \<le> length buf")
    case True
    then have r: "ReadFull n buf = Inr (take n buf, drop n buf)" by (simp add: ReadFull_def)
    have mem: "length buf \<in> field_boundaries (ReadStmt n st h # ss)
        \<longleftrightarrow> length (drop n buf) \<in> field_boundaries ss"
      using True n by (auto simp: field_boundaries_Cons image_iff intro: bexI [of _ "length buf - n"])
    from r 2 True have "fst (exec_reads ss (drop n buf) (st (take n buf) e)) =
        Some (if length (drop n buf) \<in> field_boundaries ss then EOF else ErrUnexpectedEOF)"
      by simp
    with r mem show ?thesis by simp
  next
    case False
    then show ?thesis by (auto simp: ReadFull_def h field_boundaries_Cons)
  qed
qed simp

section \<open>Slices\<close>

text \<open>The slice expression \<open>data[i:j]\<close>, with the capacity equal to the length.\<close>

definition go_slice :: "'a list \<Rightarrow> nat \<Rightarrow> nat \<Rightarrow> 'a list go" where
  "go_slice data i j =
     (if i \<le> j \<and> j \<le> length data then Ret (take (j - i) (drop i data))
      else Panic ''slice bounds out of range'')"

lemma go_slice_Ret [go_simps]:
  "i \<le> j \<Longrightarrow> j \<le> length data \<Longrightarrow> go_slice data i j = Ret (take (j - i) (drop i data))"
  by (simp add: go_slice_def)

lemma go_slice_Panic [go_simps]:
  "length data < j \<Longrightarrow> go_slice data i j = Panic ''slice bounds out of range''"
  by (simp add: go_slice_def)

text \<open>\<open>bytes.TrimRight(b, "\x00")\<close> and \<open>bytes.Replace(b, "\x00", " ", -1)\<close>.\<close>

definition TrimRight0 :: "bytes \<Rightarrow> bytes" where
  "TrimRight0 bs = rev (dropWhile (\<lambda>b. b = 0) (rev bs))"

definition Replace0 :: "bytes \<Rightarrow> bytes" where
  "Replace0 bs = map (\<lambda>b. if b = 0 then 32 else b) bs"

lemma dropWhile_replicate_append [simp]:
  "dropWhile (\<lambda>b. b = x) (replicate n x @ xs) = dropWhile (\<lambda>b. b = x) xs"
  by (induction n) simp_all

lemma TrimRight0_replicate [simp]: "TrimRight0 (bs @ replicate n 0) = TrimRight0 bs"
  by (simp add: TrimRight0_def)

lemma TrimRight0_id: "bs = [] \<or> last bs \<noteq> 0 \<Longrightarrow> TrimRight0 bs = bs"
  by (cases bs rule: rev_cases) (auto simp: TrimRight0_def)

lemma Replace0_no_zero [simp]: "0 \<notin> set (Replace0 bs)"
  by (auto simp: Replace0_def)

section \<open>The interface \<open>IEventStruct\<close>\<close>

text \<open>
  What \<open>Module.EventsDecode\<close> relies on: a payload of \<open>need\<close> bytes or more decodes without
  error, bytes after the first \<open>need\<close> do not matter (the kernel pads perf records), and
  \<open>Clone\<close> gives the same fresh value whatever its receiver holds.
\<close>

locale event_struct =
  fixes Decode :: "bytes \<Rightarrow> 'e \<Rightarrow> (goerr option \<times> 'e) go"
    and Clone :: "'e \<Rightarrow> 'e"
    and need :: nat
  assumes decode_ok: "need \<le> length p \<Longrightarrow> \<exists>e'. Decode p e = Ret (None, e')"
    and decode_padding: "need \<le> length p \<Longrightarrow> Decode (p @ q) e = Decode p e"
    and clone_fresh: "Clone e = Clone e'"
begin

lemma decode_take: "need \<le> length p \<Longrightarrow> Decode p e = Decode (take need p) e"
  using decode_padding [of "take need p" "drop need p" e] by simp

lemma decode_cong:
  "need \<le> length p \<Longrightarrow> need \<le> length q \<Longrightarrow> take need p = take need q \<Longrightarrow> Decode p e = Decode q e"
  using decode_take by metis

lemma decode_clone_determined:
  "need \<le> length p \<Longrightarrow> \<exists>e'. \<forall>e q. Decode (p @ q) (Clone e) = Ret (None, e')"
  using decode_ok decode_padding clone_fresh by metis

end

locale strict_event_struct = event_struct +
  assumes decode_short: "length p < need \<Longrightarrow> Decode p e \<noteq> Ret (None, e')"
begin

lemma decode_ok_iff: "(\<exists>e'. Decode p e = Ret (None, e')) \<longleftrightarrow> need \<le> length p"
  using decode_ok decode_short not_le by metis

end

text \<open>A decoder that is one list of read statements keeps the contract.\<close>

lemma exec_reads_event_struct:
  assumes "\<And>p e. Decode p e = Ret (exec_reads ss p e)" and "\<And>e e'. Clone e = Clone e'"
  shows "event_struct Decode Clone (stmts_size ss)"
  by unfold_locales (simp_all add: assms(1) exec_reads_long store_all_padding assms(2))

lemma exec_reads_strict_event_struct:
  assumes "\<And>p e. Decode p e = Ret (exec_reads ss p e)" and "\<And>e e'. Clone e = Clone e'"
    and "strict_stmts ss"
  shows "strict_event_struct Decode Clone (stmts_size ss)"
proof (intro strict_event_struct.intro strict_event_struct_axioms.intro)
  show "event_struct Decode Clone (stmts_size ss)"
    using assms(1,2) by (rule exec_reads_event_struct)
next
  fix p :: bytes and e e'
  assume "length p < stmts_size ss"
  with assms(3) have "fst (exec_reads ss p e) \<noteq> None" by (rule exec_reads_short_strict)
  with assms(1) show "Decode p e \<noteq> Ret (None, e')" by (cases "exec_reads ss p e") auto
qed

end
