(* ===== verification/Kern_Structs.thy ===== *)
theory Kern_Structs
  imports Go_Binary
begin

text \<open>
  The records the kernel programs (\<open>src/kern/*.c\<close>) put into their perf and ring buffers, with the
  byte image each has in memory on the little-endian targets of the agent: packed structs field
  after field, the others with the padding C inserts. A \<open>char[n]\<close> or \<open>u8[n]\<close> field is a byte
  list whose length is stated by the well-formedness predicate of the struct; a 128-bit address is
  its sixteen bytes in memory order. Padding and fields the program does not write are fields of
  the record too, since their bytes are whatever the buffer held before.
\<close>

subsection \<open>\<open>tcp_set_state_kern.c\<close>: \<open>struct event_t\<close>, packed\<close>

record event_t =
  ev_start_ns :: u64
  ev_end_ns :: u64
  ev_pid :: u32
  ev_laddr :: u32
  ev_lport :: u16
  ev_raddr :: u32
  ev_rport :: u16
  ev_flags :: u8
  ev_rx_b :: u64
  ev_tx_b :: u64
  ev_task :: bytes
  ev_family :: u16
  ev_uid :: u32

definition event_t_wf :: "event_t \<Rightarrow> bool" where
  "event_t_wf c \<longleftrightarrow> length (ev_task c) = 16"

definition event_t_bytes :: "event_t \<Rightarrow> bytes" where
  "event_t_bytes c =
     le64 (ev_start_ns c) @ le64 (ev_end_ns c) @ le32 (ev_pid c) @ le32 (ev_laddr c)
     @ le16 (ev_lport c) @ le32 (ev_raddr c) @ le16 (ev_rport c) @ le8 (ev_flags c)
     @ le64 (ev_rx_b c) @ le64 (ev_tx_b c) @ ev_task c @ le16 (ev_family c) @ le32 (ev_uid c)"

subsection \<open>\<open>sec_socket_connect_kern.c\<close>: three packed structs\<close>

record ipv4_event_t =
  e4_ts_us :: u64
  e4_pid :: u32
  e4_uid :: u32
  e4_af :: u32
  e4_laddr :: u32
  e4_lport :: u16
  e4_daddr :: u32
  e4_dport :: u16
  e4_task :: bytes

definition ipv4_event_t_wf :: "ipv4_event_t \<Rightarrow> bool" where
  "ipv4_event_t_wf c \<longleftrightarrow> length (e4_task c) = 16"

definition ipv4_event_t_bytes :: "ipv4_event_t \<Rightarrow> bytes" where
  "ipv4_event_t_bytes c =
     le64 (e4_ts_us c) @ le32 (e4_pid c) @ le32 (e4_uid c) @ le32 (e4_af c) @ le32 (e4_laddr c)
     @ le16 (e4_lport c) @ le32 (e4_daddr c) @ le16 (e4_dport c) @ e4_task c"

record ipv6_event_t =
  e6_ts_us :: u64
  e6_pid :: u32
  e6_uid :: u32
  e6_af :: u32
  e6_task :: bytes
  e6_daddr :: bytes
  e6_dport :: u16

definition ipv6_event_t_wf :: "ipv6_event_t \<Rightarrow> bool" where
  "ipv6_event_t_wf c \<longleftrightarrow> length (e6_task c) = 16 \<and> length (e6_daddr c) = 16"

definition ipv6_event_t_bytes :: "ipv6_event_t \<Rightarrow> bytes" where
  "ipv6_event_t_bytes c =
     le64 (e6_ts_us c) @ le32 (e6_pid c) @ le32 (e6_uid c) @ le32 (e6_af c) @ e6_task c
     @ e6_daddr c @ le16 (e6_dport c)"

record other_socket_event_t =
  eo_ts_us :: u64
  eo_pid :: u32
  eo_uid :: u32
  eo_af :: u32
  eo_task :: bytes

definition other_socket_event_t_wf :: "other_socket_event_t \<Rightarrow> bool" where
  "other_socket_event_t_wf c \<longleftrightarrow> length (eo_task c) = 16"

definition other_socket_event_t_bytes :: "other_socket_event_t \<Rightarrow> bytes" where
  "other_socket_event_t_bytes c =
     le64 (eo_ts_us c) @ le32 (eo_pid c) @ le32 (eo_uid c) @ le32 (eo_af c) @ eo_task c"

subsection \<open>\<open>dns_lookup_kern.c\<close>: \<open>struct data_t\<close>, packed\<close>

record data_t =
  dt_pid :: u32
  dt_uid :: u32
  dt_af :: u32
  dt_ip4addr :: u32
  dt_ip6addr :: bytes
  dt_host :: bytes

definition data_t_wf :: "data_t \<Rightarrow> bool" where
  "data_t_wf c \<longleftrightarrow> length (dt_ip6addr c) = 16 \<and> length (dt_host c) = 80"

definition data_t_bytes :: "data_t \<Rightarrow> bytes" where
  "data_t_bytes c =
     le32 (dt_pid c) @ le32 (dt_uid c) @ le32 (dt_af c) @ le32 (dt_ip4addr c)
     @ dt_ip6addr c @ dt_host c"

subsection \<open>\<open>java_exec_kern.c\<close>: \<open>struct jdk_execvpe\<close>, packed\<close>

record jdk_execvpe =
  jx_pid :: u32
  jx_mode :: u64
  jx_file :: bytes

definition jdk_execvpe_wf :: "jdk_execvpe \<Rightarrow> bool" where
  "jdk_execvpe_wf c \<longleftrightarrow> length (jx_file c) = 128"

definition jdk_execvpe_bytes :: "jdk_execvpe \<Rightarrow> bytes" where
  "jdk_execvpe_bytes c = le32 (jx_pid c) @ le64 (jx_mode c) @ jx_file c"

subsection \<open>\<open>proc_kern.c\<close>: \<open>proc_info_t\<close>, not packed\<close>

text \<open>Eleven 32-bit fields take 44 bytes, so four bytes of padding precede \<open>start_time\<close>.\<close>

record proc_info_t =
  pi_type :: i32
  pi_child_pid :: u32
  pi_child_tgid :: u32
  pi_parent_pid :: u32
  pi_parent_tgid :: u32
  pi_grandparent_pid :: u32
  pi_grandparent_tgid :: u32
  pi_uid :: u32
  pi_gid :: u32
  pi_cwd_level :: i32
  pi_uts_inum :: u32
  pi_pad :: u32
  pi_start_time :: u64
  pi_comm :: bytes
  pi_cmdline :: bytes
  pi_filepath :: bytes

definition proc_info_t_wf :: "proc_info_t \<Rightarrow> bool" where
  "proc_info_t_wf c \<longleftrightarrow>
     length (pi_comm c) = 16 \<and> length (pi_cmdline c) = 128 \<and> length (pi_filepath c) = 128"

definition proc_info_t_bytes :: "proc_info_t \<Rightarrow> bytes" where
  "proc_info_t_bytes c =
     le32 (pi_type c) @ le32 (pi_child_pid c) @ le32 (pi_child_tgid c) @ le32 (pi_parent_pid c)
     @ le32 (pi_parent_tgid c) @ le32 (pi_grandparent_pid c) @ le32 (pi_grandparent_tgid c)
     @ le32 (pi_uid c) @ le32 (pi_gid c) @ le32 (pi_cwd_level c) @ le32 (pi_uts_inum c)
     @ le32 (pi_pad c) @ le64 (pi_start_time c) @ pi_comm c @ pi_cmdline c @ pi_filepath c"

subsection \<open>\<open>udp_lookup_kern.c\<close>: the sent prefix of \<open>struct dns_data_t\<close>\<close>

record dns_data_t =
  dd_pid :: u32
  dd_comm :: bytes
  dd_pkt :: bytes \<comment> \<open>the \<open>buflen\<close> bytes of the packet that are sent\<close>

definition dns_data_t_wf :: "dns_data_t \<Rightarrow> bool" where
  "dns_data_t_wf c \<longleftrightarrow> length (dd_comm c) = 16 \<and> length (dd_pkt c) \<le> 512"

definition dns_data_t_bytes :: "dns_data_t \<Rightarrow> bytes" where
  "dns_data_t_bytes c = le32 (dd_pid c) @ dd_comm c @ dd_pkt c"

subsection \<open>\<open>bpf_call_kern.c\<close>: \<open>struct bpf_context_t\<close> with \<open>struct proc_common\<close>\<close>

record proc_common =
  pc_pid :: u32
  pc_tgid :: u32
  pc_nspid :: u32
  pc_nstgid :: u32
  pc_ppid :: u32
  pc_ptgid :: u32
  pc_nsppid :: u32
  pc_nsptgid :: u32
  pc_pppid :: u32
  pc_pptgid :: u32
  pc_nspppid :: u32
  pc_nspptgid :: u32
  pc_uid :: u32
  pc_euid :: u32
  pc_gid :: u32
  pc_egid :: u32
  pc_uts_inum :: u32
  pc_pending :: u32
  pc_start_time :: u64
  pc_comm :: bytes
  pc_cmdline :: bytes
  pc_uts_name :: bytes

definition proc_common_wf :: "proc_common \<Rightarrow> bool" where
  "proc_common_wf c \<longleftrightarrow>
     length (pc_comm c) = 16 \<and> length (pc_cmdline c) = 256 \<and> length (pc_uts_name c) = 64"

definition proc_common_bytes :: "proc_common \<Rightarrow> bytes" where
  "proc_common_bytes c =
     le32 (pc_pid c) @ le32 (pc_tgid c) @ le32 (pc_nspid c) @ le32 (pc_nstgid c)
     @ le32 (pc_ppid c) @ le32 (pc_ptgid c) @ le32 (pc_nsppid c) @ le32 (pc_nsptgid c)
     @ le32 (pc_pppid c) @ le32 (pc_pptgid c) @ le32 (pc_nspppid c) @ le32 (pc_nspptgid c)
     @ le32 (pc_uid c) @ le32 (pc_euid c) @ le32 (pc_gid c) @ le32 (pc_egid c)
     @ le32 (pc_uts_inum c) @ le32 (pc_pending c) @ le64 (pc_start_time c)
     @ pc_comm c @ pc_cmdline c @ pc_uts_name c"

record bpf_context_t =
  bc_cmd :: u32
  bc_pending :: u32
  bc_procinfo :: proc_common

definition bpf_context_t_bytes :: "bpf_context_t \<Rightarrow> bytes" where
  "bpf_context_t_bytes c = le32 (bc_cmd c) @ le32 (bc_pending c) @ proc_common_bytes (bc_procinfo c)"

section \<open>Sizes and sub-word splits\<close>

lemma struct_sizes [wire_simps]:
  "event_t_wf a \<Longrightarrow> length (event_t_bytes a) = 71"
  "ipv4_event_t_wf b \<Longrightarrow> length (ipv4_event_t_bytes b) = 48"
  "ipv6_event_t_wf c \<Longrightarrow> length (ipv6_event_t_bytes c) = 54"
  "other_socket_event_t_wf d \<Longrightarrow> length (other_socket_event_t_bytes d) = 36"
  "data_t_wf e \<Longrightarrow> length (data_t_bytes e) = 112"
  "jdk_execvpe_wf f \<Longrightarrow> length (jdk_execvpe_bytes f) = 140"
  "proc_info_t_wf g \<Longrightarrow> length (proc_info_t_bytes g) = 328"
  "proc_common_wf h \<Longrightarrow> length (proc_common_bytes h) = 416"
  by (simp_all add: event_t_wf_def event_t_bytes_def ipv4_event_t_wf_def ipv4_event_t_bytes_def
      ipv6_event_t_wf_def ipv6_event_t_bytes_def other_socket_event_t_wf_def
      other_socket_event_t_bytes_def data_t_wf_def data_t_bytes_def jdk_execvpe_wf_def
      jdk_execvpe_bytes_def proc_info_t_wf_def proc_info_t_bytes_def proc_common_wf_def
      proc_common_bytes_def)

text \<open>A 32-bit field read as two 16-bit halves, and the 64-bit value of two 32-bit fields.\<close>

lemma le_enc_add: "le_enc (m + n) x = le_enc m x @ le_enc n (x div 256 ^ m)"
  by (induction m arbitrary: x) (simp_all add: div_mult2_eq)

lemma le_enc_mod: "le_enc n (x mod 256 ^ n) = le_enc n x"
proof -
  have "le_nat (le_enc n (x mod 256 ^ n)) = le_nat (le_enc n x)"
    by (simp add: le_nat_le_enc)
  then show ?thesis by (metis le_enc_le_nat length_le_enc)
qed

lemma le32_split: "le32 w = le16 (ucast w) @ le16 (ucast (drop_bit 16 w))"
proof -
  have lo: "unat (ucast w :: u16) = unat w mod 256 ^ 2"
    by (simp add: unsigned_ucast_eq take_bit_eq_mod)
  have "unat (drop_bit 16 w) = drop_bit 16 (unat w)" by (rule unat_drop_bit_eq)
  also have "\<dots> = unat w div 2 ^ 16" by (rule drop_bit_eq_div)
  finally have "unat (drop_bit 16 w) = unat w div 2 ^ 16" .
  then have hi: "unat (ucast (drop_bit 16 w) :: u16) = unat w div 256 ^ 2 mod 256 ^ 2"
    by (simp add: unsigned_ucast_eq take_bit_eq_mod)
  have "le32 w = le_enc 2 (unat w) @ le_enc 2 (unat w div 256 ^ 2)"
    using le_enc_add [of 2 2 "unat w"] by (simp only: le32_def) simp
  then show ?thesis
    unfolding le16_def lo hi le_enc_mod by simp
qed

lemma exec_reads_step [wire_simps]:
  "length bs = n \<Longrightarrow> exec_reads (ReadStmt n st h # ss) (bs @ rest) e = exec_reads ss rest (st bs e)"
  by (simp add: ReadFull_def)

end
