(* ===== verification/Event_Tcp.thy ===== *)
theory Event_Tcp
  imports Common Kern_Structs
begin

unbundle bit_operations_syntax

text \<open>
  \<open>user/event_tcp.go\<close>: the connection event of the \<open>tcp_set_state\<close> probe. \<open>TCPEvent_reads\<close> lists
  the reads of \<open>Decode\<close> in order; the error of the last one is dropped by the final
  \<open>return nil\<close>. The lemmas relate the decoder to the struct the kernel sends
  (\<open>event_t_bytes\<close>, whose uid is twice as wide as the decoded one) and state what the report
  prints of the flags, the addresses and the ports.
\<close>

record TCPEvent =
  tcp_StartNS :: i64
  tcp_EndNS :: i64
  tcp_PID :: u32
  tcp_LAddr :: u32
  tcp_LPort :: u16
  tcp_RAddr :: u32
  tcp_RPort :: u16
  tcp_Flags :: u8
  tcp_Rx :: u64
  tcp_Tx :: u64
  tcp_Comm :: bytes
  tcp_Family :: u16
  tcp_UID :: u16

definition TCPEvent_reads :: "TCPEvent rd_stmt list" where
  "TCPEvent_reads =
    [read_u64 tcp_StartNS_update, read_u64 tcp_EndNS_update, read_u32 tcp_PID_update,
     read_u32 tcp_LAddr_update, read_u16 tcp_LPort_update, read_u32 tcp_RAddr_update,
     read_u16 tcp_RPort_update, read_u8 tcp_Flags_update, read_u64 tcp_Rx_update,
     read_u64 tcp_Tx_update, read_array 16 tcp_Comm_update, read_u16 tcp_Family_update,
     on_err (\<lambda>_. None) (read_u16 tcp_UID_update)]"

definition TCPEvent_Decode :: "bytes \<Rightarrow> TCPEvent \<Rightarrow> (goerr option \<times> TCPEvent) go" where
  "TCPEvent_Decode payload e = Ret (exec_reads TCPEvent_reads payload e)"

definition TCPEvent_family :: "u16 \<Rightarrow> string" where
  "TCPEvent_family f =
    (if f = AF_INET then ''AF_INET''
     else if f = AF_INET6 then ''AF_INET6''
     else if f = AF_FILE then ''AF_FILE''
     else Sprintf [Dec (uint f)])"

definition TCPEvent_String :: "goenv \<Rightarrow> TCPEvent \<Rightarrow> string" where
  "TCPEvent_String env te =
    (let t_start = clock (env_zone env) (env_now env + sint (- (tcp_EndNS te - tcp_StartNS te)));
         dest = inet_ntop (tcp_RAddr te) @ '':'' @ itoa (uint (tcp_RPort te));
         family = TCPEvent_family (tcp_Family te);
         outStr = (if tcp_Flags te AND 1 = 0 then ''IN'' else ''OUT'');
         sucStr = (if tcp_Flags te AND 0x10 = 0 then ''False'' else ''True'')
     in Sprintf
       [Lit ''start time:'', Str t_start, Lit '', family:'', Str family, Lit '', PID:'',
        Dec (uint (tcp_PID te)), Lit '', command:'', Str (string_of_bytes (tcp_Comm te)),
        Lit '', UID:'', Dec (uint (tcp_UID te)), Lit '', rx:'', Dec (uint (tcp_Rx te)),
        Lit '', tx:'', Dec (uint (tcp_Tx te)), Lit '', dest:'', Str dest, Lit '', source:'',
        Str (inet_ntop (tcp_LAddr te)), Lit '', type:'', Str outStr, Lit '', result:'',
        Str sucStr])"

definition TCPEvent_new :: TCPEvent where
  "TCPEvent_new =
    \<lparr>tcp_StartNS = 0, tcp_EndNS = 0, tcp_PID = 0, tcp_LAddr = 0, tcp_LPort = 0, tcp_RAddr = 0,
     tcp_RPort = 0, tcp_Flags = 0, tcp_Rx = 0, tcp_Tx = 0, tcp_Comm = replicate 16 0,
     tcp_Family = 0, tcp_UID = 0\<rparr>"

definition TCPEvent_Clone :: "TCPEvent \<Rightarrow> TCPEvent" where
  "TCPEvent_Clone e = TCPEvent_new"

section \<open>Contract and wire format\<close>

lemma TCPEvent_reads_size: "stmts_size TCPEvent_reads = 69"
  by (simp add: TCPEvent_reads_def wire_simps)

interpretation tcp_event: event_struct TCPEvent_Decode TCPEvent_Clone 69
  unfolding TCPEvent_reads_size [symmetric]
  by (rule exec_reads_event_struct) (simp_all add: TCPEvent_Decode_def TCPEvent_Clone_def)

text \<open>What the user side makes of a kernel record: every field, the uid cut to its low half.\<close>

definition TCPEvent_of :: "event_t \<Rightarrow> TCPEvent" where
  "TCPEvent_of c =
    \<lparr>tcp_StartNS = ev_start_ns c, tcp_EndNS = ev_end_ns c, tcp_PID = ev_pid c,
     tcp_LAddr = ev_laddr c, tcp_LPort = ev_lport c, tcp_RAddr = ev_raddr c,
     tcp_RPort = ev_rport c, tcp_Flags = ev_flags c, tcp_Rx = ev_rx_b c, tcp_Tx = ev_tx_b c,
     tcp_Comm = ev_task c, tcp_Family = ev_family c, tcp_UID = ucast (ev_uid c)\<rparr>"

lemma TCPEvent_Decode_event_t:
  assumes "event_t_wf c"
  shows "TCPEvent_Decode (event_t_bytes c @ pad) e = Ret (None, TCPEvent_of c)"
  using assms
  by (simp add: TCPEvent_Decode_def TCPEvent_reads_def event_t_bytes_def event_t_wf_def le32_split [of "ev_uid c"]
      wire_simps TCPEvent_of_def del: exec_reads.simps(2))

section \<open>Properties\<close>

text \<open>C19. A record of the \<open>tcp_set_state\<close> program decodes without error, whatever padding the perf
  buffer appends and whatever the receiver held, to an event with the record's fields; of the
  32-bit uid only the low 16 bits are kept.\<close>

theorem tcp_decode_kernel_record:
  assumes "event_t_wf c"
  shows "TCPEvent_Decode (event_t_bytes c @ pad) e = Ret (None, TCPEvent_of c)
    \<and> unat (tcp_UID (TCPEvent_of c)) = unat (ev_uid c) mod 65536"
  using TCPEvent_Decode_event_t [OF assms]
  by (simp add: TCPEvent_of_def unsigned_ucast_eq take_bit_eq_mod)

definition sample_event_t :: event_t where
  "sample_event_t =
    \<lparr>ev_start_ns = 5, ev_end_ns = 9, ev_pid = 42, ev_laddr = 0x0100007f, ev_lport = 8080,
     ev_raddr = 0x0100000a, ev_rport = 0x5000, ev_flags = 0x11, ev_rx_b = 7, ev_tx_b = 8,
     ev_task = replicate 16 65, ev_family = 2, ev_uid = 65536\<rparr>"

theorem tcp_decode_kernel_record_witness:
  "event_t_wf sample_event_t \<and>
   TCPEvent_Decode (event_t_bytes sample_event_t @ [1, 2, 3]) TCPEvent_new = Ret (None, TCPEvent_of sample_event_t)
   \<and> tcp_UID (TCPEvent_of sample_event_t) = 0"
proof -
  have wf: "event_t_wf sample_event_t" by (simp add: event_t_wf_def sample_event_t_def)
  have "unat (tcp_UID (TCPEvent_of sample_event_t)) = 0"
    using tcp_decode_kernel_record [OF wf] by (simp add: sample_event_t_def)
  then show ?thesis
    using wf tcp_decode_kernel_record [OF wf] by (simp add: unat_eq_zero)
qed

lemma TCPEvent_reads_split:
  "TCPEvent_reads = take 12 TCPEvent_reads @ [on_err (\<lambda>_. None) (read_u16 tcp_UID_update)]"
  by (simp add: TCPEvent_reads_def)

text \<open>C26. \<open>TCPEvent.Decode\<close> succeeds exactly for payloads of at least 67 bytes. Between 67 and 68 bytes
  the uid cannot be read, the error of that last read is dropped, and the event is returned as
  good with the receiver's uid.\<close>

theorem tcp_decode_accepts:
  "((\<exists>e'. TCPEvent_Decode p e = Ret (None, e')) \<longleftrightarrow> 67 \<le> length p)
   \<and> (length p = 67 \<or> length p = 68 \<longrightarrow>
        (\<exists>e'. TCPEvent_Decode p e = Ret (None, e') \<and> tcp_UID e' = tcp_UID e))"
proof -
  let ?ss = "take 12 TCPEvent_reads" and ?t = "on_err (\<lambda>_. None) (read_u16 tcp_UID_update)"
  have sz: "stmts_size ?ss = 67" by (simp add: TCPEvent_reads_def wire_simps)
  have strict: "strict_stmts ?ss" by (simp add: TCPEvent_reads_def wire_simps)
  have uid: "tcp_UID (store_all ?ss p e) = tcp_UID e" by (simp add: TCPEvent_reads_def wire_simps)
  have last: "fst (exec_reads [?t] buf x) = None" for buf x
    by (auto simp: wire_simps ReadFull_def)
  have dec: "TCPEvent_Decode p e = Ret (exec_reads (?ss @ [?t]) p e)"
    by (subst TCPEvent_Decode_def, subst TCPEvent_reads_split) simp
  have long: "67 \<le> length p \<Longrightarrow>
      TCPEvent_Decode p e = Ret (exec_reads [?t] (drop 67 p) (store_all ?ss p e))"
    using exec_reads_append_long [of ?ss p "[?t]" e] by (simp only: dec sz)
  have short: "length p < 67 \<Longrightarrow> TCPEvent_Decode p e = Ret (exec_reads ?ss p e)"
    using exec_reads_append_short [OF strict, of p "[?t]" e] by (simp only: dec sz)
  have "(\<exists>e'. TCPEvent_Decode p e = Ret (None, e')) \<longleftrightarrow> 67 \<le> length p"
  proof (cases "67 \<le> length p")
    case True
    then show ?thesis using long last [of "drop 67 p" "store_all ?ss p e"] by (metis prod.collapse)
  next
    case False
    then show ?thesis
      using short exec_reads_short_strict [OF strict, of p e] sz by (auto simp: not_le)
  qed
  moreover have "\<exists>e'. TCPEvent_Decode p e = Ret (None, e') \<and> tcp_UID e' = tcp_UID e"
    if l: "length p = 67 \<or> length p = 68"
  proof -
    have "exec_reads [?t] (drop 67 p) (store_all ?ss p e) = (None, store_all ?ss p e)"
      using l by (auto simp: wire_simps ReadFull_def)
    with long uid l show ?thesis by auto
  qed
  ultimately show ?thesis by blast
qed

theorem tcp_decode_accepts_witness:
  "\<exists>e'. TCPEvent_Decode (replicate 68 1) TCPEvent_new = Ret (None, e') \<and> tcp_UID e' = 0"
  using tcp_decode_accepts [of "replicate 68 1" TCPEvent_new] by (simp add: TCPEvent_new_def)

text \<open>The report of a connection: the direction is \<open>OUT\<close> exactly when the kernel set
  \<open>F_OUTBOUND\<close> (bit 0) and the result \<open>True\<close> exactly when it set \<open>F_CONNECTED\<close> (bit 4); addresses
  held in network order print in dotted order; and the remote port, whose two bytes \<open>p1 p0\<close> are in
  network order too, prints as the byte-swapped number \<open>p0 * 256 + p1\<close>, not as the port
  \<open>p1 * 256 + p0\<close>.\<close>

theorem tcp_report:
  assumes "tcp_RAddr te = le_word [a, b, c, d]" and "tcp_LAddr te = le_word [a', b', c', d']"
    and "tcp_RPort te = le_word [p1, p0]"
  shows "\<exists>t. length t = 8 \<and> TCPEvent_String env te =
     ''start time:'' @ t @ '', family:'' @ TCPEvent_family (tcp_Family te)
     @ '', PID:'' @ itoa (uint (tcp_PID te)) @ '', command:'' @ string_of_bytes (tcp_Comm te)
     @ '', UID:'' @ itoa (uint (tcp_UID te)) @ '', rx:'' @ itoa (uint (tcp_Rx te))
     @ '', tx:'' @ itoa (uint (tcp_Tx te))
     @ '', dest:'' @ dotted a b c d @ '':'' @ itoa_nat (unat p0 * 256 + unat p1)
     @ '', source:'' @ dotted a' b' c' d'
     @ '', type:'' @ (if bit (tcp_Flags te) 0 then ''OUT'' else ''IN'')
     @ '', result:'' @ (if bit (tcp_Flags te) 4 then ''True'' else ''False'')"
proof -
  have port: "unat (tcp_RPort te) = unat p0 * 256 + unat p1"
    using unat_le_word [of "[p1, p0]", where 'a = 16] by (simp add: assms(3))
  have f0: "tcp_Flags te AND 1 = 0 \<longleftrightarrow> \<not> bit (tcp_Flags te) 0"
    by (simp add: and_one_eq bit_0 mod_2_eq_odd)
  have f4: "tcp_Flags te AND 0x10 = 0 \<longleftrightarrow> \<not> bit (tcp_Flags te) 4"
    using and_exp_eq_0_iff_not_bit [of "tcp_Flags te" 4] by simp
  show ?thesis
    by (rule exI [of _ "clock (env_zone env) (env_now env + sint (- (tcp_EndNS te - tcp_StartNS te)))"])
      (simp add: TCPEvent_String_def Let_def assms(1,2) inet_ntop_memory f0 f4 itoa_uint port)
qed

theorem tcp_report_witness:
  "\<exists>t. length t = 8 \<and>
    TCPEvent_String \<lparr>env_now = 0, env_zone = \<lambda>_. 0\<rparr>
      (TCPEvent_new\<lparr>tcp_RAddr := le_word [118, 31, 44, 218], tcp_LAddr := le_word [172, 16, 71, 4],
        tcp_RPort := le_word [0, 80], tcp_Flags := 0x11, tcp_Family := 2, tcp_Comm := []\<rparr>) =
     ''start time:'' @ t @ '', family:AF_INET, PID:0, command:, UID:0, rx:0, tx:0, ''
     @ ''dest:118.31.44.218:20480, source:172.16.71.4, type:OUT, result:True''"
  using tcp_report [of "TCPEvent_new\<lparr>tcp_RAddr := le_word [118, 31, 44, 218],
      tcp_LAddr := le_word [172, 16, 71, 4], tcp_RPort := le_word [0, 80], tcp_Flags := 0x11,
      tcp_Family := 2, tcp_Comm := []\<rparr>" 118 31 44 218 172 16 71 4 0 80 "\<lparr>env_now = 0, env_zone = \<lambda>_. 0\<rparr>"]
  by (simp add: TCPEvent_family_def AF_INET_def TCPEvent_new_def dotted_def itoa_nat.simps
      itoa_def string_of_bytes_def bit_numeral_word_iff)

end
