(* ===== verification/Event_Ktcp_Sec.thy ===== *)
theory Event_Ktcp_Sec
  imports Common Kern_Structs
begin

text \<open>
  \<open>user/event_ktcp_sec.go\<close>: the three events of the \<open>security_socket_connect\<close> probe. The IPv4
  decoder mirrors the kernel struct field by field. The IPv6 decoder and the one for other sockets
  read the address family as 16 bits where the kernel sends 32, so everything after it is shifted
  by two bytes: \<open>EventIPV6_of\<close> and \<open>EventOther_of\<close> say exactly what is decoded.
\<close>

definition TASK_COMM_LEN :: nat where "TASK_COMM_LEN = 16"

section \<open>IPv4\<close>

record EventIPV4 =
  ip4_TSUS :: i64
  ip4_PID :: u32
  ip4_UID :: u32
  ip4_AF :: u32
  ip4_LAddr :: u32
  ip4_LPort :: u16
  ip4_RAddr :: u32
  ip4_RPort :: u16
  ip4_TASK :: bytes

definition EventIPV4_reads :: "EventIPV4 rd_stmt list" where
  "EventIPV4_reads =
    [read_u64 ip4_TSUS_update, read_u32 ip4_PID_update, read_u32 ip4_UID_update,
     read_u32 ip4_AF_update, read_u32 ip4_LAddr_update, read_u16 ip4_LPort_update,
     read_u32 ip4_RAddr_update, read_u16 ip4_RPort_update,
     read_array TASK_COMM_LEN ip4_TASK_update]"

definition EventIPV4_Decode :: "bytes \<Rightarrow> EventIPV4 \<Rightarrow> (goerr option \<times> EventIPV4) go" where
  "EventIPV4_Decode payload ei = Ret (exec_reads EventIPV4_reads payload ei)"

text \<open>\<open>time.UnixMicro(us)\<close> in nanoseconds.\<close>

definition UnixMicro :: "i64 \<Rightarrow> int" where
  "UnixMicro us = sint us * 1000"

definition EventIPV4_String :: "goenv \<Rightarrow> EventIPV4 \<Rightarrow> string" where
  "EventIPV4_String env ei =
    (let t_start = clock (env_zone env) (UnixMicro (ip4_TSUS ei))
     in Sprintf [Lit ''start time:'', Str t_start, Lit '', PID:'', Dec (uint (ip4_PID ei)),
          Lit '', UID:'', Dec (uint (ip4_UID ei)), Lit '', AF:'', Dec (uint (ip4_AF ei)),
          Lit '', TASK:'', Str (string_of_bytes (ip4_TASK ei))])"

definition EventIPV4_new :: EventIPV4 where
  "EventIPV4_new =
    \<lparr>ip4_TSUS = 0, ip4_PID = 0, ip4_UID = 0, ip4_AF = 0, ip4_LAddr = 0, ip4_LPort = 0,
     ip4_RAddr = 0, ip4_RPort = 0, ip4_TASK = replicate TASK_COMM_LEN 0\<rparr>"

definition EventIPV4_Clone :: "EventIPV4 \<Rightarrow> EventIPV4" where
  "EventIPV4_Clone ei = EventIPV4_new"

section \<open>IPv6\<close>

record EventIPV6 =
  ip6_TSUS :: i64
  ip6_PID :: u32
  ip6_UID :: u32
  ip6_AF :: u16
  ip6_TASK :: bytes
  ip6_RAddr :: bytes
  ip6_RPort :: u16

definition EventIPV6_reads :: "EventIPV6 rd_stmt list" where
  "EventIPV6_reads =
    [read_u64 ip6_TSUS_update, read_u32 ip6_PID_update, read_u32 ip6_UID_update,
     read_u16 ip6_AF_update, read_array TASK_COMM_LEN ip6_TASK_update,
     read_array 16 ip6_RAddr_update, read_u16 ip6_RPort_update]"

definition EventIPV6_Decode :: "bytes \<Rightarrow> EventIPV6 \<Rightarrow> (goerr option \<times> EventIPV6) go" where
  "EventIPV6_Decode payload ei = Ret (exec_reads EventIPV6_reads payload ei)"

definition EventIPV6_String :: "goenv \<Rightarrow> EventIPV6 \<Rightarrow> string" where
  "EventIPV6_String env ei =
    (let t_start = clock (env_zone env) (UnixMicro (ip6_TSUS ei))
     in Sprintf [Lit ''start time:'', Str t_start, Lit '', PID:'', Dec (uint (ip6_PID ei)),
          Lit '', UID:'', Dec (uint (ip6_UID ei)), Lit '', AF:'', Dec (uint (ip6_AF ei)),
          Lit '', TASK:'', Str (string_of_bytes (ip6_TASK ei))])"

definition EventIPV6_new :: EventIPV6 where
  "EventIPV6_new =
    \<lparr>ip6_TSUS = 0, ip6_PID = 0, ip6_UID = 0, ip6_AF = 0, ip6_TASK = replicate TASK_COMM_LEN 0,
     ip6_RAddr = replicate 16 0, ip6_RPort = 0\<rparr>"

definition EventIPV6_Clone :: "EventIPV6 \<Rightarrow> EventIPV6" where
  "EventIPV6_Clone ei = EventIPV6_new"

section \<open>Other sockets\<close>

record EventOther =
  oth_TSUS :: i64
  oth_PID :: u32
  oth_UID :: u32
  oth_AF :: u16
  oth_TASK :: bytes

definition EventOther_reads :: "EventOther rd_stmt list" where
  "EventOther_reads =
    [read_u64 oth_TSUS_update, read_u32 oth_PID_update, read_u32 oth_UID_update,
     read_u16 oth_AF_update, read_array TASK_COMM_LEN oth_TASK_update]"

definition EventOther_Decode :: "bytes \<Rightarrow> EventOther \<Rightarrow> (goerr option \<times> EventOther) go" where
  "EventOther_Decode payload ei = Ret (exec_reads EventOther_reads payload ei)"

definition EventOther_String :: "goenv \<Rightarrow> EventOther \<Rightarrow> string" where
  "EventOther_String env ei =
    (let t_start = clock (env_zone env) (UnixMicro (oth_TSUS ei))
     in Sprintf [Lit ''start time:'', Str t_start, Lit '', PID:'', Dec (uint (oth_PID ei)),
          Lit '', UID:'', Dec (uint (oth_UID ei)), Lit '', AF:'', Dec (uint (oth_AF ei)),
          Lit '', TASK:'', Str (string_of_bytes (oth_TASK ei))])"

definition EventOther_new :: EventOther where
  "EventOther_new =
    \<lparr>oth_TSUS = 0, oth_PID = 0, oth_UID = 0, oth_AF = 0, oth_TASK = replicate TASK_COMM_LEN 0\<rparr>"

definition EventOther_Clone :: "EventOther \<Rightarrow> EventOther" where
  "EventOther_Clone ei = EventOther_new"

section \<open>Contract and wire format\<close>

lemmas ktcp_sec_reads_defs = EventIPV4_reads_def EventIPV6_reads_def EventOther_reads_def
  TASK_COMM_LEN_def

lemma ktcp_sec_sizes:
  "stmts_size EventIPV4_reads = 48" "stmts_size EventIPV6_reads = 52" "stmts_size EventOther_reads = 34"
  by (simp_all add: ktcp_sec_reads_defs wire_simps)

lemma ktcp_sec_plain:
  "plain_stmts EventIPV4_reads" "plain_stmts EventIPV6_reads" "plain_stmts EventOther_reads"
  by (simp_all add: ktcp_sec_reads_defs wire_simps)

interpretation ipv4_event: strict_event_struct EventIPV4_Decode EventIPV4_Clone 48
  unfolding ktcp_sec_sizes [symmetric]
  by (rule exec_reads_strict_event_struct)
    (simp_all add: EventIPV4_Decode_def EventIPV4_Clone_def ktcp_sec_plain plain_imp_strict)

interpretation ipv6_event: strict_event_struct EventIPV6_Decode EventIPV6_Clone 52
  unfolding ktcp_sec_sizes [symmetric]
  by (rule exec_reads_strict_event_struct)
    (simp_all add: EventIPV6_Decode_def EventIPV6_Clone_def ktcp_sec_plain plain_imp_strict)

interpretation other_event: strict_event_struct EventOther_Decode EventOther_Clone 34
  unfolding ktcp_sec_sizes [symmetric]
  by (rule exec_reads_strict_event_struct)
    (simp_all add: EventOther_Decode_def EventOther_Clone_def ktcp_sec_plain plain_imp_strict)

definition EventIPV4_of :: "ipv4_event_t \<Rightarrow> EventIPV4" where
  "EventIPV4_of c =
    \<lparr>ip4_TSUS = e4_ts_us c, ip4_PID = e4_pid c, ip4_UID = e4_uid c, ip4_AF = e4_af c,
     ip4_LAddr = e4_laddr c, ip4_LPort = e4_lport c, ip4_RAddr = e4_daddr c,
     ip4_RPort = e4_dport c, ip4_TASK = e4_task c\<rparr>"

lemma EventIPV4_Decode_ipv4_event_t:
  assumes "ipv4_event_t_wf c"
  shows "EventIPV4_Decode (ipv4_event_t_bytes c @ pad) e = Ret (None, EventIPV4_of c)"
  using assms
  by (simp add: EventIPV4_Decode_def ktcp_sec_reads_defs ipv4_event_t_bytes_def ipv4_event_t_wf_def
      wire_simps EventIPV4_of_def del: exec_reads.simps(2))

text \<open>The two-byte shift: the task starts with the high half of the family.\<close>

definition EventIPV6_of :: "ipv6_event_t \<Rightarrow> EventIPV6" where
  "EventIPV6_of c =
    \<lparr>ip6_TSUS = e6_ts_us c, ip6_PID = e6_pid c, ip6_UID = e6_uid c, ip6_AF = ucast (e6_af c),
     ip6_TASK = le16 (ucast (drop_bit 16 (e6_af c))) @ take 14 (e6_task c),
     ip6_RAddr = drop 14 (e6_task c) @ take 14 (e6_daddr c),
     ip6_RPort = le_word (drop 14 (e6_daddr c))\<rparr>"

lemma EventIPV6_Decode_ipv6_event_t:
  assumes "ipv6_event_t_wf c"
  shows "EventIPV6_Decode (ipv6_event_t_bytes c @ pad) e = Ret (None, EventIPV6_of c)"
  using assms
  by (simp add: EventIPV6_Decode_def ktcp_sec_reads_defs ipv6_event_t_bytes_def ipv6_event_t_wf_def
      wire_simps EventIPV6_of_def le32_split [of "e6_af c"] ReadFull_def)

definition EventOther_of :: "other_socket_event_t \<Rightarrow> EventOther" where
  "EventOther_of c =
    \<lparr>oth_TSUS = eo_ts_us c, oth_PID = eo_pid c, oth_UID = eo_uid c, oth_AF = ucast (eo_af c),
     oth_TASK = le16 (ucast (drop_bit 16 (eo_af c))) @ take 14 (eo_task c)\<rparr>"

lemma EventOther_Decode_other_socket_event_t:
  assumes "other_socket_event_t_wf c"
  shows "EventOther_Decode (other_socket_event_t_bytes c @ pad) e = Ret (None, EventOther_of c)"
  using assms
  by (simp add: EventOther_Decode_def ktcp_sec_reads_defs other_socket_event_t_bytes_def
      other_socket_event_t_wf_def wire_simps EventOther_of_def le32_split [of "eo_af c"] ReadFull_def)

section \<open>Properties\<close>

text \<open>C20. An IPv4 connect record of the kernel decodes, with any padding after it, to an event with
  exactly its fields; a payload decodes without error exactly when it has the 48 bytes of the
  struct, and a shorter one gives \<open>EOF\<close> at a field boundary and \<open>unexpected EOF\<close> elsewhere.\<close>

theorem ipv4_decode_kernel_record:
  "(ipv4_event_t_wf c \<longrightarrow> EventIPV4_Decode (ipv4_event_t_bytes c @ pad) e = Ret (None, EventIPV4_of c))
   \<and> ((\<exists>e'. EventIPV4_Decode p e = Ret (None, e')) \<longleftrightarrow> 48 \<le> length p)
   \<and> (length p < 48 \<longrightarrow> (\<exists>e'. EventIPV4_Decode p e =
        Ret (Some (if length p \<in> field_boundaries EventIPV4_reads then EOF else ErrUnexpectedEOF), e')))"
proof -
  have "\<exists>e'. EventIPV4_Decode p e =
      Ret (Some (if length p \<in> field_boundaries EventIPV4_reads then EOF else ErrUnexpectedEOF), e')"
    if "length p < 48"
  proof -
    have "\<forall>s\<in>set EventIPV4_reads. 0 < rd_size s" by (simp add: ktcp_sec_reads_defs wire_simps)
    then have "fst (exec_reads EventIPV4_reads p e) =
        Some (if length p \<in> field_boundaries EventIPV4_reads then EOF else ErrUnexpectedEOF)"
      using that by (intro exec_reads_short_error) (simp_all add: ktcp_sec_plain ktcp_sec_sizes)
    then show ?thesis unfolding EventIPV4_Decode_def by (metis prod.collapse)
  qed
  then show ?thesis using EventIPV4_Decode_ipv4_event_t ipv4_event.decode_ok_iff by blast
qed

definition sample_ipv4_event_t :: ipv4_event_t where
  "sample_ipv4_event_t =
    \<lparr>e4_ts_us = 1, e4_pid = 2, e4_uid = 3, e4_af = 2, e4_laddr = 4, e4_lport = 5, e4_daddr = 6,
     e4_dport = 7, e4_task = replicate 16 65\<rparr>"

theorem ipv4_decode_kernel_record_witness:
  "EventIPV4_Decode (ipv4_event_t_bytes sample_ipv4_event_t @ [0]) EventIPV4_new
     = Ret (None, EventIPV4_of sample_ipv4_event_t)
   \<and> (\<exists>e'. EventIPV4_Decode [1, 2, 3] EventIPV4_new = Ret (Some ErrUnexpectedEOF, e'))"
proof -
  have b: "Suc (Suc (Suc 0)) \<notin> field_boundaries EventIPV4_reads"
    by (auto simp: ktcp_sec_reads_defs wire_simps field_boundaries_Cons)
  have "ipv4_event_t_wf sample_ipv4_event_t" by (simp add: ipv4_event_t_wf_def sample_ipv4_event_t_def)
  then show ?thesis
    using ipv4_decode_kernel_record [of sample_ipv4_event_t "[0]" EventIPV4_new "[1, 2, 3]"] b by simp
qed

text \<open>C21. An IPv6 connect record decodes without error but shifted by two bytes after the address
  family, which the decoder takes as 16 bits of the kernel's 32: the task name is preceded by the
  high half of the family and loses its last two bytes, which start the address, and the port is
  the last two bytes of the address. For the family \<open>AF_INET6\<close> the task starts with two zero bytes.\<close>

theorem ipv6_decode_kernel_record:
  assumes "ipv6_event_t_wf c" and "e6_af c = 10"
  shows "EventIPV6_Decode (ipv6_event_t_bytes c @ pad) e = Ret (None,
    \<lparr>ip6_TSUS = e6_ts_us c, ip6_PID = e6_pid c, ip6_UID = e6_uid c, ip6_AF = 10,
     ip6_TASK = [0, 0] @ take 14 (e6_task c),
     ip6_RAddr = drop 14 (e6_task c) @ take 14 (e6_daddr c),
     ip6_RPort = le_word (drop 14 (e6_daddr c))\<rparr>)"
  using EventIPV6_Decode_ipv6_event_t [OF assms(1)] assms(2)
  by (simp add: EventIPV6_of_def le16_def)

theorem ipv6_decode_kernel_record_witness:
  "EventIPV6_Decode (ipv6_event_t_bytes
      \<lparr>e6_ts_us = 1, e6_pid = 2, e6_uid = 3, e6_af = 10, e6_task = [97, 98] @ replicate 14 0,
       e6_daddr = replicate 15 0 @ [1], e6_dport = 80\<rparr> @ []) EventIPV6_new
   = Ret (None, \<lparr>ip6_TSUS = 1, ip6_PID = 2, ip6_UID = 3, ip6_AF = 10,
       ip6_TASK = [0, 0, 97, 98] @ replicate 12 0, ip6_RAddr = replicate 16 0, ip6_RPort = 256\<rparr>)"
  using ipv6_decode_kernel_record [of "\<lparr>e6_ts_us = 1, e6_pid = 2, e6_uid = 3, e6_af = 10,
      e6_task = [97, 98] @ replicate 14 0, e6_daddr = replicate 15 0 @ [1], e6_dport = 80\<rparr>" "[]" EventIPV6_new]
  by (simp add: ipv6_event_t_wf_def le_word_def numeral_eq_Suc)

text \<open>The same two-byte shift for the other socket families: the decoded task is the high half of
  the family followed by the first fourteen bytes of the kernel's task name.\<close>

theorem other_decode_kernel_record:
  assumes "other_socket_event_t_wf c"
  shows "EventOther_Decode (other_socket_event_t_bytes c @ pad) e = Ret (None,
    \<lparr>oth_TSUS = eo_ts_us c, oth_PID = eo_pid c, oth_UID = eo_uid c, oth_AF = ucast (eo_af c),
     oth_TASK = le16 (ucast (drop_bit 16 (eo_af c))) @ take 14 (eo_task c)\<rparr>)"
  using EventOther_Decode_other_socket_event_t [OF assms] by (simp add: EventOther_of_def)

theorem other_decode_kernel_record_witness:
  "EventOther_Decode (other_socket_event_t_bytes
      \<lparr>eo_ts_us = 1, eo_pid = 2, eo_uid = 3, eo_af = 0x350010, eo_task = replicate 16 65\<rparr> @ []) EventOther_new
   = Ret (None, \<lparr>oth_TSUS = 1, oth_PID = 2, oth_UID = 3, oth_AF = 16,
       oth_TASK = [0x35, 0] @ replicate 14 65\<rparr>)"
  using other_decode_kernel_record [of "\<lparr>eo_ts_us = 1, eo_pid = 2, eo_uid = 3, eo_af = 0x350010,
      eo_task = replicate 16 65\<rparr>" "[]" EventOther_new]
  by (simp add: other_socket_event_t_wf_def le16_def)

end
