(* ===== verification/Event_Proc.thy ===== *)
theory Event_Proc
  imports Common Kern_Structs
begin

text \<open>
  \<open>user/event_proc.go\<close>: the fork event of the \<open>copy_process\<close> probe. The kernel struct starts with
  the event type, which the decoder does not read, so every field holds the one before it:
  \<open>ForkProcEvent_of\<close> says exactly what is decoded. \<open>get_cwd\<close> joins path components; its array
  accesses are bounds-checked as Go does.
\<close>

record ForkProcEvent =
  fe_eventType :: i32
  fe_ChildPid :: u32
  fe_ChildTgid :: u32
  fe_ParentPid :: u32
  fe_ParentTgid :: u32
  fe_GrandParentPid :: u32
  fe_GrandParentTgid :: u32
  fe_Uid :: u32
  fe_Gid :: u32
  fe_Cwd_level :: u32
  fe_UtsInum :: u32
  fe_Start_time :: u64
  fe_Comm :: bytes
  fe_Cmdline :: bytes
  fe_Path :: bytes

definition PROC_EVENT_FORK :: i32 where "PROC_EVENT_FORK = 1"
definition PROC_EVENT_EXEC :: i32 where "PROC_EVENT_EXEC = 2"
definition PROC_EVENT_EXIT :: i32 where "PROC_EVENT_EXIT = 3"

definition ForkProcEvent_reads :: "ForkProcEvent rd_stmt list" where
  "ForkProcEvent_reads =
    [read_u32 fe_ChildPid_update, read_u32 fe_ChildTgid_update,
     read_u32 fe_ParentPid_update, read_u32 fe_ParentTgid_update,
     read_u32 fe_GrandParentPid_update, read_u32 fe_GrandParentTgid_update,
     read_u32 fe_Uid_update, read_u32 fe_Gid_update,
     read_u32 fe_Cwd_level_update, read_u32 fe_UtsInum_update, read_u64 fe_Start_time_update,
     read_array 16 fe_Comm_update, read_array 128 fe_Cmdline_update,
     read_array 128 fe_Path_update]"

definition ForkProcEvent_Decode :: "bytes \<Rightarrow> ForkProcEvent \<Rightarrow> (goerr option \<times> ForkProcEvent) go" where
  "ForkProcEvent_Decode payload fe = Ret (exec_reads ForkProcEvent_reads payload fe)"

definition ForkProcEvent_String :: "ForkProcEvent \<Rightarrow> string" where
  "ForkProcEvent_String fe = Sprintf
    [Lit '' fork event,childpid:'', Dec (uint (fe_ChildPid fe)),
     Lit '', childtgid:'', Dec (uint (fe_ChildTgid fe)),
     Lit '',  parentpid:'', Dec (uint (fe_ParentPid fe)),
     Lit '', parenttgid:'', Dec (uint (fe_ParentTgid fe)),
     Lit '',  grandparentpid:'', Dec (uint (fe_GrandParentPid fe)),
     Lit '', grandparentgid:'', Dec (uint (fe_GrandParentTgid fe)),
     Lit '', cwd_level:'', Dec (uint (fe_Cwd_level fe)),
     Lit '', comm:'', Str (string_of_bytes (fe_Comm fe)),
     Lit '', cmdline:'', Str (string_of_bytes (fe_Cmdline fe)),
     Lit '', filepath:'', Str (string_of_bytes (fe_Path fe)),
     Lit '', start_time:'', Dec (uint (fe_Start_time fe)),
     Lit '', uid:'', Dec (uint (fe_Uid fe)),
     Lit '',  gid:'', Dec (uint (fe_Gid fe)),
     Lit '',uts_ium:'', Dec (uint (fe_UtsInum fe)),
     Lit [CHR '','', CHR 0x0A]]"

definition ForkProcEvent_new :: ForkProcEvent where
  "ForkProcEvent_new =
    \<lparr>fe_eventType = 0, fe_ChildPid = 0, fe_ChildTgid = 0, fe_ParentPid = 0, fe_ParentTgid = 0,
     fe_GrandParentPid = 0, fe_GrandParentTgid = 0, fe_Uid = 0, fe_Gid = 0, fe_Cwd_level = 0,
     fe_UtsInum = 0, fe_Start_time = 0, fe_Comm = replicate 16 0, fe_Cmdline = replicate 128 0,
     fe_Path = replicate 128 0\<rparr>"

definition ForkProcEvent_Clone :: "ForkProcEvent \<Rightarrow> ForkProcEvent" where
  "ForkProcEvent_Clone fe = ForkProcEvent_new"

text \<open>The loop of \<open>get_cwd\<close>: \<open>i\<close> runs from \<open>level\<close> down to 1. \<open>len(str[level])\<close> is the constant
  length of the array type \<open>[16]byte\<close>, which Go takes without evaluating \<open>str[level]\<close>.\<close>

definition array_index :: "'a list \<Rightarrow> nat \<Rightarrow> 'a go" where
  "array_index xs i = (if i < length xs then Ret (xs ! i) else Panic ''index out of range'')"

definition cwd_elem_len :: nat where "cwd_elem_len = 16"

fun get_cwd_loop :: "nat \<Rightarrow> bytes list \<Rightarrow> nat \<Rightarrow> string \<Rightarrow> string go" where
  "get_cwd_loop level str 0 cwd = Ret cwd"
| "get_cwd_loop level str (Suc j) cwd =
     (let i = Suc j in
      if cwd_elem_len = 0 then get_cwd_loop level str j cwd
      else go_bind (array_index str i) (\<lambda>si.
          let cwd1 = cwd @ string_of_bytes si;
              cwd2 = (if i \<noteq> 0 \<and> i \<noteq> level then cwd1 @ ''/'' else cwd1)
          in get_cwd_loop level str j cwd2))"

definition get_cwd :: "u32 \<Rightarrow> bytes list \<Rightarrow> string go" where
  "get_cwd level str =
    (if level = 0 then Ret '''' else get_cwd_loop (unat level) str (unat level) '''')"

section \<open>Contract and wire format\<close>

lemma ForkProcEvent_size: "stmts_size ForkProcEvent_reads = 320"
  by (simp add: ForkProcEvent_reads_def wire_simps)

lemma ForkProcEvent_plain: "plain_stmts ForkProcEvent_reads"
  by (simp add: ForkProcEvent_reads_def wire_simps)

interpretation fork_event: strict_event_struct ForkProcEvent_Decode ForkProcEvent_Clone 320
  unfolding ForkProcEvent_size [symmetric]
  by (rule exec_reads_strict_event_struct)
    (simp_all add: ForkProcEvent_Decode_def ForkProcEvent_Clone_def ForkProcEvent_plain plain_imp_strict)

definition ForkProcEvent_of :: "proc_info_t \<Rightarrow> ForkProcEvent \<Rightarrow> ForkProcEvent" where
  "ForkProcEvent_of c e =
    \<lparr>fe_eventType = fe_eventType e, fe_ChildPid = pi_type c, fe_ChildTgid = pi_child_pid c,
     fe_ParentPid = pi_child_tgid c, fe_ParentTgid = pi_parent_pid c,
     fe_GrandParentPid = pi_parent_tgid c, fe_GrandParentTgid = pi_grandparent_pid c,
     fe_Uid = pi_grandparent_tgid c, fe_Gid = pi_uid c, fe_Cwd_level = pi_gid c,
     fe_UtsInum = pi_cwd_level c,
     fe_Start_time = le_word (le32 (pi_uts_inum c) @ le32 (pi_pad c)),
     fe_Comm = le64 (pi_start_time c) @ take 8 (pi_comm c),
     fe_Cmdline = drop 8 (pi_comm c) @ take 120 (pi_cmdline c),
     fe_Path = drop 120 (pi_cmdline c) @ take 120 (pi_filepath c)\<rparr>"

lemma ForkProcEvent_Decode_proc_info_t:
  assumes "proc_info_t_wf c"
  shows "ForkProcEvent_Decode (proc_info_t_bytes c @ pad) e = Ret (None, ForkProcEvent_of c e)"
  using assms
  by (simp add: ForkProcEvent_Decode_def ForkProcEvent_reads_def proc_info_t_bytes_def
      proc_info_t_wf_def wire_simps ForkProcEvent_of_def ReadFull_def)

section \<open>Properties\<close>

text \<open>A fork record of the kernel decodes without error, but every decoded field holds the kernel
  field before it: the child pid is the event type, the child tgid the child pid, and so on to the
  user id, which holds the grandparent's tgid; the start time is made of the namespace number and
  four padding bytes, and the three texts are shifted by eight bytes.\<close>

theorem fork_decode_kernel_record:
  assumes "proc_info_t_wf c"
  shows "ForkProcEvent_Decode (proc_info_t_bytes c @ pad) e = Ret (None,
    \<lparr>fe_eventType = fe_eventType e, fe_ChildPid = pi_type c, fe_ChildTgid = pi_child_pid c,
     fe_ParentPid = pi_child_tgid c, fe_ParentTgid = pi_parent_pid c,
     fe_GrandParentPid = pi_parent_tgid c, fe_GrandParentTgid = pi_grandparent_pid c,
     fe_Uid = pi_grandparent_tgid c, fe_Gid = pi_uid c, fe_Cwd_level = pi_gid c,
     fe_UtsInum = pi_cwd_level c,
     fe_Start_time = le_word (le32 (pi_uts_inum c) @ le32 (pi_pad c)),
     fe_Comm = le64 (pi_start_time c) @ take 8 (pi_comm c),
     fe_Cmdline = drop 8 (pi_comm c) @ take 120 (pi_cmdline c),
     fe_Path = drop 120 (pi_cmdline c) @ take 120 (pi_filepath c)\<rparr>)"
  using ForkProcEvent_Decode_proc_info_t [OF assms] by (simp add: ForkProcEvent_of_def)

definition sample_proc_info_t :: proc_info_t where
  "sample_proc_info_t =
    \<lparr>pi_type = 1, pi_child_pid = 100, pi_child_tgid = 101, pi_parent_pid = 102, pi_parent_tgid = 103,
     pi_grandparent_pid = 104, pi_grandparent_tgid = 105, pi_uid = 0, pi_gid = 5, pi_cwd_level = 0,
     pi_uts_inum = 7, pi_pad = 0, pi_start_time = 8, pi_comm = replicate 16 65,
     pi_cmdline = replicate 128 66, pi_filepath = replicate 128 67\<rparr>"

theorem fork_decode_kernel_record_witness:
  "\<exists>ev. ForkProcEvent_Decode (proc_info_t_bytes sample_proc_info_t @ []) ForkProcEvent_new = Ret (None, ev)
     \<and> fe_ChildPid ev = 1 \<and> fe_Uid ev = 105 \<and> fe_Gid ev = 0"
proof -
  have "proc_info_t_wf sample_proc_info_t" by (simp add: proc_info_t_wf_def sample_proc_info_t_def)
  from fork_decode_kernel_record [OF this, of "[]" ForkProcEvent_new] show ?thesis
    by (simp add: sample_proc_info_t_def)
qed

lemma get_cwd_loop_eq:
  assumes "level < length str" and "j < level"
  shows "get_cwd_loop level str j cwd =
     Ret (cwd @ concat (map (\<lambda>i. string_of_bytes (str ! i) @ ''/'') (rev [1..<Suc j])))"
  using assms(2)
proof (induction j arbitrary: cwd)
  case (Suc j)
  then have "get_cwd_loop level str (Suc j) cwd
      = get_cwd_loop level str j (cwd @ string_of_bytes (str ! Suc j) @ ''/'')"
    using assms(1) by (simp add: array_index_def cwd_elem_len_def Let_def)
  with Suc show ?case by simp
qed simp

text \<open>C36. \<open>get_cwd\<close> on an array of ten components returns for levels below ten and panics from level ten
  on. For a level from 1 to 9 the components come out from the deepest to the first, joined by a
  slash after each one but the deepest: there is no slash between the first two and one at the
  end.\<close>

theorem get_cwd_result:
  assumes "length str = 10"
  shows "get_cwd level str =
    (if level = 0 then Ret ''''
     else if level < 10 then
       Ret (string_of_bytes (str ! unat level)
            @ concat (map (\<lambda>i. string_of_bytes (str ! i) @ ''/'') (rev [1..<unat level])))
     else Panic ''index out of range'')"
proof (cases "level = 0")
  case False
  then obtain j where j: "unat level = Suc j" by (metis not0_implies_Suc unat_eq_zero)
  have less: "level < 10 \<longleftrightarrow> unat level < 10" by (simp add: word_less_nat_alt)
  show ?thesis
  proof (cases "level < 10")
    case True
    then have lt: "Suc j < 10" using less j by simp
    have "get_cwd level str = get_cwd_loop (Suc j) str j (string_of_bytes (str ! Suc j))"
      using False lt assms by (simp add: get_cwd_def j array_index_def cwd_elem_len_def Let_def)
    also have "\<dots> = Ret (string_of_bytes (str ! Suc j)
        @ concat (map (\<lambda>i. string_of_bytes (str ! i) @ ''/'') (rev [1..<Suc j])))"
      using assms lt by (intro get_cwd_loop_eq) simp_all
    finally show ?thesis using False True j by simp
  next
    case False
    then show ?thesis
      using \<open>level \<noteq> 0\<close> less j assms by (simp add: get_cwd_def array_index_def cwd_elem_len_def Let_def)
  qed
qed (simp add: get_cwd_def)

theorem get_cwd_result_witness:
  "get_cwd 3 (map (\<lambda>d. replicate 16 (word_of_nat (48 + d))) [0..<10])
     = Ret (replicate 16 (CHR ''3'') @ replicate 16 (CHR ''2'') @ ''/'' @ replicate 16 (CHR ''1'') @ ''/'')
   \<and> get_cwd 10 (map (\<lambda>d. replicate 16 (word_of_nat (48 + d))) [0..<10]) = Panic ''index out of range''"
proof -
  let ?str = "map (\<lambda>d. replicate 16 (word_of_nat (48 + d))) [0..<10] :: bytes list"
  have "char_of (49 :: nat) = CHR ''1''" "char_of (50 :: nat) = CHR ''2''" "char_of (51 :: nat) = CHR ''3''"
    by code_simp+
  then have "string_of_bytes (replicate n 49) = replicate n (CHR ''1'')"
    "string_of_bytes (replicate n 50) = replicate n (CHR ''2'')"
    "string_of_bytes (replicate n 51) = replicate n (CHR ''3'')" for n
    by (simp_all add: string_of_bytes_def)
  then show ?thesis
    using get_cwd_result [of ?str 3] get_cwd_result [of ?str 10] by (simp add: upt_rec)
qed

end
