(* ===== verification/Event_Udns.thy ===== *)
theory Event_Udns
  imports Common Kern_Structs
begin

text \<open>
  \<open>user/event_udns.go\<close>: the event of the \<open>getaddrinfo\<close> probe. \<open>String\<close> formats the event and then
  hands the result to \<open>fmt.Sprintf\<close> once more as a format (\<open>Sprintf0\<close>), so a percent sign in
  the host name is read as a directive.
\<close>

definition HOST_COMM_LEN :: nat where "HOST_COMM_LEN = 80"

record DNSEVENT =
  dns_PID :: u32
  dns_UID :: u32
  dns_AF :: u32
  dns_AddrIpv4 :: u32
  dns_AddrIpv6 :: bytes
  dns_HOST :: bytes

definition DNSEVENT_reads :: "DNSEVENT rd_stmt list" where
  "DNSEVENT_reads =
    [read_u32 dns_PID_update, read_u32 dns_UID_update, read_u32 dns_AF_update,
     read_u32 dns_AddrIpv4_update, read_array 16 dns_AddrIpv6_update,
     read_array HOST_COMM_LEN dns_HOST_update]"

definition DNSEVENT_Decode :: "bytes \<Rightarrow> DNSEVENT \<Rightarrow> (goerr option \<times> DNSEVENT) go" where
  "DNSEVENT_Decode payload e = Ret (exec_reads DNSEVENT_reads payload e)"

text \<open>The loop that counts the bytes before the first zero.\<close>

fun host_len :: "bytes \<Rightarrow> nat \<Rightarrow> nat" where
  "host_len [] a = a"
| "host_len (b # bs) a = (if b = 0 then a else host_len bs (a + 1))"

definition DNSEVENT_af :: "u32 \<Rightarrow> string" where
  "DNSEVENT_af af =
    (if af = 2 then ''AF_INET''
     else if af = 10 then ''AF_INET6''
     else Sprintf [Lit ''UNKNOW_'', Dec (uint af)])"

definition DNSEVENT_text :: "DNSEVENT \<Rightarrow> string" where
  "DNSEVENT_text ei =
    (let a = host_len (dns_HOST ei) 0
     in Sprintf [Lit '' PID:'', Dec (uint (dns_PID ei)), Lit '', UID:'', Dec (uint (dns_UID ei)),
          Lit '', AF:'', Str (DNSEVENT_af (dns_AF ei)), Lit '', IP:'',
          Str (inet_ntop (dns_AddrIpv4 ei)), Lit '', HOST:'',
          Str (string_of_bytes (take a (dns_HOST ei)))])"

definition DNSEVENT_String :: "DNSEVENT \<Rightarrow> string" where
  "DNSEVENT_String ei = Sprintf0 (DNSEVENT_text ei)"

definition DNSEVENT_new :: DNSEVENT where
  "DNSEVENT_new =
    \<lparr>dns_PID = 0, dns_UID = 0, dns_AF = 0, dns_AddrIpv4 = 0, dns_AddrIpv6 = replicate 16 0,
     dns_HOST = replicate HOST_COMM_LEN 0\<rparr>"

definition DNSEVENT_Clone :: "DNSEVENT \<Rightarrow> DNSEVENT" where
  "DNSEVENT_Clone ei = DNSEVENT_new"

section \<open>Contract and wire format\<close>

lemma DNSEVENT_size: "stmts_size DNSEVENT_reads = 112"
  by (simp add: DNSEVENT_reads_def HOST_COMM_LEN_def wire_simps)

lemma DNSEVENT_plain: "plain_stmts DNSEVENT_reads"
  by (simp add: DNSEVENT_reads_def wire_simps)

interpretation dns_event: strict_event_struct DNSEVENT_Decode DNSEVENT_Clone 112
  unfolding DNSEVENT_size [symmetric]
  by (rule exec_reads_strict_event_struct)
    (simp_all add: DNSEVENT_Decode_def DNSEVENT_Clone_def DNSEVENT_plain plain_imp_strict)

definition DNSEVENT_of :: "data_t \<Rightarrow> DNSEVENT" where
  "DNSEVENT_of c =
    \<lparr>dns_PID = dt_pid c, dns_UID = dt_uid c, dns_AF = dt_af c, dns_AddrIpv4 = dt_ip4addr c,
     dns_AddrIpv6 = dt_ip6addr c, dns_HOST = dt_host c\<rparr>"

lemma DNSEVENT_Decode_data_t:
  assumes "data_t_wf c"
  shows "DNSEVENT_Decode (data_t_bytes c @ pad) e = Ret (None, DNSEVENT_of c)"
  using assms
  by (simp add: DNSEVENT_Decode_def DNSEVENT_reads_def HOST_COMM_LEN_def data_t_bytes_def data_t_wf_def
      wire_simps DNSEVENT_of_def del: exec_reads.simps(2))

section \<open>The report\<close>

lemma host_len_takeWhile: "host_len bs a = a + length (takeWhile (\<lambda>b. b \<noteq> 0) bs)"
  by (induction bs arbitrary: a) auto

text \<open>The host as a C string.\<close>

definition c_string :: "bytes \<Rightarrow> string" where
  "c_string bs = string_of_bytes (takeWhile (\<lambda>b. b \<noteq> 0) bs)"

lemma DNSEVENT_text_eq:
  "DNSEVENT_text ei =
     '' PID:'' @ itoa (uint (dns_PID ei)) @ '', UID:'' @ itoa (uint (dns_UID ei)) @ '', AF:''
     @ DNSEVENT_af (dns_AF ei) @ '', IP:'' @ inet_ntop (dns_AddrIpv4 ei) @ '', HOST:''
     @ c_string (dns_HOST ei)"
  by (simp add: DNSEVENT_text_def Let_def host_len_takeWhile takeWhile_eq_take [symmetric] c_string_def)

lemma DNSEVENT_af_no_percent [simp]: "CHR ''%'' \<notin> set (DNSEVENT_af af)"
  by (simp add: DNSEVENT_af_def)

text \<open>Only the host can carry a percent sign, so the second \<open>Sprintf\<close> acts on the host alone.\<close>

lemma DNSEVENT_String_eq:
  "DNSEVENT_String ei =
     '' PID:'' @ itoa (uint (dns_PID ei)) @ '', UID:'' @ itoa (uint (dns_UID ei)) @ '', AF:''
     @ DNSEVENT_af (dns_AF ei) @ '', IP:'' @ inet_ntop (dns_AddrIpv4 ei) @ '', HOST:''
     @ Sprintf0 (c_string (dns_HOST ei))"
  unfolding DNSEVENT_String_def DNSEVENT_text_eq
  by (simp add: Sprintf0_append_no_percent)

section \<open>Properties\<close>

text \<open>C22. A \<open>getaddrinfo\<close> record of the kernel decodes, with any padding after it, to an event with
  exactly its fields; a payload decodes without error exactly when it has the 112 bytes of the
  struct.\<close>

theorem dns_decode_kernel_record:
  "(data_t_wf c \<longrightarrow> DNSEVENT_Decode (data_t_bytes c @ pad) e = Ret (None, DNSEVENT_of c))
   \<and> ((\<exists>e'. DNSEVENT_Decode p e = Ret (None, e')) \<longleftrightarrow> 112 \<le> length p)"
  using DNSEVENT_Decode_data_t dns_event.decode_ok_iff by blast

theorem dns_decode_kernel_record_witness:
  "DNSEVENT_Decode (data_t_bytes \<lparr>dt_pid = 1, dt_uid = 2, dt_af = 2, dt_ip4addr = 3,
      dt_ip6addr = replicate 16 0, dt_host = replicate 80 97\<rparr> @ [9]) DNSEVENT_new
   = Ret (None, \<lparr>dns_PID = 1, dns_UID = 2, dns_AF = 2, dns_AddrIpv4 = 3,
       dns_AddrIpv6 = replicate 16 0, dns_HOST = replicate 80 97\<rparr>)"
  using dns_decode_kernel_record [of "\<lparr>dt_pid = 1, dt_uid = 2, dt_af = 2, dt_ip4addr = 3,
      dt_ip6addr = replicate 16 0, dt_host = replicate 80 97\<rparr>" "[9]" DNSEVENT_new "[]"]
  by (simp add: data_t_wf_def DNSEVENT_of_def)

text \<open>C34. The DNS report prints the fields as they are up to the host name, and for the host what
  \<open>fmt.Sprintf\<close> makes of it as a format: the name itself when it has no percent sign. A name with
  a percent sign is not reported as it is: the one of the example loses three characters and gains
  a missing-operand mark.\<close>

theorem dns_report:
  "DNSEVENT_String ei =
     '' PID:'' @ itoa (uint (dns_PID ei)) @ '', UID:'' @ itoa (uint (dns_UID ei)) @ '', AF:''
     @ DNSEVENT_af (dns_AF ei) @ '', IP:'' @ inet_ntop (dns_AddrIpv4 ei) @ '', HOST:''
     @ (if CHR ''%'' \<in> set (c_string (dns_HOST ei)) then Sprintf0 (c_string (dns_HOST ei))
        else c_string (dns_HOST ei))
   \<and> Sprintf0 ''a%20b.example'' = ''a%!b(MISSING).example''"
proof -
  have "directive ''20b.example'' = (''%!b(MISSING)'', ''.example'')"
    by (simp add: directive_def argNumber_def width_part_def skipnum_def prec_part_def
      index_part_def verb_part_def verb_rune_def rune_len_def in_range_def is_digit_def digit_val_def)
  then have "Sprintf0 ''a%20b.example'' = ''a%!b(MISSING).example''" by simp
  then show ?thesis by (simp add: DNSEVENT_String_eq Sprintf0_no_percent)
qed

end
