(* ===== verification/Event_Java.thy ===== *)
theory Event_Java
  imports Common Kern_Structs
begin

text \<open>
  \<open>user/event_java_rasp.go\<close>: the event of the \<open>JDK_execvpe\<close> probe. The first two reads wrap their
  error; \<open>String\<close> formats twice, as in \<open>event_udns.go\<close>.
\<close>

definition MODE_FORK :: u64 where "MODE_FORK = 1"
definition MODE_POSIX_SPAWN :: u64 where "MODE_POSIX_SPAWN = 2"
definition MODE_VFORK :: u64 where "MODE_VFORK = 3"
definition MODE_CLONE :: u64 where "MODE_CLONE = 4"

record JavaJDKExecPeEvent =
  java_Pid :: u32
  java_Mode :: u64
  java_File :: bytes

definition JavaJDKExecPeEvent_reads :: "JavaJDKExecPeEvent rd_stmt list" where
  "JavaJDKExecPeEvent_reads =
    [on_err (\<lambda>err. Some (Errorw ''read e.Pid:'' err '''')) (read_u32 java_Pid_update),
     on_err (\<lambda>err. Some (Errorw ''read e.Mode:'' err '''')) (read_u64 java_Mode_update),
     read_array 128 java_File_update]"

definition JavaJDKExecPeEvent_Decode ::
    "bytes \<Rightarrow> JavaJDKExecPeEvent \<Rightarrow> (goerr option \<times> JavaJDKExecPeEvent) go" where
  "JavaJDKExecPeEvent_Decode payload e = Ret (exec_reads JavaJDKExecPeEvent_reads payload e)"

definition JavaJDKExecPeEvent_mode :: "u64 \<Rightarrow> string" where
  "JavaJDKExecPeEvent_mode mode =
    (if mode = 1 then ''MODE_FORK''
     else if mode = 2 then ''MODE_POSIX_SPAWN''
     else if mode = 3 then ''MODE_VFORK''
     else if mode = 4 then ''MODE_CLONE''
     else ''UNKNOW'')"

definition JavaJDKExecPeEvent_text :: "JavaJDKExecPeEvent \<Rightarrow> string" where
  "JavaJDKExecPeEvent_text ei = Sprintf
    [Lit ''JAVA RASP exec and fork. PID:'', Dec (uint (java_Pid ei)), Lit '', command:'',
     Str (string_of_bytes (java_File ei)), Lit '', mode:'',
     Str (JavaJDKExecPeEvent_mode (java_Mode ei))]"

definition JavaJDKExecPeEvent_String :: "JavaJDKExecPeEvent \<Rightarrow> string" where
  "JavaJDKExecPeEvent_String ei = Sprintf0 (JavaJDKExecPeEvent_text ei)"

definition JavaJDKExecPeEvent_new :: JavaJDKExecPeEvent where
  "JavaJDKExecPeEvent_new = \<lparr>java_Pid = 0, java_Mode = 0, java_File = replicate 128 0\<rparr>"

definition JavaJDKExecPeEvent_Clone :: "JavaJDKExecPeEvent \<Rightarrow> JavaJDKExecPeEvent" where
  "JavaJDKExecPeEvent_Clone ei = JavaJDKExecPeEvent_new"

section \<open>Contract and wire format\<close>

lemma JavaJDKExecPeEvent_size: "stmts_size JavaJDKExecPeEvent_reads = 140"
  by (simp add: JavaJDKExecPeEvent_reads_def wire_simps)

lemma JavaJDKExecPeEvent_strict: "strict_stmts JavaJDKExecPeEvent_reads"
  by (simp add: JavaJDKExecPeEvent_reads_def wire_simps)

interpretation java_event: strict_event_struct JavaJDKExecPeEvent_Decode JavaJDKExecPeEvent_Clone 140
  unfolding JavaJDKExecPeEvent_size [symmetric]
  by (rule exec_reads_strict_event_struct)
    (simp_all add: JavaJDKExecPeEvent_Decode_def JavaJDKExecPeEvent_Clone_def JavaJDKExecPeEvent_strict)

definition JavaJDKExecPeEvent_of :: "jdk_execvpe \<Rightarrow> JavaJDKExecPeEvent" where
  "JavaJDKExecPeEvent_of c = \<lparr>java_Pid = jx_pid c, java_Mode = jx_mode c, java_File = jx_file c\<rparr>"

lemma JavaJDKExecPeEvent_Decode_jdk_execvpe:
  assumes "jdk_execvpe_wf c"
  shows "JavaJDKExecPeEvent_Decode (jdk_execvpe_bytes c @ pad) e = Ret (None, JavaJDKExecPeEvent_of c)"
  using assms
  by (simp add: JavaJDKExecPeEvent_Decode_def JavaJDKExecPeEvent_reads_def jdk_execvpe_bytes_def
      jdk_execvpe_wf_def wire_simps JavaJDKExecPeEvent_of_def del: exec_reads.simps(2))

text \<open>The error of a short payload names the field it stopped in.\<close>

lemma JavaJDKExecPeEvent_Decode_short:
  "length p < 4 \<Longrightarrow> JavaJDKExecPeEvent_Decode p e
     = Ret (Some (Errorw ''read e.Pid:'' (if p = [] then EOF else ErrUnexpectedEOF) ''''), e)"
  "4 \<le> length p \<Longrightarrow> length p < 12 \<Longrightarrow> JavaJDKExecPeEvent_Decode p e
     = Ret (Some (Errorw ''read e.Mode:'' (if length p = 4 then EOF else ErrUnexpectedEOF) ''''),
            e\<lparr>java_Pid := le_word (take 4 p)\<rparr>)"
  "12 \<le> length p \<Longrightarrow> length p < 140 \<Longrightarrow> JavaJDKExecPeEvent_Decode p e
     = Ret (Some (if length p = 12 then EOF else ErrUnexpectedEOF),
            e\<lparr>java_Pid := le_word (take 4 p), java_Mode := le_word (take 8 (drop 4 p))\<rparr>)"
  by (auto simp: JavaJDKExecPeEvent_Decode_def JavaJDKExecPeEvent_reads_def wire_simps ReadFull_def)

lemma JavaJDKExecPeEvent_mode_no_percent [simp]: "CHR ''%'' \<notin> set (JavaJDKExecPeEvent_mode m)"
  by (simp add: JavaJDKExecPeEvent_mode_def)

section \<open>Properties\<close>

text \<open>A \<open>JDK_execvpe\<close> record of the kernel decodes, with any padding after it, to an event with
  exactly its fields. A payload decodes without error exactly when it has the 140 bytes of the
  struct; a shorter one gives an error that names the pid or the mode when it ends in that field,
  and the plain read error when it ends in the file name.\<close>

theorem java_decode_kernel_record:
  "(jdk_execvpe_wf c \<longrightarrow>
      JavaJDKExecPeEvent_Decode (jdk_execvpe_bytes c @ pad) e = Ret (None, JavaJDKExecPeEvent_of c))
   \<and> ((\<exists>e'. JavaJDKExecPeEvent_Decode p e = Ret (None, e')) \<longleftrightarrow> 140 \<le> length p)
   \<and> (length p < 140 \<longrightarrow> (\<exists>e'. JavaJDKExecPeEvent_Decode p e = Ret (Some
        (let err = (if length p \<in> {0, 4, 12} then EOF else ErrUnexpectedEOF)
         in if length p < 4 then Errorw ''read e.Pid:'' err ''''
            else if length p < 12 then Errorw ''read e.Mode:'' err ''''
            else err), e')))"
proof -
  have "\<exists>e'. JavaJDKExecPeEvent_Decode p e = Ret (Some
        (let err = (if length p \<in> {0, 4, 12} then EOF else ErrUnexpectedEOF)
         in if length p < 4 then Errorw ''read e.Pid:'' err ''''
            else if length p < 12 then Errorw ''read e.Mode:'' err ''''
            else err), e')" if "length p < 140"
  proof -
    consider "length p < 4" | "4 \<le> length p" "length p < 12" | "12 \<le> length p" by linarith
    then show ?thesis
      by cases (use that JavaJDKExecPeEvent_Decode_short [of p e] in \<open>auto simp: Let_def\<close>)
  qed
  then show ?thesis using JavaJDKExecPeEvent_Decode_jdk_execvpe java_event.decode_ok_iff by blast
qed

theorem java_decode_kernel_record_witness:
  "JavaJDKExecPeEvent_Decode (jdk_execvpe_bytes \<lparr>jx_pid = 7, jx_mode = 3, jx_file = replicate 128 98\<rparr> @ [1])
      JavaJDKExecPeEvent_new
    = Ret (None, \<lparr>java_Pid = 7, java_Mode = 3, java_File = replicate 128 98\<rparr>)
   \<and> (\<exists>e'. JavaJDKExecPeEvent_Decode [1, 2, 3, 4, 5] JavaJDKExecPeEvent_new
        = Ret (Some (Errorw ''read e.Mode:'' ErrUnexpectedEOF ''''), e'))"
  using java_decode_kernel_record [of "\<lparr>jx_pid = 7, jx_mode = 3, jx_file = replicate 128 98\<rparr>" "[1]"
      JavaJDKExecPeEvent_new "[1, 2, 3, 4, 5]"]
  by (simp add: jdk_execvpe_wf_def JavaJDKExecPeEvent_of_def)

lemma Sprintf0_percent_s: "Sprintf0 (CHR ''%'' # CHR ''s'' # rest) = ''%!s(MISSING)'' @ Sprintf0 rest"
proof -
  have "directive (CHR ''s'' # rest) = (''%!s(MISSING)'', rest)"
    by (simp add: directive_def argNumber_def width_part_def skipnum_def prec_part_def
      index_part_def verb_part_def verb_rune_def rune_len_def in_range_def is_digit_def digit_val_def)
  then show ?thesis by simp
qed

lemma JavaJDKExecPeEvent_mode_names:
  "JavaJDKExecPeEvent_mode m =
    (case map_of [(MODE_FORK, ''MODE_FORK''), (MODE_POSIX_SPAWN, ''MODE_POSIX_SPAWN''),
       (MODE_VFORK, ''MODE_VFORK''), (MODE_CLONE, ''MODE_CLONE'')] m of
       Some name \<Rightarrow> name | None \<Rightarrow> ''UNKNOW'')"
  by (simp add: JavaJDKExecPeEvent_mode_def MODE_FORK_def MODE_POSIX_SPAWN_def MODE_VFORK_def MODE_CLONE_def)

lemma JavaJDKExecPeEvent_String_eq:
  "JavaJDKExecPeEvent_String ei =
     ''JAVA RASP exec and fork. PID:'' @ itoa (uint (java_Pid ei)) @ '', command:''
     @ Sprintf0 (string_of_bytes (java_File ei) @ '', mode:'' @ JavaJDKExecPeEvent_mode (java_Mode ei))"
  unfolding JavaJDKExecPeEvent_String_def JavaJDKExecPeEvent_text_def
  by (simp add: Sprintf0_append_no_percent)

text \<open>C35. The Java report names the process, the file as all its 128 bytes and the launch mode by the name of the
  constant that has its value, \<open>UNKNOW\<close> when there is none; all as they are when the file name has no percent
  sign. With one, the file and the mode are what \<open>fmt.Sprintf\<close> makes of them as a format: a name with one
  \<open>%s\<close> is reported with a missing-operand mark in its place.\<close>

theorem java_report:
  fixes ei
  defines "head \<equiv> ''JAVA RASP exec and fork. PID:'' @ itoa (uint (java_Pid ei)) @ '', command:''"
    and "file \<equiv> string_of_bytes (java_File ei)"
    and "tail \<equiv> '', mode:'' @ (case map_of [(1, ''MODE_FORK''), (2, ''MODE_POSIX_SPAWN''),
       (3, ''MODE_VFORK''), (4, ''MODE_CLONE'')] (java_Mode ei) of Some name \<Rightarrow> name | None \<Rightarrow> ''UNKNOW'')"
  shows "(CHR ''%'' \<notin> set file \<longrightarrow> JavaJDKExecPeEvent_String ei = head @ file @ tail)
    \<and> JavaJDKExecPeEvent_String ei = head @ Sprintf0 (file @ tail)
    \<and> (\<forall>a b. file = a @ ''%s'' @ b \<and> CHR ''%'' \<notin> set (a @ b) \<longrightarrow>
          JavaJDKExecPeEvent_String ei = head @ a @ ''%!s(MISSING)'' @ b @ tail)"
proof -
  have tail: "'', mode:'' @ JavaJDKExecPeEvent_mode (java_Mode ei) = tail" and pc: "CHR ''%'' \<notin> set tail"
    by (simp_all add: tail_def JavaJDKExecPeEvent_mode_def)
  have str: "JavaJDKExecPeEvent_String ei = head @ Sprintf0 (file @ tail)"
    by (simp only: JavaJDKExecPeEvent_String_eq tail file_def head_def append_assoc)
  moreover have "Sprintf0 (file @ tail) = file @ tail" if "CHR ''%'' \<notin> set file"
    using that pc by (simp add: Sprintf0_no_percent)
  moreover have "Sprintf0 (file @ tail) = a @ ''%!s(MISSING)'' @ b @ tail"
    if "file = a @ ''%s'' @ b" "CHR ''%'' \<notin> set (a @ b)" for a b
    using that pc by (simp add: Sprintf0_append_no_percent Sprintf0_percent_s Sprintf0_no_percent del: Sprintf0.simps)
  ultimately show ?thesis by metis
qed

text \<open>A file \<open>/x%sy\<close> launched by \<open>vfork\<close>.\<close>

theorem java_report_witness:
  "JavaJDKExecPeEvent_String \<lparr>java_Pid = 7, java_Mode = 3, java_File = bytes_of_string ''/x%sy'' @ replicate 123 0\<rparr>
   = ''JAVA RASP exec and fork. PID:7, command:/x%!s(MISSING)y'' @ replicate 123 (CHR 0x00) @ '', mode:MODE_VFORK''"
proof -
  let ?e = "\<lparr>java_Pid = 7, java_Mode = 3, java_File = bytes_of_string ''/x%sy'' @ replicate 123 0\<rparr>"
  let ?b = "''y'' @ replicate 123 (CHR 0x00)"
  have zeros: "string_of_bytes (replicate 123 0) = replicate 123 (CHR 0x00)"
    by (simp add: string_of_bytes_def char_of_def)
  have path: "string_of_bytes (java_File ?e) = ''/x'' @ ''%s'' @ ?b"
    by (simp only: JavaJDKExecPeEvent.simps string_of_bytes_append string_of_bytes_of_string zeros) simp
  have pc: "CHR ''%'' \<notin> set (''/x'' @ ?b)" by simp
  have "itoa 7 = ''7''" by (simp add: itoa_def itoa_nat.simps digit_char_def char_of_def bit_iff_odd)
  with java_report [of ?e, THEN conjunct2, THEN conjunct2, rule_format, OF conjI [OF path pc]]
  show ?thesis by simp
qed

end
