(* ===== verification/Bpf_Cmd.thy ===== *)
theory Bpf_Cmd
  imports Go_Binary
begin

text \<open>
  \<open>user/bpf_cmd.go\<close>: the command numbers of the \<open>bpf(2)\<close> system call and their names, in the
  form the \<open>stringer\<close> tool generates: one string with all names and the table of their start
  offsets. \<open>BPFCmd_String\<close> slices the string; the theorem is that for every command number it
  returns exactly the name of the constant, and a numbered placeholder otherwise.
\<close>

text \<open>The constant block: \<open>iota\<close> numbers the names from 0.\<close>

definition BPFCmd_names :: "string list" where
  "BPFCmd_names =
    [
     ''BPF_MAP_CREATE'', ''BPF_MAP_LOOKUP_ELEM'', ''BPF_MAP_UPDATE_ELEM'',
     ''BPF_MAP_DELETE_ELEM'', ''BPF_MAP_GET_NEXT_KEY'', ''BPF_PROG_LOAD'', ''BPF_OBJ_PIN'',
     ''BPF_OBJ_GET'', ''BPF_PROG_ATTACH'', ''BPF_PROG_DETACH'', ''BPF_PROG_TEST_RUN'',
     ''BPF_PROG_GET_NEXT_ID'', ''BPF_MAP_GET_NEXT_ID'', ''BPF_PROG_GET_FD_BY_ID'',
     ''BPF_MAP_GET_FD_BY_ID'', ''BPF_OBJ_GET_INFO_BY_FD'', ''BPF_PROG_QUERY'',
     ''BPF_RAW_TRACEPOINT_OPEN'', ''BPF_BTF_LOAD'', ''BPF_BTF_GET_FD_BY_ID'',
     ''BPF_TASK_FD_QUERY'', ''BPF_MAP_LOOKUP_AND_DELETE_ELEM'', ''BPF_MAP_FREEZE'',
     ''BPF_BTF_GET_NEXT_ID'', ''BPF_MAP_LOOKUP_BATCH'', ''BPF_MAP_LOOKUP_AND_DELETE_BATCH'',
     ''BPF_MAP_UPDATE_BATCH'', ''BPF_MAP_DELETE_BATCH'', ''BPF_LINK_CREATE'',
     ''BPF_LINK_UPDATE'', ''BPF_LINK_GET_FD_BY_ID'', ''BPF_LINK_GET_NEXT_ID'',
     ''BPF_ENABLE_STATS'', ''BPF_ITER_CREATE''
    ]"

definition BPFCmd_consts :: "(string \<times> int) list" where
  "BPFCmd_consts = zip BPFCmd_names (map int [0..<length BPFCmd_names])"

text \<open>The compile-time check of the generated file: each index \<open>c - k\<close> is 0.\<close>

definition BPFCmd_check_pairs :: "(string \<times> int) list" where
  "BPFCmd_check_pairs =
    [
     (''BPF_MAP_CREATE'', 0), (''BPF_MAP_LOOKUP_ELEM'', 1), (''BPF_MAP_UPDATE_ELEM'', 2),
     (''BPF_MAP_DELETE_ELEM'', 3), (''BPF_MAP_GET_NEXT_KEY'', 4), (''BPF_PROG_LOAD'', 5),
     (''BPF_OBJ_PIN'', 6), (''BPF_OBJ_GET'', 7), (''BPF_PROG_ATTACH'', 8),
     (''BPF_PROG_DETACH'', 9), (''BPF_PROG_TEST_RUN'', 10), (''BPF_PROG_GET_NEXT_ID'', 11),
     (''BPF_MAP_GET_NEXT_ID'', 12), (''BPF_PROG_GET_FD_BY_ID'', 13),
     (''BPF_MAP_GET_FD_BY_ID'', 14), (''BPF_OBJ_GET_INFO_BY_FD'', 15),
     (''BPF_PROG_QUERY'', 16), (''BPF_RAW_TRACEPOINT_OPEN'', 17), (''BPF_BTF_LOAD'', 18),
     (''BPF_BTF_GET_FD_BY_ID'', 19), (''BPF_TASK_FD_QUERY'', 20),
     (''BPF_MAP_LOOKUP_AND_DELETE_ELEM'', 21), (''BPF_MAP_FREEZE'', 22),
     (''BPF_BTF_GET_NEXT_ID'', 23), (''BPF_MAP_LOOKUP_BATCH'', 24),
     (''BPF_MAP_LOOKUP_AND_DELETE_BATCH'', 25), (''BPF_MAP_UPDATE_BATCH'', 26),
     (''BPF_MAP_DELETE_BATCH'', 27), (''BPF_LINK_CREATE'', 28), (''BPF_LINK_UPDATE'', 29),
     (''BPF_LINK_GET_FD_BY_ID'', 30), (''BPF_LINK_GET_NEXT_ID'', 31),
     (''BPF_ENABLE_STATS'', 32), (''BPF_ITER_CREATE'', 33)
    ]"

definition BPFCmd_check :: bool where
  "BPFCmd_check \<longleftrightarrow>
     list_all (\<lambda>(n, k). case map_of BPFCmd_consts n of None \<Rightarrow> False | Some c \<Rightarrow> c - k = 0)
       BPFCmd_check_pairs"

definition BPFCmd_name :: string where
  "BPFCmd_name =
     ''BPF_MAP_CREATEBPF_MAP_LOOKUP_ELEMBPF_MAP_UPDATE_ELEMBPF_MAP_DELETE_ELEMBPF_MAP_G'' @
     ''ET_NEXT_KEYBPF_PROG_LOADBPF_OBJ_PINBPF_OBJ_GETBPF_PROG_ATTACHBPF_PROG_DETACHBPF_'' @
     ''PROG_TEST_RUNBPF_PROG_GET_NEXT_IDBPF_MAP_GET_NEXT_IDBPF_PROG_GET_FD_BY_IDBPF_MAP'' @
     ''_GET_FD_BY_IDBPF_OBJ_GET_INFO_BY_FDBPF_PROG_QUERYBPF_RAW_TRACEPOINT_OPENBPF_BTF_'' @
     ''LOADBPF_BTF_GET_FD_BY_IDBPF_TASK_FD_QUERYBPF_MAP_LOOKUP_AND_DELETE_ELEMBPF_MAP_F'' @
     ''REEZEBPF_BTF_GET_NEXT_IDBPF_MAP_LOOKUP_BATCHBPF_MAP_LOOKUP_AND_DELETE_BATCHBPF_M'' @
     ''AP_UPDATE_BATCHBPF_MAP_DELETE_BATCHBPF_LINK_CREATEBPF_LINK_UPDATEBPF_LINK_GET_FD'' @
     ''_BY_IDBPF_LINK_GET_NEXT_IDBPF_ENABLE_STATSBPF_ITER_CREATE''"

definition BPFCmd_index :: "nat list" where
  "BPFCmd_index =
    [
     0, 14, 33, 52, 71, 91, 104, 115, 126, 141, 156, 173, 193, 212, 233, 253, 275, 289, 312,
     324, 344, 361, 391, 405, 424, 444, 475, 495, 515, 530, 545, 566, 586, 602, 617
    ]"

definition BPFCmd_String :: "int \<Rightarrow> string go" where
  "BPFCmd_String i =
    (if i < 0 \<or> i \<ge> int (length BPFCmd_index) - 1 then Ret (''BPFCmd('' @ itoa i @ '')'')
     else go_slice BPFCmd_name (BPFCmd_index ! nat i) (BPFCmd_index ! (nat i + 1)))"

section \<open>The table is the concatenation of the names\<close>

text \<open>Offsets of the pieces of a concatenation.\<close>

fun offsets :: "nat \<Rightarrow> 'a list list \<Rightarrow> nat list" where
  "offsets k [] = [k]"
| "offsets k (x # xs) = k # offsets (k + length x) xs"

lemma length_offsets [simp]: "length (offsets k xs) = Suc (length xs)"
  by (induction xs arbitrary: k) auto

lemma offsets_nth: "i \<le> length xs \<Longrightarrow> offsets k xs ! i = k + length (concat (take i xs))"
  by (induction xs arbitrary: i k) (auto simp: nth_Cons' take_Cons' gr0_conv_Suc)

lemma go_slice_concat:
  assumes "i < length xs"
  shows "go_slice (concat xs) (offsets 0 xs ! i) (offsets 0 xs ! Suc i) = Ret (xs ! i)"
proof -
  let ?pre = "concat (take i xs)"
  have split: "concat xs = ?pre @ xs ! i @ concat (drop (Suc i) xs)"
    using assms by (metis append_take_drop_id concat.simps(2) concat_append id_take_nth_drop)
  have a: "offsets 0 xs ! i = length ?pre"
    using assms by (simp add: offsets_nth)
  have b: "offsets 0 xs ! Suc i = length ?pre + length (xs ! i)"
    using assms by (simp add: offsets_nth take_Suc_conv_app_nth)
  show ?thesis unfolding a b by (subst (1) split) (simp add: go_slice_def split)
qed

lemma BPFCmd_name_concat: "BPFCmd_name = concat BPFCmd_names"
  by (simp add: BPFCmd_name_def BPFCmd_names_def)

lemma BPFCmd_index_offsets: "BPFCmd_index = offsets 0 BPFCmd_names"
  by (simp add: BPFCmd_index_def BPFCmd_names_def)

lemma length_BPFCmd_names: "length BPFCmd_names = 34"
  by (simp add: BPFCmd_names_def)

lemma BPFCmd_String_in_range:
  "0 \<le> i \<Longrightarrow> i < 34 \<Longrightarrow> BPFCmd_String i = Ret (BPFCmd_names ! nat i)"
  using go_slice_concat [of "nat i" BPFCmd_names]
  by (simp add: BPFCmd_String_def BPFCmd_index_offsets BPFCmd_name_concat length_BPFCmd_names nat_less_iff)

lemma BPFCmd_String_out_of_range:
  "i < 0 \<or> 34 \<le> i \<Longrightarrow> BPFCmd_String i = Ret (''BPFCmd('' @ itoa i @ '')'')"
  by (auto simp: BPFCmd_String_def BPFCmd_index_offsets length_BPFCmd_names)

lemma BPFCmd_String_total: "\<exists>s. BPFCmd_String i = Ret s"
  using BPFCmd_String_in_range BPFCmd_String_out_of_range by (cases "0 \<le> i \<and> i < 34") auto

lemma BPFCmd_check_holds: "BPFCmd_check"
  by code_simp

section \<open>Properties\<close>

text \<open>C38. \<open>BPFCmd.String\<close> never panics: for the number of a declared command it returns exactly the
  constant's name, and for any other number the text \<open>BPFCmd(n)\<close>.\<close>

theorem BPFCmd_String_names:
  "BPFCmd_String i =
     Ret (if 0 \<le> i \<and> i < int (length BPFCmd_consts) then fst (BPFCmd_consts ! nat i)
          else ''BPFCmd('' @ itoa i @ '')'')"
  using BPFCmd_String_in_range [of i] BPFCmd_String_out_of_range [of i]
  by (auto simp: BPFCmd_consts_def length_BPFCmd_names nat_less_iff)

text \<open>The compile-time check of the generated table holds: every constant has the number the
  table was generated for, and the numbers are distinct and consecutive from 0.\<close>

theorem BPFCmd_check_passes:
  "BPFCmd_check \<and> distinct (map fst BPFCmd_consts) \<and> map snd BPFCmd_consts = map int [0..<34]"
proof -
  have "distinct BPFCmd_names" by (simp add: BPFCmd_names_def)
  then show ?thesis
    using BPFCmd_check_holds by (simp add: BPFCmd_consts_def length_BPFCmd_names)
qed

end
