(* ===== verification/Event_Bpf_Call.thy ===== *)
theory Event_Bpf_Call
  imports Bpf_Cmd Go_Fmt Kern_Structs
begin

text \<open>
  \<open>user/event_bpf_call.go\<close>: the event of the \<open>sys_enter_bpf\<close> tracepoint. The decoder takes slices
  at fixed offsets without looking at the length first, so a short record panics. Integers are
  read in the byte order of the host, found at start-up by \<open>GetEndian\<close>.
\<close>

datatype byte_order = BigEndian | LittleEndian

text \<open>The bytes of an \<open>int32\<close> variable in memory on a host, and the value of the first one.\<close>

definition mem_int32 :: "byte_order \<Rightarrow> u32 \<Rightarrow> bytes" where
  "mem_int32 host i = (case host of LittleEndian \<Rightarrow> le32 i | BigEndian \<Rightarrow> rev (le32 i))"

definition GetEndian :: "byte_order \<Rightarrow> byte_order" where
  "GetEndian host = (let v = mem_int32 host 0x1 in if v ! 0 = 0 then BigEndian else LittleEndian)"

definition bo_word :: "byte_order \<Rightarrow> bytes \<Rightarrow> 'a::len word" where
  "bo_word bo bs = (case bo of LittleEndian \<Rightarrow> le_word bs | BigEndian \<Rightarrow> le_word (rev bs))"

record ProcEvent =
  pe_Pid :: u32
  pe_Tgid :: u32
  pe_NsPid :: u32
  pe_NsTgid :: u32
  pe_PPid :: u32
  pe_PTgid :: u32
  pe_NsPPid :: u32
  pe_NsPTgid :: u32
  pe_PPPid :: u32
  pe_PPTgid :: u32
  pe_NsPPPid :: u32
  pe_NsPPTgid :: u32
  pe_Uid :: u32
  pe_Euid :: u32
  pe_Gid :: u32
  pe_Egid :: u32
  pe_UtsInum :: u32
  pe_Start_time :: u64
  pe_Comm :: string
  pe_Cmdline :: string
  pe_UtsName :: string

record BpfCallEvent = ProcEvent +
  be_Type :: string

text \<open>A statement \<open>this.F = f(data[i:j])\<close>.\<close>

type_synonym 'e slice_stmt = "nat \<times> nat \<times> (bytes \<Rightarrow> 'e \<Rightarrow> 'e go)"

fun exec_slices :: "'e slice_stmt list \<Rightarrow> bytes \<Rightarrow> 'e \<Rightarrow> 'e go" where
  "exec_slices [] data e = Ret e"
| "exec_slices ((i, j, st) # ss) data e =
     go_bind (go_slice data i j) (\<lambda>bs. go_bind (st bs e) (\<lambda>e'. exec_slices ss data e'))"

definition set_u32 :: "byte_order \<Rightarrow> ((u32 \<Rightarrow> u32) \<Rightarrow> 'e \<Rightarrow> 'e) \<Rightarrow> bytes \<Rightarrow> 'e \<Rightarrow> 'e go" where
  "set_u32 bo upd bs e = Ret (upd (\<lambda>_. bo_word bo bs) e)"

definition BpfCallEvent_slices :: "byte_order \<Rightarrow> BpfCallEvent slice_stmt list" where
  "BpfCallEvent_slices bo =
    [(0, 4, \<lambda>bs e. go_bind (BPFCmd_String (uint (bo_word bo bs :: u32))) (\<lambda>s. Ret (e\<lparr>be_Type := s\<rparr>))),
     (8, 12, set_u32 bo pe_Pid_update),
     (12, 16, set_u32 bo pe_Tgid_update),
     (16, 20, set_u32 bo pe_NsPid_update),
     (20, 24, set_u32 bo pe_NsTgid_update),
     (24, 28, set_u32 bo pe_PPid_update),
     (28, 32, set_u32 bo pe_PTgid_update),
     (32, 36, set_u32 bo pe_NsPPid_update),
     (36, 40, set_u32 bo pe_NsPTgid_update),
     (40, 44, set_u32 bo pe_PPPid_update),
     (44, 48, set_u32 bo pe_PPTgid_update),
     (48, 52, set_u32 bo pe_NsPPPid_update),
     (52, 56, set_u32 bo pe_NsPPTgid_update),
     (56, 60, set_u32 bo pe_Uid_update),
     (60, 64, set_u32 bo pe_Euid_update),
     (64, 68, set_u32 bo pe_Gid_update),
     (68, 72, set_u32 bo pe_Egid_update),
     (72, 76, set_u32 bo pe_UtsInum_update),
     (80, 88, \<lambda>bs e. Ret (e\<lparr>pe_Start_time := bo_word bo bs\<rparr>)),
     (88, 104, \<lambda>bs e. Ret (e\<lparr>pe_Comm := string_of_bytes (TrimRight0 bs)\<rparr>)),
     (104, 360, \<lambda>bs e. Ret (e\<lparr>pe_Cmdline := string_of_bytes (Replace0 (TrimRight0 bs))\<rparr>)),
     (360, 424, \<lambda>bs e. Ret (e\<lparr>pe_UtsName := string_of_bytes (TrimRight0 bs)\<rparr>))]"

definition BpfCallEvent_Decode ::
    "byte_order \<Rightarrow> bytes \<Rightarrow> BpfCallEvent \<Rightarrow> (goerr option \<times> BpfCallEvent) go" where
  "BpfCallEvent_Decode bo data this =
     go_bind (exec_slices (BpfCallEvent_slices bo) data this) (\<lambda>e. Ret (None, e))"

definition BpfCallEvent_String :: "BpfCallEvent \<Rightarrow> string" where
  "BpfCallEvent_String this = Sprintf
    [Lit ''Cmd:'', Str (be_Type this), Lit '', PID:'', Dec (uint (pe_Pid this)), Lit '', UID:'',
     Dec (uint (pe_Uid this)), Lit '', Comm:'', Str (pe_Comm this), Lit '', cmdline:'',
     Str (pe_Cmdline this), Lit '', utsName:'', Str (pe_UtsName this)]"

definition BpfCallEvent_new :: BpfCallEvent where
  "BpfCallEvent_new =
    \<lparr>pe_Pid = 0, pe_Tgid = 0, pe_NsPid = 0, pe_NsTgid = 0, pe_PPid = 0, pe_PTgid = 0,
     pe_NsPPid = 0, pe_NsPTgid = 0, pe_PPPid = 0, pe_PPTgid = 0, pe_NsPPPid = 0, pe_NsPPTgid = 0,
     pe_Uid = 0, pe_Euid = 0, pe_Gid = 0, pe_Egid = 0, pe_UtsInum = 0, pe_Start_time = 0,
     pe_Comm = '''', pe_Cmdline = '''', pe_UtsName = '''', be_Type = ''''\<rparr>"

definition BpfCallEvent_Clone :: "BpfCallEvent \<Rightarrow> BpfCallEvent" where
  "BpfCallEvent_Clone this = BpfCallEvent_new"

section \<open>Contract\<close>

lemma GetEndian_host: "GetEndian host = host"
  by (cases host) (simp_all add: GetEndian_def mem_int32_def le32_def Let_def)

lemma exec_slices_ok:
  assumes "\<forall>(i, j, st)\<in>set ss. i \<le> j \<and> j \<le> length data \<and> (\<forall>bs e. \<exists>e'. st bs e = Ret e')"
  shows "\<exists>e'. exec_slices ss data e = Ret e'"
  using assms
proof (induction ss arbitrary: e)
  case (Cons s ss)
  obtain i j st where s: "s = (i, j, st)" by (cases s)
  with Cons.prems obtain e' where "st (take (j - i) (drop i data)) e = Ret e'" by force
  with Cons s show ?case by (auto simp: go_slice_def)
qed simp

lemma exec_slices_padding:
  assumes "\<forall>(i, j, st)\<in>set ss. i \<le> j \<and> j \<le> length data"
  shows "exec_slices ss (data @ pad) e = exec_slices ss data e"
  using assms
proof (induction ss arbitrary: e)
  case (Cons s ss)
  obtain i j st where s: "s = (i, j, st)" by (cases s)
  with Cons.prems have "go_slice (data @ pad) i j = go_slice data i j" by (auto simp: go_slice_def)
  moreover have "exec_slices ss (data @ pad) = exec_slices ss data"
    using Cons by (intro ext) simp
  ultimately show ?case by (simp add: s)
qed simp

lemma exec_slices_short:
  assumes "(i, j, st) \<in> set ss" and "length data < j"
  shows "exec_slices ss data e \<noteq> Ret e'"
  using assms
proof (induction ss arbitrary: e)
  case (Cons s ss)
  obtain i' j' st' where s: "s = (i', j', st')" by (cases s)
  show ?case
  proof (cases "(i, j, st) = s")
    case True
    with Cons.prems show ?thesis by (auto simp: go_slice_def)
  next
    case False
    with Cons have "exec_slices ss data e \<noteq> Ret e'" for e by simp
    then show ?thesis by (simp add: s go_simps)
  qed
qed simp

lemma BpfCallEvent_slices_ok:
  "424 \<le> length data \<Longrightarrow>
     \<forall>(i, j, st)\<in>set (BpfCallEvent_slices bo). i \<le> j \<and> j \<le> length data \<and> (\<forall>bs e. \<exists>e'. st bs e = Ret e')"
  using BPFCmd_String_total by (auto simp: BpfCallEvent_slices_def set_u32_def go_simps)

lemma BpfCallEvent_Decode_short:
  assumes "length data < 424"
  shows "\<exists>m. BpfCallEvent_Decode bo data e = Panic m"
proof -
  have "\<exists>st. (360, 424, st) \<in> set (BpfCallEvent_slices bo)"
    by (simp add: BpfCallEvent_slices_def)
  then obtain st where "(360, 424, st) \<in> set (BpfCallEvent_slices bo)" by blast
  then have "exec_slices (BpfCallEvent_slices bo) data e \<noteq> Ret e'" for e'
    using assms by (rule exec_slices_short)
  then show ?thesis
    by (cases "exec_slices (BpfCallEvent_slices bo) data e") (auto simp: BpfCallEvent_Decode_def)
qed

interpretation bpf_event: strict_event_struct "BpfCallEvent_Decode bo" BpfCallEvent_Clone 424
proof unfold_locales
  fix p q :: bytes and e e' e'' :: BpfCallEvent
  show "BpfCallEvent_Clone e = BpfCallEvent_Clone e'" by (simp add: BpfCallEvent_Clone_def)
  show "\<exists>e'. BpfCallEvent_Decode bo p e = Ret (None, e')" if "424 \<le> length p"
    using exec_slices_ok [OF BpfCallEvent_slices_ok [OF that, of bo], of e]
    by (auto simp: BpfCallEvent_Decode_def)
  show "BpfCallEvent_Decode bo (p @ q) e = BpfCallEvent_Decode bo p e" if "424 \<le> length p"
  proof -
    have "\<forall>(i, j, st)\<in>set (BpfCallEvent_slices bo). i \<le> j \<and> j \<le> length p"
      using BpfCallEvent_slices_ok [OF that, of bo] by blast
    then show ?thesis by (simp add: BpfCallEvent_Decode_def exec_slices_padding)
  qed
  show "BpfCallEvent_Decode bo p e \<noteq> Ret (None, e')" if "length p < 424"
    using BpfCallEvent_Decode_short [OF that, of bo e] by auto
qed

section \<open>Wire format\<close>

definition BpfCallEvent_of :: "bpf_context_t \<Rightarrow> string \<Rightarrow> BpfCallEvent" where
  "BpfCallEvent_of c ty = (let p = bc_procinfo c in
    \<lparr>pe_Pid = pc_pid p, pe_Tgid = pc_tgid p, pe_NsPid = pc_nspid p, pe_NsTgid = pc_nstgid p,
     pe_PPid = pc_ppid p, pe_PTgid = pc_ptgid p, pe_NsPPid = pc_nsppid p, pe_NsPTgid = pc_nsptgid p,
     pe_PPPid = pc_pppid p, pe_PPTgid = pc_pptgid p, pe_NsPPPid = pc_nspppid p,
     pe_NsPPTgid = pc_nspptgid p, pe_Uid = pc_uid p, pe_Euid = pc_euid p, pe_Gid = pc_gid p,
     pe_Egid = pc_egid p, pe_UtsInum = pc_uts_inum p, pe_Start_time = pc_start_time p,
     pe_Comm = string_of_bytes (TrimRight0 (pc_comm p)),
     pe_Cmdline = string_of_bytes (Replace0 (TrimRight0 (pc_cmdline p))),
     pe_UtsName = string_of_bytes (TrimRight0 (pc_uts_name p)), be_Type = ty\<rparr>)"

lemma BpfCallEvent_Decode_bpf_context_t:
  assumes "proc_common_wf (bc_procinfo c)" and "BPFCmd_String (uint (bc_cmd c)) = Ret ty"
  shows "BpfCallEvent_Decode LittleEndian (bpf_context_t_bytes c) e = Ret (None, BpfCallEvent_of c ty)"
  using assms
  by (simp add: BpfCallEvent_Decode_def BpfCallEvent_slices_def bpf_context_t_bytes_def
      proc_common_bytes_def proc_common_wf_def go_slice_def set_u32_def bo_word_def
      BpfCallEvent_of_def Let_def)

lemma BpfCallEvent_Decode_padded:
  assumes "proc_common_wf (bc_procinfo c)"
  shows "\<exists>ty. BPFCmd_String (uint (bc_cmd c)) = Ret ty
    \<and> BpfCallEvent_Decode LittleEndian (bpf_context_t_bytes c @ pad) e = Ret (None, BpfCallEvent_of c ty)"
proof -
  obtain ty where ty: "BPFCmd_String (uint (bc_cmd c)) = Ret ty" using BPFCmd_String_total by blast
  have "length (bpf_context_t_bytes c) = 424"
    using struct_sizes(8) [OF assms] by (simp add: bpf_context_t_bytes_def)
  then have "BpfCallEvent_Decode LittleEndian (bpf_context_t_bytes c @ pad) e
      = BpfCallEvent_Decode LittleEndian (bpf_context_t_bytes c) e"
    by (intro bpf_event.decode_padding) simp
  then show ?thesis using ty BpfCallEvent_Decode_bpf_context_t [OF assms ty] by simp
qed

section \<open>Properties\<close>

text \<open>A \<open>bpf(2)\<close> record of the kernel decodes on a little-endian host, with any bytes after it,
  to an event with the record's numbers, the command's name, the three texts without their trailing
  zero bytes, and the zero bytes inside the command line replaced by blanks.\<close>

theorem bpf_decode_kernel_record:
  assumes "proc_common_wf (bc_procinfo c)"
  shows "\<exists>ty. BPFCmd_String (uint (bc_cmd c)) = Ret ty
    \<and> BpfCallEvent_Decode LittleEndian (bpf_context_t_bytes c @ pad) e = Ret (None, BpfCallEvent_of c ty)
    \<and> CHR 0x00 \<notin> set (pe_Cmdline (BpfCallEvent_of c ty))"
proof -
  have "CHR 0x00 \<notin> set (string_of_bytes (Replace0 bs))" for bs
  proof
    assume "CHR 0x00 \<in> set (string_of_bytes (Replace0 bs))"
    then obtain b where "b \<in> set (Replace0 bs)" "char_of (unat b) = CHR 0x00"
      by (auto simp: string_of_bytes_def)
    then have "(of_char (char_of (unat b)) :: nat) = of_char (CHR 0x00)" by simp
    then have "unat b mod 256 = 0" by simp
    then have "b = 0" using unat_byte_less [of b] by (simp add: unat_eq_zero)
    with \<open>b \<in> set (Replace0 bs)\<close> show False by simp
  qed
  then show ?thesis
    using BpfCallEvent_Decode_padded [OF assms, of pad e]
    by (auto simp: BpfCallEvent_of_def Let_def)
qed

definition sample_bpf_context_t :: bpf_context_t where
  "sample_bpf_context_t = \<lparr>bc_cmd = 5, bc_pending = 0, bc_procinfo =
    \<lparr>pc_pid = 1, pc_tgid = 2, pc_nspid = 3, pc_nstgid = 4, pc_ppid = 5, pc_ptgid = 6, pc_nsppid = 7,
     pc_nsptgid = 8, pc_pppid = 9, pc_pptgid = 10, pc_nspppid = 11, pc_nspptgid = 12, pc_uid = 13,
     pc_euid = 14, pc_gid = 15, pc_egid = 16, pc_uts_inum = 17, pc_pending = 18, pc_start_time = 19,
     pc_comm = [98] @ replicate 15 0, pc_cmdline = [98, 0, 99] @ replicate 253 0,
     pc_uts_name = [104] @ replicate 63 0\<rparr>\<rparr>"

theorem bpf_decode_kernel_record_witness:
  "\<exists>ev. BpfCallEvent_Decode LittleEndian (bpf_context_t_bytes sample_bpf_context_t @ [1, 2]) BpfCallEvent_new
      = Ret (None, ev) \<and> be_Type ev = ''BPF_PROG_LOAD'' \<and> pe_Egid ev = 16 \<and> pe_Start_time ev = 19"
proof -
  have wf: "proc_common_wf (bc_procinfo sample_bpf_context_t)"
    by (simp add: proc_common_wf_def sample_bpf_context_t_def)
  have "BPFCmd_String (uint (bc_cmd sample_bpf_context_t)) = Ret ''BPF_PROG_LOAD''"
    by (simp add: sample_bpf_context_t_def BPFCmd_String_in_range BPFCmd_names_def)
  then show ?thesis
    using bpf_decode_kernel_record [OF wf, of "[1, 2]" BpfCallEvent_new]
    by (auto simp: BpfCallEvent_of_def Let_def sample_bpf_context_t_def)
qed

text \<open>\<open>BpfCallEvent.Decode\<close> never returns an error: it returns an event for payloads of at least
  424 bytes and panics on every shorter one.\<close>

theorem bpf_decode_panics:
  "(424 \<le> length data \<longrightarrow> (\<exists>ev. BpfCallEvent_Decode bo data e = Ret (None, ev)))
   \<and> (length data < 424 \<longrightarrow> (\<exists>m. BpfCallEvent_Decode bo data e = Panic m))"
  using bpf_event.decode_ok BpfCallEvent_Decode_short by blast

theorem bpf_decode_panics_witness:
  "\<exists>m. BpfCallEvent_Decode LittleEndian (replicate 423 0) BpfCallEvent_new = Panic m"
  using bpf_decode_panics [of "replicate 423 0" LittleEndian BpfCallEvent_new] by simp

text \<open>The endianness probe finds the byte order of the host.\<close>

theorem GetEndian_correct: "GetEndian host = host"
  by (rule GetEndian_host)

end
