(* ===== verification/Event_Kudp.thy ===== *)
theory Event_Kudp
  imports Go_Fmt Kern_Structs
begin

text \<open>
  \<open>user/event_kudp.go\<close>: the DNS answers seen by the \<open>udp_recvmsg\<close> probe. The DNS parser is the
  package \<open>github.com/cirocosta/rawdns/lib\<close>: its \<open>UnmarshalMessage\<close> and the two record-type
  constants the decoder compares with are the fields of \<open>dns_lib\<close>, a parameter of the decoder. Of a
  message only what the decoder reads is kept. The message printed to the standard output when
  the payload has no pid is not modelled.
\<close>

record dns_question =
  q_QNAME :: string
  q_QTYPE :: u16
  q_QCLASS :: u16

record dns_rr =
  r_NAME :: string
  r_TYPE :: u16
  r_CLASS :: u16
  r_RDATA :: bytes

record dns_message =
  m_Questions :: "dns_question list"
  m_Answers :: "dns_rr list"

record dns_lib =
  lib_UnmarshalMessage :: "bytes \<Rightarrow> goerr + dns_message"
  lib_QTypeA :: u16
  lib_QTypeCNAME :: u16

record question =
  ask_qname :: string
  ask_qclass :: string
  ask_qtype :: string

record answers =
  ans_qtype :: string
  ans_qinfo :: string

record UDPEvent =
  udp_pid :: u32
  udp_comm :: string
  udp_packet :: bytes
  udp_ask :: "question list"
  udp_ans :: "answers list"

definition UDPEvent_question :: "dns_question \<Rightarrow> question" where
  "UDPEvent_question q =
    \<lparr>ask_qname = q_QNAME q, ask_qclass = Sprintf [Dec (uint (q_QCLASS q))],
     ask_qtype = Sprintf [Dec (uint (q_QTYPE q))]\<rparr>"

definition UDPEvent_answer :: "dns_lib \<Rightarrow> dns_rr \<Rightarrow> answers" where
  "UDPEvent_answer lib r =
    (if r_TYPE r = lib_QTypeA lib then
       \<lparr>ans_qtype = ''QTypeA'', ans_qinfo = Sprintf [Lit ''[A] :'', Str (IP_String (r_RDATA r))]\<rparr>
     else if r_TYPE r = lib_QTypeCNAME lib then
       \<lparr>ans_qtype = ''QTypeCNAME'',
        ans_qinfo = Sprintf [Lit ''[CNAME] :'', Str (string_of_bytes (r_RDATA r))]\<rparr>
     else
       \<lparr>ans_qtype = ''ANS'',
        ans_qinfo = Sprintf [Lit ''===ANS=== '', Dec (uint (r_CLASS r)), Lit '', '', Str (r_NAME r),
          Lit '', '', Dec (uint (r_TYPE r)), Lit '', '', Str (string_of_bytes (r_RDATA r))]\<rparr>)"

text \<open>The pid is read into a local variable and not stored.\<close>

definition UDPEvent_Decode :: "dns_lib \<Rightarrow> bytes \<Rightarrow> UDPEvent \<Rightarrow> (goerr option \<times> UDPEvent) go" where
  "UDPEvent_Decode lib payload e =
    (case ReadFull 4 payload of
       Inl err \<Rightarrow> Ret (Some err, e)
     | Inr _ \<Rightarrow>
        go_bind (go_slice payload 4 20) (\<lambda>comm.
        go_bind (go_slice payload 20 (length payload)) (\<lambda>packet.
          let e1 = e\<lparr>udp_comm := string_of_bytes comm, udp_packet := packet\<rparr>
          in case lib_UnmarshalMessage lib packet of
               Inl err \<Rightarrow> Ret (Some (Errorw ''failed to decode packet: '' err [CHR 0x0A]), e1)
             | Inr m \<Rightarrow>
                Ret (None, e1\<lparr>udp_ask := map UDPEvent_question (m_Questions m),
                              udp_ans := map (UDPEvent_answer lib) (m_Answers m)\<rparr>))))"

definition UDPEvent_String :: "UDPEvent \<Rightarrow> string" where
  "UDPEvent_String te =
     Sprintf [Lit ''PID:'', Dec (uint (udp_pid te)), Lit '', comm:'', Str (udp_comm te), Lit '', '']
     @ concat (map (\<lambda>ask. Sprintf [Lit ''qname:'', Str (ask_qname ask), Lit '', qclass:'',
         Str (ask_qclass ask), Lit '', qtype:'', Str (ask_qtype ask), Lit [CHR ''.'', CHR 0x09]])
         (udp_ask te))
     @ concat (map (\<lambda>ans. Sprintf [Lit ''qtype:'', Str (ans_qtype ans), Lit '', qinfo:'',
         Str (ans_qinfo ans), Lit [CHR ''.'', CHR 0x09]]) (udp_ans te))"

definition UDPEvent_new :: UDPEvent where
  "UDPEvent_new = \<lparr>udp_pid = 0, udp_comm = '''', udp_packet = [], udp_ask = [], udp_ans = []\<rparr>"

definition UDPEvent_Clone :: "UDPEvent \<Rightarrow> UDPEvent" where
  "UDPEvent_Clone e = UDPEvent_new"

section \<open>Behaviour of the decoder\<close>

lemma UDPEvent_Decode_short:
  "length p < 4 \<Longrightarrow> UDPEvent_Decode lib p e = Ret (Some (if p = [] then EOF else ErrUnexpectedEOF), e)"
  "4 \<le> length p \<Longrightarrow> length p < 20 \<Longrightarrow> UDPEvent_Decode lib p e = Panic ''slice bounds out of range''"
  by (simp_all add: UDPEvent_Decode_def ReadFull_def go_slice_def)

lemma UDPEvent_Decode_long:
  "20 \<le> length p \<Longrightarrow> UDPEvent_Decode lib p e =
     (let e1 = e\<lparr>udp_comm := string_of_bytes (take 16 (drop 4 p)), udp_packet := drop 20 p\<rparr>
      in case lib_UnmarshalMessage lib (drop 20 p) of
           Inl err \<Rightarrow> Ret (Some (Errorw ''failed to decode packet: '' err [CHR 0x0A]), e1)
         | Inr m \<Rightarrow> Ret (None, e1\<lparr>udp_ask := map UDPEvent_question (m_Questions m),
                                  udp_ans := map (UDPEvent_answer lib) (m_Answers m)\<rparr>))"
  by (simp add: UDPEvent_Decode_def ReadFull_def go_slice_def)

lemma UDPEvent_Decode_dns_data_t:
  assumes "dns_data_t_wf c"
  shows "UDPEvent_Decode lib (dns_data_t_bytes c @ pad) e =
     (let e1 = e\<lparr>udp_comm := string_of_bytes (dd_comm c), udp_packet := dd_pkt c @ pad\<rparr>
      in case lib_UnmarshalMessage lib (dd_pkt c @ pad) of
           Inl err \<Rightarrow> Ret (Some (Errorw ''failed to decode packet: '' err [CHR 0x0A]), e1)
         | Inr m \<Rightarrow> Ret (None, e1\<lparr>udp_ask := map UDPEvent_question (m_Questions m),
                                  udp_ans := map (UDPEvent_answer lib) (m_Answers m)\<rparr>))"
  using assms by (simp add: UDPEvent_Decode_long dns_data_t_bytes_def dns_data_t_wf_def)

lemma UDPEvent_Decode_pid:
  assumes "UDPEvent_Decode lib p e = Ret (err, e')"
  shows "udp_pid e' = udp_pid e"
proof -
  consider "length p < 4" | "4 \<le> length p" "length p < 20" | "20 \<le> length p" by linarith
  then show ?thesis
  proof cases
    case 3
    with assms show ?thesis
      by (auto simp: UDPEvent_Decode_long Let_def split: sum.splits)
  qed (use assms UDPEvent_Decode_short in auto)
qed

section \<open>Properties\<close>

text \<open>C23. The UDP decoder on every payload length: below 4 bytes it returns the read error, from 4 to
  19 it panics, and from 20 on it returns, with the error of the DNS parser wrapped, or an event
  with one entry per question and per answer. In no case does it store the pid: a freshly cloned
  event reports pid 0.\<close>

theorem udp_decode_cases:
  "(length p < 4 \<longrightarrow> UDPEvent_Decode lib p e = Ret (Some (if p = [] then EOF else ErrUnexpectedEOF), e))
   \<and> (4 \<le> length p \<and> length p < 20 \<longrightarrow> UDPEvent_Decode lib p e = Panic ''slice bounds out of range'')
   \<and> (20 \<le> length p \<longrightarrow> (\<exists>err ev. UDPEvent_Decode lib p e = Ret (err, ev)
        \<and> udp_comm ev = string_of_bytes (take 16 (drop 4 p)) \<and> udp_packet ev = drop 20 p
        \<and> (case lib_UnmarshalMessage lib (drop 20 p) of
             Inl er \<Rightarrow> err = Some (Errorw ''failed to decode packet: '' er [CHR 0x0A])
           | Inr m \<Rightarrow> err = None \<and> length (udp_ask ev) = length (m_Questions m)
                \<and> length (udp_ans ev) = length (m_Answers m))))
   \<and> (\<forall>err ev. UDPEvent_Decode lib p (UDPEvent_Clone e) = Ret (err, ev) \<longrightarrow> udp_pid ev = 0)"
proof -
  have "udp_pid ev = 0" if "UDPEvent_Decode lib p (UDPEvent_Clone e) = Ret (err, ev)" for err ev
    using UDPEvent_Decode_pid [OF that] by (simp add: UDPEvent_Clone_def UDPEvent_new_def)
  moreover have "\<exists>err ev. UDPEvent_Decode lib p e = Ret (err, ev)
        \<and> udp_comm ev = string_of_bytes (take 16 (drop 4 p)) \<and> udp_packet ev = drop 20 p
        \<and> (case lib_UnmarshalMessage lib (drop 20 p) of
             Inl er \<Rightarrow> err = Some (Errorw ''failed to decode packet: '' er [CHR 0x0A])
           | Inr m \<Rightarrow> err = None \<and> length (udp_ask ev) = length (m_Questions m)
                \<and> length (udp_ans ev) = length (m_Answers m))" if "20 \<le> length p"
    using UDPEvent_Decode_long [OF that, of lib e]
    by (cases "lib_UnmarshalMessage lib (drop 20 p)") (simp_all add: Let_def)
  ultimately show ?thesis using UDPEvent_Decode_short by blast
qed

definition sample_dns_lib :: dns_lib where
  "sample_dns_lib = \<lparr>lib_UnmarshalMessage = (\<lambda>b. Inr \<lparr>m_Questions = [], m_Answers = []\<rparr>),
     lib_QTypeA = 1, lib_QTypeCNAME = 5\<rparr>"

theorem udp_decode_cases_witness:
  "UDPEvent_Decode sample_dns_lib [1, 0, 0, 0, 65] UDPEvent_new = Panic ''slice bounds out of range''
   \<and> (\<exists>err ev. UDPEvent_Decode sample_dns_lib (replicate 20 7) UDPEvent_new = Ret (err, ev) \<and> err = None)"
  using udp_decode_cases [of "[1, 0, 0, 0, 65]" sample_dns_lib UDPEvent_new]
    udp_decode_cases [of "replicate 20 7" sample_dns_lib UDPEvent_new]
  by (auto simp: sample_dns_lib_def)

end
