(* ===== verification/Ievent.thy ===== *)
theory Ievent
  imports Event_Tcp Event_Ktcp_Sec Event_Proc Event_Udns Event_Java Event_Bpf_Call Event_Kudp
begin

text \<open>
  \<open>user/ievent.go\<close>: the interface \<open>IEventStruct\<close>. An interface value is one of the nine event
  structs behind a pointer; calling a method dispatches on it. \<open>runtime\<close> collects what the methods
  take from the outside: the local time zone, the byte order of the host and the DNS parser;
  \<open>time.Now()\<close> is an argument of \<open>String\<close>.
\<close>

record runtime =
  rt_zone :: "int \<Rightarrow> int"
  rt_host :: byte_order
  rt_dns :: dns_lib

datatype IEventStruct =
    EvTCP TCPEvent
  | EvIPV4 EventIPV4
  | EvIPV6 EventIPV6
  | EvOther EventOther
  | EvFork ForkProcEvent
  | EvDNS DNSEVENT
  | EvJava JavaJDKExecPeEvent
  | EvBpfCall BpfCallEvent
  | EvUDP UDPEvent

text \<open>The package variable \<open>ByteOrder\<close>.\<close>

definition ByteOrder :: "runtime \<Rightarrow> byte_order" where
  "ByteOrder rt = GetEndian (rt_host rt)"

definition lift_decode :: "('e \<Rightarrow> IEventStruct) \<Rightarrow> (goerr option \<times> 'e) go \<Rightarrow> (goerr option \<times> IEventStruct) go" where
  "lift_decode con r = go_bind r (\<lambda>(err, e). Ret (err, con e))"

fun IEvent_Decode :: "runtime \<Rightarrow> bytes \<Rightarrow> IEventStruct \<Rightarrow> (goerr option \<times> IEventStruct) go" where
  "IEvent_Decode rt p (EvTCP e) = lift_decode EvTCP (TCPEvent_Decode p e)"
| "IEvent_Decode rt p (EvIPV4 e) = lift_decode EvIPV4 (EventIPV4_Decode p e)"
| "IEvent_Decode rt p (EvIPV6 e) = lift_decode EvIPV6 (EventIPV6_Decode p e)"
| "IEvent_Decode rt p (EvOther e) = lift_decode EvOther (EventOther_Decode p e)"
| "IEvent_Decode rt p (EvFork e) = lift_decode EvFork (ForkProcEvent_Decode p e)"
| "IEvent_Decode rt p (EvDNS e) = lift_decode EvDNS (DNSEVENT_Decode p e)"
| "IEvent_Decode rt p (EvJava e) = lift_decode EvJava (JavaJDKExecPeEvent_Decode p e)"
| "IEvent_Decode rt p (EvBpfCall e) = lift_decode EvBpfCall (BpfCallEvent_Decode (ByteOrder rt) p e)"
| "IEvent_Decode rt p (EvUDP e) = lift_decode EvUDP (UDPEvent_Decode (rt_dns rt) p e)"

fun IEvent_String :: "runtime \<Rightarrow> int \<Rightarrow> IEventStruct \<Rightarrow> string" where
  "IEvent_String rt now (EvTCP e) = TCPEvent_String \<lparr>env_now = now, env_zone = rt_zone rt\<rparr> e"
| "IEvent_String rt now (EvIPV4 e) = EventIPV4_String \<lparr>env_now = now, env_zone = rt_zone rt\<rparr> e"
| "IEvent_String rt now (EvIPV6 e) = EventIPV6_String \<lparr>env_now = now, env_zone = rt_zone rt\<rparr> e"
| "IEvent_String rt now (EvOther e) = EventOther_String \<lparr>env_now = now, env_zone = rt_zone rt\<rparr> e"
| "IEvent_String rt now (EvFork e) = ForkProcEvent_String e"
| "IEvent_String rt now (EvDNS e) = DNSEVENT_String e"
| "IEvent_String rt now (EvJava e) = JavaJDKExecPeEvent_String e"
| "IEvent_String rt now (EvBpfCall e) = BpfCallEvent_String e"
| "IEvent_String rt now (EvUDP e) = UDPEvent_String e"

fun IEvent_Clone :: "IEventStruct \<Rightarrow> IEventStruct" where
  "IEvent_Clone (EvTCP e) = EvTCP (TCPEvent_Clone e)"
| "IEvent_Clone (EvIPV4 e) = EvIPV4 (EventIPV4_Clone e)"
| "IEvent_Clone (EvIPV6 e) = EvIPV6 (EventIPV6_Clone e)"
| "IEvent_Clone (EvOther e) = EvOther (EventOther_Clone e)"
| "IEvent_Clone (EvFork e) = EvFork (ForkProcEvent_Clone e)"
| "IEvent_Clone (EvDNS e) = EvDNS (DNSEVENT_Clone e)"
| "IEvent_Clone (EvJava e) = EvJava (JavaJDKExecPeEvent_Clone e)"
| "IEvent_Clone (EvBpfCall e) = EvBpfCall (BpfCallEvent_Clone e)"
| "IEvent_Clone (EvUDP e) = EvUDP (UDPEvent_Clone e)"

section \<open>The contract over all implementations\<close>

text \<open>The payload size from which a decoder does not depend on what follows.\<close>

fun IEvent_need :: "IEventStruct \<Rightarrow> nat" where
  "IEvent_need (EvTCP e) = 69"
| "IEvent_need (EvIPV4 e) = 48"
| "IEvent_need (EvIPV6 e) = 52"
| "IEvent_need (EvOther e) = 34"
| "IEvent_need (EvFork e) = 320"
| "IEvent_need (EvDNS e) = 112"
| "IEvent_need (EvJava e) = 140"
| "IEvent_need (EvBpfCall e) = 424"
| "IEvent_need (EvUDP e) = 20"

fun is_udp :: "IEventStruct \<Rightarrow> bool" where
  "is_udp (EvUDP e) = True"
| "is_udp _ = False"

lemma lift_decode_Ret: "lift_decode con (Ret (err, e)) = Ret (err, con e)"
  by (simp add: lift_decode_def)

lemmas event_decode_ok = tcp_event.decode_ok ipv4_event.decode_ok ipv6_event.decode_ok
  other_event.decode_ok fork_event.decode_ok dns_event.decode_ok java_event.decode_ok
  bpf_event.decode_ok

lemmas event_decode_padding = tcp_event.decode_padding ipv4_event.decode_padding
  ipv6_event.decode_padding other_event.decode_padding fork_event.decode_padding
  dns_event.decode_padding java_event.decode_padding bpf_event.decode_padding

lemma IEvent_Decode_ok:
  assumes "\<not> is_udp ev" and "IEvent_need ev \<le> length p"
  shows "\<exists>ev'. IEvent_Decode rt p ev = Ret (None, ev')"
proof -
  have lift: "\<exists>e'. r = Ret (None, e') \<Longrightarrow> \<exists>ev'. lift_decode con r = Ret (None, ev')"
    for r :: "(goerr option \<times> 'x) go" and con
    by (auto simp: lift_decode_Ret)
  show ?thesis
    using assms by (cases ev) (auto intro!: lift event_decode_ok)
qed

lemma IEvent_Decode_padding:
  assumes "\<not> is_udp ev" and "IEvent_need ev \<le> length p"
  shows "IEvent_Decode rt (p @ pad) ev = IEvent_Decode rt p ev"
  using assms by (cases ev) (simp_all add: event_decode_padding)

lemma IEvent_Clone_idem [simp]: "IEvent_Clone (IEvent_Clone ev) = IEvent_Clone ev"
  by (cases ev) (simp_all add: TCPEvent_Clone_def EventIPV4_Clone_def EventIPV6_Clone_def
      EventOther_Clone_def ForkProcEvent_Clone_def DNSEVENT_Clone_def JavaJDKExecPeEvent_Clone_def
      BpfCallEvent_Clone_def UDPEvent_Clone_def)

lemma IEvent_Clone_need [simp]:
  "IEvent_need (IEvent_Clone ev) = IEvent_need ev" "is_udp (IEvent_Clone ev) = is_udp ev"
  by (cases ev; simp)+

text \<open>Decoding never panics, but for the two decoders that slice without a length check.\<close>

fun slices_unchecked :: "IEventStruct \<Rightarrow> bool" where
  "slices_unchecked (EvBpfCall e) = True"
| "slices_unchecked (EvUDP e) = True"
| "slices_unchecked _ = False"

lemma lift_decode_Ret_eq: "lift_decode con (Ret x) = Ret (fst x, con (snd x))"
  by (simp add: lift_decode_def split_def)

lemmas event_Decode_defs = TCPEvent_Decode_def EventIPV4_Decode_def EventIPV6_Decode_def
  EventOther_Decode_def ForkProcEvent_Decode_def DNSEVENT_Decode_def JavaJDKExecPeEvent_Decode_def

lemma IEvent_Decode_no_panic:
  "\<not> slices_unchecked ev \<Longrightarrow> \<exists>r. IEvent_Decode rt p ev = Ret r"
  by (cases ev) (simp_all add: event_Decode_defs lift_decode_Ret_eq)

section \<open>Properties\<close>

text \<open>C24. Padding after a record never changes what is decoded, for all event types but UDP: when the
  payload has the bytes the decoder reads, decoding succeeds and gives the same event with any
  further bytes appended, and always the same event from a cloned receiver.\<close>

theorem events_ignore_padding:
  assumes "\<not> is_udp ev" and "IEvent_need ev \<le> length p"
  shows "\<exists>ev'. \<forall>pad. IEvent_Decode rt (p @ pad) (IEvent_Clone ev) = Ret (None, ev')"
proof -
  obtain ev' where "IEvent_Decode rt p (IEvent_Clone ev) = Ret (None, ev')"
    using IEvent_Decode_ok [of "IEvent_Clone ev" p rt] assms by auto
  then show ?thesis
    using IEvent_Decode_padding [of "IEvent_Clone ev" p rt] assms by auto
qed

theorem events_ignore_padding_witness:
  "\<exists>ev'. \<forall>pad. IEvent_Decode \<lparr>rt_zone = \<lambda>_. 0, rt_host = LittleEndian, rt_dns = sample_dns_lib\<rparr>
     (replicate 112 97 @ pad) (IEvent_Clone (EvDNS DNSEVENT_new)) = Ret (None, ev')"
  by (rule events_ignore_padding) simp_all

text \<open>The fixed-size arrays of an event have their sizes.\<close>

fun event_typed :: "IEventStruct \<Rightarrow> bool" where
  "event_typed (EvTCP e) \<longleftrightarrow> length (tcp_Comm e) = 16"
| "event_typed (EvIPV4 e) \<longleftrightarrow> length (ip4_TASK e) = 16"
| "event_typed (EvIPV6 e) \<longleftrightarrow> length (ip6_TASK e) = 16 \<and> length (ip6_RAddr e) = 16"
| "event_typed (EvOther e) \<longleftrightarrow> length (oth_TASK e) = 16"
| "event_typed (EvFork e) \<longleftrightarrow> length (fe_Comm e) = 16 \<and> length (fe_Cmdline e) = 128 \<and> length (fe_Path e) = 128"
| "event_typed (EvDNS e) \<longleftrightarrow> length (dns_AddrIpv6 e) = 16 \<and> length (dns_HOST e) = 80"
| "event_typed (EvJava e) \<longleftrightarrow> length (java_File e) = 128"
| "event_typed (EvBpfCall e) \<longleftrightarrow> True"
| "event_typed (EvUDP e) \<longleftrightarrow> True"

lemmas all_reads_defs = TCPEvent_reads_def EventIPV4_reads_def EventIPV6_reads_def EventOther_reads_def
  ForkProcEvent_reads_def DNSEVENT_reads_def JavaJDKExecPeEvent_reads_def TASK_COMM_LEN_def HOST_COMM_LEN_def

lemma event_reads_typed:
  "\<And>e. event_typed (EvTCP e) \<Longrightarrow> event_typed (EvTCP (snd (exec_reads TCPEvent_reads p e)))"
  "\<And>e. event_typed (EvIPV4 e) \<Longrightarrow> event_typed (EvIPV4 (snd (exec_reads EventIPV4_reads p e)))"
  "\<And>e. event_typed (EvIPV6 e) \<Longrightarrow> event_typed (EvIPV6 (snd (exec_reads EventIPV6_reads p e)))"
  "\<And>e. event_typed (EvOther e) \<Longrightarrow> event_typed (EvOther (snd (exec_reads EventOther_reads p e)))"
  "\<And>e. event_typed (EvFork e) \<Longrightarrow> event_typed (EvFork (snd (exec_reads ForkProcEvent_reads p e)))"
  "\<And>e. event_typed (EvDNS e) \<Longrightarrow> event_typed (EvDNS (snd (exec_reads DNSEVENT_reads p e)))"
  "\<And>e. event_typed (EvJava e) \<Longrightarrow> event_typed (EvJava (snd (exec_reads JavaJDKExecPeEvent_reads p e)))"
  by (erule exec_reads_keeps [rotated]; simp add: all_reads_defs read_stmt_defs)+

lemmas event_Clone_defs = TCPEvent_Clone_def EventIPV4_Clone_def EventIPV6_Clone_def EventOther_Clone_def
  ForkProcEvent_Clone_def DNSEVENT_Clone_def JavaJDKExecPeEvent_Clone_def BpfCallEvent_Clone_def UDPEvent_Clone_def

lemmas event_new_defs = TCPEvent_new_def EventIPV4_new_def EventIPV6_new_def EventOther_new_def
  ForkProcEvent_new_def DNSEVENT_new_def JavaJDKExecPeEvent_new_def TASK_COMM_LEN_def HOST_COMM_LEN_def

lemma lift_decode_con: "lift_decode con r = Ret (err, ev) \<Longrightarrow> \<exists>e. ev = con e"
  by (cases r) (auto simp: lift_decode_def)

text \<open>The dynamic type of an interface value.\<close>

datatype event_type = TCPEvent_t | EventIPV4_t | EventIPV6_t | EventOther_t | ForkProcEvent_t | DNSEVENT_t
  | JavaJDKExecPeEvent_t | BpfCallEvent_t | UDPEvent_t

fun dyn_type :: "IEventStruct \<Rightarrow> event_type" where
  "dyn_type (EvTCP e) = TCPEvent_t"
| "dyn_type (EvIPV4 e) = EventIPV4_t"
| "dyn_type (EvIPV6 e) = EventIPV6_t"
| "dyn_type (EvOther e) = EventOther_t"
| "dyn_type (EvFork e) = ForkProcEvent_t"
| "dyn_type (EvDNS e) = DNSEVENT_t"
| "dyn_type (EvJava e) = JavaJDKExecPeEvent_t"
| "dyn_type (EvBpfCall e) = BpfCallEvent_t"
| "dyn_type (EvUDP e) = UDPEvent_t"

lemma IEvent_Clone_type [simp]: "dyn_type (IEvent_Clone ev) = dyn_type ev"
  by (cases ev) simp_all

lemma IEvent_Clone_typed [simp]: "event_typed (IEvent_Clone ev)"
  by (cases ev) (simp_all add: event_Clone_defs event_new_defs)

lemma IEvent_Clone_fresh: "dyn_type ev' = dyn_type ev \<Longrightarrow> IEvent_Clone ev' = IEvent_Clone ev"
  by (cases ev; cases ev') (simp_all add: event_Clone_defs)

lemma IEvent_Decode_type: "IEvent_Decode rt p ev = Ret (err, ev') \<Longrightarrow> dyn_type ev' = dyn_type ev"
  by (cases ev) (auto dest!: lift_decode_con)

lemma IEvent_Decode_typed:
  "IEvent_Decode rt p ev = Ret (err, ev') \<Longrightarrow> event_typed ev \<Longrightarrow> event_typed ev'"
  by (cases ev) (auto simp: event_Decode_defs lift_decode_Ret_eq
      simp del: event_typed.simps(1-7) intro: event_reads_typed dest!: lift_decode_con)

end
