(* ===== verification/Imodule.thy ===== *)
theory Imodule
  imports Ievent
begin

text \<open>
  \<open>user/imodule.go\<close>: the struct \<open>Module\<close> every probe embeds, its event readers and \<open>Run\<close>.

  The methods a \<open>Module\<close> calls on its \<open>child\<close> (the probe around it) are arguments of the
  definitions; the theory of the probes supplies them. Maps of the \<open>ebpf\<close> package are references
  with their type and text given by \<open>ebpf_lib\<close>. The log is the list of what is printed; an error
  printed with \<open>%v\<close> is kept as the error value.

  Two views of a reader goroutine are given. \<open>reader_loop\<close> is the loop run over the results of
  its calls, a function. \<open>sys_step\<close> interleaves all goroutines of one module: \<open>Run\<close> with
  \<open>readEvents\<close>, one reader per event map, the watcher \<open>run\<close>, and the cancellation of the
  context; each goroutine moves by the step function of its code.
\<close>

section \<open>The struct and its plain methods\<close>

type_synonym mapref = nat

datatype map_type = RingBuf | PerfEventArray | OtherMapType string

record ebpf_lib =
  map_Type :: "mapref \<Rightarrow> map_type"
  map_TypeString :: "mapref \<Rightarrow> string"
  map_String :: "mapref \<Rightarrow> string"
  map_address :: "mapref \<Rightarrow> string"

text \<open>The concrete types behind the interface \<open>IModule\<close>.\<close>

datatype probe_type =
  MProcProbe | MTCPProbe | MUDPProbe | MUDNSProbe | MBPFCallProbe | MTCPSecProbe | MJavaRasp

datatype log_entry = LogText string | LogErr string goerr | LogReport string

type_synonym log = "log_entry list"

text \<open>Pointers and interface values are references, \<open>None\<close> when they are \<open>nil\<close>. The fields \<open>opts\<close> and
  \<open>reader\<close> are never used.\<close>

record Module =
  mod_opts :: "nat option"
  mod_reader :: "nat list"
  mod_ctx :: "nat option"
  mod_logger :: "nat option"
  mod_child :: "probe_type option"
  mod_name :: string
  mod_mType :: string

abbreviation nil_deref :: "'a go" where
  "nil_deref \<equiv> Panic ''invalid memory address or nil pointer dereference''"

definition Module_Init :: "nat \<Rightarrow> nat \<Rightarrow> Module \<Rightarrow> Module" where
  "Module_Init ctx logger this = this\<lparr>mod_ctx := Some ctx, mod_logger := Some logger\<rparr>"

definition Module_SetChild :: "probe_type \<Rightarrow> Module \<Rightarrow> Module" where
  "Module_SetChild module this = this\<lparr>mod_child := Some module\<rparr>"

definition Module_Start :: "goerr option go" where
  "Module_Start = Panic ''Module.Start() not implemented yet''"

definition Module_Events :: "mapref list go" where
  "Module_Events = Panic ''Module.Events() not implemented yet''"

definition Module_DecodeFun :: "mapref \<Rightarrow> IEventStruct option go" where
  "Module_DecodeFun p = Panic ''Module.DecodeFun() not implemented yet''"

definition Module_Name :: "Module \<Rightarrow> string" where
  "Module_Name this = mod_name this"

definition Module_Stop :: "Module \<Rightarrow> goerr option" where
  "Module_Stop this = None"

definition Module_Write :: "Module \<Rightarrow> string \<Rightarrow> log \<Rightarrow> log go" where
  "Module_Write this result log =
    (let s = Sprintf [Lit ''probeName:'', Str (mod_name this), Lit '', probeTpye:'',
                      Str (mod_mType this), Lit '', '', Str result]
     in case mod_logger this of
          None \<Rightarrow> nil_deref
        | Some _ \<Rightarrow> Ret (log @ [LogReport s]))"

text \<open>\<open>es\<close> is given by its methods, as an interface value is.\<close>

definition EventsDecode ::
    "('e \<Rightarrow> 'e) \<Rightarrow> (bytes \<Rightarrow> 'e \<Rightarrow> (goerr option \<times> 'e) go) \<Rightarrow> ('e \<Rightarrow> string)
     \<Rightarrow> bytes \<Rightarrow> 'e \<Rightarrow> (string \<times> goerr option) go" where
  "EventsDecode clone decode str payload es =
    (let te = clone es in
     go_bind (decode payload te) (\<lambda>(err, te').
       case err of
         Some er \<Rightarrow> Ret ('''', Some er)
       | None \<Rightarrow> Ret (str te', None)))"

definition Module_Decode ::
    "ebpf_lib \<Rightarrow> runtime \<Rightarrow> (mapref \<Rightarrow> IEventStruct option) \<Rightarrow> int \<Rightarrow> mapref \<Rightarrow> bytes
     \<Rightarrow> (string \<times> goerr option) go" where
  "Module_Decode lib rt child_DecodeFun now em b =
    (case child_DecodeFun em of
       None \<Rightarrow> Ret ('''', Some (Errorf (Sprintf
         [Lit ''can't found decode function :'', Str (map_String lib em),
          Lit '', address:'', Str (map_address lib em)])))
     | Some es \<Rightarrow> EventsDecode IEvent_Clone (IEvent_Decode rt) (IEvent_String rt now) b es)"

section \<open>The event readers\<close>

text \<open>\<open>errors.Is(err, ErrClosed)\<close>: the error itself or one it wraps.\<close>

fun Is_ErrClosed :: "goerr \<Rightarrow> bool" where
  "Is_ErrClosed ErrClosed = True"
| "Is_ErrClosed (PathError op path e) = Is_ErrClosed e"
| "Is_ErrClosed (Wrap e m) = Is_ErrClosed e"
| "Is_ErrClosed _ = False"

record perf_record =
  rec_LostSamples :: u64
  rec_RawSample :: bytes

datatype reader_kind = PerfReader | RingbufReader

text \<open>Where a reader goroutine is: before \<open>NewReader\<close>, at the test of the context, at \<open>rd.Read()\<close>,
  at a send on the error channel, or returned.\<close>

datatype rd_pc = RdNew | RdCheck | RdRead | RdSend goerr | RdExit

definition reader_new :: "ebpf_lib \<Rightarrow> mapref \<Rightarrow> goerr option \<Rightarrow> rd_pc" where
  "reader_new lib em err =
    (case err of
       Some er \<Rightarrow> RdSend (Errorw (''creating '' @ map_String lib em @ '' reader dns: '') er '''')
     | None \<Rightarrow> RdCheck)"

text \<open>The perf reader prints with the standard logger, the ring-buffer reader with \<open>this.logger\<close>.\<close>

definition logger_print :: "Module \<Rightarrow> string \<Rightarrow> log \<Rightarrow> log go" where
  "logger_print this s log =
    (case mod_logger this of None \<Rightarrow> nil_deref | Some _ \<Rightarrow> Ret (log @ [LogText s]))"

definition ctx_check :: "reader_kind \<Rightarrow> Module \<Rightarrow> bool \<Rightarrow> log \<Rightarrow> (rd_pc \<times> log) go" where
  "ctx_check k this done log =
    (case mod_ctx this of
       None \<Rightarrow> nil_deref
     | Some _ \<Rightarrow>
        (if done then
           (case k of
              PerfReader \<Rightarrow> Ret (RdExit, log @ [LogText ''readEvent recived close signal from context.Done.''])
            | RingbufReader \<Rightarrow>
                go_bind (logger_print this ''readEvent recived close signal from context.Done.'' log)
                  (\<lambda>log'. Ret (RdExit, log')))
         else Ret (RdRead, log)))"

text \<open>Decoding and reporting one sample, the common end of both loops.\<close>

definition handle_sample ::
    "Module \<Rightarrow> (mapref \<Rightarrow> bytes \<Rightarrow> (string \<times> goerr option) go) \<Rightarrow> mapref \<Rightarrow> bytes \<Rightarrow> log
     \<Rightarrow> (rd_pc \<times> log) go" where
  "handle_sample this child_Decode em raw log =
     go_bind (child_Decode em raw) (\<lambda>(result, err).
       case err of
         Some er \<Rightarrow> Ret (RdCheck, log @ [LogErr ''this.child.decode error:'' er])
       | None \<Rightarrow> go_bind (Module_Write this result log) (\<lambda>log'. Ret (RdCheck, log')))"

definition perfEventReader_read ::
    "Module \<Rightarrow> (mapref \<Rightarrow> bytes \<Rightarrow> (string \<times> goerr option) go) \<Rightarrow> mapref
     \<Rightarrow> goerr + perf_record \<Rightarrow> log \<Rightarrow> (rd_pc \<times> log) go" where
  "perfEventReader_read this child_Decode em res log =
    (case res of
       Inl err \<Rightarrow>
         (if Is_ErrClosed err then Ret (RdExit, log)
          else Ret (RdSend (Errorw ''reading from perf event reader: '' err ''''), log))
     | Inr record \<Rightarrow>
         (if rec_LostSamples record \<noteq> 0 then
            Ret (RdCheck, log @ [LogText (Sprintf [Lit ''perf event ring buffer full, dropped '',
              Dec (uint (rec_LostSamples record)), Lit '' samples''])])
          else handle_sample this child_Decode em (rec_RawSample record) log))"

definition ringbufEventReader_read ::
    "Module \<Rightarrow> (mapref \<Rightarrow> bytes \<Rightarrow> (string \<times> goerr option) go) \<Rightarrow> mapref
     \<Rightarrow> goerr + perf_record \<Rightarrow> log \<Rightarrow> (rd_pc \<times> log) go" where
  "ringbufEventReader_read this child_Decode em res log =
    (case res of
       Inl err \<Rightarrow>
         (if Is_ErrClosed err then
            go_bind (logger_print this ''Received signal, exiting..'' log) (\<lambda>log'. Ret (RdExit, log'))
          else Ret (RdSend (Errorw ''reading from ringbuf reader: '' err ''''), log))
     | Inr record \<Rightarrow> handle_sample this child_Decode em (rec_RawSample record) log)"

definition reader_read ::
    "reader_kind \<Rightarrow> Module \<Rightarrow> (mapref \<Rightarrow> bytes \<Rightarrow> (string \<times> goerr option) go) \<Rightarrow> mapref
     \<Rightarrow> goerr + perf_record \<Rightarrow> log \<Rightarrow> (rd_pc \<times> log) go" where
  "reader_read k = (case k of PerfReader \<Rightarrow> perfEventReader_read | RingbufReader \<Rightarrow> ringbufEventReader_read)"

text \<open>
  The whole loop of a reader, over one entry per iteration: what the context test saw, what
  \<open>rd.Read()\<close> returned, and the time of the iteration. The loop is waiting in \<open>Read\<close> when the
  entries are used up.
\<close>

datatype loop_result = Waiting log | Exited log | Failed goerr log | Crashed string

fun reader_loop ::
    "reader_kind \<Rightarrow> Module \<Rightarrow> (int \<Rightarrow> mapref \<Rightarrow> bytes \<Rightarrow> (string \<times> goerr option) go) \<Rightarrow> mapref
     \<Rightarrow> (bool \<times> (goerr + perf_record) \<times> int) list \<Rightarrow> log \<Rightarrow> loop_result" where
  "reader_loop k this child_Decode em [] log = Waiting log"
| "reader_loop k this child_Decode em ((done, res, now) # ins) log =
    (case ctx_check k this done log of
       Panic m \<Rightarrow> Crashed m
     | Ret (pc, log1) \<Rightarrow>
        (if pc = RdExit then Exited log1
         else case reader_read k this (child_Decode now) em res log1 of
            Panic m \<Rightarrow> Crashed m
          | Ret (pc', log2) \<Rightarrow>
             (case pc' of
                RdSend err \<Rightarrow> Failed err log2
              | RdExit \<Rightarrow> Exited log2
              | _ \<Rightarrow> reader_loop k this child_Decode em ins log2)))"

section \<open>All goroutines of a module\<close>

text \<open>
  What one run of a module depends on: the library, what \<open>child.Start()\<close> returns, the maps
  \<open>child.Events()\<close> lists afterwards, \<open>child.Decode\<close>, and what \<open>child.Stop()\<close> returns.
\<close>

record cfg =
  cf_lib :: ebpf_lib
  cf_start :: "goerr option go"
  cf_events :: "mapref list"
  cf_decode :: "int \<Rightarrow> mapref \<Rightarrow> bytes \<Rightarrow> (string \<times> goerr option) go"
  cf_stop :: "goerr option"

text \<open>A reader goroutine: the parameters of its call, where it is, whether \<open>NewReader\<close> gave it a reader,
  the calls of \<open>rd.Close()\<close> it has deferred, and those that were made.\<close>

record reader =
  rdr_kind :: reader_kind
  rdr_map :: mapref
  rdr_pc :: rd_pc
  rdr_opened :: bool
  rdr_deferred :: nat
  rdr_closes :: nat

text \<open>Control points of \<open>readEvents\<close> and of \<open>Run\<close>, and of the watcher \<open>run\<close>.\<close>

datatype re_pc = ReSpawn "mapref list" | ReSend goerr "mapref list" | ReWait | ReRet "goerr option"
datatype run_pc = RunStart | RunRead re_pc | RunRet "goerr option"
datatype watch_pc = NotStarted | Watching | Stopped

record sys =
  sy_mod :: Module
  sy_done :: bool
  sy_chan :: "goerr option list"
  sy_rdrs :: "reader list"
  sy_pc :: run_pc
  sy_watch :: watch_pc
  sy_log :: log
  sy_halt :: "string option" \<comment> \<open>the process panicked or exited\<close>

definition errChan_cap :: nat where "errChan_cap = 8"

definition sys_init :: "Module \<Rightarrow> sys" where
  "sys_init m = \<lparr>sy_mod = m, sy_done = False, sy_chan = [], sy_rdrs = [], sy_pc = RunStart,
     sy_watch = NotStarted, sy_log = [], sy_halt = None\<rparr>"

definition new_reader :: "reader_kind \<Rightarrow> mapref \<Rightarrow> reader" where
  "new_reader k em = \<lparr>rdr_kind = k, rdr_map = em, rdr_pc = RdNew, rdr_opened = False,
     rdr_deferred = 0, rdr_closes = 0\<rparr>"

text \<open>One step of \<open>readEvents\<close>; \<open>None\<close> when it is blocked on the channel.\<close>

fun readEvents_step :: "ebpf_lib \<Rightarrow> re_pc \<Rightarrow> sys \<Rightarrow> sys option" where
  "readEvents_step lib (ReSpawn (event # evs)) s =
    (case map_Type lib event of
       RingBuf \<Rightarrow> Some (s\<lparr>sy_rdrs := sy_rdrs s @ [new_reader RingbufReader event],
                          sy_pc := RunRead (ReSpawn evs)\<rparr>)
     | PerfEventArray \<Rightarrow> Some (s\<lparr>sy_rdrs := sy_rdrs s @ [new_reader PerfReader event],
                                 sy_pc := RunRead (ReSpawn evs)\<rparr>)
     | OtherMapType _ \<Rightarrow> Some (s\<lparr>sy_pc := RunRead (ReSend (Errorf (Sprintf
         [Lit ''Not support mapType:'', Str (map_TypeString lib event),
          Lit '' , mapinfo:'', Str (map_String lib event)])) evs)\<rparr>))"
| "readEvents_step lib (ReSend err evs) s =
    (if length (sy_chan s) < errChan_cap
     then Some (s\<lparr>sy_chan := sy_chan s @ [Some err], sy_pc := RunRead (ReSpawn evs)\<rparr>) else None)"
| "readEvents_step lib (ReSpawn []) s = Some (s\<lparr>sy_pc := RunRead ReWait\<rparr>)"
| "readEvents_step lib ReWait s =
    (case sy_chan s of
       [] \<Rightarrow> None
     | err # rest \<Rightarrow> Some (s\<lparr>sy_chan := rest, sy_pc := RunRead (ReRet err)\<rparr>))"
| "readEvents_step lib (ReRet err) s = None"

fun Run_step :: "cfg \<Rightarrow> sys \<Rightarrow> sys option" where
  "Run_step c s =
    (case sy_pc s of
       RunStart \<Rightarrow>
        (case mod_child (sy_mod s) of
           None \<Rightarrow> Some (s\<lparr>sy_halt := Some ''invalid memory address or nil pointer dereference''\<rparr>)
         | Some _ \<Rightarrow>
            (case cf_start c of
               Panic m \<Rightarrow> Some (s\<lparr>sy_halt := Some m\<rparr>)
             | Ret (Some err) \<Rightarrow> Some (s\<lparr>sy_pc := RunRet (Some err)\<rparr>)
             | Ret None \<Rightarrow> Some (s\<lparr>sy_pc := RunRead (ReSpawn (cf_events c))\<rparr>)))
     | RunRead (ReRet (Some err)) \<Rightarrow> Some (s\<lparr>sy_pc := RunRet (Some err)\<rparr>)
     | RunRead (ReRet None) \<Rightarrow> Some (s\<lparr>sy_pc := RunRet None, sy_watch := Watching\<rparr>)
     | RunRead pc \<Rightarrow> readEvents_step (cf_lib c) pc s
     | RunRet _ \<Rightarrow> None)"

text \<open>The watcher \<open>run\<close>: once the context is done it stops the child; an error is fatal.\<close>

definition run_step :: "cfg \<Rightarrow> sys \<Rightarrow> sys option" where
  "run_step c s =
    (if sy_watch s = Watching \<and> sy_done s then
       (case cf_stop c of
          None \<Rightarrow> Some (s\<lparr>sy_watch := Stopped\<rparr>)
        | Some err \<Rightarrow> Some (s\<lparr>sy_log := sy_log s @ [LogErr (''stop Module:'' @ mod_name (sy_mod s) @ '' error:'') err],
                              sy_halt := Some ''exit status 1''\<rparr>))
     else None)"

text \<open>A reader goroutine that has its reader: \<open>rd\<close> is set and \<open>defer rd.Close()\<close> puts one call off to the
  return. A return makes the calls that were deferred, and only those.\<close>

definition reader_defer :: "reader \<Rightarrow> reader" where
  "reader_defer r = r\<lparr>rdr_opened := True, rdr_deferred := Suc (rdr_deferred r)\<rparr>"

definition reader_return :: "reader \<Rightarrow> reader" where
  "reader_return r = r\<lparr>rdr_closes := rdr_closes r + rdr_deferred r, rdr_deferred := 0\<rparr>"

definition reader_goto :: "rd_pc \<Rightarrow> reader \<Rightarrow> reader" where
  "reader_goto pc r = (if pc = RdExit then reader_return r else r)\<lparr>rdr_pc := pc\<rparr>"

text \<open>One step of reader \<open>i\<close>. The environment supplies the result of \<open>NewReader\<close> and of \<open>Read\<close>.\<close>

datatype rd_input = NewResult "goerr option" | NoInput | ReadResult "goerr + perf_record" int

definition set_reader :: "nat \<Rightarrow> rd_pc \<Rightarrow> sys \<Rightarrow> sys" where
  "set_reader i pc s = s\<lparr>sy_rdrs := (sy_rdrs s)[i := reader_goto pc (sy_rdrs s ! i)]\<rparr>"

definition new_result :: "nat \<Rightarrow> goerr option \<Rightarrow> sys \<Rightarrow> sys" where
  "new_result i err s =
    (if err = None then s\<lparr>sy_rdrs := (sy_rdrs s)[i := reader_defer (sy_rdrs s ! i)]\<rparr> else s)"

definition finish_reader :: "nat \<Rightarrow> (rd_pc \<times> log) go \<Rightarrow> sys \<Rightarrow> sys" where
  "finish_reader i r s =
    (case r of
       Panic m \<Rightarrow> s\<lparr>sy_halt := Some m\<rparr>
     | Ret (pc, log) \<Rightarrow> (set_reader i pc s)\<lparr>sy_log := log\<rparr>)"

definition reader_step :: "cfg \<Rightarrow> nat \<Rightarrow> rd_input \<Rightarrow> sys \<Rightarrow> sys option" where
  "reader_step c i inp s =
    (let r = sy_rdrs s ! i in
     case (rdr_pc r, inp) of
       (RdNew, NewResult err) \<Rightarrow> Some (set_reader i (reader_new (cf_lib c) (rdr_map r) err)
         (new_result i err s))
     | (RdCheck, NoInput) \<Rightarrow>
         Some (finish_reader i (ctx_check (rdr_kind r) (sy_mod s) (sy_done s) (sy_log s)) s)
     | (RdRead, ReadResult res now) \<Rightarrow>
         Some (finish_reader i
           (reader_read (rdr_kind r) (sy_mod s) (cf_decode c now) (rdr_map r) res (sy_log s)) s)
     | (RdSend err, NoInput) \<Rightarrow>
         (if length (sy_chan s) < errChan_cap
          then Some ((set_reader i RdExit s)\<lparr>sy_chan := sy_chan s @ [Some err]\<rparr>) else None)
     | _ \<Rightarrow> None)"

inductive sys_step :: "cfg \<Rightarrow> sys \<Rightarrow> sys \<Rightarrow> bool" for c where
  run: "sy_halt s = None \<Longrightarrow> Run_step c s = Some t \<Longrightarrow> sys_step c s t"
| watch: "sy_halt s = None \<Longrightarrow> run_step c s = Some t \<Longrightarrow> sys_step c s t"
| reader: "sy_halt s = None \<Longrightarrow> i < length (sy_rdrs s) \<Longrightarrow> reader_step c i inp s = Some t \<Longrightarrow>
    sys_step c s t"
| cancel: "sy_halt s = None \<Longrightarrow> sys_step c s (s\<lparr>sy_done := True\<rparr>)"

inductive sys_reach :: "cfg \<Rightarrow> Module \<Rightarrow> sys \<Rightarrow> bool" for c m where
  init: "sys_reach c m (sys_init m)"
| step: "sys_reach c m s \<Longrightarrow> sys_step c s t \<Longrightarrow> sys_reach c m t"

end
