(* ===== verification/Imodule_Safety.thy ===== *)
theory Imodule_Safety
  imports Imodule
begin

text \<open>
  Properties of \<open>Module\<close> and its goroutines.

  \<^item> The locale \<open>imodule_child\<close> is what a reader needs of the probe it runs for: a logger and a
    \<open>Decode\<close> that returns on the samples at hand. In it, a reader handles every record by exactly
    one log entry, in order, whatever single records decode to.
  \<^item> \<open>sys_inv\<close> is kept by every step of every goroutine: the error channel cannot overflow as
    long as there are no more event maps than its capacity, only non-nil errors travel on it, and
    a reader that returned has been closed.
  \<^item> After the context is cancelled the number of further reports is bounded by the readers that
    were inside \<open>Read\<close> at that moment.
\<close>

section \<open>One reader\<close>

definition report_line :: "Module \<Rightarrow> string \<Rightarrow> string" where
  "report_line m result =
     ''probeName:'' @ mod_name m @ '', probeTpye:'' @ mod_mType m @ '', '' @ result"

definition record_entry ::
    "reader_kind \<Rightarrow> Module \<Rightarrow> (int \<Rightarrow> mapref \<Rightarrow> bytes \<Rightarrow> (string \<times> goerr option) go) \<Rightarrow> mapref
     \<Rightarrow> perf_record \<Rightarrow> int \<Rightarrow> log_entry" where
  "record_entry k m dec em rc now =
    (if k = PerfReader \<and> rec_LostSamples rc \<noteq> 0
     then LogText (''perf event ring buffer full, dropped '' @ itoa (uint (rec_LostSamples rc)) @ '' samples'')
     else case dec now em (rec_RawSample rc) of
        Ret (result, None) \<Rightarrow> LogReport (report_line m result)
      | Ret (result, Some er) \<Rightarrow> LogErr ''this.child.decode error:'' er
      | Panic msg \<Rightarrow> LogText msg)"

lemma Module_Write_eq:
  "mod_logger m \<noteq> None \<Longrightarrow> Module_Write m result log = Ret (log @ [LogReport (report_line m result)])"
  by (auto simp: Module_Write_def report_line_def)

locale imodule_child =
  fixes child_Decode :: "int \<Rightarrow> mapref \<Rightarrow> bytes \<Rightarrow> (string \<times> goerr option) go"
    and this :: Module
    and em :: mapref
    and sample_ok :: "bytes \<Rightarrow> bool"
  assumes ctx_set: "mod_ctx this \<noteq> None"
    and logger_set: "mod_logger this \<noteq> None"
    and decode_returns: "sample_ok raw \<Longrightarrow> \<exists>r. child_Decode now em raw = Ret r"
begin

lemma handle_sample_entry:
  assumes "sample_ok raw"
  shows "handle_sample this (child_Decode now) em raw log =
     Ret (RdCheck, log @ [case child_Decode now em raw of
        Ret (result, None) \<Rightarrow> LogReport (report_line this result)
      | Ret (result, Some er) \<Rightarrow> LogErr ''this.child.decode error:'' er
      | Panic msg \<Rightarrow> LogText msg])"
proof -
  obtain result err where "child_Decode now em raw = Ret (result, err)"
    using decode_returns [OF assms, of now] by auto
  then show ?thesis
    by (cases err) (simp_all add: handle_sample_def Module_Write_eq [OF logger_set])
qed

lemma reader_read_record:
  assumes "sample_ok (rec_RawSample rc)"
  shows "reader_read k this (child_Decode now) em (Inr rc) log =
     Ret (RdCheck, log @ [record_entry k this child_Decode em rc now])"
  using handle_sample_entry [OF assms, of now log]
  by (cases k) (simp_all add: reader_read_def perfEventReader_read_def ringbufEventReader_read_def record_entry_def)

lemma reader_loop_records:
  assumes "\<forall>(rc, now)\<in>set rs. sample_ok (rec_RawSample rc)"
  shows "reader_loop k this child_Decode em (map (\<lambda>(rc, now). (False, Inr rc, now)) rs @ ins) log =
     reader_loop k this child_Decode em ins
       (log @ map (\<lambda>(rc, now). record_entry k this child_Decode em rc now) rs)"
  using assms
proof (induction rs arbitrary: log)
  case (Cons r rs)
  obtain rc now where r: "r = (rc, now)" by (cases r)
  with Cons.prems have ok: "sample_ok (rec_RawSample rc)" by simp
  from Cons r show ?case
    using ctx_set by (auto simp: ctx_check_def reader_read_record [OF ok])
qed simp

lemma reader_loop_stops:
  assumes "\<forall>(rc, now)\<in>set rs. sample_ok (rec_RawSample rc)"
  shows "\<exists>es. reader_loop k this child_Decode em
      (map (\<lambda>(rc, now). (False, Inr rc, now)) rs @ (True, res, now) # ins) log =
      Exited (log @ map (\<lambda>(rc, now). record_entry k this child_Decode em rc now) rs @ es)
      \<and> filter (\<lambda>e. \<exists>s. e = LogReport s) es = []"
  using ctx_set logger_set
  by (cases k) (auto simp: reader_loop_records [OF assms] ctx_check_def logger_print_def split: option.splits)

end

section \<open>Effects of the steps\<close>

lemma length_filter_update:
  "i < length xs \<Longrightarrow>
     length (filter P (xs[i := y])) + of_bool (P (xs ! i)) = length (filter P xs) + of_bool (P y)"
proof (induction xs arbitrary: i)
  case (Cons x xs)
  then show ?case by (cases i) auto
qed simp

definition is_report :: "log_entry \<Rightarrow> bool" where
  "is_report e \<longleftrightarrow> (\<exists>s. e = LogReport s)"

lemma is_report_simps [simp]:
  "is_report (LogReport s)" "\<not> is_report (LogText t)" "\<not> is_report (LogErr u v)"
  by (simp_all add: is_report_def)

lemma ctx_check_effect:
  "ctx_check k m done log = Ret (pc, log') \<Longrightarrow>
     (if done then pc = RdExit else pc = RdRead) \<and> (\<exists>es. log' = log @ es \<and> filter is_report es = [])"
  by (auto simp: ctx_check_def logger_print_def go_simps split: reader_kind.splits if_splits option.splits)

lemma handle_sample_effect:
  assumes "handle_sample m dec em raw log = Ret (pc, log')"
  shows "pc = RdCheck \<and> (\<exists>e. log' = log @ [e])"
proof -
  from assms obtain result err where d: "dec em raw = Ret (result, err)"
    by (auto simp: handle_sample_def go_simps)
  with assms show ?thesis
    by (cases err) (auto simp: handle_sample_def Module_Write_def go_simps split: option.splits)
qed

lemma reader_read_effect:
  assumes "reader_read k m dec em res log = Ret (pc, log')"
  shows "pc \<noteq> RdRead \<and> pc \<noteq> RdNew \<and> (\<exists>es. log' = log @ es \<and> length es \<le> 1)"
proof (cases res)
  case (Inl err)
  with assms show ?thesis
    by (cases k) (auto simp: reader_read_def perfEventReader_read_def ringbufEventReader_read_def
        logger_print_def go_simps split: if_splits option.splits)
next
  case (Inr rc)
  show ?thesis
  proof (cases "k = PerfReader \<and> rec_LostSamples rc \<noteq> 0")
    case True
    with assms Inr show ?thesis by (auto simp: reader_read_def perfEventReader_read_def)
  next
    case False
    with assms Inr have "handle_sample m dec em (rec_RawSample rc) log = Ret (pc, log')"
      by (cases k) (auto simp: reader_read_def perfEventReader_read_def ringbufEventReader_read_def)
    then show ?thesis using handle_sample_effect by fastforce
  qed
qed

text \<open>The possible steps of a reader.\<close>

lemma reader_step_cases:
  assumes "reader_step c i inp s = Some t"
  obtains
    (new) err where "rdr_pc (sy_rdrs s ! i) = RdNew"
      "t = set_reader i (reader_new (cf_lib c) (rdr_map (sy_rdrs s ! i)) err) (new_result i err s)"
  | (check) "rdr_pc (sy_rdrs s ! i) = RdCheck"
      "t = finish_reader i (ctx_check (rdr_kind (sy_rdrs s ! i)) (sy_mod s) (sy_done s) (sy_log s)) s"
  | (read) res now where "rdr_pc (sy_rdrs s ! i) = RdRead"
      "t = finish_reader i (reader_read (rdr_kind (sy_rdrs s ! i)) (sy_mod s) (cf_decode c now)
            (rdr_map (sy_rdrs s ! i)) res (sy_log s)) s"
  | (send) err where "rdr_pc (sy_rdrs s ! i) = RdSend err" "length (sy_chan s) < errChan_cap"
      "t = (set_reader i RdExit s)\<lparr>sy_chan := sy_chan s @ [Some err]\<rparr>"
  using assms
  by (auto simp: reader_step_def Let_def split: rd_pc.splits rd_input.splits if_splits)

lemma finish_reader_cases:
  obtains (panic) msg where "r = Panic msg" "finish_reader i r s = s\<lparr>sy_halt := Some msg\<rparr>"
  | (ret) pc log where "r = Ret (pc, log)" "finish_reader i r s = (set_reader i pc s)\<lparr>sy_log := log\<rparr>"
  by (cases r) (auto simp: finish_reader_def)

lemma reader_goto_sel [simp]:
  "rdr_pc (reader_goto pc r) = pc" "rdr_map (reader_goto pc r) = rdr_map r" "rdr_kind (reader_goto pc r) = rdr_kind r"
  by (simp_all add: reader_goto_def reader_return_def)

lemma set_reader_sel [simp]:
  "sy_chan (set_reader i pc s) = sy_chan s" "sy_pc (set_reader i pc s) = sy_pc s"
  "sy_watch (set_reader i pc s) = sy_watch s" "sy_log (set_reader i pc s) = sy_log s"
  "sy_done (set_reader i pc s) = sy_done s" "sy_mod (set_reader i pc s) = sy_mod s"
  "sy_halt (set_reader i pc s) = sy_halt s"
  by (simp_all add: set_reader_def)

definition rd_count :: "(rd_pc \<Rightarrow> bool) \<Rightarrow> sys \<Rightarrow> nat" where
  "rd_count P s = length (filter (\<lambda>r. P (rdr_pc r)) (sy_rdrs s))"

lemma rd_count_set_reader:
  "i < length (sy_rdrs s) \<Longrightarrow>
     rd_count P (set_reader i pc s) + of_bool (P (rdr_pc (sy_rdrs s ! i))) = rd_count P s + of_bool (P pc)"
  using length_filter_update [of i "sy_rdrs s" "\<lambda>r. P (rdr_pc r)"]
  by (simp add: rd_count_def set_reader_def)

lemma new_result_sel [simp]:
  "sy_chan (new_result i err s) = sy_chan s" "sy_pc (new_result i err s) = sy_pc s"
  "sy_watch (new_result i err s) = sy_watch s" "sy_log (new_result i err s) = sy_log s"
  "sy_done (new_result i err s) = sy_done s" "sy_mod (new_result i err s) = sy_mod s"
  "sy_halt (new_result i err s) = sy_halt s" "length (sy_rdrs (new_result i err s)) = length (sy_rdrs s)"
  by (simp_all add: new_result_def)

lemma new_result_pcs [simp]: "map rdr_pc (sy_rdrs (new_result i err s)) = map rdr_pc (sy_rdrs s)"
  by (cases "i < length (sy_rdrs s)"; cases err)
    (auto simp: new_result_def reader_defer_def nth_list_update intro!: nth_equalityI)

lemma new_result_pc [simp]:
  "j < length (sy_rdrs s) \<Longrightarrow> rdr_pc (sy_rdrs (new_result i err s) ! j) = rdr_pc (sy_rdrs s ! j)"
  by (metis new_result_pcs new_result_sel(8) nth_map)

lemma rd_count_pcs: "rd_count P s = length (filter P (map rdr_pc (sy_rdrs s)))"
  by (simp add: rd_count_def filter_map comp_def)

lemma rd_count_new_result [simp]: "rd_count P (new_result i err s) = rd_count P s"
  by (simp add: rd_count_pcs)

lemma rd_count_upd [simp]:
  "rd_count P (s\<lparr>sy_log := l\<rparr>) = rd_count P s" "rd_count P (s\<lparr>sy_chan := ch\<rparr>) = rd_count P s"
  "rd_count P (s\<lparr>sy_halt := h\<rparr>) = rd_count P s" "rd_count P (s\<lparr>sy_done := d\<rparr>) = rd_count P s"
  "rd_count P (s\<lparr>sy_pc := pc\<rparr>) = rd_count P s" "rd_count P (s\<lparr>sy_watch := w\<rparr>) = rd_count P s"
  by (simp_all add: rd_count_def)

section \<open>Invariants of the goroutines\<close>

text \<open>How many more errors \<open>readEvents\<close> itself and its readers can send.\<close>

fun pc_left :: "cfg \<Rightarrow> run_pc \<Rightarrow> nat" where
  "pc_left c RunStart = length (cf_events c)"
| "pc_left c (RunRead (ReSpawn evs)) = length evs"
| "pc_left c (RunRead (ReSend e evs)) = Suc (length evs)"
| "pc_left c _ = 0"

abbreviation live :: "rd_pc \<Rightarrow> bool" where
  "live pc \<equiv> pc \<noteq> RdExit"

definition chan_inv :: "cfg \<Rightarrow> sys \<Rightarrow> bool" where
  "chan_inv c s \<longleftrightarrow> length (sy_chan s) + pc_left c (sy_pc s) + rd_count live s \<le> length (cf_events c)"

definition err_inv :: "sys \<Rightarrow> bool" where
  "err_inv s \<longleftrightarrow> None \<notin> set (sy_chan s) \<and> sy_watch s = NotStarted
     \<and> sy_pc s \<noteq> RunRet None \<and> sy_pc s \<noteq> RunRead (ReRet None)"

definition rdr_ok :: "reader \<Rightarrow> bool" where
  "rdr_ok r \<longleftrightarrow>
    (case rdr_pc r of
       RdNew \<Rightarrow> \<not> rdr_opened r \<and> rdr_deferred r = 0 \<and> rdr_closes r = 0
     | RdSend err \<Rightarrow> rdr_deferred r = of_bool (rdr_opened r) \<and> rdr_closes r = 0
     | RdExit \<Rightarrow> rdr_deferred r = 0 \<and> rdr_closes r = of_bool (rdr_opened r)
     | _ \<Rightarrow> rdr_opened r \<and> rdr_deferred r = 1 \<and> rdr_closes r = 0)"

definition open_inv :: "sys \<Rightarrow> bool" where
  "open_inv s \<longleftrightarrow> (\<forall>r\<in>set (sy_rdrs s). rdr_ok r)"

text \<open>The possible steps of \<open>Run\<close>.\<close>

lemma Run_step_cases:
  assumes "Run_step c s = Some t"
  obtains
    (halt) m where "sy_pc s = RunStart" "mod_child (sy_mod s) = None \<or> cf_start c = Panic m"
      "t = s\<lparr>sy_halt := Some m\<rparr>"
  | (fail) err where "sy_pc s = RunStart" "cf_start c = Ret (Some err)" "t = s\<lparr>sy_pc := RunRet (Some err)\<rparr>"
  | (start) "sy_pc s = RunStart" "cf_start c = Ret None" "t = s\<lparr>sy_pc := RunRead (ReSpawn (cf_events c))\<rparr>"
  | (spawn) k event evs where "sy_pc s = RunRead (ReSpawn (event # evs))"
      "map_Type (cf_lib c) event = (case k of RingbufReader \<Rightarrow> RingBuf | PerfReader \<Rightarrow> PerfEventArray)"
      "t = s\<lparr>sy_rdrs := sy_rdrs s @ [new_reader k event], sy_pc := RunRead (ReSpawn evs)\<rparr>"
  | (unsupported) event evs err where "sy_pc s = RunRead (ReSpawn (event # evs))"
      "map_Type (cf_lib c) event \<noteq> RingBuf" "map_Type (cf_lib c) event \<noteq> PerfEventArray"
      "t = s\<lparr>sy_pc := RunRead (ReSend err evs)\<rparr>"
  | (send) err evs where "sy_pc s = RunRead (ReSend err evs)" "length (sy_chan s) < errChan_cap"
      "t = s\<lparr>sy_chan := sy_chan s @ [Some err], sy_pc := RunRead (ReSpawn evs)\<rparr>"
  | (wait) "sy_pc s = RunRead (ReSpawn [])" "t = s\<lparr>sy_pc := RunRead ReWait\<rparr>"
  | (recv) err rest where "sy_pc s = RunRead ReWait" "sy_chan s = err # rest"
      "t = s\<lparr>sy_chan := rest, sy_pc := RunRead (ReRet err)\<rparr>"
  | (return) err where "sy_pc s = RunRead (ReRet (Some err))" "t = s\<lparr>sy_pc := RunRet (Some err)\<rparr>"
  | (go_run) "sy_pc s = RunRead (ReRet None)" "t = s\<lparr>sy_pc := RunRet None, sy_watch := Watching\<rparr>"
proof (cases "sy_pc s")
  case RunStart
  with assms that(1-3) show ?thesis by (auto split: go.splits option.splits)
next
  case (RunRet x)
  with assms show ?thesis by simp
next
  case (RunRead pc)
  show ?thesis
  proof (cases pc)
    case (ReSpawn evs)
    show ?thesis
    proof (cases evs)
      case Nil
      then show ?thesis using ReSpawn RunRead assms that(7) by simp
    next
      case (Cons event rest)
      then show ?thesis
        using ReSpawn RunRead assms that(4) [of event rest RingbufReader] that(4) [of event rest PerfReader] that(5) [of event rest]
        by (cases "map_Type (cf_lib c) event") auto
    qed
  next
    case (ReSend e evs)
    with RunRead assms that(6) show ?thesis by (auto split: if_splits)
  next
    case ReWait
    with RunRead assms that(8) show ?thesis by (auto split: list.splits)
  next
    case (ReRet e)
    with RunRead assms that(9,10) show ?thesis by (cases e) auto
  qed
qed

lemma rd_count_spawn [simp]:
  "rd_count P (s\<lparr>sy_rdrs := sy_rdrs s @ [new_reader k em]\<rparr>) = rd_count P s + of_bool (P RdNew)"
  by (simp add: rd_count_def new_reader_def)

lemma chan_inv_finish:
  assumes "chan_inv c s" and "i < length (sy_rdrs s)" and "live (rdr_pc (sy_rdrs s ! i))"
  shows "chan_inv c (finish_reader i r s)"
proof (cases r)
  case (Ret x)
  obtain pc log where x: "x = (pc, log)" by (cases x)
  have "rd_count live (set_reader i pc s) \<le> rd_count live s"
    using rd_count_set_reader [OF assms(2), of live pc] assms(3) by (cases "live pc") simp_all
  with assms(1) show ?thesis by (simp add: Ret x finish_reader_def chan_inv_def)
qed (use assms(1) in \<open>simp add: finish_reader_def chan_inv_def\<close>)

lemma chan_inv_reader:
  assumes "chan_inv c s" and "i < length (sy_rdrs s)" and "reader_step c i inp s = Some t"
  shows "chan_inv c t"
  using assms(3)
proof (cases rule: reader_step_cases)
  case (new err)
  then show ?thesis
    using assms(1,2) rd_count_set_reader [of i "new_result i err s" live "reader_new (cf_lib c) (rdr_map (sy_rdrs s ! i)) err"]
    by (auto simp: chan_inv_def reader_new_def split: option.splits)
next
  case check
  then show ?thesis using chan_inv_finish [OF assms(1,2)] by simp
next
  case (read res now)
  then show ?thesis using chan_inv_finish [OF assms(1,2)] by simp
next
  case (send err)
  then show ?thesis
    using assms(1) rd_count_set_reader [OF assms(2), of live RdExit] by (simp add: chan_inv_def)
qed

lemma chan_inv_run: "chan_inv c s \<Longrightarrow> Run_step c s = Some t \<Longrightarrow> chan_inv c t"
  by (erule Run_step_cases) (auto simp: chan_inv_def)

lemma run_step_upd:
  "run_step c s = Some t \<Longrightarrow> sy_watch s = Watching"
  by (auto simp: run_step_def split: if_splits)

lemma err_inv_reader: "err_inv s \<Longrightarrow> reader_step c i inp s = Some t \<Longrightarrow> err_inv t"
  by (erule reader_step_cases)
    (auto simp: err_inv_def finish_reader_def split: go.splits)

lemma err_inv_run:
  assumes "err_inv s" and "Run_step c s = Some t"
  shows "err_inv t"
  using assms(2)
proof (cases rule: Run_step_cases)
  case (recv err rest)
  with assms(1) show ?thesis by (cases err) (simp_all add: err_inv_def)
qed (use assms(1) in \<open>auto simp: err_inv_def\<close>)

lemma open_inv_run: "open_inv s \<Longrightarrow> Run_step c s = Some t \<Longrightarrow> open_inv t"
  by (erule Run_step_cases) (auto simp: open_inv_def rdr_ok_def new_reader_def)

lemma reader_goto_ok:
  assumes "rdr_ok r" and "pc \<noteq> RdNew"
    and "rdr_pc r = RdCheck \<or> rdr_pc r = RdRead \<or> (\<exists>err. rdr_pc r = RdSend err) \<and> pc = RdExit"
  shows "rdr_ok (reader_goto pc r)"
  using assms by (auto simp: rdr_ok_def reader_goto_def reader_return_def split: rd_pc.splits)

lemma reader_new_ok:
  assumes "rdr_ok r" and "rdr_pc r = RdNew"
  shows "rdr_ok (reader_goto (reader_new lib em err) (if err = None then reader_defer r else r))"
  using assms by (cases err) (simp_all add: rdr_ok_def reader_goto_def reader_new_def reader_defer_def)

lemma open_inv_update: "open_inv s \<Longrightarrow> rdr_ok r \<Longrightarrow> open_inv (s\<lparr>sy_rdrs := (sy_rdrs s)[i := r]\<rparr>)"
  by (auto simp: open_inv_def dest: set_update_subset_insert [THEN subsetD])

lemma open_inv_set_reader:
  assumes "open_inv s" and "rdr_ok (reader_goto pc (sy_rdrs s ! i))"
  shows "open_inv (set_reader i pc s)"
  using open_inv_update [OF assms] by (simp add: set_reader_def)

lemma open_inv_upd [simp]:
  "open_inv (s\<lparr>sy_log := l\<rparr>) = open_inv s" "open_inv (s\<lparr>sy_chan := ch\<rparr>) = open_inv s"
  "open_inv (s\<lparr>sy_halt := h\<rparr>) = open_inv s" "open_inv (s\<lparr>sy_done := d\<rparr>) = open_inv s"
  by (simp_all add: open_inv_def)

lemma open_inv_finish:
  assumes "open_inv s" and "i < length (sy_rdrs s)" and "\<And>pc log. r = Ret (pc, log) \<Longrightarrow> pc \<noteq> RdNew"
    and "rdr_pc (sy_rdrs s ! i) = RdCheck \<or> rdr_pc (sy_rdrs s ! i) = RdRead"
  shows "open_inv (finish_reader i r s)"
proof (cases rule: finish_reader_cases [of r i s])
  case (ret pc log)
  have "rdr_ok (sy_rdrs s ! i)" using assms(1,2) by (simp add: open_inv_def)
  then have "rdr_ok (reader_goto pc (sy_rdrs s ! i))" using reader_goto_ok assms(3,4) ret(1) by blast
  then show ?thesis using ret(2) open_inv_set_reader [OF assms(1)] by simp
qed (use assms(1) in simp)

lemma open_inv_reader:
  assumes "open_inv s" and i: "i < length (sy_rdrs s)" and "reader_step c i inp s = Some t"
  shows "open_inv t"
proof -
  have ok: "rdr_ok (sy_rdrs s ! i)" using assms(1,2) by (simp add: open_inv_def)
  from assms(3) show ?thesis
  proof (cases rule: reader_step_cases)
    case (new err)
    have "t = s\<lparr>sy_rdrs := (sy_rdrs s)[i := reader_goto (reader_new (cf_lib c) (rdr_map (sy_rdrs s ! i)) err)
        (if err = None then reader_defer (sy_rdrs s ! i) else sy_rdrs s ! i)]\<rparr>"
      using new(2) i by (simp add: set_reader_def new_result_def)
    then show ?thesis using open_inv_update [OF assms(1) reader_new_ok [OF ok new(1)]] by blast
  next
    case check
    have "pc \<noteq> RdNew" if "ctx_check (rdr_kind (sy_rdrs s ! i)) (sy_mod s) (sy_done s) (sy_log s) = Ret (pc, log)" for pc log
      using ctx_check_effect [OF that] by (auto split: if_splits)
    then show ?thesis unfolding check(2) using open_inv_finish [OF assms(1) i] check(1) by blast
  next
    case (read res now)
    have "pc \<noteq> RdNew" if "reader_read (rdr_kind (sy_rdrs s ! i)) (sy_mod s) (cf_decode c now)
        (rdr_map (sy_rdrs s ! i)) res (sy_log s) = Ret (pc, log)" for pc log
      using reader_read_effect [OF that] by blast
    then show ?thesis unfolding read(2) using open_inv_finish [OF assms(1) i] read(1) by blast
  next
    case (send err)
    then have "rdr_ok (reader_goto RdExit (sy_rdrs s ! i))" using reader_goto_ok [OF ok] by blast
    then show ?thesis using send(3) open_inv_set_reader [OF assms(1)] by simp
  qed
qed

definition sys_inv :: "cfg \<Rightarrow> sys \<Rightarrow> bool" where
  "sys_inv c s \<longleftrightarrow> chan_inv c s \<and> err_inv s \<and> open_inv s"

lemma sys_inv_init: "sys_inv c (sys_init m)"
  by (simp add: sys_inv_def chan_inv_def err_inv_def open_inv_def sys_init_def rd_count_def)

lemma sys_inv_step: "sys_step c s t \<Longrightarrow> sys_inv c s \<Longrightarrow> sys_inv c t"
proof (induction rule: sys_step.induct)
  case (run s t)
  then show ?case
    unfolding sys_inv_def using chan_inv_run err_inv_run open_inv_run by blast
next
  case (watch s t)
  then show ?case using run_step_upd by (auto simp: sys_inv_def err_inv_def)
next
  case (reader s i inp t)
  then show ?case by (auto simp: sys_inv_def intro: chan_inv_reader err_inv_reader open_inv_reader)
next
  case (cancel s)
  then show ?case by (simp add: sys_inv_def chan_inv_def err_inv_def)
qed

lemma sys_reach_inv: "sys_reach c m s \<Longrightarrow> sys_inv c s"
  by (induction rule: sys_reach.induct) (auto intro: sys_inv_init sys_inv_step)

section \<open>After cancellation\<close>

definition reports :: "sys \<Rightarrow> nat" where
  "reports s = length (filter is_report (sy_log s))"

definition in_read :: "sys \<Rightarrow> nat" where
  "in_read s = rd_count (\<lambda>pc. pc = RdRead) s"

lemma cancelled_reader_step:
  assumes "sy_done s" and "i < length (sy_rdrs s)" and "reader_step c i inp s = Some t"
  shows "sy_done t \<and> reports t + in_read t \<le> reports s + in_read s"
  using assms(3)
proof (cases rule: reader_step_cases)
  case (new err)
  then show ?thesis
    using assms(1,2) rd_count_set_reader [of i "new_result i err s" "\<lambda>pc. pc = RdRead" "reader_new (cf_lib c) (rdr_map (sy_rdrs s ! i)) err"]
    by (auto simp: reports_def in_read_def reader_new_def split: option.splits)
next
  case check
  then show ?thesis
  proof (cases rule: finish_reader_cases [of "ctx_check (rdr_kind (sy_rdrs s ! i)) (sy_mod s) (sy_done s) (sy_log s)" i s])
    case (ret pc log)
    then have "pc = RdExit" "filter is_report log = filter is_report (sy_log s)"
      using ctx_check_effect [OF ret(1)] assms(1) by auto
    with check ret show ?thesis
      using assms(1) rd_count_set_reader [OF assms(2), of "\<lambda>pc. pc = RdRead" pc]
      by (simp add: reports_def in_read_def)
  qed (use assms(1) in \<open>simp add: reports_def in_read_def\<close>)
next
  case (read res now)
  then show ?thesis
  proof (cases rule: finish_reader_cases [of "reader_read (rdr_kind (sy_rdrs s ! i)) (sy_mod s)
      (cf_decode c now) (rdr_map (sy_rdrs s ! i)) res (sy_log s)" i s])
    case (ret pc log)
    then obtain es where "pc \<noteq> RdRead" "log = sy_log s @ es" "length es \<le> 1"
      using reader_read_effect [OF ret(1)] by auto
    moreover from this have "length (filter is_report es) \<le> 1"
      by (meson le_trans length_filter_le)
    ultimately show ?thesis
      using read ret assms(1) rd_count_set_reader [OF assms(2), of "\<lambda>pc. pc = RdRead" pc]
      by (simp add: reports_def in_read_def)
  qed (use assms(1) in \<open>simp add: reports_def in_read_def\<close>)
next
  case (send err)
  then show ?thesis
    using assms(1) rd_count_set_reader [OF assms(2), of "\<lambda>pc. pc = RdRead" RdExit]
    by (simp add: reports_def in_read_def)
qed

lemma cancelled_run_step:
  assumes "sy_done s" and "Run_step c s = Some t"
  shows "sy_done t \<and> reports t + in_read t \<le> reports s + in_read s"
  using assms(2) by (cases rule: Run_step_cases) (use assms(1) in \<open>auto simp: reports_def in_read_def\<close>)

lemma cancelled_step:
  "sys_step c s t \<Longrightarrow> sy_done s \<Longrightarrow> sy_done t \<and> reports t + in_read t \<le> reports s + in_read s"
proof (induction rule: sys_step.induct)
  case (run s t)
  then show ?case by (intro cancelled_run_step)
next
  case (watch s t)
  then show ?case
    by (auto simp: run_step_def reports_def in_read_def split: if_splits option.splits)
next
  case (reader s i inp t)
  then show ?case by (intro cancelled_reader_step)
next
  case (cancel s)
  then show ?case by (simp add: reports_def in_read_def)
qed

lemma cancelled_steps:
  "(sys_step c)\<^sup>*\<^sup>* s t \<Longrightarrow> sy_done s \<Longrightarrow> sy_done t \<and> reports t + in_read t \<le> reports s + in_read s"
proof (induction rule: rtranclp_induct)
  case (step y z)
  then show ?case using cancelled_step [of c y z] by force
qed simp

section \<open>Progress after cancellation\<close>

text \<open>How many steps a goroutine has left once the context is done.\<close>

fun rd_rank :: "rd_pc \<Rightarrow> nat" where
  "rd_rank RdNew = 2"
| "rd_rank RdRead = 2"
| "rd_rank RdCheck = 1"
| "rd_rank (RdSend e) = 1"
| "rd_rank RdExit = 0"

fun run_rank :: "cfg \<Rightarrow> run_pc \<Rightarrow> nat" where
  "run_rank c RunStart = 3 * length (cf_events c) + 5"
| "run_rank c (RunRead (ReSpawn evs)) = 3 * length evs + 4"
| "run_rank c (RunRead (ReSend e evs)) = 3 * length evs + 5"
| "run_rank c (RunRead ReWait) = 3"
| "run_rank c (RunRead (ReRet e)) = 2"
| "run_rank c (RunRet e) = 0"

definition steps_left :: "cfg \<Rightarrow> sys \<Rightarrow> nat" where
  "steps_left c s = (if sy_halt s = None then 1 else 0) + run_rank c (sy_pc s)
     + (if sy_watch s = Watching then 1 else 0) + (\<Sum>r\<leftarrow>sy_rdrs s. rd_rank (rdr_pc r))"

lemma sum_list_update:
  fixes f :: "'a \<Rightarrow> nat"
  assumes "i < length xs"
  shows "(\<Sum>x\<leftarrow>xs[i := y]. f x) + f (xs ! i) = (\<Sum>x\<leftarrow>xs. f x) + f y"
  using assms
proof (induction xs arbitrary: i)
  case (Cons x xs)
  then show ?case by (cases i) auto
qed simp

lemma steps_left_set_reader:
  assumes "i < length (sy_rdrs s)" and "rd_rank pc < rd_rank (rdr_pc (sy_rdrs s ! i))"
  shows "steps_left c (set_reader i pc s) < steps_left c s"
proof -
  let ?y = "reader_goto pc (sy_rdrs s ! i)"
  have "rdr_pc ?y = pc" by simp
  then show ?thesis
    using sum_list_update [OF assms(1), of "\<lambda>r. rd_rank (rdr_pc r)" ?y] assms(2)
    by (simp add: steps_left_def set_reader_def)
qed

lemma steps_left_upd [simp]:
  "steps_left c (s\<lparr>sy_log := l\<rparr>) = steps_left c s" "steps_left c (s\<lparr>sy_chan := ch\<rparr>) = steps_left c s"
  "steps_left c (s\<lparr>sy_done := d\<rparr>) = steps_left c s"
  by (simp_all add: steps_left_def)

lemma steps_left_new_result [simp]: "steps_left c (new_result i err s) = steps_left c s"
proof -
  have pcs: "map (\<lambda>r. rd_rank (rdr_pc r)) rs = map rd_rank (map rdr_pc rs)" for rs by simp
  show ?thesis by (simp only: steps_left_def new_result_sel pcs new_result_pcs)
qed

lemma steps_left_finish:
  assumes "sy_halt s = None" and "i < length (sy_rdrs s)"
    and "\<And>pc log. r = Ret (pc, log) \<Longrightarrow> rd_rank pc < rd_rank (rdr_pc (sy_rdrs s ! i))"
  shows "steps_left c (finish_reader i r s) < steps_left c s"
proof (cases rule: finish_reader_cases [of r i s])
  case (panic msg)
  then show ?thesis using assms(1) by (simp add: steps_left_def)
next
  case (ret pc log)
  then show ?thesis using steps_left_set_reader [OF assms(2) assms(3)] by simp
qed

lemma steps_left_reader:
  assumes "sy_halt s = None" and "sy_done s" and i: "i < length (sy_rdrs s)"
    and "reader_step c i inp s = Some t"
  shows "steps_left c t < steps_left c s"
  using assms(4)
proof (cases rule: reader_step_cases)
  case (new err)
  have "rd_rank (reader_new (cf_lib c) (rdr_map (sy_rdrs s ! i)) err) < 2"
    by (simp add: reader_new_def split: option.split)
  then show ?thesis using new i steps_left_set_reader [of i "new_result i err s"] by simp
next
  case check
  show ?thesis unfolding check(2)
  proof (rule steps_left_finish [OF assms(1) i])
    fix pc log assume "ctx_check (rdr_kind (sy_rdrs s ! i)) (sy_mod s) (sy_done s) (sy_log s) = Ret (pc, log)"
    then have "pc = RdExit" using ctx_check_effect assms(2) by fastforce
    then show "rd_rank pc < rd_rank (rdr_pc (sy_rdrs s ! i))" by (simp add: check(1))
  qed
next
  case (read res now)
  show ?thesis unfolding read(2)
  proof (rule steps_left_finish [OF assms(1) i])
    fix pc log assume "reader_read (rdr_kind (sy_rdrs s ! i)) (sy_mod s) (cf_decode c now)
      (rdr_map (sy_rdrs s ! i)) res (sy_log s) = Ret (pc, log)"
    then have "pc \<noteq> RdRead" "pc \<noteq> RdNew" using reader_read_effect by blast+
    then show "rd_rank pc < rd_rank (rdr_pc (sy_rdrs s ! i))" by (cases pc) (simp_all add: read(1))
  qed
next
  case (send err)
  then show ?thesis using steps_left_set_reader [OF i, of RdExit] by simp
qed

lemma steps_left_run:
  assumes "sy_halt s = None" and "sy_watch s = NotStarted" and "Run_step c s = Some t"
  shows "steps_left c t < steps_left c s"
  using assms(3) by (cases rule: Run_step_cases) (use assms(1,2) in \<open>auto simp: steps_left_def new_reader_def\<close>)

lemma steps_left_step:
  assumes "sys_step c s t" and "sy_done s" and "sys_inv c s" and "t \<noteq> s"
  shows "steps_left c t < steps_left c s"
  using assms(1)
proof cases
  case run
  then show ?thesis using assms(3) by (intro steps_left_run) (simp_all add: sys_inv_def err_inv_def)
next
  case watch
  then show ?thesis using run_step_upd assms(3) by (force simp: sys_inv_def err_inv_def)
next
  case (reader i inp)
  then show ?thesis using assms(2) by (intro steps_left_reader)
next
  case cancel
  then show ?thesis using assms(2,4) by simp
qed

lemma cancelled_runs_finite:
  assumes "sys_reach c m (f 0)" and "sy_done (f 0)" and "\<forall>i. sys_step c (f i) (f (Suc i)) \<and> f (Suc i) \<noteq> f i"
  shows False
proof -
  have inv: "sys_reach c m (f i) \<and> sy_done (f i)" for i
  proof (induction i)
    case (Suc i)
    then show ?case using assms(3) sys_reach.step cancelled_step by blast
  qed (use assms in simp)
  then have "steps_left c (f (Suc i)) < steps_left c (f i)" for i
    using assms(3) steps_left_step sys_reach_inv by blast
  then have "\<exists>g. \<forall>i. (g (Suc i), g i) \<in> less_than" by (intro exI [of _ "\<lambda>i. steps_left c (f i)"]) simp
  then show False using wf_less_than unfolding wf_iff_no_infinite_down_chain by blast
qed

section \<open>Runs without event maps\<close>

lemma no_events_waits:
  assumes "sys_reach c m s" and "cf_events c = []" and "cf_start c = Ret None"
  shows "sy_pc s = RunStart \<or> sy_pc s = RunRead (ReSpawn []) \<or> sy_pc s = RunRead ReWait"
  using assms(1)
proof induction
  case (step s t)
  have chan: "sy_chan s = []" and rd: "rd_count live s = 0"
    using sys_reach_inv [OF step.hyps(1)] assms(2) by (simp_all add: sys_inv_def chan_inv_def)
  from step.hyps(2) show ?case
  proof cases
    case run
    then show ?thesis
      by (cases rule: Run_step_cases [OF run(2)]) (use step.IH chan assms(2,3) in \<open>auto dest: arg_cong [where f = sy_pc]\<close>)
  next
    case watch
    then show ?thesis
      using step.IH by (auto simp: run_step_def split: if_splits option.splits)
  next
    case (reader i inp)
    from reader(3) have "sy_pc t = sy_pc s"
      by (cases rule: reader_step_cases) (auto simp: finish_reader_def split: go.splits)
    then show ?thesis using step.IH by simp
  next
    case cancel
    then show ?thesis using step.IH by simp
  qed
qed (simp add: sys_init_def)

section \<open>Properties\<close>

text \<open>C25. Every record is decoded into a fresh event of the right type. A clone has the dynamic type of the
  prototype it is made from and arrays of the declared sizes; decoding keeps both for every payload, whether it
  succeeds or stops half way with an error; and the outcome of \<open>EventsDecode\<close> depends on the dynamic
  type of the prototype only, not on what the prototype holds.\<close>

theorem event_types_preserved:
  "dyn_type (IEvent_Clone ev) = dyn_type ev \<and> event_typed (IEvent_Clone ev)
   \<and> (IEvent_Decode rt p ev = Ret (err, ev1) \<longrightarrow>
        dyn_type ev1 = dyn_type ev \<and> (event_typed ev \<longrightarrow> event_typed ev1))
   \<and> (dyn_type ev' = dyn_type ev \<longrightarrow>
        EventsDecode IEvent_Clone (IEvent_Decode rt) (IEvent_String rt now) p ev'
        = EventsDecode IEvent_Clone (IEvent_Decode rt) (IEvent_String rt now) p ev)"
  using IEvent_Decode_type [of rt p ev err ev1] IEvent_Decode_typed [of rt p ev err ev1] IEvent_Clone_fresh [of ev' ev]
  by (simp add: EventsDecode_def)

text \<open>A payload that ends inside the mode, and a prototype that already holds an event.\<close>

theorem event_types_preserved_witness:
  "\<exists>ev1. IEvent_Decode \<lparr>rt_zone = \<lambda>_. 0, rt_host = LittleEndian, rt_dns = sample_dns_lib\<rparr>
     [1, 2, 3, 4, 5] (EvJava JavaJDKExecPeEvent_new) = Ret (Some (Errorw ''read e.Mode:'' ErrUnexpectedEOF ''''), ev1)
   \<and> dyn_type ev1 = JavaJDKExecPeEvent_t \<and> event_typed ev1
   \<and> EventsDecode IEvent_Clone (IEvent_Decode \<lparr>rt_zone = \<lambda>_. 0, rt_host = LittleEndian, rt_dns = sample_dns_lib\<rparr>)
       (IEvent_String \<lparr>rt_zone = \<lambda>_. 0, rt_host = LittleEndian, rt_dns = sample_dns_lib\<rparr> 0) [1] (EvJava (JavaJDKExecPeEvent_new\<lparr>java_Pid := 7\<rparr>))
     = EventsDecode IEvent_Clone (IEvent_Decode \<lparr>rt_zone = \<lambda>_. 0, rt_host = LittleEndian, rt_dns = sample_dns_lib\<rparr>)
       (IEvent_String \<lparr>rt_zone = \<lambda>_. 0, rt_host = LittleEndian, rt_dns = sample_dns_lib\<rparr> 0) [1] (EvJava JavaJDKExecPeEvent_new)"
proof -
  let ?ev1 = "EvJava (JavaJDKExecPeEvent_new\<lparr>java_Pid := le_word [1, 2, 3, 4]\<rparr>)"
  have "IEvent_Decode \<lparr>rt_zone = \<lambda>_. 0, rt_host = LittleEndian, rt_dns = sample_dns_lib\<rparr>
     [1, 2, 3, 4, 5] (EvJava JavaJDKExecPeEvent_new) = Ret (Some (Errorw ''read e.Mode:'' ErrUnexpectedEOF ''''), ?ev1)"
    using JavaJDKExecPeEvent_Decode_short(2) [of "[1, 2, 3, 4, 5]" JavaJDKExecPeEvent_new]
    by (simp add: lift_decode_def)
  moreover have "event_typed (EvJava JavaJDKExecPeEvent_new)" by (simp add: JavaJDKExecPeEvent_new_def)
  ultimately show ?thesis
    using event_types_preserved [of "EvJava JavaJDKExecPeEvent_new"
      "\<lparr>rt_zone = \<lambda>_. 0, rt_host = LittleEndian, rt_dns = sample_dns_lib\<rparr>" "[1, 2, 3, 4, 5]"
      "Some (Errorw ''read e.Mode:'' ErrUnexpectedEOF '''')" ?ev1]
      event_types_preserved [of "EvJava JavaJDKExecPeEvent_new" "\<lparr>rt_zone = \<lambda>_. 0, rt_host = LittleEndian, rt_dns = sample_dns_lib\<rparr>" "[1]" _ _ "EvJava (JavaJDKExecPeEvent_new\<lparr>java_Pid := 7\<rparr>)" 0]
    by (intro exI [of _ ?ev1]) simp
qed

text \<open>A concrete run: one perf map whose reader cannot be created.\<close>

definition sample_ebpf_lib :: ebpf_lib where
  "sample_ebpf_lib = \<lparr>map_Type = (\<lambda>_. PerfEventArray), map_TypeString = (\<lambda>_. ''PerfEventArray''),
     map_String = (\<lambda>_. ''events''), map_address = (\<lambda>_. ''0xc000'')\<rparr>"

definition sample_cfg :: "mapref list \<Rightarrow> cfg" where
  "sample_cfg ms = \<lparr>cf_lib = sample_ebpf_lib, cf_start = Ret None, cf_events = ms,
     cf_decode = (\<lambda>now em b. Ret (''x'', None)), cf_stop = None\<rparr>"

definition sample_module :: Module where
  "sample_module = \<lparr>mod_opts = None, mod_reader = [], mod_ctx = Some 0, mod_logger = Some 0,
     mod_child = Some MTCPProbe, mod_name = ''EBPFProbeKTCP'',
     mod_mType = ''kprobe''\<rparr>"

text \<open>The state in which the reader of map 7 has failed to start and wants to send its error.\<close>

definition sample_failed :: sys where
  "sample_failed = (sys_init sample_module)\<lparr>sy_pc := RunRead ReWait,
     sy_rdrs := [\<lparr>rdr_kind = PerfReader, rdr_map = 7,
       rdr_pc = RdSend (Errorw ''creating events reader dns: '' EOF ''''),
       rdr_opened = False, rdr_deferred = 0, rdr_closes = 0\<rparr>]\<rparr>"

lemma sample_failed_reach: "sys_reach (sample_cfg [7]) sample_module sample_failed"
proof -
  let ?c = "sample_cfg [7]" and ?m = sample_module
  let ?s1 = "(sys_init ?m)\<lparr>sy_pc := RunRead (ReSpawn [7])\<rparr>"
  let ?s2 = "(sys_init ?m)\<lparr>sy_pc := RunRead (ReSpawn []), sy_rdrs := [new_reader PerfReader 7]\<rparr>"
  let ?s3 = "(sys_init ?m)\<lparr>sy_pc := RunRead ReWait, sy_rdrs := [new_reader PerfReader 7]\<rparr>"
  have "sys_step ?c (sys_init ?m) ?s1"
    by (rule sys_step.run) (simp_all add: sys_init_def sample_cfg_def sample_module_def)
  moreover have "sys_step ?c ?s1 ?s2"
    by (rule sys_step.run) (simp_all add: sys_init_def sample_cfg_def sample_ebpf_lib_def)
  moreover have "sys_step ?c ?s2 ?s3"
    by (rule sys_step.run) (simp_all add: sys_init_def)
  moreover have "sys_step ?c ?s3 sample_failed"
    by (rule sys_step.reader [where i = 0 and inp = "NewResult (Some EOF)"])
      (simp_all add: sys_init_def reader_step_def new_reader_def reader_new_def set_reader_def
        reader_goto_def new_result_def sample_cfg_def sample_ebpf_lib_def sample_failed_def)
  ultimately show ?thesis by (meson sys_reach.init sys_reach.step)
qed

text \<open>C5. \<open>Run\<close> never returns \<open>nil\<close>: \<open>readEvents\<close> leaves its loop only with an error some goroutine
  sent, and no goroutine sends \<open>nil\<close>. So the goroutine that waits for the context and calls
  \<open>child.Stop\<close> is never started.\<close>

theorem run_never_returns_nil:
  assumes "sys_reach c m s"
  shows "sy_pc s \<noteq> RunRet None \<and> None \<notin> set (sy_chan s) \<and> sy_watch s = NotStarted \<and> run_step c s = None"
  using sys_reach_inv [OF assms] by (simp add: sys_inv_def err_inv_def run_step_def)

theorem run_never_returns_nil_witness:
  "run_step (sample_cfg [7]) sample_failed = None \<and> sy_watch sample_failed = NotStarted"
  using run_never_returns_nil [OF sample_failed_reach] by simp

text \<open>C6. With at most eight event maps, as many as the error channel has places, the channel never overflows and no
  send on it ever blocks: neither that of a reader nor that of \<open>readEvents\<close> for a map of an
  unsupported type, in whatever order the goroutines run.\<close>

theorem errChan_never_blocks:
  assumes "sys_reach c m s" and "length (cf_events c) \<le> 8"
  shows "length (sy_chan s) \<le> 8
    \<and> (\<forall>i err. i < length (sy_rdrs s) \<and> rdr_pc (sy_rdrs s ! i) = RdSend err
         \<longrightarrow> (\<exists>t. reader_step c i NoInput s = Some t))
    \<and> (\<forall>err evs. sy_pc s = RunRead (ReSend err evs) \<longrightarrow> (\<exists>t. Run_step c s = Some t))"
proof -
  have inv: "length (sy_chan s) + pc_left c (sy_pc s) + rd_count live s \<le> errChan_cap"
    using sys_reach_inv [OF assms(1)] assms(2) by (simp add: sys_inv_def chan_inv_def errChan_cap_def)
  have "length (sy_chan s) < errChan_cap"
    if "i < length (sy_rdrs s)" "rdr_pc (sy_rdrs s ! i) = RdSend err" for i err
  proof -
    have "sy_rdrs s ! i \<in> set (filter (\<lambda>r. live (rdr_pc r)) (sy_rdrs s))" using that by simp
    then have "0 < rd_count live s" unfolding rd_count_def by (rule length_pos_if_in_set)
    with inv show ?thesis by linarith
  qed
  moreover have "length (sy_chan s) < errChan_cap" if "sy_pc s = RunRead (ReSend err evs)" for err evs
    using inv that by simp
  ultimately show ?thesis using inv by (auto simp: reader_step_def errChan_cap_def)
qed

theorem errChan_never_blocks_witness:
  "\<exists>t. reader_step (sample_cfg [7]) 0 NoInput sample_failed = Some t"
  using errChan_never_blocks [OF sample_failed_reach]
  by (simp add: sample_cfg_def errChan_cap_def sample_failed_def)

text \<open>C30. Every reader is closed exactly once, and not before its goroutine returns: the calls of
  \<open>rd.Close()\<close> a goroutine has made are one when it has returned after \<open>NewReader\<close> succeeded, by
  whichever of its returns, and none before or when there was no reader to close. A goroutine in its
  loop has a reader.\<close>

theorem readers_closed:
  assumes "sys_reach c m s" and "r \<in> set (sy_rdrs s)"
  shows "rdr_closes r = (if rdr_pc r = RdExit \<and> rdr_opened r then 1 else 0)
    \<and> (rdr_pc r = RdRead \<or> rdr_pc r = RdCheck \<longrightarrow> rdr_opened r)"
proof -
  have "rdr_ok r" using sys_reach_inv [OF assms(1)] assms(2) by (simp add: sys_inv_def open_inv_def)
  then show ?thesis by (cases "rdr_pc r") (simp_all add: rdr_ok_def)
qed

text \<open>A reader that is created, sees the cancelled context and returns.\<close>

theorem readers_closed_witness:
  "\<exists>s r. sys_reach (sample_cfg [7]) sample_module s \<and> sy_rdrs s = [r]
     \<and> rdr_pc r = RdExit \<and> rdr_opened r \<and> rdr_closes r = 1"
proof -
  let ?c = "sample_cfg [7]" and ?m = sample_module
  let ?at = "\<lambda>r. (sys_init ?m)\<lparr>sy_done := True, sy_pc := RunRead (ReSpawn []), sy_rdrs := [r]\<rparr>"
  let ?r1 = "reader_goto RdCheck (reader_defer (new_reader PerfReader 7))"
  have "sys_step ?c (sys_init ?m) ((sys_init ?m)\<lparr>sy_done := True\<rparr>)"
    by (rule sys_step.cancel) (simp add: sys_init_def)
  moreover have "sys_step ?c ((sys_init ?m)\<lparr>sy_done := True\<rparr>)
      ((sys_init ?m)\<lparr>sy_done := True, sy_pc := RunRead (ReSpawn [7])\<rparr>)"
    by (rule sys_step.run) (simp_all add: sys_init_def sample_cfg_def sample_module_def)
  moreover have "sys_step ?c ((sys_init ?m)\<lparr>sy_done := True, sy_pc := RunRead (ReSpawn [7])\<rparr>)
      (?at (new_reader PerfReader 7))"
    by (rule sys_step.run) (simp_all add: sys_init_def sample_cfg_def sample_ebpf_lib_def)
  moreover have "sys_step ?c (?at (new_reader PerfReader 7)) (?at ?r1)"
    by (rule sys_step.reader [where i = 0 and inp = "NewResult None"])
      (simp_all add: sys_init_def reader_step_def new_reader_def reader_new_def set_reader_def new_result_def)
  moreover have "sys_step ?c (?at ?r1) ((?at (reader_goto RdExit ?r1))\<lparr>sy_log :=
      [LogText ''readEvent recived close signal from context.Done.'']\<rparr>)"
    by (rule sys_step.reader [where i = 0 and inp = NoInput])
      (simp_all add: sys_init_def reader_step_def ctx_check_def finish_reader_def set_reader_def
        sample_module_def new_reader_def reader_goto_def reader_defer_def)
  ultimately have reach: "sys_reach ?c ?m ((?at (reader_goto RdExit ?r1))\<lparr>sy_log :=
      [LogText ''readEvent recived close signal from context.Done.'']\<rparr>)" (is "sys_reach ?c ?m ?s")
    by (meson sys_reach.init sys_reach.step)
  then have "rdr_closes (reader_goto RdExit ?r1) =
      (if rdr_pc (reader_goto RdExit ?r1) = RdExit \<and> rdr_opened (reader_goto RdExit ?r1) then 1 else 0)"
    using conjunct1 [OF readers_closed [OF reach, of "reader_goto RdExit ?r1"]] by simp
  then show ?thesis
    using reach by (intro exI [of _ ?s] exI [of _ "reader_goto RdExit ?r1"])
      (simp add: reader_goto_def reader_return_def reader_defer_def)
qed

text \<open>C9. Once the context is cancelled, at most one more report per reader that is inside \<open>Read\<close> at that
  moment is written, however the goroutines go on: each report of such a reader takes it out of \<open>Read\<close>,
  and no reader enters \<open>Read\<close> again.\<close>

theorem reports_after_cancel:
  assumes "(sys_step c)\<^sup>*\<^sup>* s t" and "sy_done s"
  shows "reports t + in_read t \<le> reports s + in_read s"
  using cancelled_steps [OF assms] by simp

theorem reports_after_cancel_witness:
  "\<exists>s t. sys_step (sample_cfg [7]) s t \<and> sy_done s \<and> reports s = 0 \<and> in_read s = 1
     \<and> reports t = 1 \<and> in_read t = 0"
proof -
  let ?s = "(sys_init sample_module)\<lparr>sy_done := True, sy_rdrs :=
      [\<lparr>rdr_kind = RingbufReader, rdr_map = 7, rdr_pc = RdRead, rdr_opened = True, rdr_deferred = 1, rdr_closes = 0\<rparr>]\<rparr>"
  let ?t = "(set_reader 0 RdCheck ?s)\<lparr>sy_log := [LogReport (report_line sample_module ''x'')]\<rparr>"
  have step: "sys_step (sample_cfg [7]) ?s ?t"
    by (rule sys_step.reader [where i = 0
          and inp = "ReadResult (Inr \<lparr>rec_LostSamples = 0, rec_RawSample = [1]\<rparr>) 0"])
      (simp_all add: sys_init_def reader_step_def reader_read_def ringbufEventReader_read_def
        handle_sample_def sample_cfg_def Module_Write_eq sample_module_def finish_reader_def)
  then have "reports ?t + in_read ?t \<le> reports ?s + in_read ?s" by (intro reports_after_cancel) auto
  moreover have "reports ?t = 1" "reports ?s = 0" "in_read ?s = 1"
    by (simp_all add: reports_def in_read_def rd_count_def sys_init_def)
  ultimately show ?thesis using step by (intro exI [of _ ?s] exI [of _ ?t]) simp
qed

text \<open>C8. After cancellation the goroutines of a module come to rest: there is no infinite execution in
  which every step changes the state. (They may rest inside \<open>Read\<close>: nothing wakes a reader there.)\<close>

theorem cancelled_run_terminates:
  assumes "sys_reach c m s" and "sy_done s"
  shows "\<nexists>f. f 0 = s \<and> (\<forall>i. sys_step c (f i) (f (Suc i)) \<and> f (Suc i) \<noteq> f i)"
  using cancelled_runs_finite assms by blast

theorem cancelled_run_terminates_witness:
  "\<nexists>f. f 0 = sample_failed\<lparr>sy_done := True\<rparr>
     \<and> (\<forall>i. sys_step (sample_cfg [7]) (f i) (f (Suc i)) \<and> f (Suc i) \<noteq> f i)"
proof -
  have "sys_step (sample_cfg [7]) sample_failed (sample_failed\<lparr>sy_done := True\<rparr>)"
    by (rule sys_step.cancel) (simp add: sample_failed_def sys_init_def)
  then have "sys_reach (sample_cfg [7]) sample_module (sample_failed\<lparr>sy_done := True\<rparr>)"
    by (rule sys_reach.step [OF sample_failed_reach])
  then show ?thesis by (rule cancelled_run_terminates) simp
qed

end
