(* ===== verification/Assets.thy ===== *)
theory Assets
  imports Go_Prelude "HOL-Library.Multiset"
begin

text \<open>
  \<open>assets/ebpf_probe.go\<close>: the table of the compiled eBPF programs the agent carries, as
  \<open>go-bindata\<close> writes it.

  The seven byte literals are the record \<open>blobs\<close>, and \<open>compress/gzip\<close> with \<open>io.Copy\<close> is the
  function \<open>gunzip\<close>: for the compressed data it gives the error of \<open>gzip.NewReader\<close>, or the bytes
  copied, the error of the copy and the error of \<open>Close\<close>. Both are arguments. A \<open>nil\<close> slice is the
  empty list. A map literal is an association list; where the code ranges over a map, the order is
  an argument.
\<close>

section \<open>Reading an asset\<close>

type_synonym gunzip = "bytes \<Rightarrow> goerr + (bytes \<times> goerr option \<times> goerr option)"

record blobs =
  bindataUserBytecodeBpfcallkernO_data :: bytes
  bindataUserBytecodeDnslookupkernO_data :: bytes
  bindataUserBytecodeJavaexeckernO_data :: bytes
  bindataUserBytecodeProckernO_data :: bytes
  bindataUserBytecodeSecsocketconnectkernO_data :: bytes
  bindataUserBytecodeTcpsetstatekernO_data :: bytes
  bindataUserBytecodeUdplookupkernO_data :: bytes

record asset_env =
  ae_gunzip :: gunzip
  ae_blobs :: blobs

text \<open>The verb \<open>%q\<close> on a name without quotes, backslashes and control characters, as all names
  of the table are.\<close>

definition quoted :: "string \<Rightarrow> string" where
  "quoted s = [CHR 0x22] @ s @ [CHR 0x22]"

definition bindataRead :: "gunzip \<Rightarrow> bytes \<Rightarrow> string \<Rightarrow> bytes \<times> goerr option" where
  "bindataRead gz data name =
    (case gz data of
       Inl err \<Rightarrow> ([], Some (Errorw (''Read '' @ quoted name @ '': '') err ''''))
     | Inr (buf, err, clErr) \<Rightarrow>
        (case err of
           Some er \<Rightarrow> ([], Some (Errorw (''Read '' @ quoted name @ '': '') er ''''))
         | None \<Rightarrow> (case clErr of
             Some _ \<Rightarrow> ([], err)
           | None \<Rightarrow> (buf, None))))"

record bindataFileInfo =
  fi_name :: string
  fi_size :: int
  fi_mode :: nat
  fi_modTime :: "int \<times> int" \<comment> \<open>the arguments of \<open>time.Unix\<close>\<close>
  fi_md5checksum :: string

record asset =
  as_bytes :: bytes
  as_info :: bindataFileInfo

text \<open>The methods of \<open>bindataFileInfo\<close> the code or a caller of \<open>AssetInfo\<close> may use.\<close>

definition FileInfo_Name :: "bindataFileInfo \<Rightarrow> string" where "FileInfo_Name fi = fi_name fi"
definition FileInfo_Size :: "bindataFileInfo \<Rightarrow> int" where "FileInfo_Size fi = fi_size fi"
definition FileInfo_Mode :: "bindataFileInfo \<Rightarrow> nat" where "FileInfo_Mode fi = fi_mode fi"
definition FileInfo_ModTime :: "bindataFileInfo \<Rightarrow> int \<times> int" where "FileInfo_ModTime fi = fi_modTime fi"
definition FileInfo_MD5Checksum :: "bindataFileInfo \<Rightarrow> string" where
  "FileInfo_MD5Checksum fi = fi_md5checksum fi"
definition FileInfo_IsDir :: "bindataFileInfo \<Rightarrow> bool" where "FileInfo_IsDir fi = False"
definition FileInfo_Sys :: "bindataFileInfo \<Rightarrow> unit option" where "FileInfo_Sys fi = None"

type_synonym asset_fun = "asset_env \<Rightarrow> goerr + asset"

definition bindataUserBytecodeBpfcallkernOBytes :: "asset_env \<Rightarrow> bytes \<times> goerr option" where
  "bindataUserBytecodeBpfcallkernOBytes ae =
     bindataRead (ae_gunzip ae) (bindataUserBytecodeBpfcallkernO_data (ae_blobs ae))
       ''user/bytecode/bpf_call_kern.o''"

definition bindataUserBytecodeBpfcallkernO :: asset_fun where
  "bindataUserBytecodeBpfcallkernO ae =
    (case bindataUserBytecodeBpfcallkernOBytes ae of
       (_, Some err) \<Rightarrow> Inl err
     | (bytes, None) \<Rightarrow> Inr \<lparr>as_bytes = bytes, as_info =
         \<lparr>fi_name = ''user/bytecode/bpf_call_kern.o'', fi_size = 701304, fi_mode = 420,
          fi_modTime = (1643269802, 0), fi_md5checksum = []\<rparr>\<rparr>)"

definition bindataUserBytecodeDnslookupkernOBytes :: "asset_env \<Rightarrow> bytes \<times> goerr option" where
  "bindataUserBytecodeDnslookupkernOBytes ae =
     bindataRead (ae_gunzip ae) (bindataUserBytecodeDnslookupkernO_data (ae_blobs ae))
       ''user/bytecode/dns_lookup_kern.o''"

definition bindataUserBytecodeDnslookupkernO :: asset_fun where
  "bindataUserBytecodeDnslookupkernO ae =
    (case bindataUserBytecodeDnslookupkernOBytes ae of
       (_, Some err) \<Rightarrow> Inl err
     | (bytes, None) \<Rightarrow> Inr \<lparr>as_bytes = bytes, as_info =
         \<lparr>fi_name = ''user/bytecode/dns_lookup_kern.o'', fi_size = 18440, fi_mode = 420,
          fi_modTime = (1643269801, 0), fi_md5checksum = []\<rparr>\<rparr>)"

definition bindataUserBytecodeJavaexeckernOBytes :: "asset_env \<Rightarrow> bytes \<times> goerr option" where
  "bindataUserBytecodeJavaexeckernOBytes ae =
     bindataRead (ae_gunzip ae) (bindataUserBytecodeJavaexeckernO_data (ae_blobs ae))
       ''user/bytecode/java_exec_kern.o''"

definition bindataUserBytecodeJavaexeckernO :: asset_fun where
  "bindataUserBytecodeJavaexeckernO ae =
    (case bindataUserBytecodeJavaexeckernOBytes ae of
       (_, Some err) \<Rightarrow> Inl err
     | (bytes, None) \<Rightarrow> Inr \<lparr>as_bytes = bytes, as_info =
         \<lparr>fi_name = ''user/bytecode/java_exec_kern.o'', fi_size = 8048, fi_mode = 420,
          fi_modTime = (1643269801, 0), fi_md5checksum = []\<rparr>\<rparr>)"

definition bindataUserBytecodeProckernOBytes :: "asset_env \<Rightarrow> bytes \<times> goerr option" where
  "bindataUserBytecodeProckernOBytes ae =
     bindataRead (ae_gunzip ae) (bindataUserBytecodeProckernO_data (ae_blobs ae))
       ''user/bytecode/proc_kern.o''"

definition bindataUserBytecodeProckernO :: asset_fun where
  "bindataUserBytecodeProckernO ae =
    (case bindataUserBytecodeProckernOBytes ae of
       (_, Some err) \<Rightarrow> Inl err
     | (bytes, None) \<Rightarrow> Inr \<lparr>as_bytes = bytes, as_info =
         \<lparr>fi_name = ''user/bytecode/proc_kern.o'', fi_size = 668136, fi_mode = 420,
          fi_modTime = (1643269802, 0), fi_md5checksum = []\<rparr>\<rparr>)"

definition bindataUserBytecodeSecsocketconnectkernOBytes :: "asset_env \<Rightarrow> bytes \<times> goerr option" where
  "bindataUserBytecodeSecsocketconnectkernOBytes ae =
     bindataRead (ae_gunzip ae) (bindataUserBytecodeSecsocketconnectkernO_data (ae_blobs ae))
       ''user/bytecode/sec_socket_connect_kern.o''"

definition bindataUserBytecodeSecsocketconnectkernO :: asset_fun where
  "bindataUserBytecodeSecsocketconnectkernO ae =
    (case bindataUserBytecodeSecsocketconnectkernOBytes ae of
       (_, Some err) \<Rightarrow> Inl err
     | (bytes, None) \<Rightarrow> Inr \<lparr>as_bytes = bytes, as_info =
         \<lparr>fi_name = ''user/bytecode/sec_socket_connect_kern.o'', fi_size = 655616, fi_mode = 420,
          fi_modTime = (1643269800, 0), fi_md5checksum = []\<rparr>\<rparr>)"

definition bindataUserBytecodeTcpsetstatekernOBytes :: "asset_env \<Rightarrow> bytes \<times> goerr option" where
  "bindataUserBytecodeTcpsetstatekernOBytes ae =
     bindataRead (ae_gunzip ae) (bindataUserBytecodeTcpsetstatekernO_data (ae_blobs ae))
       ''user/bytecode/tcp_set_state_kern.o''"

definition bindataUserBytecodeTcpsetstatekernO :: asset_fun where
  "bindataUserBytecodeTcpsetstatekernO ae =
    (case bindataUserBytecodeTcpsetstatekernOBytes ae of
       (_, Some err) \<Rightarrow> Inl err
     | (bytes, None) \<Rightarrow> Inr \<lparr>as_bytes = bytes, as_info =
         \<lparr>fi_name = ''user/bytecode/tcp_set_state_kern.o'', fi_size = 686280, fi_mode = 420,
          fi_modTime = (1643269800, 0), fi_md5checksum = []\<rparr>\<rparr>)"

definition bindataUserBytecodeUdplookupkernOBytes :: "asset_env \<Rightarrow> bytes \<times> goerr option" where
  "bindataUserBytecodeUdplookupkernOBytes ae =
     bindataRead (ae_gunzip ae) (bindataUserBytecodeUdplookupkernO_data (ae_blobs ae))
       ''user/bytecode/udp_lookup_kern.o''"

definition bindataUserBytecodeUdplookupkernO :: asset_fun where
  "bindataUserBytecodeUdplookupkernO ae =
    (case bindataUserBytecodeUdplookupkernOBytes ae of
       (_, Some err) \<Rightarrow> Inl err
     | (bytes, None) \<Rightarrow> Inr \<lparr>as_bytes = bytes, as_info =
         \<lparr>fi_name = ''user/bytecode/udp_lookup_kern.o'', fi_size = 655880, fi_mode = 420,
          fi_modTime = (1643269801, 0), fi_md5checksum = []\<rparr>\<rparr>)"

section \<open>The table\<close>

definition bindata_table :: "(string \<times> asset_fun) list" where
  "bindata_table =
    [(''user/bytecode/bpf_call_kern.o'', bindataUserBytecodeBpfcallkernO),
     (''user/bytecode/dns_lookup_kern.o'', bindataUserBytecodeDnslookupkernO),
     (''user/bytecode/java_exec_kern.o'', bindataUserBytecodeJavaexeckernO),
     (''user/bytecode/proc_kern.o'', bindataUserBytecodeProckernO),
     (''user/bytecode/sec_socket_connect_kern.o'', bindataUserBytecodeSecsocketconnectkernO),
     (''user/bytecode/tcp_set_state_kern.o'', bindataUserBytecodeTcpsetstatekernO),
     (''user/bytecode/udp_lookup_kern.o'', bindataUserBytecodeUdplookupkernO)]"

text \<open>\<open>strings.Replace(name, "\\", "/", -1)\<close>.\<close>

definition cannonicalName :: "string \<Rightarrow> string" where
  "cannonicalName name = map (\<lambda>c. if c = CHR 0x5C then CHR ''/'' else c) name"

definition Asset :: "asset_env \<Rightarrow> string \<Rightarrow> bytes \<times> goerr option" where
  "Asset ae name =
    (case map_of bindata_table (cannonicalName name) of
       Some f \<Rightarrow> (case f ae of
           Inl err \<Rightarrow> ([], Some (Errorw (''Asset '' @ name @ '' can't read by error: '') err ''''))
         | Inr a \<Rightarrow> (as_bytes a, None))
     | None \<Rightarrow> ([], Some (PathError ''open'' name ErrNotExist)))"

text \<open>\<open>MustAsset\<close> panics with the text of the error, which \<open>error_text\<close> gives.\<close>

definition MustAsset :: "(goerr \<Rightarrow> string) \<Rightarrow> asset_env \<Rightarrow> string \<Rightarrow> bytes go" where
  "MustAsset error_text ae name =
    (case Asset ae name of
       (_, Some err) \<Rightarrow> Panic (''asset: Asset('' @ name @ ''): '' @ error_text err)
     | (a, None) \<Rightarrow> Ret a)"

definition AssetInfo :: "asset_env \<Rightarrow> string \<Rightarrow> goerr + bindataFileInfo" where
  "AssetInfo ae name =
    (case map_of bindata_table (cannonicalName name) of
       Some f \<Rightarrow> (case f ae of
           Inl err \<Rightarrow> Inl (Errorw (''AssetInfo '' @ name @ '' can't read by error: '') err '''')
         | Inr a \<Rightarrow> Inr (as_info a))
     | None \<Rightarrow> Inl (PathError ''open'' name ErrNotExist))"

text \<open>Ranging over a map lists its keys in some order.\<close>

type_synonym range_order = "string list \<Rightarrow> string list"

definition AssetNames :: "range_order \<Rightarrow> string list" where
  "AssetNames order = fold (\<lambda>name names. names @ [name]) (order (map fst bindata_table)) []"

section \<open>The tree\<close>

datatype bintree = Bintree (bt_Func: "asset_fun option") (bt_Children: "(string \<times> bintree) list")

definition bintree_root :: bintree where
  "bintree_root =
    Bintree None
     [(''user'', Bintree None
       [(''bytecode'', Bintree None
         [(''bpf_call_kern.o'', Bintree (Some bindataUserBytecodeBpfcallkernO) []),
          (''dns_lookup_kern.o'', Bintree (Some bindataUserBytecodeDnslookupkernO) []),
          (''java_exec_kern.o'', Bintree (Some bindataUserBytecodeJavaexeckernO) []),
          (''proc_kern.o'', Bintree (Some bindataUserBytecodeProckernO) []),
          (''sec_socket_connect_kern.o'', Bintree (Some bindataUserBytecodeSecsocketconnectkernO) []),
          (''tcp_set_state_kern.o'', Bintree (Some bindataUserBytecodeTcpsetstatekernO) []),
          (''udp_lookup_kern.o'', Bintree (Some bindataUserBytecodeUdplookupkernO) [])])])]"

text \<open>The loop over the path; \<open>None\<close> when a node is \<open>nil\<close>.\<close>

fun bintree_walk :: "string list \<Rightarrow> bintree \<Rightarrow> bintree option" where
  "bintree_walk [] node = Some node"
| "bintree_walk (p # ps) node =
    (case map_of (bt_Children node) p of
       None \<Rightarrow> None
     | Some child \<Rightarrow> bintree_walk ps child)"

definition AssetDir :: "range_order \<Rightarrow> string \<Rightarrow> goerr + string list" where
  "AssetDir order name =
    (case (if length name \<noteq> 0 then bintree_walk (Split (CHR ''/'') (cannonicalName name)) bintree_root
           else Some bintree_root) of
       None \<Rightarrow> Inl (PathError ''open'' name ErrNotExist)
     | Some node \<Rightarrow>
        (case bt_Func node of
           Some _ \<Rightarrow> Inl (PathError ''open'' name ErrNotExist)
         | None \<Rightarrow> Inr (fold (\<lambda>childName rv. rv @ [childName]) (order (map fst (bt_Children node))) [])))"

section \<open>Lemmas\<close>

lemma cannonicalName_idem [simp]: "cannonicalName (cannonicalName s) = cannonicalName s"
  by (simp add: cannonicalName_def)

lemma fold_snoc: "fold (\<lambda>x ys. ys @ [x]) xs ys = ys @ xs"
  by (induction xs arbitrary: ys) simp_all

lemmas asset_fun_defs = bindataUserBytecodeBpfcallkernO_def bindataUserBytecodeBpfcallkernOBytes_def
  bindataUserBytecodeDnslookupkernO_def bindataUserBytecodeDnslookupkernOBytes_def
  bindataUserBytecodeJavaexeckernO_def bindataUserBytecodeJavaexeckernOBytes_def
  bindataUserBytecodeProckernO_def bindataUserBytecodeProckernOBytes_def
  bindataUserBytecodeSecsocketconnectkernO_def bindataUserBytecodeSecsocketconnectkernOBytes_def
  bindataUserBytecodeTcpsetstatekernO_def bindataUserBytecodeTcpsetstatekernOBytes_def
  bindataUserBytecodeUdplookupkernO_def bindataUserBytecodeUdplookupkernOBytes_def

text \<open>What each name of the table stands for, as a reference for \<open>Asset\<close>.\<close>

definition asset_blobs :: "(string \<times> (blobs \<Rightarrow> bytes)) list" where
  "asset_blobs =
    [(''user/bytecode/bpf_call_kern.o'', bindataUserBytecodeBpfcallkernO_data),
     (''user/bytecode/dns_lookup_kern.o'', bindataUserBytecodeDnslookupkernO_data),
     (''user/bytecode/java_exec_kern.o'', bindataUserBytecodeJavaexeckernO_data),
     (''user/bytecode/proc_kern.o'', bindataUserBytecodeProckernO_data),
     (''user/bytecode/sec_socket_connect_kern.o'', bindataUserBytecodeSecsocketconnectkernO_data),
     (''user/bytecode/tcp_set_state_kern.o'', bindataUserBytecodeTcpsetstatekernO_data),
     (''user/bytecode/udp_lookup_kern.o'', bindataUserBytecodeUdplookupkernO_data)]"

lemma map_of_map_result:
  "map_of (map (\<lambda>(k, a). (k, f k a)) xs) k = map_option (f k) (map_of xs k)"
  by (induction xs) auto

definition asset_bytes :: "asset_env \<Rightarrow> string \<Rightarrow> (blobs \<Rightarrow> bytes) \<Rightarrow> goerr + bytes" where
  "asset_bytes ae k d =
    (case bindataRead (ae_gunzip ae) (d (ae_blobs ae)) k of
       (_, Some err) \<Rightarrow> Inl err | (bytes, None) \<Rightarrow> Inr bytes)"

lemma bindata_table_bytes:
  "map (\<lambda>(k, f). (k, map_sum id as_bytes (f ae))) bindata_table
   = map (\<lambda>(k, d). (k, asset_bytes ae k d)) asset_blobs"
  by (simp add: bindata_table_def asset_blobs_def asset_bytes_def asset_fun_defs split: prod.splits option.splits)

lemma Asset_eq:
  "Asset ae name =
    (case map_of asset_blobs (cannonicalName name) of
       None \<Rightarrow> ([], Some (PathError ''open'' name ErrNotExist))
     | Some d \<Rightarrow> (case asset_bytes ae (cannonicalName name) d of
         Inl err \<Rightarrow> ([], Some (Errorw (''Asset '' @ name @ '' can't read by error: '') err ''''))
       | Inr bs \<Rightarrow> (bs, None)))"
proof -
  have "map_option (\<lambda>f. map_sum id as_bytes (f ae)) (map_of bindata_table k)
      = map_option (asset_bytes ae k) (map_of asset_blobs k)" for k
    using arg_cong [OF bindata_table_bytes, of "\<lambda>t. map_of t k" ae] by (simp add: map_of_map_result)
  from this [of "cannonicalName name"] show ?thesis
    by (cases "map_of asset_blobs (cannonicalName name)"; cases "map_of bindata_table (cannonicalName name)")
      (auto simp: Asset_def split: sum.splits)
qed

text \<open>C39. \<open>Asset\<close> on every name, through the decompression of the blob of that name. A name not in the
  table is a path error; an error of \<open>gzip.NewReader\<close> or of the copy is reported wrapped twice; but
  when only \<open>Close\<close> fails the result is an empty asset and no error, because \<open>bindataRead\<close> returns
  the error of the copy there.\<close>

theorem Asset_cases:
  "Asset ae name =
    (case map_of asset_blobs (cannonicalName name) of
       None \<Rightarrow> ([], Some (PathError ''open'' name ErrNotExist))
     | Some d \<Rightarrow>
        (let failed = (\<lambda>err. ([], Some (Errorw (''Asset '' @ name @ '' can't read by error: '')
               (Errorw (''Read '' @ quoted (cannonicalName name) @ '': '') err '''') '''')))
         in case ae_gunzip ae (d (ae_blobs ae)) of
              Inl err \<Rightarrow> failed err
            | Inr (buf, Some err, clErr) \<Rightarrow> failed err
            | Inr (buf, None, Some clErr) \<Rightarrow> ([], None)
            | Inr (buf, None, None) \<Rightarrow> (buf, None)))"
  by (auto simp: Asset_eq asset_bytes_def bindataRead_def Let_def split: option.splits sum.splits)

text \<open>The parts of a split string joined by the separator are the string.\<close>

fun join_with :: "char \<Rightarrow> string list \<Rightarrow> string" where
  "join_with sep [] = []"
| "join_with sep [p] = p"
| "join_with sep (p # q # ps) = p @ sep # join_with sep (q # ps)"

lemma join_Split: "join_with sep (Split sep s) = s"
proof (induction s)
  case (Cons c cs)
  show ?case
  proof (cases "Split sep cs")
    case (Cons p ps)
    with Cons.IH show ?thesis by (cases ps) auto
  qed simp
qed simp

definition asset_files :: "string list" where
  "asset_files = [''bpf_call_kern.o'', ''dns_lookup_kern.o'', ''java_exec_kern.o'', ''proc_kern.o'',
     ''sec_socket_connect_kern.o'', ''tcp_set_state_kern.o'', ''udp_lookup_kern.o'']"

lemma bintree_walk_dirs:
  "bintree_walk ps bintree_root = Some node \<Longrightarrow> bt_Func node = None \<Longrightarrow>
     ps = [] \<and> map fst (bt_Children node) = [''user''] \<or>
     ps = [''user''] \<and> map fst (bt_Children node) = [''bytecode''] \<or>
     ps = [''user'', ''bytecode''] \<and> map fst (bt_Children node) = asset_files"
  by (cases ps; cases "tl ps"; cases "tl (tl ps)"; cases "tl (tl (tl ps))")
    (auto simp: bintree_root_def asset_files_def split: if_splits)

lemma bintree_walk_files:
  "bintree_walk ps bintree_root = Some node \<and> bt_Func node = Some f \<Longrightarrow>
     map_of bindata_table (join_with (CHR ''/'') ps) = Some f"
  by (cases ps; cases "tl ps"; cases "tl (tl ps)"; cases "tl (tl (tl ps))")
    (auto simp: bintree_root_def bindata_table_def split: if_splits)

text \<open>The tree and the table hold the same assets: walking the parts of a name reaches a file with
  the asset function \<open>f\<close> exactly when the table maps the name to \<open>f\<close>.\<close>

theorem bintree_matches_table:
  "(\<exists>node. bintree_walk (Split (CHR ''/'') (cannonicalName name)) bintree_root = Some node
      \<and> bt_Func node = Some f)
   \<longleftrightarrow> map_of bindata_table (cannonicalName name) = Some f"
proof
  assume "\<exists>node. bintree_walk (Split (CHR ''/'') (cannonicalName name)) bintree_root = Some node
      \<and> bt_Func node = Some f"
  then show "map_of bindata_table (cannonicalName name) = Some f"
    using bintree_walk_files [of "Split (CHR ''/'') (cannonicalName name)"] by (auto simp: join_Split)
next
  assume "map_of bindata_table (cannonicalName name) = Some f"
  then have "(cannonicalName name, f) \<in> set bindata_table" by (rule map_of_SomeD)
  then show "\<exists>node. bintree_walk (Split (CHR ''/'') (cannonicalName name)) bintree_root = Some node
      \<and> bt_Func node = Some f"
    by (auto simp: bindata_table_def bintree_root_def)
qed

text \<open>\<open>AssetDir\<close> lists the three directories of the tree, each exactly once and in the order the
  range over its children takes, and fails with a path error on every other name, files included.\<close>

theorem AssetDir_cases:
  assumes "\<And>xs. mset (order xs) = mset xs"
  shows "AssetDir order name =
      (if name = '''' then Inr [''user'']
       else if cannonicalName name = ''user'' then Inr [''bytecode'']
       else if cannonicalName name = ''user/bytecode'' then Inr (order asset_files)
       else Inl (PathError ''open'' name ErrNotExist))
    \<and> distinct (order asset_files) \<and> set (order asset_files) = set asset_files"
proof -
  have order1: "order [x] = [x]" for x using assms [of "[x]"] by simp
  have "distinct asset_files" by (simp add: asset_files_def)
  then have d: "distinct (order asset_files) \<and> set (order asset_files) = set asset_files"
    using assms [of asset_files] by (metis mset_eq_imp_distinct_iff mset_eq_setD)
  let ?ps = "Split (CHR ''/'') (cannonicalName name)"
  have walk: "bintree_walk [''user''] bintree_root \<noteq> None" "bintree_walk [''user'', ''bytecode''] bintree_root \<noteq> None"
    by (simp_all add: bintree_root_def)
  have files: "bt_Func node = None" if "bintree_walk [''user''] bintree_root = Some node \<or> bintree_walk [''user'', ''bytecode''] bintree_root = Some node" for node
    using that by (auto simp: bintree_root_def)
  have split: "?ps = [''user''] \<longleftrightarrow> cannonicalName name = ''user''"
    "?ps = [''user'', ''bytecode''] \<longleftrightarrow> cannonicalName name = ''user/bytecode''"
    using join_Split [of "CHR ''/''" "cannonicalName name"] by auto
  show ?thesis
  proof (cases "name = ''''")
    case True
    then show ?thesis using d by (simp add: AssetDir_def bintree_root_def fold_snoc order1)
  next
    case False
    then have "AssetDir order name =
      (if ?ps = [''user''] then Inr [''bytecode'']
       else if ?ps = [''user'', ''bytecode''] then Inr (order asset_files)
       else Inl (PathError ''open'' name ErrNotExist))"
      using bintree_walk_dirs [of ?ps] walk files
      by (auto simp: AssetDir_def fold_snoc order1 split: option.splits)
    with False d show ?thesis unfolding split by simp
  qed
qed

theorem AssetDir_cases_witness:
  "AssetDir (\<lambda>xs. xs) ''user'' = Inr [''bytecode'']
   \<and> (\<exists>e. AssetDir (\<lambda>xs. xs) ''user/bytecode/proc_kern.o'' = Inl e)"
  using AssetDir_cases [of "\<lambda>xs. xs" "''user''"] AssetDir_cases [of "\<lambda>xs. xs" "''user/bytecode/proc_kern.o''"]
  by (simp add: cannonicalName_def)

end
