(* ===== verification/Probe_Base.thy ===== *)
theory Probe_Base
  imports Imodule_Safety Assets Common
begin

text \<open>
  What the probes of \<open>user/probe_*.go\<close> share.

  The packages \<open>github.com/ehids/ebpfmanager\<close> and \<open>github.com/cilium/ebpf\<close> load the eBPF programs
  into the kernel; they are not part of the repository. Their calls are the fields of the record
  \<open>penv\<close>, over a world \<open>'w\<close> they may change. All seven probe structs have the same fields and are one
  record \<open>probe\<close>; a method runs on the receiver, the world and the log, and returns an error value
  or a result, or panics. The locale \<open>event_probe\<close> is the contract of \<open>start\<close> for a probe
  with event maps: it does what \<open>load_spec\<close> says.
\<close>

section \<open>The types of the manager package\<close>

record manager_Probe =
  mp_Section :: string
  mp_EbpfFuncName :: string
  mp_AttachToFuncName :: string
  mp_UprobeOffset :: nat
  mp_BinaryPath :: string

text \<open>A handler is a method value, given by the probe it belongs to.\<close>

record PerfMapOptions =
  po_PerfRingBufferSize :: int
  po_DataHandler :: "probe_type option"
  po_LostHandler :: "probe_type option"

record manager_PerfMap =
  pm_Name :: string
  pm_PerfMapOptions :: PerfMapOptions

record Manager =
  mg_Probes :: "manager_Probe list"
  mg_Maps :: "string list"
  mg_PerfMaps :: "manager_PerfMap list"

record MapSpecEditor =
  mse_Type :: map_type
  mse_MaxEntries :: u32

record manager_Options =
  op_DefaultKProbeMaxActive :: nat
  op_LogSize :: nat
  op_RLimit :: "(u64 \<times> u64) option"
  op_MapSpecEditors :: "(string \<times> MapSpecEditor) list"

definition PerfMapOptions_zero :: PerfMapOptions where
  "PerfMapOptions_zero = \<lparr>po_PerfRingBufferSize = 0, po_DataHandler = None, po_LostHandler = None\<rparr>"

definition manager_Options_zero :: manager_Options where
  "manager_Options_zero = \<lparr>op_DefaultKProbeMaxActive = 0, op_LogSize = 0, op_RLimit = None,
     op_MapSpecEditors = []\<rparr>"

abbreviation MaxUint64 :: u64 where
  "MaxUint64 \<equiv> - 1"

section \<open>The probe struct and its environment\<close>

record probe =
  pb_Module :: Module
  pb_bpfManager :: "Manager option"
  pb_bpfManagerOptions :: manager_Options
  pb_eventFuncMaps :: "(mapref \<rightharpoonup> IEventStruct) option"
  pb_eventMaps :: "mapref list"

definition Module_zero :: Module where
  "Module_zero = \<lparr>mod_opts = None, mod_reader = [], mod_ctx = None, mod_logger = None, mod_child = None, mod_name = [], mod_mType = []\<rparr>"

definition probe_zero :: probe where
  "probe_zero = \<lparr>pb_Module = Module_zero, pb_bpfManager = None,
     pb_bpfManagerOptions = manager_Options_zero, pb_eventFuncMaps = None, pb_eventMaps = []\<rparr>"

text \<open>\<open>GetMap\<close> gives a map, whether it was found, and an error; \<open>GetPerfMap\<close> the position of the
  perf map in the manager, as the pointer it returns is one of the manager's.\<close>

record 'w penv =
  pn_assets :: asset_env
  pn_InitWithOptions :: "Manager \<Rightarrow> bytes \<Rightarrow> manager_Options \<Rightarrow> 'w \<Rightarrow> goerr option \<times> 'w"
  pn_Start :: "Manager \<Rightarrow> 'w \<Rightarrow> goerr option \<times> 'w"
  pn_StopCleanAll :: "Manager \<Rightarrow> 'w \<Rightarrow> goerr option \<times> 'w"
  pn_GetMap :: "Manager \<Rightarrow> string \<Rightarrow> 'w \<Rightarrow> mapref \<times> bool \<times> goerr option"
  pn_GetPerfMap :: "Manager \<Rightarrow> string \<Rightarrow> nat option"
  pn_Getpid :: int
  pn_Getpagesize :: int

record 'w pstate =
  ps_this :: probe
  ps_world :: 'w
  ps_log :: log

section \<open>Methods\<close>

type_synonym ('w, 'a) method_act = "'w pstate \<Rightarrow> ((goerr + 'a) \<times> 'w pstate) go"

definition act_return :: "'a \<Rightarrow> ('w, 'a) method_act" where
  "act_return x s = Ret (Inr x, s)"

definition act_bind :: "('w, 'a) method_act \<Rightarrow> ('a \<Rightarrow> ('w, 'b) method_act) \<Rightarrow> ('w, 'b) method_act" where
  "act_bind m f s = go_bind (m s) (\<lambda>(r, t). case r of Inl err \<Rightarrow> Ret (Inl err, t) | Inr x \<Rightarrow> f x t)"

definition act_then :: "('w, 'a) method_act \<Rightarrow> ('w, 'b) method_act \<Rightarrow> ('w, 'b) method_act" where
  "act_then m k = act_bind m (\<lambda>_. k)"

text \<open>\<open>if err := m; err != nil { return errors.Wrap(err, msg) }\<close>.\<close>

definition wrap_err :: "string \<Rightarrow> ('w, 'a) method_act \<Rightarrow> ('w, 'a) method_act" where
  "wrap_err msg m s = go_bind (m s) (\<lambda>(r, t).
     Ret (case r of Inl err \<Rightarrow> Inl (Wrap err msg) | Inr x \<Rightarrow> Inr x, t))"

definition update_this :: "(probe \<Rightarrow> probe) \<Rightarrow> ('w, unit) method_act" where
  "update_this f s = Ret (Inr (), s\<lparr>ps_this := f (ps_this s)\<rparr>)"

definition fetch_asset :: "'w penv \<Rightarrow> string \<Rightarrow> ('w, bytes) method_act" where
  "fetch_asset env name s =
    (case Asset (pn_assets env) name of
       (_, Some err) \<Rightarrow> Ret (Inl err, s)
     | (buf, None) \<Rightarrow> Ret (Inr buf, s))"

text \<open>A call of the manager that may fail. Its pointer is \<open>nil\<close> before \<open>setupManagers\<close>.\<close>

definition manager_call :: "(Manager \<Rightarrow> probe \<Rightarrow> 'w \<Rightarrow> goerr option \<times> 'w) \<Rightarrow> ('w, unit) method_act" where
  "manager_call f s =
    (case pb_bpfManager (ps_this s) of
       None \<Rightarrow> nil_deref
     | Some mg \<Rightarrow>
        (case f mg (ps_this s) (ps_world s) of
           (Some err, w) \<Rightarrow> Ret (Inl err, s\<lparr>ps_world := w\<rparr>)
         | (None, w) \<Rightarrow> Ret (Inr (), s\<lparr>ps_world := w\<rparr>)))"

definition call_InitWithOptions :: "'w penv \<Rightarrow> bytes \<Rightarrow> ('w, unit) method_act" where
  "call_InitWithOptions env buf =
     manager_call (\<lambda>mg this. pn_InitWithOptions env mg buf (pb_bpfManagerOptions this))"

definition call_Start :: "'w penv \<Rightarrow> ('w, unit) method_act" where
  "call_Start env = manager_call (\<lambda>mg this. pn_Start env mg)"

definition call_Stop :: "'w penv \<Rightarrow> ('w, unit) method_act" where
  "call_Stop env = manager_call (\<lambda>mg this. pn_StopCleanAll env mg)"

text \<open>\<open>m, found, err := GetMap(name)\<close> with its two tests.\<close>

definition lookup_map :: "'w penv \<Rightarrow> string \<Rightarrow> string \<Rightarrow> ('w, mapref) method_act" where
  "lookup_map env name notfound s =
    (case pb_bpfManager (ps_this s) of
       None \<Rightarrow> nil_deref
     | Some mg \<Rightarrow>
        (case pn_GetMap env mg name (ps_world s) of
           (m, found, err) \<Rightarrow>
             (case err of
                Some er \<Rightarrow> Ret (Inl er, s)
              | None \<Rightarrow> if found then Ret (Inr m, s) else Ret (Inl (Errorf notfound), s))))"

definition append_eventMap :: "mapref \<Rightarrow> ('w, unit) method_act" where
  "append_eventMap em = update_this (\<lambda>this. this\<lparr>pb_eventMaps := pb_eventMaps this @ [em]\<rparr>)"

definition make_eventFuncMaps :: "('w, unit) method_act" where
  "make_eventFuncMaps = update_this (\<lambda>this. this\<lparr>pb_eventFuncMaps := Some Map.empty\<rparr>)"

definition set_eventFunc :: "mapref \<Rightarrow> IEventStruct \<Rightarrow> ('w, unit) method_act" where
  "set_eventFunc em ev s =
    (case pb_eventFuncMaps (ps_this s) of
       None \<Rightarrow> Panic ''assignment to entry in nil map''
     | Some m \<Rightarrow> Ret (Inr (), s\<lparr>ps_this := (ps_this s)\<lparr>pb_eventFuncMaps := Some (m(em \<mapsto> ev))\<rparr>\<rparr>))"

definition this_logger_print :: "string \<Rightarrow> ('w, unit) method_act" where
  "this_logger_print text s =
     go_bind (logger_print (pb_Module (ps_this s)) text (ps_log s))
       (\<lambda>log. Ret (Inr (), s\<lparr>ps_log := log\<rparr>))"

text \<open>A read of the Go map \<open>eventFuncMaps\<close>; a \<open>nil\<close> map has no entries.\<close>

definition lookup_eventFunc :: "probe \<Rightarrow> mapref \<Rightarrow> IEventStruct option" where
  "lookup_eventFunc this em = (case pb_eventFuncMaps this of None \<Rightarrow> None | Some m \<Rightarrow> m em)"

lemmas act_defs = act_return_def act_bind_def act_then_def wrap_err_def update_this_def fetch_asset_def
  manager_call_def call_InitWithOptions_def call_Start_def call_Stop_def lookup_map_def
  append_eventMap_def make_eventFuncMaps_def set_eventFunc_def this_logger_print_def

lemma act_bind_assoc: "act_bind (act_bind m f) g s = act_bind m (\<lambda>x. act_bind (f x) g) s"
  by (cases "m s") (auto simp: act_bind_def split: sum.splits)

lemma act_bind_return [simp]: "act_bind m act_return = m"
proof
  show "act_bind m act_return s = m s" for s
    by (cases "m s") (auto simp: act_bind_def act_return_def split: sum.splits)
qed

section \<open>What \<open>start\<close> promises\<close>

text \<open>A probe with event maps is described by its object file, its manager, its options, and for each
  event map its name, the message when it is missing, and the event it decodes to.\<close>

record probe_spec =
  sp_asset :: string
  sp_manager :: Manager
  sp_options :: manager_Options
  sp_wanted :: "(string \<times> string \<times> IEventStruct) list"

fun attach_maps :: "'w penv \<Rightarrow> Manager \<Rightarrow> 'w \<Rightarrow> (string \<times> string \<times> IEventStruct) list \<Rightarrow> probe
    \<Rightarrow> goerr option \<times> probe" where
  "attach_maps env mg w [] this = (None, this)"
| "attach_maps env mg w ((name, notfound, ev) # ws) this =
    (case pn_GetMap env mg name w of
       (m, found, Some err) \<Rightarrow> (Some err, this)
     | (m, found, None) \<Rightarrow>
        (if found then attach_maps env mg w ws (this\<lparr>pb_eventMaps := pb_eventMaps this @ [m],
             pb_eventFuncMaps := map_option (\<lambda>fs. fs(m \<mapsto> ev)) (pb_eventFuncMaps this)\<rparr>)
         else (Some (Errorf notfound), this)))"

definition load_spec :: "'w penv \<Rightarrow> probe_spec \<Rightarrow> probe \<Rightarrow> 'w \<Rightarrow> goerr option \<times> probe \<times> 'w" where
  "load_spec env sp this w =
    (case Asset (pn_assets env) (sp_asset sp) of
       (_, Some err) \<Rightarrow> (Some (Wrap err ''couldn't find asset''), this, w)
     | (buf, None) \<Rightarrow>
        (let this1 = this\<lparr>pb_bpfManager := Some (sp_manager sp), pb_bpfManagerOptions := sp_options sp\<rparr> in
         case pn_InitWithOptions env (sp_manager sp) buf (sp_options sp) w of
           (Some err, w1) \<Rightarrow> (Some (Wrap err ''couldn't init manager''), this1, w1)
         | (None, w1) \<Rightarrow>
            (case pn_Start env (sp_manager sp) w1 of
               (Some err, w2) \<Rightarrow> (Some (Wrap err ''couldn't start bootstrap manager''), this1, w2)
             | (None, w2) \<Rightarrow>
                (case attach_maps env (sp_manager sp) w2 (sp_wanted sp) this1 of
                   (err, this2) \<Rightarrow> (err, this2, w2)))))"

text \<open>The state \<open>Init\<close> leaves: the module set up, no event maps.\<close>

definition probe_ready :: "probe \<Rightarrow> bool" where
  "probe_ready this \<longleftrightarrow> mod_ctx (pb_Module this) \<noteq> None \<and> mod_logger (pb_Module this) \<noteq> None
     \<and> mod_child (pb_Module this) \<noteq> None \<and> pb_eventFuncMaps this = Some Map.empty
     \<and> pb_eventMaps this = []"

text \<open>The state after a start in which all maps were found.\<close>

definition loaded :: "probe_spec \<Rightarrow> mapref list \<Rightarrow> probe \<Rightarrow> probe" where
  "loaded sp ms this = this\<lparr>pb_bpfManager := Some (sp_manager sp), pb_bpfManagerOptions := sp_options sp,
     pb_eventFuncMaps := Some (map_of (zip ms (map (\<lambda>x. snd (snd x)) (sp_wanted sp)))), pb_eventMaps := ms\<rparr>"

definition maps_found :: "'w penv \<Rightarrow> Manager \<Rightarrow> 'w \<Rightarrow> string list \<Rightarrow> mapref list \<Rightarrow> bool" where
  "maps_found env mg w names ms \<longleftrightarrow> list_all2 (\<lambda>name m. pn_GetMap env mg name w = (m, True, None)) names ms"

text \<open>The steps of a start that succeed: the object file, the manager's calls, the maps.\<close>

definition start_succeeds :: "'w penv \<Rightarrow> probe_spec \<Rightarrow> 'w \<Rightarrow> mapref list \<Rightarrow> 'w \<Rightarrow> bool" where
  "start_succeeds env sp w ms w' \<longleftrightarrow>
    (\<exists>buf w1. Asset (pn_assets env) (sp_asset sp) = (buf, None)
      \<and> pn_InitWithOptions env (sp_manager sp) buf (sp_options sp) w = (None, w1)
      \<and> pn_Start env (sp_manager sp) w1 = (None, w')
      \<and> maps_found env (sp_manager sp) w' (map fst (sp_wanted sp)) ms)"

lemma attach_maps_found:
  assumes "maps_found env mg w (map fst ws) ms" and "distinct ms" and "pb_eventFuncMaps this = Some fs"
  shows "attach_maps env mg w ws this = (None, this\<lparr>pb_eventMaps := pb_eventMaps this @ ms,
     pb_eventFuncMaps := Some (fs ++ map_of (zip ms (map (\<lambda>x. snd (snd x)) ws)))\<rparr>)"
  using assms
proof (induction ws arbitrary: ms this fs)
  case Nil
  then show ?case by (simp add: maps_found_def)
next
  case (Cons x ws)
  obtain name nf ev where x: "x = (name, nf, ev)" by (cases x)
  from Cons.prems(1) x obtain m ms' where ms: "ms = m # ms'" "pn_GetMap env mg name w = (m, True, None)"
    "maps_found env mg w (map fst ws) ms'"
    by (auto simp: maps_found_def list_all2_Cons1)
  have "length ms' = length ws" using ms(3) by (auto simp: maps_found_def dest: list_all2_lengthD)
  then have "map_of (zip ms' (map (\<lambda>x. snd (snd x)) ws)) m = None"
    using Cons.prems(2) ms(1) by (simp add: map_of_zip_is_None)
  then have upd: "fs(m \<mapsto> ev) ++ map_of (zip ms' (map (\<lambda>x. snd (snd x)) ws))
      = fs ++ (\<lambda>a. if a = m then Some ev else map_of (zip ms' (map (\<lambda>x. snd (snd x)) ws)) a)"
    by (auto simp: fun_eq_iff map_add_def split: option.splits)
  show ?case
    using Cons.IH [OF ms(3), of "this\<lparr>pb_eventMaps := pb_eventMaps this @ [m],
             pb_eventFuncMaps := map_option (\<lambda>fs. fs(m \<mapsto> ev)) (pb_eventFuncMaps this)\<rparr>"]
      Cons.prems(2,3) ms x upd
    by simp
qed

lemma attach_maps_ok_iff:
  "fst (attach_maps env mg w ws this) = None \<longleftrightarrow> (\<exists>ms. maps_found env mg w (map fst ws) ms)"
proof (induction ws arbitrary: this)
  case (Cons x ws)
  then show ?case
    by (cases x) (auto simp: maps_found_def list_all2_Cons1 split: prod.splits option.splits)
qed (auto simp: maps_found_def)

lemma attach_maps_keeps:
  "attach_maps env mg w ws this = (err, this') \<Longrightarrow> pb_Module this' = pb_Module this
     \<and> pb_bpfManager this' = pb_bpfManager this"
  by (induction ws arbitrary: this) (force split: prod.splits option.splits if_splits)+

lemma load_spec_ok_iff:
  "fst (load_spec env sp this w) = None \<longleftrightarrow> (\<exists>ms w'. start_succeeds env sp w ms w')"
proof -
  let ?mg = "sp_manager sp"
  let ?this1 = "this\<lparr>pb_bpfManager := Some ?mg, pb_bpfManagerOptions := sp_options sp\<rparr>"
  obtain buf e0 where "Asset (pn_assets env) (sp_asset sp) = (buf, e0)" by fastforce
  moreover obtain e1 w1 where "pn_InitWithOptions env ?mg buf (sp_options sp) w = (e1, w1)" by fastforce
  moreover obtain e2 w2 where "pn_Start env ?mg w1 = (e2, w2)" by fastforce
  moreover obtain e3 this2 where a: "attach_maps env ?mg w2 (sp_wanted sp) ?this1 = (e3, this2)" by fastforce
  moreover have "e3 = None \<longleftrightarrow> (\<exists>ms. maps_found env ?mg w2 (map fst (sp_wanted sp)) ms)"
    using attach_maps_ok_iff [of env ?mg w2 "sp_wanted sp" ?this1] a by simp
  ultimately show ?thesis
    by (cases e0; cases e1; cases e2) (simp_all add: load_spec_def start_succeeds_def Let_def)
qed

lemma load_spec_loaded:
  assumes "start_succeeds env sp w ms w'" and "distinct ms" and "probe_ready this"
  shows "load_spec env sp this w = (None, loaded sp ms this, w')"
proof -
  let ?this1 = "this\<lparr>pb_bpfManager := Some (sp_manager sp), pb_bpfManagerOptions := sp_options sp\<rparr>"
  have "maps_found env (sp_manager sp) w' (map fst (sp_wanted sp)) ms"
    using assms(1) by (auto simp: start_succeeds_def)
  then have "attach_maps env (sp_manager sp) w' (sp_wanted sp) ?this1 = (None, loaded sp ms this)"
    using attach_maps_found [of env "sp_manager sp" w' "sp_wanted sp" ms ?this1 Map.empty] assms(2,3)
    by (simp add: probe_ready_def loaded_def)
  then show ?thesis using assms(1) by (auto simp: start_succeeds_def load_spec_def)
qed

text \<open>The contract of \<open>start\<close>: on a receiver that \<open>Init\<close> has set up it does what
  \<^const>\<open>load_spec\<close> says and prints \<open>done_log\<close> on success; and a probe has no more event maps than the
  error channel has places.\<close>

locale event_probe =
  fixes start :: "'w penv \<Rightarrow> ('w, unit) method_act"
    and sp :: probe_spec
    and done_log :: "'w penv \<Rightarrow> log"
  assumes start_refines: "probe_ready (ps_this s) \<Longrightarrow>
      start env s = (case load_spec env sp (ps_this s) (ps_world s) of
        (err, this', w') \<Rightarrow> Ret (case err of Some er \<Rightarrow> Inl er | None \<Rightarrow> Inr (),
          \<lparr>ps_this = this', ps_world = w',
           ps_log = ps_log s @ (if err = None then done_log env else [])\<rparr>))"
    and few_maps: "length (sp_wanted sp) \<le> errChan_cap"
begin

lemma start_returns: "probe_ready (ps_this s) \<Longrightarrow> \<exists>r. start env s = Ret r"
  by (simp add: start_refines split: prod.split)

lemma start_ok_iff:
  "probe_ready (ps_this s) \<Longrightarrow> (\<exists>t. start env s = Ret (Inr (), t))
     \<longleftrightarrow> (\<exists>ms w'. start_succeeds env sp (ps_world s) ms w')"
  using load_spec_ok_iff [of env sp "ps_this s" "ps_world s"]
  by (auto simp: start_refines split: prod.splits option.splits)

lemma start_loaded:
  assumes "probe_ready (ps_this s)" and "start_succeeds env sp (ps_world s) ms w'" and "distinct ms"
  shows "start env s = Ret (Inr (), \<lparr>ps_this = loaded sp ms (ps_this s), ps_world = w',
     ps_log = ps_log s @ done_log env\<rparr>)"
  using load_spec_loaded [OF assms(2,3,1)] by (simp add: start_refines [OF assms(1)])

text \<open>The error is that of the first call that fails, in the order of the calls.\<close>

lemma start_errors:
  assumes "probe_ready (ps_this s)"
  shows
    "Asset (pn_assets env) (sp_asset sp) = (buf, Some err) \<Longrightarrow>
       start env s = Ret (Inl (Wrap err ''couldn't find asset''), s)"
    "Asset (pn_assets env) (sp_asset sp) = (buf, None) \<Longrightarrow>
       pn_InitWithOptions env (sp_manager sp) buf (sp_options sp) (ps_world s) = (Some err, w1) \<Longrightarrow>
       \<exists>t. start env s = Ret (Inl (Wrap err ''couldn't init manager''), t) \<and> pb_eventMaps (ps_this t) = []"
    "Asset (pn_assets env) (sp_asset sp) = (buf, None) \<Longrightarrow>
       pn_InitWithOptions env (sp_manager sp) buf (sp_options sp) (ps_world s) = (None, w1) \<Longrightarrow>
       pn_Start env (sp_manager sp) w1 = (Some err, w2) \<Longrightarrow>
       \<exists>t. start env s = Ret (Inl (Wrap err ''couldn't start bootstrap manager''), t)
         \<and> pb_eventMaps (ps_this t) = []"
  using assms by (simp_all add: start_refines load_spec_def probe_ready_def Let_def)

lemma loaded_decode:
  assumes "start_succeeds env sp w ms w'" and "distinct ms"
  shows "i < length ms \<Longrightarrow>
      lookup_eventFunc (loaded sp ms this) (ms ! i) = Some (snd (snd (sp_wanted sp ! i)))"
    and "em \<notin> set ms \<Longrightarrow> lookup_eventFunc (loaded sp ms this) em = None"
    and "length ms = length (sp_wanted sp)"
proof -
  show len: "length ms = length (sp_wanted sp)"
    using assms(1) by (auto simp: start_succeeds_def maps_found_def dest: list_all2_lengthD)
  show "lookup_eventFunc (loaded sp ms this) (ms ! i) = Some (snd (snd (sp_wanted sp ! i)))"
    if "i < length ms"
    using that len assms(2) by (simp add: lookup_eventFunc_def loaded_def map_of_zip_nth)
  show "em \<notin> set ms \<Longrightarrow> lookup_eventFunc (loaded sp ms this) em = None"
    using len by (simp add: lookup_eventFunc_def loaded_def map_of_zip_is_None)
qed

end

text \<open>A probe in front of its readers: a loaded probe whose map \<open>em\<close> decodes to \<open>ev\<close>.\<close>

lemma EventsDecode_returns:
  assumes "\<exists>r. IEvent_Decode rt b (IEvent_Clone ev) = Ret r"
  shows "\<exists>r. EventsDecode IEvent_Clone (IEvent_Decode rt) (IEvent_String rt now) b ev = Ret r"
  using assms by (auto simp: EventsDecode_def split: option.splits)

lemma probe_is_child:
  assumes "mod_ctx m \<noteq> None" and "mod_logger m \<noteq> None"
    and "\<exists>ev. decfun em = Some ev \<and> (\<forall>b. sample_ok b \<longrightarrow> (\<exists>r. IEvent_Decode rt b (IEvent_Clone ev) = Ret r))"
  shows "imodule_child (Module_Decode lib rt decfun) m em sample_ok"
  using assms EventsDecode_returns by unfold_locales (auto simp: Module_Decode_def)

lemma IEvent_Clone_slices [simp]: "slices_unchecked (IEvent_Clone ev) = slices_unchecked ev"
  by (cases ev) simp_all

lemma probe_is_child_checked:
  assumes "mod_ctx m \<noteq> None" and "mod_logger m \<noteq> None" and "\<exists>ev. decfun em = Some ev \<and> \<not> slices_unchecked ev"
  shows "imodule_child (Module_Decode lib rt decfun) m em (\<lambda>_. True)"
proof (rule probe_is_child [OF assms(1,2)])
  obtain ev where ev: "decfun em = Some ev" "\<not> slices_unchecked ev" using assms(3) by blast
  then have "\<exists>r. IEvent_Decode rt b (IEvent_Clone ev) = Ret r" for b
    using IEvent_Decode_no_panic [of "IEvent_Clone ev" rt b] by simp
  with ev show "\<exists>ev. decfun em = Some ev \<and> (\<forall>b. True \<longrightarrow> (\<exists>r. IEvent_Decode rt b (IEvent_Clone ev) = Ret r))"
    by blast
qed

end
