(* ===== verification/Register.thy ===== *)
theory Register
  imports Probe_Base
begin

text \<open>
  \<open>user/register.go\<close>: the registry of the probes.

  Each probe struct is allocated once, by the \<open>init\<close> function of its file, so a pointer to it is its
  type; \<open>rg_objs\<close> holds the structs. \<open>rg_modules\<close> is the package variable \<open>modules\<close>.
\<close>

record registry =
  rg_modules :: "string \<rightharpoonup> probe_type"
  rg_objs :: "probe_type \<rightharpoonup> probe"

definition registry_empty :: registry where
  "registry_empty = \<lparr>rg_modules = Map.empty, rg_objs = Map.empty\<rparr>"

text \<open>\<open>p.Name()\<close>: every probe has the method of the embedded \<open>Module\<close>.\<close>

definition IModule_Name :: "registry \<Rightarrow> probe_type \<Rightarrow> string go" where
  "IModule_Name reg p =
    (case rg_objs reg p of None \<Rightarrow> nil_deref | Some this \<Rightarrow> Ret (Module_Name (pb_Module this)))"

definition Register :: "probe_type option \<Rightarrow> registry \<Rightarrow> registry go" where
  "Register p reg =
    (case p of
       None \<Rightarrow> Panic ''Register probe is nil''
     | Some m \<Rightarrow>
        go_bind (IModule_Name reg m) (\<lambda>name.
          if rg_modules reg name \<noteq> None
          then Panic (Sprintf [Lit ''Register called twice for probe '', Str name])
          else Ret (reg\<lparr>rg_modules := (rg_modules reg)(name \<mapsto> m)\<rparr>)))"

definition GetModules :: "registry \<Rightarrow> (string \<rightharpoonup> probe_type)" where
  "GetModules reg = rg_modules reg"

text \<open>\<open>mod := &T{}\<close> in an \<open>init\<close> function.\<close>

definition new_object :: "probe_type \<Rightarrow> probe \<Rightarrow> registry \<Rightarrow> registry" where
  "new_object p this reg = reg\<lparr>rg_objs := (rg_objs reg)(p \<mapsto> this)\<rparr>"

definition zero_probe_named :: "string \<Rightarrow> string \<Rightarrow> probe" where
  "zero_probe_named name mType =
     probe_zero\<lparr>pb_Module := Module_zero\<lparr>mod_name := name, mod_mType := mType\<rparr>\<rparr>"

text \<open>Every entry of the registry is under the name of its object.\<close>

definition registry_inv :: "registry \<Rightarrow> bool" where
  "registry_inv reg \<longleftrightarrow>
    (\<forall>name p. rg_modules reg name = Some p \<longrightarrow> IModule_Name reg p = Ret name)"

lemma registry_inv_empty [simp]: "registry_inv registry_empty"
  by (simp add: registry_inv_def registry_empty_def)

lemma registry_inv_Register:
  assumes "registry_inv reg" and "Register (Some p) reg = Ret reg'"
  shows "registry_inv reg' \<and> (\<exists>name. IModule_Name reg p = Ret name
     \<and> rg_modules reg name = None \<and> rg_modules reg' = (rg_modules reg)(name \<mapsto> p))"
proof -
  obtain name where name: "IModule_Name reg p = Ret name" "rg_modules reg name = None"
    "reg' = reg\<lparr>rg_modules := (rg_modules reg)(name \<mapsto> p)\<rparr>"
    using assms(2) by (auto simp: Register_def go_simps split: if_splits)
  have same: "IModule_Name reg' q = IModule_Name reg q" for q by (simp add: IModule_Name_def name(3))
  show ?thesis
    using assms(1) name same by (auto simp: registry_inv_def)
qed

lemma registry_inv_inj:
  "registry_inv reg \<Longrightarrow> rg_modules reg a = Some p \<Longrightarrow> rg_modules reg b = Some p \<Longrightarrow> a = b"
  unfolding registry_inv_def by (metis go.inject(1))

lemma Register_twice:
  "Register (Some p) reg = Ret reg' \<Longrightarrow> \<exists>m. Register (Some p) reg' = Panic m"
  by (auto simp: Register_def go_simps IModule_Name_def split: if_splits option.splits)

section \<open>Properties\<close>

text \<open>C32. The registry maps each name to the probe with that name: \<open>Register\<close> keeps this, adds exactly one
  entry under a name that was free, panics on \<open>nil\<close>, and panics when the same probe is registered
  again.\<close>

theorem Register_contract:
  assumes "registry_inv reg" and "Register (Some p) reg = Ret reg'"
  shows "registry_inv reg'
    \<and> (\<exists>name. IModule_Name reg p = Ret name \<and> rg_modules reg name = None
         \<and> GetModules reg' = (GetModules reg)(name \<mapsto> p))
    \<and> (\<exists>m. Register (Some p) reg' = Panic m) \<and> (\<exists>m. Register None reg = Panic m)"
  using registry_inv_Register [OF assms] Register_twice [OF assms(2)]
  by (auto simp: GetModules_def Register_def)

theorem Register_contract_witness:
  "\<exists>reg'. Register (Some MTCPProbe) (new_object MTCPProbe (zero_probe_named ''EBPFProbeKTCP'' ''kprobe'') registry_empty)
       = Ret reg' \<and> registry_inv reg' \<and> GetModules reg' ''EBPFProbeKTCP'' = Some MTCPProbe"
proof -
  let ?reg = "new_object MTCPProbe (zero_probe_named ''EBPFProbeKTCP'' ''kprobe'') registry_empty"
  have inv: "registry_inv ?reg" by (simp add: registry_inv_def new_object_def registry_empty_def)
  have name: "IModule_Name ?reg MTCPProbe = Ret ''EBPFProbeKTCP''"
    by (simp add: IModule_Name_def new_object_def registry_empty_def Module_Name_def zero_probe_named_def)
  then obtain reg' where reg': "Register (Some MTCPProbe) ?reg = Ret reg'"
    by (simp add: Register_def new_object_def registry_empty_def)
  from Register_contract [OF inv reg'] name show ?thesis
    using reg' by (auto simp del: fun_upd_apply) (simp add: fun_upd_def)
qed

end
