(* ===== verification/Probe_Bpf_Call.thy ===== *)
theory Probe_Bpf_Call
  imports Register
begin

text \<open>
  \<open>user/probe_bpf_call.go\<close>: the probe on the system call \<open>bpf\<close>. It has no event maps of its own:
  the manager reads its perf map and calls \<open>dataHandler\<close> for each sample.
\<close>

definition MBPFCallProbe_Init :: "nat \<Rightarrow> nat \<Rightarrow> probe \<Rightarrow> goerr option \<times> probe" where
  "MBPFCallProbe_Init ctx logger this =
    (None, this\<lparr>pb_Module := Module_SetChild MBPFCallProbe (Module_Init ctx logger (pb_Module this)),
      pb_eventMaps := [], pb_eventFuncMaps := Some Map.empty\<rparr>)"

definition MBPFCallProbe_manager :: Manager where
  "MBPFCallProbe_manager =
    \<lparr>mg_Probes =
       [\<lparr>mp_Section = ''tracepoint/syscalls/sys_enter_bpf'', mp_EbpfFuncName = ''tracepoint_sys_enter_bpf'',
         mp_AttachToFuncName = ''sys_enter_bpf'', mp_UprobeOffset = 0, mp_BinaryPath = []\<rparr>],
     mg_Maps = [],
     mg_PerfMaps = [\<lparr>pm_Name = ''events'', pm_PerfMapOptions = PerfMapOptions_zero\<rparr>]\<rparr>"

definition MBPFCallProbe_options :: manager_Options where
  "MBPFCallProbe_options =
    \<lparr>op_DefaultKProbeMaxActive = 512, op_LogSize = 2097152,
     op_RLimit = Some (MaxUint64, MaxUint64),
     op_MapSpecEditors = [(''events'', \<lparr>mse_Type = PerfEventArray, mse_MaxEntries = 64\<rparr>)]\<rparr>"

definition MBPFCallProbe_setupManagers :: "('w, unit) method_act" where
  "MBPFCallProbe_setupManagers = update_this (\<lambda>this. this\<lparr>
     pb_bpfManager := Some MBPFCallProbe_manager, pb_bpfManagerOptions := MBPFCallProbe_options\<rparr>)"

text \<open>\<open>perfMap, ok := GetPerfMap("events")\<close> with its test, and the assignment of the options
  through the pointer.\<close>

definition MBPFCallProbe_perfMap :: "'w penv \<Rightarrow> ('w, unit) method_act" where
  "MBPFCallProbe_perfMap env s =
    (case pb_bpfManager (ps_this s) of
       None \<Rightarrow> nil_deref
     | Some mg \<Rightarrow>
        (case pn_GetPerfMap env mg ''events'' of
           None \<Rightarrow> Ret (Inl (Errorf ''couldn't find events perf map''), s)
         | Some i \<Rightarrow>
            (let mg' = mg\<lparr>mg_PerfMaps := (mg_PerfMaps mg)[i := (mg_PerfMaps mg ! i)\<lparr>pm_PerfMapOptions :=
                   \<lparr>po_PerfRingBufferSize = 1 * pn_Getpagesize env, po_DataHandler = Some MBPFCallProbe,
                    po_LostHandler = Some MBPFCallProbe\<rparr>\<rparr>]\<rparr>
             in Ret (Inr (), s\<lparr>ps_this := (ps_this s)\<lparr>pb_bpfManager := Some mg'\<rparr>\<rparr>))))"

definition MBPFCallProbe_DecodeFun :: "probe \<Rightarrow> mapref \<Rightarrow> IEventStruct option" where
  "MBPFCallProbe_DecodeFun this em = lookup_eventFunc this em"

definition MBPFCallProbe_initDecodeFun :: "('w, unit) method_act" where
  "MBPFCallProbe_initDecodeFun = act_return ()"

definition MBPFCallProbe_start :: "'w penv \<Rightarrow> ('w, unit) method_act" where
  "MBPFCallProbe_start env =
     act_bind (wrap_err ''couldn't find asset''
       (fetch_asset env ''user/bytecode/bpf_call_kern.o'')) (\<lambda>javaBuf.
     act_then MBPFCallProbe_setupManagers
     (act_then (MBPFCallProbe_perfMap env)
     (act_then (wrap_err ''couldn't init manager'' (call_InitWithOptions env javaBuf))
     (act_then (wrap_err ''couldn't start bootstrap manager'' (call_Start env))
     MBPFCallProbe_initDecodeFun))))"

definition MBPFCallProbe_Start :: "'w penv \<Rightarrow> ('w, unit) method_act" where
  "MBPFCallProbe_Start env = MBPFCallProbe_start env"

definition MBPFCallProbe_Close :: "'w penv \<Rightarrow> ('w, unit) method_act" where
  "MBPFCallProbe_Close env = wrap_err ''couldn't stop manager'' (call_Stop env)"

text \<open>A handler returns, or ends the process through \<open>Fatalf\<close>.\<close>

datatype handler_result = Handled log | Fatal log

definition MBPFCallProbe_dataHandler ::
    "runtime \<Rightarrow> probe \<Rightarrow> int \<Rightarrow> bytes \<Rightarrow> log \<Rightarrow> handler_result go" where
  "MBPFCallProbe_dataHandler rt this cpu data log =
     go_bind (BpfCallEvent_Decode (ByteOrder rt) data BpfCallEvent_new) (\<lambda>(err, bpfEvent).
       case err of
         Some er \<Rightarrow>
          (case mod_logger (pb_Module this) of
             None \<Rightarrow> nil_deref
           | Some _ \<Rightarrow> Ret (Fatal (log @ [LogErr ''decode error:'' er])))
       | None \<Rightarrow>
           go_bind (Module_Write (pb_Module this) (Sprintf [Lit ''BPFCALL EVENT CPU:'', Dec cpu,
               Lit '', '', Str (BpfCallEvent_String bpfEvent)]) log)
             (\<lambda>log'. Ret (Handled log')))"

definition MBPFCallProbe_lostEventsHandle :: "probe \<Rightarrow> int \<Rightarrow> u64 \<Rightarrow> log \<Rightarrow> log" where
  "MBPFCallProbe_lostEventsHandle this CPU lost log = log"

definition MBPFCallProbe_Events :: "probe \<Rightarrow> mapref list" where
  "MBPFCallProbe_Events this = pb_eventMaps this"

definition MBPFCallProbe_mod :: probe where
  "MBPFCallProbe_mod = zero_probe_named ''EBPFProbeBPFCall'' PROBE_TYPE_TP"

definition MBPFCallProbe_init :: "registry \<Rightarrow> registry go" where
  "MBPFCallProbe_init reg = Register (Some MBPFCallProbe) (new_object MBPFCallProbe MBPFCallProbe_mod reg)"

section \<open>Behaviour\<close>

lemma MBPFCallProbe_Init_ready: "probe_ready (snd (MBPFCallProbe_Init ctx logger this))"
  by (simp add: MBPFCallProbe_Init_def probe_ready_def Module_Init_def Module_SetChild_def)

text \<open>The manager as \<open>InitWithOptions\<close> gets it: the handlers are set before the programs load.\<close>

definition MBPFCallProbe_armed :: "int \<Rightarrow> Manager" where
  "MBPFCallProbe_armed pagesize = MBPFCallProbe_manager\<lparr>mg_PerfMaps := [\<lparr>pm_Name = ''events'',
     pm_PerfMapOptions = \<lparr>po_PerfRingBufferSize = pagesize, po_DataHandler = Some MBPFCallProbe,
       po_LostHandler = Some MBPFCallProbe\<rparr>\<rparr>]\<rparr>"

lemma MBPFCallProbe_start_eq:
  assumes "pn_GetPerfMap env MBPFCallProbe_manager ''events'' = Some 0"
  shows "MBPFCallProbe_start env s =
    (case Asset (pn_assets env) ''user/bytecode/bpf_call_kern.o'' of
       (_, Some err) \<Rightarrow> Ret (Inl (Wrap err ''couldn't find asset''), s)
     | (buf, None) \<Rightarrow>
        (let mg = MBPFCallProbe_armed (pn_Getpagesize env);
             s1 = s\<lparr>ps_this := (ps_this s)\<lparr>pb_bpfManager := Some mg,
                                          pb_bpfManagerOptions := MBPFCallProbe_options\<rparr>\<rparr>
         in case pn_InitWithOptions env mg buf MBPFCallProbe_options (ps_world s) of
              (Some err, w1) \<Rightarrow> Ret (Inl (Wrap err ''couldn't init manager''), s1\<lparr>ps_world := w1\<rparr>)
            | (None, w1) \<Rightarrow>
               (case pn_Start env mg w1 of
                  (Some err, w2) \<Rightarrow> Ret (Inl (Wrap err ''couldn't start bootstrap manager''), s1\<lparr>ps_world := w2\<rparr>)
                | (None, w2) \<Rightarrow> Ret (Inr (), s1\<lparr>ps_world := w2\<rparr>))))"
  using assms
  by (auto simp: MBPFCallProbe_start_def MBPFCallProbe_setupManagers_def MBPFCallProbe_perfMap_def
      MBPFCallProbe_initDecodeFun_def act_defs Let_def MBPFCallProbe_armed_def MBPFCallProbe_manager_def
      split: option.splits prod.splits)

lemma MBPFCallProbe_start_no_maps:
  "MBPFCallProbe_start env s = Ret (r, t) \<Longrightarrow>
     pb_eventMaps (ps_this t) = pb_eventMaps (ps_this s)
     \<and> pb_eventFuncMaps (ps_this t) = pb_eventFuncMaps (ps_this s) \<and> pb_Module (ps_this t) = pb_Module (ps_this s)"
  by (auto simp: MBPFCallProbe_start_def MBPFCallProbe_setupManagers_def MBPFCallProbe_perfMap_def
      MBPFCallProbe_initDecodeFun_def act_defs go_simps Let_def
      split: option.splits prod.splits sum.splits)

end
