(* ===== verification/Probe_Ktcp.thy ===== *)
theory Probe_Ktcp
  imports Register
begin

text \<open>
  \<open>user/probe_ktcp.go\<close>: the probe on \<open>tcp_set_state\<close>, which reports closed TCP connections.
\<close>

definition MTCPProbe_Init :: "nat \<Rightarrow> nat \<Rightarrow> probe \<Rightarrow> goerr option \<times> probe" where
  "MTCPProbe_Init ctx logger this =
    (None, this\<lparr>pb_Module := Module_SetChild MTCPProbe (Module_Init ctx logger (pb_Module this)),
      pb_eventMaps := [], pb_eventFuncMaps := Some Map.empty\<rparr>)"

definition MTCPProbe_manager :: Manager where
  "MTCPProbe_manager =
    \<lparr>mg_Probes =
       [\<lparr>mp_Section = ''kprobe/tcp_set_state'', mp_EbpfFuncName = ''kprobe__tcp_set_state'',
         mp_AttachToFuncName = ''tcp_set_state'', mp_UprobeOffset = 0,
         mp_BinaryPath = []\<rparr>],
     mg_Maps = [''events'', ''conns''],
     mg_PerfMaps = []\<rparr>"

definition MTCPProbe_options :: manager_Options where
  "MTCPProbe_options =
    \<lparr>op_DefaultKProbeMaxActive = 512, op_LogSize = 2097152,
     op_RLimit = Some (MaxUint64, MaxUint64), op_MapSpecEditors = []\<rparr>"

definition MTCPProbe_setupManagers :: "('w, unit) method_act" where
  "MTCPProbe_setupManagers = update_this (\<lambda>this. this\<lparr>
     pb_bpfManager := Some MTCPProbe_manager, pb_bpfManagerOptions := MTCPProbe_options\<rparr>)"

definition MTCPProbe_DecodeFun :: "probe \<Rightarrow> mapref \<Rightarrow> IEventStruct option" where
  "MTCPProbe_DecodeFun this em = lookup_eventFunc this em"

definition MTCPProbe_initDecodeFun :: "'w penv \<Rightarrow> ('w, unit) method_act" where
  "MTCPProbe_initDecodeFun env =
     act_then make_eventFuncMaps
     (act_bind (lookup_map env ''events''
        ''cant found map:events'') (\<lambda>TCPEventsMap.
      act_then (append_eventMap TCPEventsMap)
      (set_eventFunc TCPEventsMap (EvTCP TCPEvent_new))))"

definition MTCPProbe_start :: "'w penv \<Rightarrow> ('w, unit) method_act" where
  "MTCPProbe_start env =
     act_bind (wrap_err ''couldn't find asset''
       (fetch_asset env ''user/bytecode/tcp_set_state_kern.o'')) (\<lambda>javaBuf.
     act_then MTCPProbe_setupManagers
     (act_then (wrap_err ''couldn't init manager'' (call_InitWithOptions env javaBuf))
     (act_then (wrap_err ''couldn't start bootstrap manager'' (call_Start env))
     (MTCPProbe_initDecodeFun env))))"

definition MTCPProbe_Start :: "'w penv \<Rightarrow> ('w, unit) method_act" where
  "MTCPProbe_Start env = MTCPProbe_start env"

definition MTCPProbe_Close :: "'w penv \<Rightarrow> ('w, unit) method_act" where
  "MTCPProbe_Close env = wrap_err ''couldn't stop manager'' (call_Stop env)"

definition MTCPProbe_Events :: "probe \<Rightarrow> mapref list" where
  "MTCPProbe_Events this = pb_eventMaps this"

definition MTCPProbe_mod :: probe where
  "MTCPProbe_mod = zero_probe_named ''EBPFProbeKTCP'' PROBE_TYPE_KPROBE"

definition MTCPProbe_init :: "registry \<Rightarrow> registry go" where
  "MTCPProbe_init reg = Register (Some MTCPProbe) (new_object MTCPProbe MTCPProbe_mod reg)"

section \<open>The probe keeps the contract\<close>


definition MTCPProbe_spec :: probe_spec where
  "MTCPProbe_spec =
    \<lparr>sp_asset = ''user/bytecode/tcp_set_state_kern.o'', sp_manager = MTCPProbe_manager,
     sp_options = MTCPProbe_options,
     sp_wanted = [(''events'', ''cant found map:events'', EvTCP TCPEvent_new)]\<rparr>"

interpretation ktcp: event_probe MTCPProbe_start MTCPProbe_spec "\<lambda>_. []"
  by unfold_locales
    (auto simp: MTCPProbe_start_def MTCPProbe_setupManagers_def MTCPProbe_initDecodeFun_def
      MTCPProbe_spec_def load_spec_def probe_ready_def act_defs logger_print_def errChan_cap_def Let_def
      split: option.splits prod.splits)

lemma MTCPProbe_Init_ready: "probe_ready (snd (MTCPProbe_Init ctx logger this))"
  by (simp add: MTCPProbe_Init_def probe_ready_def Module_Init_def Module_SetChild_def)

interpretation ktcp_reader: imodule_child
  "Module_Decode lib rt (MTCPProbe_DecodeFun (loaded MTCPProbe_spec [em] (snd (MTCPProbe_Init ctx logger this))))"
  "pb_Module (snd (MTCPProbe_Init ctx logger this))" em "\<lambda>_. True"
  for lib rt ctx logger this em
  by (rule probe_is_child_checked)
    (simp_all add: MTCPProbe_Init_def MTCPProbe_spec_def MTCPProbe_DecodeFun_def loaded_def lookup_eventFunc_def
      Module_Init_def Module_SetChild_def)

end
