(* ===== verification/Probe_Ktcp_Sec.thy ===== *)
theory Probe_Ktcp_Sec
  imports Register
begin

text \<open>
  \<open>user/probe_ktcp_sec.go\<close>: the probe on \<open>security_socket_connect\<close>, which reports
  connects by address family.
\<close>

definition MTCPSecProbe_Init :: "nat \<Rightarrow> nat \<Rightarrow> probe \<Rightarrow> goerr option \<times> probe" where
  "MTCPSecProbe_Init ctx logger this =
    (None, this\<lparr>pb_Module := Module_SetChild MTCPSecProbe (Module_Init ctx logger (pb_Module this)),
      pb_eventMaps := [], pb_eventFuncMaps := Some Map.empty\<rparr>)"

definition MTCPSecProbe_manager :: Manager where
  "MTCPSecProbe_manager =
    \<lparr>mg_Probes =
       [\<lparr>mp_Section = ''kprobe/security_socket_connect'', mp_EbpfFuncName = ''kprobe__security_socket_connect'',
         mp_AttachToFuncName = ''security_socket_connect'', mp_UprobeOffset = 0,
         mp_BinaryPath = []\<rparr>],
     mg_Maps = [''ipv4_events'', ''ipv6_events'', ''other_socket_events''],
     mg_PerfMaps = []\<rparr>"

definition MTCPSecProbe_options :: manager_Options where
  "MTCPSecProbe_options =
    \<lparr>op_DefaultKProbeMaxActive = 512, op_LogSize = 2097152,
     op_RLimit = Some (MaxUint64, MaxUint64), op_MapSpecEditors = []\<rparr>"

definition MTCPSecProbe_setupManagers :: "('w, unit) method_act" where
  "MTCPSecProbe_setupManagers = update_this (\<lambda>this. this\<lparr>
     pb_bpfManager := Some MTCPSecProbe_manager, pb_bpfManagerOptions := MTCPSecProbe_options\<rparr>)"

definition MTCPSecProbe_DecodeFun :: "probe \<Rightarrow> mapref \<Rightarrow> IEventStruct option" where
  "MTCPSecProbe_DecodeFun this em = lookup_eventFunc this em"

definition MTCPSecProbe_initDecodeFun :: "'w penv \<Rightarrow> ('w, unit) method_act" where
  "MTCPSecProbe_initDecodeFun env =
     act_bind (lookup_map env ''ipv4_events''
        ''cant found map:events'') (\<lambda>IPv4EventsMap.
      act_then (append_eventMap IPv4EventsMap)
      (act_then (set_eventFunc IPv4EventsMap (EvIPV4 EventIPV4_new))
     (act_bind (lookup_map env ''ipv6_events''
        ''cant found map:events'') (\<lambda>IPv6EventsMap.
      act_then (append_eventMap IPv6EventsMap)
      (act_then (set_eventFunc IPv6EventsMap (EvIPV6 EventIPV6_new))
     (act_bind (lookup_map env ''other_socket_events''
        ''cant found map:events'') (\<lambda>otherEventsMap.
      act_then (append_eventMap otherEventsMap)
      (set_eventFunc otherEventsMap (EvOther EventOther_new)))))))))"

definition MTCPSecProbe_start :: "'w penv \<Rightarrow> ('w, unit) method_act" where
  "MTCPSecProbe_start env =
     act_bind (wrap_err ''couldn't find asset''
       (fetch_asset env ''user/bytecode/sec_socket_connect_kern.o'')) (\<lambda>javaBuf.
     act_then MTCPSecProbe_setupManagers
     (act_then (wrap_err ''couldn't init manager'' (call_InitWithOptions env javaBuf))
     (act_then (wrap_err ''couldn't start bootstrap manager'' (call_Start env))
     (MTCPSecProbe_initDecodeFun env))))"

definition MTCPSecProbe_Start :: "'w penv \<Rightarrow> ('w, unit) method_act" where
  "MTCPSecProbe_Start env = MTCPSecProbe_start env"

definition MTCPSecProbe_Close :: "'w penv \<Rightarrow> ('w, unit) method_act" where
  "MTCPSecProbe_Close env = wrap_err ''couldn't stop manager'' (call_Stop env)"

definition MTCPSecProbe_Events :: "probe \<Rightarrow> mapref list" where
  "MTCPSecProbe_Events this = pb_eventMaps this"

definition MTCPSecProbe_mod :: probe where
  "MTCPSecProbe_mod = zero_probe_named ''EBPFProbeKTCPSec'' PROBE_TYPE_KPROBE"

definition MTCPSecProbe_init :: "registry \<Rightarrow> registry go" where
  "MTCPSecProbe_init reg = Register (Some MTCPSecProbe) (new_object MTCPSecProbe MTCPSecProbe_mod reg)"

section \<open>The probe keeps the contract\<close>


definition MTCPSecProbe_spec :: probe_spec where
  "MTCPSecProbe_spec =
    \<lparr>sp_asset = ''user/bytecode/sec_socket_connect_kern.o'', sp_manager = MTCPSecProbe_manager,
     sp_options = MTCPSecProbe_options,
     sp_wanted = [(''ipv4_events'', ''cant found map:events'', EvIPV4 EventIPV4_new),
       (''ipv6_events'', ''cant found map:events'', EvIPV6 EventIPV6_new),
       (''other_socket_events'', ''cant found map:events'', EvOther EventOther_new)]\<rparr>"

interpretation ktcp_sec: event_probe MTCPSecProbe_start MTCPSecProbe_spec "\<lambda>_. []"
  by unfold_locales
    (auto simp: MTCPSecProbe_start_def MTCPSecProbe_setupManagers_def MTCPSecProbe_initDecodeFun_def
      MTCPSecProbe_spec_def load_spec_def probe_ready_def act_defs logger_print_def errChan_cap_def Let_def
      split: option.splits prod.splits)

lemma MTCPSecProbe_Init_ready: "probe_ready (snd (MTCPSecProbe_Init ctx logger this))"
  by (simp add: MTCPSecProbe_Init_def probe_ready_def Module_Init_def Module_SetChild_def)

interpretation ktcp_sec_reader1: imodule_child
  "Module_Decode lib rt (MTCPSecProbe_DecodeFun (loaded MTCPSecProbe_spec [IPv4EventsMap, IPv6EventsMap, otherEventsMap] (snd (MTCPSecProbe_Init ctx logger this))))"
  "pb_Module (snd (MTCPSecProbe_Init ctx logger this))" IPv4EventsMap "\<lambda>_. True"
  for lib rt ctx logger this IPv4EventsMap IPv6EventsMap otherEventsMap
  by (rule probe_is_child_checked)
    (simp_all add: MTCPSecProbe_Init_def MTCPSecProbe_spec_def MTCPSecProbe_DecodeFun_def loaded_def lookup_eventFunc_def
      Module_Init_def Module_SetChild_def)

interpretation ktcp_sec_reader2: imodule_child
  "Module_Decode lib rt (MTCPSecProbe_DecodeFun (loaded MTCPSecProbe_spec [IPv4EventsMap, IPv6EventsMap, otherEventsMap] (snd (MTCPSecProbe_Init ctx logger this))))"
  "pb_Module (snd (MTCPSecProbe_Init ctx logger this))" IPv6EventsMap "\<lambda>_. True"
  for lib rt ctx logger this IPv4EventsMap IPv6EventsMap otherEventsMap
  by (rule probe_is_child_checked)
    (simp_all add: MTCPSecProbe_Init_def MTCPSecProbe_spec_def MTCPSecProbe_DecodeFun_def loaded_def lookup_eventFunc_def
      Module_Init_def Module_SetChild_def)

interpretation ktcp_sec_reader3: imodule_child
  "Module_Decode lib rt (MTCPSecProbe_DecodeFun (loaded MTCPSecProbe_spec [IPv4EventsMap, IPv6EventsMap, otherEventsMap] (snd (MTCPSecProbe_Init ctx logger this))))"
  "pb_Module (snd (MTCPSecProbe_Init ctx logger this))" otherEventsMap "\<lambda>_. True"
  for lib rt ctx logger this IPv4EventsMap IPv6EventsMap otherEventsMap
  by (rule probe_is_child_checked)
    (simp_all add: MTCPSecProbe_Init_def MTCPSecProbe_spec_def MTCPSecProbe_DecodeFun_def loaded_def lookup_eventFunc_def
      Module_Init_def Module_SetChild_def)

end
