(* ===== verification/Probe_Kudp.thy ===== *)
theory Probe_Kudp
  imports Register
begin

text \<open>
  \<open>user/probe_kudp.go\<close>: the probes on \<open>udp_recvmsg\<close>, which report DNS packets. Its \<open>init\<close>
  function has the call of \<open>Register\<close> commented out.
\<close>

definition MUDPProbe_Init :: "nat \<Rightarrow> nat \<Rightarrow> probe \<Rightarrow> goerr option \<times> probe" where
  "MUDPProbe_Init ctx logger this =
    (None, this\<lparr>pb_Module := Module_SetChild MUDPProbe (Module_Init ctx logger (pb_Module this)),
      pb_eventMaps := [], pb_eventFuncMaps := Some Map.empty\<rparr>)"

definition MUDPProbe_manager :: Manager where
  "MUDPProbe_manager =
    \<lparr>mg_Probes =
       [\<lparr>mp_Section = ''kprobe/udp_recvmsg'', mp_EbpfFuncName = ''trace_udp_recvmsg'',
         mp_AttachToFuncName = ''udp_recvmsg'', mp_UprobeOffset = 0,
         mp_BinaryPath = []\<rparr>,
        \<lparr>mp_Section = ''kretprobe/udp_recvmsg'', mp_EbpfFuncName = ''trace_ret_udp_recvmsg'',
         mp_AttachToFuncName = ''udp_recvmsg'', mp_UprobeOffset = 0,
         mp_BinaryPath = []\<rparr>],
     mg_Maps = [''dns_events''],
     mg_PerfMaps = []\<rparr>"

definition MUDPProbe_options :: manager_Options where
  "MUDPProbe_options =
    \<lparr>op_DefaultKProbeMaxActive = 512, op_LogSize = 2097152,
     op_RLimit = Some (MaxUint64, MaxUint64), op_MapSpecEditors = []\<rparr>"

definition MUDPProbe_setupManagers :: "('w, unit) method_act" where
  "MUDPProbe_setupManagers = update_this (\<lambda>this. this\<lparr>
     pb_bpfManager := Some MUDPProbe_manager, pb_bpfManagerOptions := MUDPProbe_options\<rparr>)"

definition MUDPProbe_DecodeFun :: "probe \<Rightarrow> mapref \<Rightarrow> IEventStruct option" where
  "MUDPProbe_DecodeFun this em = lookup_eventFunc this em"

definition MUDPProbe_initDecodeFun :: "'w penv \<Rightarrow> ('w, unit) method_act" where
  "MUDPProbe_initDecodeFun env =
     act_bind (lookup_map env ''dns_events''
        ''cant found map:events'') (\<lambda>DNSEventsMap.
      act_then (append_eventMap DNSEventsMap)
      (set_eventFunc DNSEventsMap (EvUDP UDPEvent_new)))"

definition MUDPProbe_start :: "'w penv \<Rightarrow> ('w, unit) method_act" where
  "MUDPProbe_start env =
     act_bind (wrap_err ''couldn't find asset''
       (fetch_asset env ''user/bytecode/udp_lookup_kern.o'')) (\<lambda>javaBuf.
     act_then MUDPProbe_setupManagers
     (act_then (wrap_err ''couldn't init manager'' (call_InitWithOptions env javaBuf))
     (act_then (wrap_err ''couldn't start bootstrap manager'' (call_Start env))
     (MUDPProbe_initDecodeFun env))))"

definition MUDPProbe_Start :: "'w penv \<Rightarrow> ('w, unit) method_act" where
  "MUDPProbe_Start env = MUDPProbe_start env"

definition MUDPProbe_Close :: "'w penv \<Rightarrow> ('w, unit) method_act" where
  "MUDPProbe_Close env = wrap_err ''couldn't stop manager'' (call_Stop env)"

definition MUDPProbe_Events :: "probe \<Rightarrow> mapref list" where
  "MUDPProbe_Events this = pb_eventMaps this"

definition MUDPProbe_mod :: probe where
  "MUDPProbe_mod = zero_probe_named ''EBPFProbeKUDP'' PROBE_TYPE_KPROBE"

definition MUDPProbe_init :: "registry \<Rightarrow> registry go" where
  "MUDPProbe_init reg = Ret (new_object MUDPProbe MUDPProbe_mod reg)"

section \<open>The probe keeps the contract\<close>

lemma UDPEvent_Decode_returns:
  "length b < 4 \<or> 20 \<le> length b \<Longrightarrow> \<exists>x. UDPEvent_Decode lib b e = Ret x"
  using UDPEvent_Decode_short(1) [of b lib e] UDPEvent_Decode_long [of b lib e]
  by (auto simp: Let_def split: sum.splits)

lemma IEvent_Decode_udp_returns:
  assumes "length b < 4 \<or> 20 \<le> length b"
  shows "\<exists>r. IEvent_Decode rt b (IEvent_Clone (EvUDP e)) = Ret r"
proof -
  obtain x where "UDPEvent_Decode (rt_dns rt) b (UDPEvent_Clone e) = Ret x"
    using UDPEvent_Decode_returns [OF assms] by blast
  then show ?thesis by (simp add: lift_decode_Ret_eq)
qed


definition MUDPProbe_spec :: probe_spec where
  "MUDPProbe_spec =
    \<lparr>sp_asset = ''user/bytecode/udp_lookup_kern.o'', sp_manager = MUDPProbe_manager,
     sp_options = MUDPProbe_options,
     sp_wanted = [(''dns_events'', ''cant found map:events'', EvUDP UDPEvent_new)]\<rparr>"

interpretation kudp: event_probe MUDPProbe_start MUDPProbe_spec "\<lambda>_. []"
  by unfold_locales
    (auto simp: MUDPProbe_start_def MUDPProbe_setupManagers_def MUDPProbe_initDecodeFun_def
      MUDPProbe_spec_def load_spec_def probe_ready_def act_defs logger_print_def errChan_cap_def Let_def
      split: option.splits prod.splits)

lemma MUDPProbe_Init_ready: "probe_ready (snd (MUDPProbe_Init ctx logger this))"
  by (simp add: MUDPProbe_Init_def probe_ready_def Module_Init_def Module_SetChild_def)

interpretation kudp_reader: imodule_child
  "Module_Decode lib rt (MUDPProbe_DecodeFun (loaded MUDPProbe_spec [em] (snd (MUDPProbe_Init ctx logger this))))"
  "pb_Module (snd (MUDPProbe_Init ctx logger this))" em "\<lambda>b. length b < 4 \<or> 20 \<le> length b"
  for lib rt ctx logger this em
proof (rule probe_is_child)
  show "\<exists>ev. MUDPProbe_DecodeFun (loaded MUDPProbe_spec [em] (snd (MUDPProbe_Init ctx logger this))) em = Some ev
      \<and> (\<forall>b. length b < 4 \<or> 20 \<le> length b \<longrightarrow> (\<exists>r. IEvent_Decode rt b (IEvent_Clone ev) = Ret r))"
    using IEvent_Decode_udp_returns
    by (intro exI [of _ "EvUDP UDPEvent_new"] conjI)
      (simp_all add: MUDPProbe_Init_def MUDPProbe_spec_def MUDPProbe_DecodeFun_def loaded_def lookup_eventFunc_def
      Module_Init_def Module_SetChild_def del: IEvent_Clone.simps IEvent_Decode.simps)
qed (simp_all add: MUDPProbe_Init_def Module_Init_def Module_SetChild_def)

end
