(* ===== verification/Probe_Proc.thy ===== *)
theory Probe_Proc
  imports Register
begin

text \<open>
  \<open>user/probe_proc.go\<close>: the probe on the return of \<open>copy_process\<close>, which reports forks.
\<close>

definition MProcProbe_Init :: "nat \<Rightarrow> nat \<Rightarrow> probe \<Rightarrow> goerr option \<times> probe" where
  "MProcProbe_Init ctx logger this =
    (None, this\<lparr>pb_Module := Module_SetChild MProcProbe (Module_Init ctx logger (pb_Module this)),
      pb_eventMaps := [], pb_eventFuncMaps := Some Map.empty\<rparr>)"

definition MProcProbe_manager :: Manager where
  "MProcProbe_manager =
    \<lparr>mg_Probes =
       [\<lparr>mp_Section = ''kretprobe/copy_process'', mp_EbpfFuncName = ''kretprobe_copy_process'',
         mp_AttachToFuncName = ''copy_process'', mp_UprobeOffset = 0,
         mp_BinaryPath = []\<rparr>],
     mg_Maps = [''ringbuf_proc''],
     mg_PerfMaps = []\<rparr>"

definition MProcProbe_options :: manager_Options where
  "MProcProbe_options =
    \<lparr>op_DefaultKProbeMaxActive = 512, op_LogSize = 2097152,
     op_RLimit = Some (MaxUint64, MaxUint64), op_MapSpecEditors = []\<rparr>"

definition MProcProbe_setupManagers :: "('w, unit) method_act" where
  "MProcProbe_setupManagers = update_this (\<lambda>this. this\<lparr>
     pb_bpfManager := Some MProcProbe_manager, pb_bpfManagerOptions := MProcProbe_options\<rparr>)"

definition MProcProbe_DecodeFun :: "probe \<Rightarrow> mapref \<Rightarrow> IEventStruct option" where
  "MProcProbe_DecodeFun this em = lookup_eventFunc this em"

definition MProcProbe_initDecodeFun :: "'w penv \<Rightarrow> ('w, unit) method_act" where
  "MProcProbe_initDecodeFun env =
     act_bind (lookup_map env ''ringbuf_proc''
        ''cant found map:events'') (\<lambda>procEventsMap.
      act_then (append_eventMap procEventsMap)
      (set_eventFunc procEventsMap (EvFork ForkProcEvent_new)))"

definition MProcProbe_start :: "'w penv \<Rightarrow> ('w, unit) method_act" where
  "MProcProbe_start env =
     act_bind (wrap_err ''couldn't find asset''
       (fetch_asset env ''user/bytecode/proc_kern.o'')) (\<lambda>javaBuf.
     act_then MProcProbe_setupManagers
     (act_then (wrap_err ''couldn't init manager'' (call_InitWithOptions env javaBuf))
     (act_then (wrap_err ''couldn't start bootstrap manager'' (call_Start env))
     (MProcProbe_initDecodeFun env))))"

definition MProcProbe_Start :: "'w penv \<Rightarrow> ('w, unit) method_act" where
  "MProcProbe_Start env = MProcProbe_start env"

definition MProcProbe_Close :: "'w penv \<Rightarrow> ('w, unit) method_act" where
  "MProcProbe_Close env = wrap_err ''couldn't stop manager'' (call_Stop env)"

definition MProcProbe_Events :: "probe \<Rightarrow> mapref list" where
  "MProcProbe_Events this = pb_eventMaps this"

definition MProcProbe_mod :: probe where
  "MProcProbe_mod = zero_probe_named ''EBPFProbeProc'' PROBE_TYPE_KPROBE"

definition MProcProbe_init :: "registry \<Rightarrow> registry go" where
  "MProcProbe_init reg = Register (Some MProcProbe) (new_object MProcProbe MProcProbe_mod reg)"

section \<open>The probe keeps the contract\<close>


definition MProcProbe_spec :: probe_spec where
  "MProcProbe_spec =
    \<lparr>sp_asset = ''user/bytecode/proc_kern.o'', sp_manager = MProcProbe_manager,
     sp_options = MProcProbe_options,
     sp_wanted = [(''ringbuf_proc'', ''cant found map:events'', EvFork ForkProcEvent_new)]\<rparr>"

interpretation kproc: event_probe MProcProbe_start MProcProbe_spec "\<lambda>_. []"
  by unfold_locales
    (auto simp: MProcProbe_start_def MProcProbe_setupManagers_def MProcProbe_initDecodeFun_def
      MProcProbe_spec_def load_spec_def probe_ready_def act_defs logger_print_def errChan_cap_def Let_def
      split: option.splits prod.splits)

lemma MProcProbe_Init_ready: "probe_ready (snd (MProcProbe_Init ctx logger this))"
  by (simp add: MProcProbe_Init_def probe_ready_def Module_Init_def Module_SetChild_def)

interpretation kproc_reader: imodule_child
  "Module_Decode lib rt (MProcProbe_DecodeFun (loaded MProcProbe_spec [em] (snd (MProcProbe_Init ctx logger this))))"
  "pb_Module (snd (MProcProbe_Init ctx logger this))" em "\<lambda>_. True"
  for lib rt ctx logger this em
  by (rule probe_is_child_checked)
    (simp_all add: MProcProbe_Init_def MProcProbe_spec_def MProcProbe_DecodeFun_def loaded_def lookup_eventFunc_def
      Module_Init_def Module_SetChild_def)

end
