(* ===== verification/Probe_Udns.thy ===== *)
theory Probe_Udns
  imports Register
begin

text \<open>
  \<open>user/probe_udns.go\<close>: the probes on libc's \<open>getaddrinfo\<close>, which report name lookups.
\<close>

definition MUDNSProbe_Init :: "nat \<Rightarrow> nat \<Rightarrow> probe \<Rightarrow> goerr option \<times> probe" where
  "MUDNSProbe_Init ctx logger this =
    (None, this\<lparr>pb_Module := Module_SetChild MUDNSProbe (Module_Init ctx logger (pb_Module this)),
      pb_eventMaps := [], pb_eventFuncMaps := Some Map.empty\<rparr>)"

definition MUDNSProbe_manager :: Manager where
  "MUDNSProbe_manager =
    \<lparr>mg_Probes =
       [\<lparr>mp_Section = ''uprobe/getaddrinfo'', mp_EbpfFuncName = ''getaddrinfo_entry'',
         mp_AttachToFuncName = ''getaddrinfo'', mp_UprobeOffset = 0,
         mp_BinaryPath = ''/lib/x86_64-linux-gnu/libc.so.6''\<rparr>,
        \<lparr>mp_Section = ''uretprobe/getaddrinfo'', mp_EbpfFuncName = ''getaddrinfo_return'',
         mp_AttachToFuncName = ''getaddrinfo'', mp_UprobeOffset = 0,
         mp_BinaryPath = ''/lib/x86_64-linux-gnu/libc.so.6''\<rparr>],
     mg_Maps = [''events''],
     mg_PerfMaps = []\<rparr>"

definition MUDNSProbe_options :: manager_Options where
  "MUDNSProbe_options =
    \<lparr>op_DefaultKProbeMaxActive = 512, op_LogSize = 2097152,
     op_RLimit = Some (MaxUint64, MaxUint64), op_MapSpecEditors = []\<rparr>"

definition MUDNSProbe_setupManagers :: "('w, unit) method_act" where
  "MUDNSProbe_setupManagers = update_this (\<lambda>this. this\<lparr>
     pb_bpfManager := Some MUDNSProbe_manager, pb_bpfManagerOptions := MUDNSProbe_options\<rparr>)"

definition MUDNSProbe_DecodeFun :: "probe \<Rightarrow> mapref \<Rightarrow> IEventStruct option" where
  "MUDNSProbe_DecodeFun this em = lookup_eventFunc this em"

definition MUDNSProbe_initDecodeFun :: "'w penv \<Rightarrow> ('w, unit) method_act" where
  "MUDNSProbe_initDecodeFun env =
     act_bind (lookup_map env ''events''
        ''cant found map:events'') (\<lambda>DNSEventsMap.
      act_then (append_eventMap DNSEventsMap)
      (set_eventFunc DNSEventsMap (EvDNS DNSEVENT_new)))"

definition MUDNSProbe_start :: "'w penv \<Rightarrow> ('w, unit) method_act" where
  "MUDNSProbe_start env =
     act_bind (wrap_err ''couldn't find asset''
       (fetch_asset env ''user/bytecode/dns_lookup_kern.o'')) (\<lambda>javaBuf.
     act_then MUDNSProbe_setupManagers
     (act_then (wrap_err ''couldn't init manager'' (call_InitWithOptions env javaBuf))
     (act_then (wrap_err ''couldn't start bootstrap manager'' (call_Start env))
     (MUDNSProbe_initDecodeFun env))))"

definition MUDNSProbe_Start :: "'w penv \<Rightarrow> ('w, unit) method_act" where
  "MUDNSProbe_Start env = MUDNSProbe_start env"

definition MUDNSProbe_Close :: "'w penv \<Rightarrow> ('w, unit) method_act" where
  "MUDNSProbe_Close env = wrap_err ''couldn't stop manager'' (call_Stop env)"

definition MUDNSProbe_Events :: "probe \<Rightarrow> mapref list" where
  "MUDNSProbe_Events this = pb_eventMaps this"

definition MUDNSProbe_mod :: probe where
  "MUDNSProbe_mod = zero_probe_named ''EBPFProbeUDNS'' PROBE_TYPE_UPROBE"

definition MUDNSProbe_init :: "registry \<Rightarrow> registry go" where
  "MUDNSProbe_init reg = Register (Some MUDNSProbe) (new_object MUDNSProbe MUDNSProbe_mod reg)"

section \<open>The probe keeps the contract\<close>


definition MUDNSProbe_spec :: probe_spec where
  "MUDNSProbe_spec =
    \<lparr>sp_asset = ''user/bytecode/dns_lookup_kern.o'', sp_manager = MUDNSProbe_manager,
     sp_options = MUDNSProbe_options,
     sp_wanted = [(''events'', ''cant found map:events'', EvDNS DNSEVENT_new)]\<rparr>"

interpretation udns: event_probe MUDNSProbe_start MUDNSProbe_spec "\<lambda>_. []"
  by unfold_locales
    (auto simp: MUDNSProbe_start_def MUDNSProbe_setupManagers_def MUDNSProbe_initDecodeFun_def
      MUDNSProbe_spec_def load_spec_def probe_ready_def act_defs logger_print_def errChan_cap_def Let_def
      split: option.splits prod.splits)

lemma MUDNSProbe_Init_ready: "probe_ready (snd (MUDNSProbe_Init ctx logger this))"
  by (simp add: MUDNSProbe_Init_def probe_ready_def Module_Init_def Module_SetChild_def)

interpretation udns_reader: imodule_child
  "Module_Decode lib rt (MUDNSProbe_DecodeFun (loaded MUDNSProbe_spec [em] (snd (MUDNSProbe_Init ctx logger this))))"
  "pb_Module (snd (MUDNSProbe_Init ctx logger this))" em "\<lambda>_. True"
  for lib rt ctx logger this em
  by (rule probe_is_child_checked)
    (simp_all add: MUDNSProbe_Init_def MUDNSProbe_spec_def MUDNSProbe_DecodeFun_def loaded_def lookup_eventFunc_def
      Module_Init_def Module_SetChild_def)

end
