(* ===== verification/Probe_Java.thy ===== *)
theory Probe_Java
  imports Register
begin

text \<open>
  \<open>user/probe_ujava_rasp.go\<close>: the probe on \<open>JDK_execvpe\<close>, which reports processes a JVM
  starts. The fields \<open>javaManager\<close> and \<open>javaManagerOptions\<close> of this struct are \<open>pb_bpfManager\<close> and
  \<open>pb_bpfManagerOptions\<close>.
\<close>

definition MJavaRasp_Init :: "nat \<Rightarrow> nat \<Rightarrow> probe \<Rightarrow> goerr option \<times> probe" where
  "MJavaRasp_Init ctx logger this =
    (None, this\<lparr>pb_Module := Module_SetChild MJavaRasp (Module_Init ctx logger (pb_Module this)),
      pb_eventMaps := [], pb_eventFuncMaps := Some Map.empty\<rparr>)"

definition MJavaRasp_manager :: Manager where
  "MJavaRasp_manager =
    \<lparr>mg_Probes =
       [\<lparr>mp_Section = ''uprobe/JDK_execvpe'', mp_EbpfFuncName = ''java_JDK_execvpe'',
         mp_AttachToFuncName = ''JDK_execvpe'', mp_UprobeOffset = 0x19C30,
         mp_BinaryPath = ''/usr/lib/jvm/java-8-openjdk-amd64/jre/lib/amd64/libjava.so''\<rparr>],
     mg_Maps = [''jdk_execvpe_events''],
     mg_PerfMaps = []\<rparr>"

definition MJavaRasp_options :: manager_Options where
  "MJavaRasp_options =
    \<lparr>op_DefaultKProbeMaxActive = 512, op_LogSize = 2097152,
     op_RLimit = Some (MaxUint64, MaxUint64), op_MapSpecEditors = []\<rparr>"

definition MJavaRasp_setupManagers :: "('w, unit) method_act" where
  "MJavaRasp_setupManagers = update_this (\<lambda>this. this\<lparr>
     pb_bpfManager := Some MJavaRasp_manager, pb_bpfManagerOptions := MJavaRasp_options\<rparr>)"

definition MJavaRasp_DecodeFun :: "probe \<Rightarrow> mapref \<Rightarrow> IEventStruct option" where
  "MJavaRasp_DecodeFun this em = lookup_eventFunc this em"

definition MJavaRasp_initDecodeFun :: "'w penv \<Rightarrow> ('w, unit) method_act" where
  "MJavaRasp_initDecodeFun env =
     act_then make_eventFuncMaps
     (act_bind (lookup_map env ''jdk_execvpe_events''
        ''cant found map:jdk_execvpe_events'') (\<lambda>javaEventMap.
      act_then (append_eventMap javaEventMap)
      (set_eventFunc javaEventMap (EvJava JavaJDKExecPeEvent_new))))"

definition MJavaRasp_start :: "'w penv \<Rightarrow> ('w, unit) method_act" where
  "MJavaRasp_start env =
     act_bind (wrap_err ''couldn't find asset''
       (fetch_asset env ''user/bytecode/java_exec_kern.o'')) (\<lambda>javaBuf.
     act_then MJavaRasp_setupManagers
     (act_then (wrap_err ''couldn't init manager'' (call_InitWithOptions env javaBuf))
     (act_then (wrap_err ''couldn't start bootstrap manager'' (call_Start env))
     (act_then (MJavaRasp_initDecodeFun env)
     (this_logger_print (Sprintf [Lit ''process pid: '', Dec (pn_Getpid env)]))))))"

definition MJavaRasp_Start :: "'w penv \<Rightarrow> ('w, unit) method_act" where
  "MJavaRasp_Start env = MJavaRasp_start env"

definition MJavaRasp_Close :: "'w penv \<Rightarrow> ('w, unit) method_act" where
  "MJavaRasp_Close env = wrap_err ''couldn't stop manager'' (call_Stop env)"

definition MJavaRasp_Decode :: "ebpf_lib \<Rightarrow> runtime \<Rightarrow> probe \<Rightarrow> int \<Rightarrow> mapref \<Rightarrow> bytes
    \<Rightarrow> (string \<times> goerr option) go" where
  "MJavaRasp_Decode lib rt this now em b =
    (case MJavaRasp_DecodeFun this em of
       None \<Rightarrow> Ret ('''', Some (Errorf (Sprintf
         [Lit ''can't found decode function :'', Str (map_String lib em),
          Lit '', address:'', Str (map_address lib em)])))
     | Some es \<Rightarrow> EventsDecode IEvent_Clone (IEvent_Decode rt) (IEvent_String rt now) b es)"

definition MJavaRasp_Events :: "probe \<Rightarrow> mapref list" where
  "MJavaRasp_Events this = pb_eventMaps this"

definition MJavaRasp_mod :: probe where
  "MJavaRasp_mod = zero_probe_named ''EBPFProbeUJavaRASP'' PROBE_TYPE_UPROBE"

definition MJavaRasp_init :: "registry \<Rightarrow> registry go" where
  "MJavaRasp_init reg = Register (Some MJavaRasp) (new_object MJavaRasp MJavaRasp_mod reg)"

section \<open>The probe keeps the contract\<close>

lemma MJavaRasp_Decode_eq: "MJavaRasp_Decode lib rt this = Module_Decode lib rt (MJavaRasp_DecodeFun this)"
  by (intro ext) (simp add: MJavaRasp_Decode_def Module_Decode_def)


definition MJavaRasp_spec :: probe_spec where
  "MJavaRasp_spec =
    \<lparr>sp_asset = ''user/bytecode/java_exec_kern.o'', sp_manager = MJavaRasp_manager,
     sp_options = MJavaRasp_options,
     sp_wanted = [(''jdk_execvpe_events'', ''cant found map:jdk_execvpe_events'', EvJava JavaJDKExecPeEvent_new)]\<rparr>"

interpretation ujava: event_probe MJavaRasp_start MJavaRasp_spec "\<lambda>env. [LogText (''process pid: '' @ itoa (pn_Getpid env))]"
  by unfold_locales
    (auto simp: MJavaRasp_start_def MJavaRasp_setupManagers_def MJavaRasp_initDecodeFun_def
      MJavaRasp_spec_def load_spec_def probe_ready_def act_defs logger_print_def errChan_cap_def Let_def
      split: option.splits prod.splits)

lemma MJavaRasp_Init_ready: "probe_ready (snd (MJavaRasp_Init ctx logger this))"
  by (simp add: MJavaRasp_Init_def probe_ready_def Module_Init_def Module_SetChild_def)

interpretation ujava_reader: imodule_child
  "MJavaRasp_Decode lib rt (loaded MJavaRasp_spec [em] (snd (MJavaRasp_Init ctx logger this)))"
  "pb_Module (snd (MJavaRasp_Init ctx logger this))" em "\<lambda>_. True"
  for lib rt ctx logger this em
  unfolding MJavaRasp_Decode_eq
  by (rule probe_is_child_checked) (simp_all add: MJavaRasp_Init_def MJavaRasp_spec_def MJavaRasp_DecodeFun_def loaded_def lookup_eventFunc_def
      Module_Init_def Module_SetChild_def)

end
