(* ===== verification/Kern_Objects.thy ===== *)
theory Kern_Objects
  imports Imodule
begin

text \<open>
  The object files of \<open>kern/*.c\<close> as the loader sees them: the programs (section and function) and the
  maps with their types that each file defines.
\<close>

record kern_object =
  ko_programs :: "(string \<times> string) list"
  ko_maps :: "(string \<times> map_type) list"

definition bpf_call_maps :: "(string \<times> map_type) list" where
  "bpf_call_maps = [(''bufs'', OtherMapType ''PerCPUArray''), (''bpf_context'', OtherMapType ''LRUHash''),
     (''bpf_context_gen'', OtherMapType ''Array''), (''events'', PerfEventArray)]"

definition bpf_call_kern :: kern_object where
  "bpf_call_kern =
    \<lparr>ko_programs = [(''tracepoint/syscalls/sys_enter_bpf'', ''tracepoint_sys_enter_bpf'')],
     ko_maps = bpf_call_maps\<rparr>"

definition dns_lookup_kern :: kern_object where
  "dns_lookup_kern =
    \<lparr>ko_programs = [(''uprobe/getaddrinfo'', ''getaddrinfo_entry''),
       (''uretprobe/getaddrinfo'', ''getaddrinfo_return'')],
     ko_maps = [(''start'', OtherMapType ''Hash''), (''currres'', OtherMapType ''Hash''),
       (''events'', PerfEventArray)]\<rparr>"

definition java_exec_kern :: kern_object where
  "java_exec_kern =
    \<lparr>ko_programs = [(''uprobe/JDK_execvpe'', ''java_JDK_execvpe'')],
     ko_maps = [(''jdk_execvpe_events'', PerfEventArray)]\<rparr>"

definition proc_kern :: kern_object where
  "proc_kern =
    \<lparr>ko_programs = [(''kretprobe/copy_process'', ''kretprobe_copy_process'')],
     ko_maps = [(''ringbuf_proc'', RingBuf)]\<rparr>"

definition sec_socket_connect_kern :: kern_object where
  "sec_socket_connect_kern =
    \<lparr>ko_programs = [(''kprobe/security_socket_connect'', ''kprobe__security_socket_connect'')],
     ko_maps = [(''ipv4_events'', PerfEventArray), (''ipv6_events'', PerfEventArray),
       (''other_socket_events'', PerfEventArray)]\<rparr>"

definition tcp_set_state_kern :: kern_object where
  "tcp_set_state_kern =
    \<lparr>ko_programs = [(''kprobe/tcp_set_state'', ''kprobe__tcp_set_state'')],
     ko_maps = [(''events'', PerfEventArray), (''conns'', OtherMapType ''Hash'')]\<rparr>"

definition udp_lookup_kern :: kern_object where
  "udp_lookup_kern =
    \<lparr>ko_programs = [(''kprobe/udp_recvmsg'', ''trace_udp_recvmsg''),
       (''kretprobe/udp_recvmsg'', ''trace_ret_udp_recvmsg'')],
     ko_maps = [(''dns_events'', PerfEventArray), (''tbl_udp_msg_hdr'', OtherMapType ''Hash''),
       (''dns_data'', OtherMapType ''PerCPUArray'')]\<rparr>"

lemmas kern_object_defs = bpf_call_maps_def bpf_call_kern_def dns_lookup_kern_def java_exec_kern_def proc_kern_def
  sec_socket_connect_kern_def tcp_set_state_kern_def udp_lookup_kern_def

end
