(* ===== verification/Probes.thy ===== *)
theory Probes
  imports Probe_Bpf_Call Probe_Ktcp Probe_Ktcp_Sec Probe_Kudp Probe_Proc Probe_Udns Probe_Java Kern_Objects
begin

text \<open>
  The interface \<open>IModule\<close> of \<open>user/imodule.go\<close> over all probes, and the package initialisation.

  A call through the interface dispatches on the probe behind it. \<open>probe_cfg\<close> is what one run of a
  probe's module depends on, built from the probe's own methods, so that the results on
  goroutines (\<open>Imodule_Safety\<close>) apply to the probes. \<open>package_init\<close> runs the \<open>init\<close> functions in the
  order of the file names.
\<close>

section \<open>Dispatch\<close>

fun IModule_Init :: "probe_type \<Rightarrow> nat \<Rightarrow> nat \<Rightarrow> probe \<Rightarrow> goerr option \<times> probe" where
  "IModule_Init MProcProbe = MProcProbe_Init"
| "IModule_Init MTCPProbe = MTCPProbe_Init"
| "IModule_Init MUDPProbe = MUDPProbe_Init"
| "IModule_Init MUDNSProbe = MUDNSProbe_Init"
| "IModule_Init MBPFCallProbe = MBPFCallProbe_Init"
| "IModule_Init MTCPSecProbe = MTCPSecProbe_Init"
| "IModule_Init MJavaRasp = MJavaRasp_Init"

fun IModule_Start :: "probe_type \<Rightarrow> 'w penv \<Rightarrow> ('w, unit) method_act" where
  "IModule_Start MProcProbe = MProcProbe_Start"
| "IModule_Start MTCPProbe = MTCPProbe_Start"
| "IModule_Start MUDPProbe = MUDPProbe_Start"
| "IModule_Start MUDNSProbe = MUDNSProbe_Start"
| "IModule_Start MBPFCallProbe = MBPFCallProbe_Start"
| "IModule_Start MTCPSecProbe = MTCPSecProbe_Start"
| "IModule_Start MJavaRasp = MJavaRasp_Start"

text \<open>No probe has a \<open>Stop\<close> of its own: the call reaches the one of \<open>Module\<close>.\<close>

definition IModule_Stop :: "probe_type \<Rightarrow> probe \<Rightarrow> goerr option" where
  "IModule_Stop p this = Module_Stop (pb_Module this)"

fun IModule_Close :: "probe_type \<Rightarrow> 'w penv \<Rightarrow> ('w, unit) method_act" where
  "IModule_Close MProcProbe = MProcProbe_Close"
| "IModule_Close MTCPProbe = MTCPProbe_Close"
| "IModule_Close MUDPProbe = MUDPProbe_Close"
| "IModule_Close MUDNSProbe = MUDNSProbe_Close"
| "IModule_Close MBPFCallProbe = MBPFCallProbe_Close"
| "IModule_Close MTCPSecProbe = MTCPSecProbe_Close"
| "IModule_Close MJavaRasp = MJavaRasp_Close"

fun IModule_Events :: "probe_type \<Rightarrow> probe \<Rightarrow> mapref list" where
  "IModule_Events MProcProbe = MProcProbe_Events"
| "IModule_Events MTCPProbe = MTCPProbe_Events"
| "IModule_Events MUDPProbe = MUDPProbe_Events"
| "IModule_Events MUDNSProbe = MUDNSProbe_Events"
| "IModule_Events MBPFCallProbe = MBPFCallProbe_Events"
| "IModule_Events MTCPSecProbe = MTCPSecProbe_Events"
| "IModule_Events MJavaRasp = MJavaRasp_Events"

fun IModule_DecodeFun :: "probe_type \<Rightarrow> probe \<Rightarrow> mapref \<Rightarrow> IEventStruct option" where
  "IModule_DecodeFun MProcProbe = MProcProbe_DecodeFun"
| "IModule_DecodeFun MTCPProbe = MTCPProbe_DecodeFun"
| "IModule_DecodeFun MUDPProbe = MUDPProbe_DecodeFun"
| "IModule_DecodeFun MUDNSProbe = MUDNSProbe_DecodeFun"
| "IModule_DecodeFun MBPFCallProbe = MBPFCallProbe_DecodeFun"
| "IModule_DecodeFun MTCPSecProbe = MTCPSecProbe_DecodeFun"
| "IModule_DecodeFun MJavaRasp = MJavaRasp_DecodeFun"

definition IModule_Decode :: "probe_type \<Rightarrow> ebpf_lib \<Rightarrow> runtime \<Rightarrow> probe \<Rightarrow> int \<Rightarrow> mapref \<Rightarrow> bytes
    \<Rightarrow> (string \<times> goerr option) go" where
  "IModule_Decode p lib rt this =
    (if p = MJavaRasp then MJavaRasp_Decode lib rt this
     else Module_Decode lib rt (IModule_DecodeFun p this))"

lemma IModule_Events_eq: "IModule_Events p this = pb_eventMaps this"
  by (cases p) (simp_all add: MProcProbe_Events_def MTCPProbe_Events_def MUDPProbe_Events_def
      MUDNSProbe_Events_def MBPFCallProbe_Events_def MTCPSecProbe_Events_def MJavaRasp_Events_def)

lemma IModule_DecodeFun_eq: "IModule_DecodeFun p this em = lookup_eventFunc this em"
  by (cases p) (simp_all add: MProcProbe_DecodeFun_def MTCPProbe_DecodeFun_def MUDPProbe_DecodeFun_def
      MUDNSProbe_DecodeFun_def MBPFCallProbe_DecodeFun_def MTCPSecProbe_DecodeFun_def MJavaRasp_DecodeFun_def)

lemma IModule_Decode_eq: "IModule_Decode p lib rt this = Module_Decode lib rt (lookup_eventFunc this)"
proof -
  have "IModule_DecodeFun p this = lookup_eventFunc this" for p
    by (intro ext) (rule IModule_DecodeFun_eq)
  from this [of p] this [of MJavaRasp] show ?thesis
    by (simp add: IModule_Decode_def MJavaRasp_Decode_eq)
qed

lemma IModule_Init_eq:
  "IModule_Init p ctx logger this =
    (None, this\<lparr>pb_Module := Module_SetChild p (Module_Init ctx logger (pb_Module this)),
      pb_eventMaps := [], pb_eventFuncMaps := Some Map.empty\<rparr>)"
  by (cases p) (simp_all add: MProcProbe_Init_def MTCPProbe_Init_def MUDPProbe_Init_def
      MUDNSProbe_Init_def MBPFCallProbe_Init_def MTCPSecProbe_Init_def MJavaRasp_Init_def)

lemma IModule_Init_ready: "probe_ready (snd (IModule_Init p ctx logger this))"
  by (simp add: IModule_Init_eq probe_ready_def Module_Init_def Module_SetChild_def)

section \<open>One run of a module\<close>

definition probe_cfg :: "probe_type \<Rightarrow> ebpf_lib \<Rightarrow> runtime \<Rightarrow> ((goerr + unit) \<times> 'w pstate) go \<Rightarrow> cfg" where
  "probe_cfg p lib rt started =
    (case started of
       Panic m \<Rightarrow> \<lparr>cf_lib = lib, cf_start = Panic m, cf_events = [],
         cf_decode = (\<lambda>now em b. Panic m), cf_stop = None\<rparr>
     | Ret (r, s) \<Rightarrow>
         \<lparr>cf_lib = lib, cf_start = Ret (case r of Inl err \<Rightarrow> Some err | Inr _ \<Rightarrow> None),
          cf_events = IModule_Events p (ps_this s),
          cf_decode = IModule_Decode p lib rt (ps_this s),
          cf_stop = IModule_Stop p (ps_this s)\<rparr>)"

section \<open>Package initialisation\<close>

definition package_init :: "registry go" where
  "package_init =
     go_bind (MBPFCallProbe_init registry_empty) (\<lambda>reg.
     go_bind (MTCPProbe_init reg) (\<lambda>reg.
     go_bind (MTCPSecProbe_init reg) (\<lambda>reg.
     go_bind (MUDPProbe_init reg) (\<lambda>reg.
     go_bind (MProcProbe_init reg) (\<lambda>reg.
     go_bind (MUDNSProbe_init reg) (\<lambda>reg.
     MJavaRasp_init reg))))))"

lemmas probe_init_defs = MBPFCallProbe_init_def MTCPProbe_init_def MTCPSecProbe_init_def
  MUDPProbe_init_def MProcProbe_init_def MUDNSProbe_init_def MJavaRasp_init_def

lemmas probe_mod_defs = MBPFCallProbe_mod_def MTCPProbe_mod_def MTCPSecProbe_mod_def
  MUDPProbe_mod_def MProcProbe_mod_def MUDNSProbe_mod_def MJavaRasp_mod_def

definition the_registry :: registry where
  "the_registry =
    \<lparr>rg_modules = [''EBPFProbeBPFCall'' \<mapsto> MBPFCallProbe, ''EBPFProbeKTCP'' \<mapsto> MTCPProbe,
       ''EBPFProbeKTCPSec'' \<mapsto> MTCPSecProbe, ''EBPFProbeProc'' \<mapsto> MProcProbe,
       ''EBPFProbeUDNS'' \<mapsto> MUDNSProbe, ''EBPFProbeUJavaRASP'' \<mapsto> MJavaRasp],
     rg_objs = [MBPFCallProbe \<mapsto> MBPFCallProbe_mod, MTCPProbe \<mapsto> MTCPProbe_mod,
       MTCPSecProbe \<mapsto> MTCPSecProbe_mod, MUDPProbe \<mapsto> MUDPProbe_mod, MProcProbe \<mapsto> MProcProbe_mod,
       MUDNSProbe \<mapsto> MUDNSProbe_mod, MJavaRasp \<mapsto> MJavaRasp_mod]\<rparr>"

lemma mod_names:
  "mod_name (pb_Module MBPFCallProbe_mod) = ''EBPFProbeBPFCall''"
  "mod_name (pb_Module MTCPProbe_mod) = ''EBPFProbeKTCP''"
  "mod_name (pb_Module MTCPSecProbe_mod) = ''EBPFProbeKTCPSec''"
  "mod_name (pb_Module MUDPProbe_mod) = ''EBPFProbeKUDP''"
  "mod_name (pb_Module MProcProbe_mod) = ''EBPFProbeProc''"
  "mod_name (pb_Module MUDNSProbe_mod) = ''EBPFProbeUDNS''"
  "mod_name (pb_Module MJavaRasp_mod) = ''EBPFProbeUJavaRASP''"
  by (simp_all add: probe_mod_defs zero_probe_named_def)

lemma package_init_eq: "package_init = Ret the_registry"
  by (simp add: package_init_def probe_init_defs Register_def IModule_Name_def new_object_def
      registry_empty_def Module_Name_def mod_names the_registry_def)

section \<open>The probes with event maps\<close>

fun probe_spec_of :: "probe_type \<Rightarrow> probe_spec option" where
  "probe_spec_of MProcProbe = Some MProcProbe_spec"
| "probe_spec_of MTCPProbe = Some MTCPProbe_spec"
| "probe_spec_of MUDPProbe = Some MUDPProbe_spec"
| "probe_spec_of MUDNSProbe = Some MUDNSProbe_spec"
| "probe_spec_of MBPFCallProbe = None"
| "probe_spec_of MTCPSecProbe = Some MTCPSecProbe_spec"
| "probe_spec_of MJavaRasp = Some MJavaRasp_spec"

definition probe_done_log :: "probe_type \<Rightarrow> 'w penv \<Rightarrow> log" where
  "probe_done_log p env =
    (if p = MJavaRasp then [LogText (''process pid: '' @ itoa (pn_Getpid env))] else [])"

lemmas probe_Start_defs = MProcProbe_Start_def MTCPProbe_Start_def MUDPProbe_Start_def
  MUDNSProbe_Start_def MBPFCallProbe_Start_def MTCPSecProbe_Start_def MJavaRasp_Start_def

lemmas probe_spec_defs = MProcProbe_spec_def MTCPProbe_spec_def MUDPProbe_spec_def
  MUDNSProbe_spec_def MTCPSecProbe_spec_def MJavaRasp_spec_def

lemmas probe_manager_defs = MProcProbe_manager_def MTCPProbe_manager_def MUDPProbe_manager_def
  MUDNSProbe_manager_def MTCPSecProbe_manager_def MJavaRasp_manager_def MBPFCallProbe_manager_def

lemmas probe_options_defs = MProcProbe_options_def MTCPProbe_options_def MUDPProbe_options_def
  MUDNSProbe_options_def MTCPSecProbe_options_def MJavaRasp_options_def MBPFCallProbe_options_def

lemma event_probe_of:
  assumes "probe_spec_of p = Some sp"
  shows "event_probe (IModule_Start p) sp (probe_done_log p)"
  using assms kproc.event_probe_axioms ktcp.event_probe_axioms kudp.event_probe_axioms
    udns.event_probe_axioms ktcp_sec.event_probe_axioms ujava.event_probe_axioms
  by (cases p) (auto simp: probe_Start_defs [abs_def] probe_done_log_def [abs_def])

text \<open>The receiver \<open>Run\<close> starts from: an object of the registry after \<open>Init\<close>.\<close>

definition inited :: "probe_type \<Rightarrow> nat \<Rightarrow> nat \<Rightarrow> probe \<Rightarrow> 'w \<Rightarrow> log \<Rightarrow> 'w pstate" where
  "inited p ctx logger this w log =
     \<lparr>ps_this = snd (IModule_Init p ctx logger this), ps_world = w, ps_log = log\<rparr>"

lemma inited_ready [simp]: "probe_ready (ps_this (inited p ctx logger this w log))"
  by (simp add: inited_def IModule_Init_ready)

section \<open>Properties\<close>

text \<open>C3. \<open>Start\<close> of each probe with event maps refines \<open>load_spec\<close>: after \<open>Init\<close> it never panics, makes
  the calls of the manager in the order of the specification, returns the error of the first one
  that fails, wrapped by its message, and leaves the receiver, the world and the log as specified.\<close>

theorem probe_Start_refines:
  assumes "probe_spec_of p = Some sp"
  shows "IModule_Start p env (inited p ctx logger this w log) =
    (case load_spec env sp (snd (IModule_Init p ctx logger this)) w of
       (err, this', w') \<Rightarrow> Ret (case err of Some er \<Rightarrow> Inl er | None \<Rightarrow> Inr (),
          \<lparr>ps_this = this', ps_world = w',
           ps_log = log @ (if err = None then probe_done_log p env else [])\<rparr>))"
  using event_probe.start_refines [OF event_probe_of [OF assms] inited_ready]
  by (simp add: inited_def)

definition sample_env :: "unit penv" where
  "sample_env =
    \<lparr>pn_assets = \<lparr>ae_gunzip = (\<lambda>b. Inr (b, None, None)),
       ae_blobs = \<lparr>bindataUserBytecodeBpfcallkernO_data = [1], bindataUserBytecodeDnslookupkernO_data = [2],
         bindataUserBytecodeJavaexeckernO_data = [3], bindataUserBytecodeProckernO_data = [4],
         bindataUserBytecodeSecsocketconnectkernO_data = [5],
         bindataUserBytecodeTcpsetstatekernO_data = [6], bindataUserBytecodeUdplookupkernO_data = [7]\<rparr>\<rparr>,
     pn_InitWithOptions = (\<lambda>mg buf opts w. (if buf = [4] then Some (LibError ''EPERM'') else None, w)),
     pn_Start = (\<lambda>mg w. (None, w)), pn_StopCleanAll = (\<lambda>mg w. (None, w)),
     pn_GetMap = (\<lambda>mg name w. (length name, True, None)), pn_GetPerfMap = (\<lambda>mg name. Some 0),
     pn_Getpid = 42, pn_Getpagesize = 4096\<rparr>"

lemma sample_env_Asset:
  "Asset (pn_assets sample_env) ''user/bytecode/tcp_set_state_kern.o'' = ([6], None)"
  "Asset (pn_assets sample_env) ''user/bytecode/proc_kern.o'' = ([4], None)"
  "Asset (pn_assets sample_env) ''user/bytecode/bpf_call_kern.o'' = ([1], None)"
  by (simp_all add: Asset_eq asset_bytes_def bindataRead_def sample_env_def asset_blobs_def cannonicalName_def)

theorem probe_Start_refines_witness:
  "\<exists>t. IModule_Start MProcProbe sample_env (inited MProcProbe 0 0 MProcProbe_mod () [])
     = Ret (Inl (Wrap (LibError ''EPERM'') ''couldn't init manager''), t)"
  using probe_Start_refines [of MProcProbe MProcProbe_spec sample_env 0 0 MProcProbe_mod "()" "[]"]
  by (simp add: load_spec_def MProcProbe_spec_def sample_env_Asset) (simp add: sample_env_def)

text \<open>C10. A start succeeds exactly when the asset loads, the manager initialises and starts, and all event
  maps are found. Then the probe's \<open>Events\<close> are these maps in order, \<open>DecodeFun\<close> gives each map the
  event type the probe's table pairs it with, and it knows no other map.\<close>

theorem probe_Start_loads:
  assumes "probe_spec_of p = Some sp"
  shows "((\<exists>t. IModule_Start p env (inited p ctx logger this w log) = Ret (Inr (), t))
      \<longleftrightarrow> (\<exists>ms w'. start_succeeds env sp w ms w'))
    \<and> (\<forall>ms w'. start_succeeds env sp w ms w' \<and> distinct ms \<longrightarrow>
        (\<exists>t. IModule_Start p env (inited p ctx logger this w log) = Ret (Inr (), t)
          \<and> IModule_Events p (ps_this t) = ms
          \<and> (\<forall>i < length ms. IModule_DecodeFun p (ps_this t) (ms ! i) = Some (snd (snd (sp_wanted sp ! i))))
          \<and> (\<forall>em. em \<notin> set ms \<longrightarrow> IModule_DecodeFun p (ps_this t) em = None)))"
proof -
  note ev = event_probe_of [OF assms]
  have "\<exists>t. IModule_Start p env (inited p ctx logger this w log) = Ret (Inr (), t)
          \<and> IModule_Events p (ps_this t) = ms
          \<and> (\<forall>i < length ms. IModule_DecodeFun p (ps_this t) (ms ! i) = Some (snd (snd (sp_wanted sp ! i))))
          \<and> (\<forall>em. em \<notin> set ms \<longrightarrow> IModule_DecodeFun p (ps_this t) em = None)"
    if s: "start_succeeds env sp w ms w'" and d: "distinct ms" for ms w'
  proof -
    have "start_succeeds env sp (ps_world (inited p ctx logger this w log)) ms w'"
      using s by (simp add: inited_def)
    from event_probe.start_loaded [OF ev inited_ready this d] show ?thesis
      using event_probe.loaded_decode [OF ev s d]
      by (auto simp: IModule_Events_eq IModule_DecodeFun_eq inited_def) (simp add: loaded_def)
  qed
  moreover have "(\<exists>t. IModule_Start p env (inited p ctx logger this w log) = Ret (Inr (), t))
      \<longleftrightarrow> (\<exists>ms w'. start_succeeds env sp w ms w')"
    using event_probe.start_ok_iff [OF ev, of "inited p ctx logger this w log" env]
    by (simp add: inited_def IModule_Init_ready)
  ultimately show ?thesis by blast
qed

lemma sample_start_succeeds: "start_succeeds sample_env MTCPProbe_spec () [6] ()"
  by (simp add: start_succeeds_def MTCPProbe_spec_def sample_env_Asset maps_found_def) (simp add: sample_env_def)

theorem probe_Start_loads_witness:
  "\<exists>t. IModule_Start MTCPProbe sample_env (inited MTCPProbe 0 0 MTCPProbe_mod () []) = Ret (Inr (), t)
     \<and> IModule_Events MTCPProbe (ps_this t) = [6]
     \<and> IModule_DecodeFun MTCPProbe (ps_this t) 6 = Some (EvTCP TCPEvent_new)"
proof -
  obtain t where "IModule_Start MTCPProbe sample_env (inited MTCPProbe 0 0 MTCPProbe_mod () []) = Ret (Inr (), t)"
    "IModule_Events MTCPProbe (ps_this t) = [6]"
    "\<forall>i < length [6]. IModule_DecodeFun MTCPProbe (ps_this t) ([6] ! i) = Some (snd (snd (sp_wanted MTCPProbe_spec ! i)))"
    using probe_Start_loads [of MTCPProbe MTCPProbe_spec sample_env 0 0 MTCPProbe_mod "()" "[]"]
      sample_start_succeeds
    by (auto simp del: IModule_Start.simps)
  then show ?thesis by (auto simp: MTCPProbe_spec_def)
qed

lemma GetModules_the_registry:
  "{(k, v). GetModules the_registry k = Some v} =
    {(''EBPFProbeBPFCall'', MBPFCallProbe), (''EBPFProbeKTCP'', MTCPProbe),
     (''EBPFProbeKTCPSec'', MTCPSecProbe), (''EBPFProbeProc'', MProcProbe),
     (''EBPFProbeUDNS'', MUDNSProbe), (''EBPFProbeUJavaRASP'', MJavaRasp)}"
  by (auto simp: GetModules_def the_registry_def split: if_splits)

lemma registry_inv_the_registry: "registry_inv the_registry"
proof -
  have "IModule_Name the_registry p = Ret k" if "(k, p) \<in> {(k, v). GetModules the_registry k = Some v}" for k p
    using that unfolding GetModules_the_registry
    by (auto simp: IModule_Name_def the_registry_def Module_Name_def mod_names)
  then show ?thesis by (auto simp: registry_inv_def GetModules_def)
qed

text \<open>C31. The \<open>init\<close> functions of the package run without a panic and register six probes, each under its
  own name. The probe on \<open>udp_recvmsg\<close> is not registered.\<close>

theorem package_init_registry:
  "\<exists>reg. package_init = Ret reg \<and> registry_inv reg
    \<and> {(k, p). GetModules reg k = Some p} =
        {(''EBPFProbeBPFCall'', MBPFCallProbe), (''EBPFProbeKTCP'', MTCPProbe),
         (''EBPFProbeKTCPSec'', MTCPSecProbe), (''EBPFProbeProc'', MProcProbe),
         (''EBPFProbeUDNS'', MUDNSProbe), (''EBPFProbeUJavaRASP'', MJavaRasp)}"
  using package_init_eq registry_inv_the_registry GetModules_the_registry by blast

text \<open>The program behind each probe, and the file that holds its object code.\<close>

fun object_of :: "probe_type \<Rightarrow> kern_object" where
  "object_of MProcProbe = proc_kern"
| "object_of MTCPProbe = tcp_set_state_kern"
| "object_of MUDPProbe = udp_lookup_kern"
| "object_of MUDNSProbe = dns_lookup_kern"
| "object_of MBPFCallProbe = bpf_call_kern"
| "object_of MTCPSecProbe = sec_socket_connect_kern"
| "object_of MJavaRasp = java_exec_kern"

fun object_file :: "probe_type \<Rightarrow> string" where
  "object_file MProcProbe = ''user/bytecode/proc_kern.o''"
| "object_file MTCPProbe = ''user/bytecode/tcp_set_state_kern.o''"
| "object_file MUDPProbe = ''user/bytecode/udp_lookup_kern.o''"
| "object_file MUDNSProbe = ''user/bytecode/dns_lookup_kern.o''"
| "object_file MBPFCallProbe = ''user/bytecode/bpf_call_kern.o''"
| "object_file MTCPSecProbe = ''user/bytecode/sec_socket_connect_kern.o''"
| "object_file MJavaRasp = ''user/bytecode/java_exec_kern.o''"

text \<open>Every program and map a manager and its options name is in the object.\<close>

definition names_known :: "kern_object \<Rightarrow> Manager \<Rightarrow> manager_Options \<Rightarrow> bool" where
  "names_known obj mg opts \<longleftrightarrow>
     list_all (\<lambda>q. (mp_Section q, mp_EbpfFuncName q) \<in> set (ko_programs obj)) (mg_Probes mg)
     \<and> set (mg_Maps mg) \<union> pm_Name ` set (mg_PerfMaps mg) \<subseteq> fst ` set (ko_maps obj)
     \<and> list_all (\<lambda>(name, ed). (name, mse_Type ed) \<in> set (ko_maps obj)) (op_MapSpecEditors opts)"

text \<open>What the packages \<open>ebpfmanager\<close> and \<open>ebpf\<close> promise for an object file whose programs the kernel accepts:
  a manager that names only programs and maps of the object is loaded and started; \<open>GetMap\<close> then finds every map of
  the object, each a map of its own with the type the object declares; and \<open>GetPerfMap\<close> finds a perf map of the
  manager by its name.\<close>

definition serves_object :: "'w penv \<Rightarrow> ebpf_lib \<Rightarrow> kern_object \<Rightarrow> bytes \<Rightarrow> bool" where
  "serves_object env lib obj buf \<longleftrightarrow>
    (\<forall>mg opts w. names_known obj mg opts \<longrightarrow>
      (\<exists>w1 w2 ref. pn_InitWithOptions env mg buf opts w = (None, w1) \<and> pn_Start env mg w1 = (None, w2)
        \<and> inj_on ref (fst ` set (ko_maps obj))
        \<and> (\<forall>(name, ty)\<in>set (ko_maps obj).
              pn_GetMap env mg name w2 = (ref name, True, None) \<and> map_Type lib (ref name) = ty)))
    \<and> (\<forall>mg i. distinct (map pm_Name (mg_PerfMaps mg)) \<and> i < length (mg_PerfMaps mg) \<longrightarrow>
        pn_GetPerfMap env mg (pm_Name (mg_PerfMaps mg ! i)) = Some i)"

lemma spec_matches_object:
  assumes "probe_spec_of p = Some sp"
  shows "sp_asset sp = object_file p"
    and "names_known (object_of p) (sp_manager sp) (sp_options sp)"
    and "distinct (map fst (sp_wanted sp))"
    and "\<And>x. x \<in> set (sp_wanted sp) \<Longrightarrow>
      (fst x, RingBuf) \<in> set (ko_maps (object_of p)) \<or> (fst x, PerfEventArray) \<in> set (ko_maps (object_of p))"
    and "\<And>name. (name, RingBuf) \<in> set (ko_maps (object_of p)) \<or> (name, PerfEventArray) \<in> set (ko_maps (object_of p)) \<Longrightarrow>
      name \<in> fst ` set (sp_wanted sp)"
  using assms
  by (cases p; force simp: probe_spec_defs probe_manager_defs kern_object_defs names_known_def probe_options_defs)+

text \<open>C28. The probe on \<open>bpf\<close> gives \<open>Run\<close> no event maps, so after a successful start its \<open>Run\<close> waits on
  the error channel for ever: it has no readers and returns in no reachable state.\<close>

theorem bpf_call_run_waits:
  assumes "IModule_Start MBPFCallProbe env (inited MBPFCallProbe ctx logger this w log) = Ret (Inr (), t)"
    and "sys_reach (probe_cfg MBPFCallProbe lib rt (Ret (Inr (), t))) m s"
  shows "(\<forall>e. sy_pc s \<noteq> RunRet e) \<and> rd_count live s = 0 \<and> sy_chan s = []"
proof -
  have "pb_eventMaps (ps_this t) = []"
    using MBPFCallProbe_start_no_maps [of env "inited MBPFCallProbe ctx logger this w log"] assms(1)
    by (simp add: MBPFCallProbe_Start_def inited_def MBPFCallProbe_Init_def)
  then have c: "cf_events (probe_cfg MBPFCallProbe lib rt (Ret (Inr (), t))) = []"
    "cf_start (probe_cfg MBPFCallProbe lib rt (Ret (Inr (), t))) = Ret None"
    by (simp_all add: probe_cfg_def IModule_Events_eq del: IModule_Events.simps)
  show ?thesis
    using no_events_waits [OF assms(2) c] sys_reach_inv [OF assms(2)] c
    by (auto simp: sys_inv_def chan_inv_def)
qed

theorem bpf_call_run_waits_witness:
  "\<exists>t :: unit pstate. IModule_Start MBPFCallProbe sample_env (inited MBPFCallProbe 0 0 MBPFCallProbe_mod () []) = Ret (Inr (), t)
     \<and> (\<forall>lib rt m. rd_count live (sys_init m) = 0
          \<and> sys_reach (probe_cfg MBPFCallProbe lib rt (Ret (Inr (), t))) m (sys_init m))"
proof -
  have "pn_GetPerfMap sample_env MBPFCallProbe_manager ''events'' = Some 0"
    and "pn_InitWithOptions sample_env mg [1] opts w = (None, w)" and "pn_Start sample_env mg w = (None, w)" for mg opts w
    by (simp_all add: sample_env_def)
  then obtain t where t: "IModule_Start MBPFCallProbe sample_env (inited MBPFCallProbe 0 0 MBPFCallProbe_mod () []) = Ret (Inr (), t)"
    using MBPFCallProbe_start_eq [of sample_env "inited MBPFCallProbe 0 0 MBPFCallProbe_mod () []"]
    by (simp add: MBPFCallProbe_Start_def sample_env_Asset Let_def)
  then show ?thesis
    using bpf_call_run_waits [OF t sys_reach.init] sys_reach.init by blast
qed

text \<open>C27. The handler of the \<open>bpf\<close> probe, on a little-endian host: a record of the kernel, with whatever
  follows it, becomes one report with the CPU and the event's text; a sample shorter than the
  record brings the process down with a panic. The fatal branch is never taken.\<close>

theorem bpf_dataHandler_reports:
  assumes "mod_logger (pb_Module this) \<noteq> None" and "rt_host rt = LittleEndian"
  shows "(proc_common_wf (bc_procinfo c) \<longrightarrow>
      (\<exists>ty. BPFCmd_String (uint (bc_cmd c)) = Ret ty
        \<and> MBPFCallProbe_dataHandler rt this cpu (bpf_context_t_bytes c @ pad) log = Ret (Handled (log @
            [LogReport (report_line (pb_Module this) (''BPFCALL EVENT CPU:'' @ itoa cpu @ '', ''
               @ BpfCallEvent_String (BpfCallEvent_of c ty)))]))))
    \<and> (length data < 424 \<longrightarrow> (\<exists>m. MBPFCallProbe_dataHandler rt this cpu data log = Panic m))
    \<and> (\<forall>data log'. MBPFCallProbe_dataHandler rt this cpu data log \<noteq> Ret (Fatal log'))"
proof -
  have bo: "ByteOrder rt = LittleEndian" using assms(2) by (simp add: ByteOrder_def GetEndian_host)
  have good: "\<exists>ty. BPFCmd_String (uint (bc_cmd c)) = Ret ty
        \<and> MBPFCallProbe_dataHandler rt this cpu (bpf_context_t_bytes c @ pad) log = Ret (Handled (log @
            [LogReport (report_line (pb_Module this) (''BPFCALL EVENT CPU:'' @ itoa cpu @ '', ''
               @ BpfCallEvent_String (BpfCallEvent_of c ty)))]))"
    if wf: "proc_common_wf (bc_procinfo c)"
  proof -
    obtain ty where ty: "BPFCmd_String (uint (bc_cmd c)) = Ret ty" using BPFCmd_String_total by blast
    have "length (bpf_context_t_bytes c) = 424"
      using struct_sizes(8) [OF wf] by (simp add: bpf_context_t_bytes_def)
    then have "BpfCallEvent_Decode LittleEndian (bpf_context_t_bytes c @ pad) BpfCallEvent_new
        = Ret (None, BpfCallEvent_of c ty)"
      using bpf_event.decode_padding [of "bpf_context_t_bytes c" LittleEndian pad]
        BpfCallEvent_Decode_bpf_context_t [OF wf ty] by simp
    then show ?thesis
      using ty by (simp add: MBPFCallProbe_dataHandler_def bo Module_Write_eq [OF assms(1)])
  qed
  have short: "\<exists>m. MBPFCallProbe_dataHandler rt this cpu d log = Panic m" if "length d < 424" for d
    using BpfCallEvent_Decode_short [OF that, of LittleEndian BpfCallEvent_new]
    by (auto simp: MBPFCallProbe_dataHandler_def bo)
  have "MBPFCallProbe_dataHandler rt this cpu d log \<noteq> Ret (Fatal log')" for d log'
  proof (cases "length d < 424")
    case False
    then obtain e where "BpfCallEvent_Decode LittleEndian d BpfCallEvent_new = Ret (None, e)"
      using bpf_event.decode_ok by (meson not_less)
    then show ?thesis
      by (simp add: MBPFCallProbe_dataHandler_def bo Module_Write_eq [OF assms(1)])
  qed (use short in force)
  with good short show ?thesis by blast
qed

theorem bpf_dataHandler_reports_witness:
  "\<exists>l. MBPFCallProbe_dataHandler \<lparr>rt_zone = \<lambda>_. 0, rt_host = LittleEndian, rt_dns = sample_dns_lib\<rparr>
     (snd (MBPFCallProbe_Init 0 0 MBPFCallProbe_mod)) 3 (bpf_context_t_bytes sample_bpf_context_t) [] = Ret (Handled [LogReport l])"
proof -
  let ?rt = "\<lparr>rt_zone = \<lambda>_. 0, rt_host = LittleEndian, rt_dns = sample_dns_lib\<rparr>"
  let ?pr = "snd (MBPFCallProbe_Init 0 0 MBPFCallProbe_mod)"
  have wf: "proc_common_wf (bc_procinfo sample_bpf_context_t)"
    by (simp add: proc_common_wf_def sample_bpf_context_t_def)
  have lg: "mod_logger (pb_Module ?pr) \<noteq> None"
    by (simp add: MBPFCallProbe_Init_def Module_Init_def Module_SetChild_def)
  have host: "rt_host ?rt = LittleEndian" by simp
  obtain l where "MBPFCallProbe_dataHandler ?rt ?pr 3 (bpf_context_t_bytes sample_bpf_context_t @ []) []
      = Ret (Handled ([] @ [LogReport l]))"
    using bpf_dataHandler_reports [OF lg host] wf by blast
  then show ?thesis by auto
qed

end
