(* ===== verification/Agent_Main.thy ===== *)
theory Agent_Main
  imports Probes
begin

text \<open>
  \<open>main.go\<close>. \<open>rlimit.RemoveMemlock\<close> and the process id are arguments; ranging over the registry
  takes an enumeration of it, in any order. The result after the loop is the state in which \<open>main\<close>
  waits for a signal: the registry with the initialised probes, the modules whose goroutine was
  started, and the log. Each started goroutine is a run of \<open>sys_step\<close> for \<open>probe_cfg\<close>.
\<close>

record main_state =
  ms_reg :: registry
  ms_started :: "probe_type list"
  ms_cancelled :: bool
  ms_log :: log

datatype main_result = MainFatal log | MainPanic goerr | MainCrash string | MainWaiting main_state

definition enumerates :: "('k \<rightharpoonup> 'v) \<Rightarrow> ('k \<times> 'v) list \<Rightarrow> bool" where
  "enumerates m order \<longleftrightarrow> distinct (map fst order) \<and> (\<forall>k v. (k, v) \<in> set order \<longleftrightarrow> m k = Some v)"

text \<open>The body of the loop. The test of the module's name has an empty branch.\<close>

fun main_loop :: "nat \<Rightarrow> nat \<Rightarrow> (string \<times> probe_type) list \<Rightarrow> main_state \<Rightarrow> main_result" where
  "main_loop ctx logger [] s = MainWaiting s"
| "main_loop ctx logger ((k, module) # rest) s =
    (case IModule_Name (ms_reg s) module of
       Panic m \<Rightarrow> MainCrash m
     | Ret _ \<Rightarrow>
        (case rg_objs (ms_reg s) module of
           None \<Rightarrow> MainCrash ''invalid memory address or nil pointer dereference''
         | Some this \<Rightarrow>
            (case IModule_Init module ctx logger this of
               (Some err, _) \<Rightarrow> MainPanic err
             | (None, this') \<Rightarrow>
                main_loop ctx logger rest
                 (s\<lparr>ms_reg := (ms_reg s)\<lparr>rg_objs := (rg_objs (ms_reg s))(module \<mapsto> this')\<rparr>,
                    ms_started := ms_started s @ [module],
                    ms_log := ms_log s @ [LogText (Sprintf [Lit ''start to run '', Str k, Lit '' module''])]\<rparr>))))"

definition main_setup :: "goerr option \<Rightarrow> int \<Rightarrow> nat \<Rightarrow> nat \<Rightarrow> (string \<times> probe_type) list \<Rightarrow> registry \<Rightarrow> main_result" where
  "main_setup memlock pid ctx logger order reg =
    (case memlock of
       Some err \<Rightarrow> MainFatal [LogErr '''' err]
     | None \<Rightarrow> main_loop ctx logger order
        \<lparr>ms_reg = reg, ms_started = [], ms_cancelled = False,
         ms_log = [LogText ''https://github.com/ehids/ehids-agent'',
                   LogText (Sprintf [Lit ''process pid: '', Dec pid])]\<rparr>)"

text \<open>What the goroutine of a module does when \<open>Run\<close> returns.\<close>

definition module_goroutine_end :: "goerr option \<Rightarrow> log \<Rightarrow> log" where
  "module_goroutine_end err log = (case err of Some er \<Rightarrow> log @ [LogErr '''' er] | None \<Rightarrow> log)"

text \<open>After the signal.\<close>

definition main_stop :: "main_state \<Rightarrow> main_state" where
  "main_stop s = s\<lparr>ms_cancelled := True,
     ms_log := ms_log s @ [LogText ''Received signal, exiting program..'']\<rparr>"

section \<open>The loop\<close>

lemma main_loop_waits:
  assumes "\<forall>(k, p)\<in>set order. rg_objs (ms_reg s) p \<noteq> None" and "distinct (map snd order)"
  shows "\<exists>t. main_loop ctx logger order s = MainWaiting t
    \<and> ms_started t = ms_started s @ map snd order
    \<and> ms_cancelled t = ms_cancelled s
    \<and> rg_modules (ms_reg t) = rg_modules (ms_reg s)
    \<and> (\<forall>p. rg_objs (ms_reg t) p =
          (if p \<in> snd ` set order
           then map_option (\<lambda>this. snd (IModule_Init p ctx logger this)) (rg_objs (ms_reg s) p)
           else rg_objs (ms_reg s) p))
    \<and> ms_log t = ms_log s @ map (\<lambda>(k, p). LogText (''start to run '' @ k @ '' module'')) order"
  using assms
proof (induction order arbitrary: s)
  case (Cons x order)
  obtain k p where x: "x = (k, p)" by (cases x)
  then obtain obj where obj: "rg_objs (ms_reg s) p = Some obj" using Cons.prems(1) by auto
  let ?s = "s\<lparr>ms_reg := (ms_reg s)\<lparr>rg_objs := (rg_objs (ms_reg s))(p \<mapsto> snd (IModule_Init p ctx logger obj))\<rparr>,
      ms_started := ms_started s @ [p],
      ms_log := ms_log s @ [LogText (''start to run '' @ k @ '' module'')]\<rparr>"
  have step: "main_loop ctx logger (x # order) s = main_loop ctx logger order ?s"
    using obj by (simp add: x IModule_Name_def IModule_Init_eq)
  have p: "p \<notin> snd ` set order" using Cons.prems(2) x by force
  have "\<forall>(k, p)\<in>set order. rg_objs (ms_reg ?s) p \<noteq> None" "distinct (map snd order)"
    using Cons.prems by auto
  from Cons.IH [OF this] obtain t where t: "main_loop ctx logger order ?s = MainWaiting t"
    "ms_started t = ms_started ?s @ map snd order" "ms_cancelled t = ms_cancelled ?s"
    "rg_modules (ms_reg t) = rg_modules (ms_reg ?s)"
    "\<forall>q. rg_objs (ms_reg t) q = (if q \<in> snd ` set order
         then map_option (\<lambda>this. snd (IModule_Init q ctx logger this)) (rg_objs (ms_reg ?s) q)
         else rg_objs (ms_reg ?s) q)"
    "ms_log t = ms_log ?s @ map (\<lambda>(k, p). LogText (''start to run '' @ k @ '' module'')) order"
    by blast
  have "\<forall>q. rg_objs (ms_reg t) q = (if q \<in> snd ` set (x # order)
         then map_option (\<lambda>this. snd (IModule_Init q ctx logger this)) (rg_objs (ms_reg s) q)
         else rg_objs (ms_reg s) q)"
    using t(5) p obj x by simp
  with t step show ?case by (intro exI [of _ t]) (simp add: x)
qed simp

lemma enumerates_the_registry:
  assumes "enumerates (GetModules the_registry) order"
  shows "distinct (map snd order)"
    and "snd ` set order = {MBPFCallProbe, MTCPProbe, MTCPSecProbe, MProcProbe, MUDNSProbe, MJavaRasp}"
proof -
  have "set order = {(k, v). GetModules the_registry k = Some v}"
    using assms by (auto simp: enumerates_def)
  note order = this [unfolded GetModules_the_registry]
  have "distinct order" using assms by (simp add: enumerates_def distinct_map)
  moreover have "inj_on snd (set order)" unfolding order by simp
  ultimately show "distinct (map snd order)" by (simp add: distinct_map)
  show "snd ` set order = {MBPFCallProbe, MTCPProbe, MTCPSecProbe, MProcProbe, MUDNSProbe, MJavaRasp}"
    unfolding order by simp
qed

section \<open>Properties\<close>

lemma the_registry_objs:
  "p \<in> {MBPFCallProbe, MTCPProbe, MTCPSecProbe, MProcProbe, MUDNSProbe, MJavaRasp} \<Longrightarrow>
     \<exists>this. rg_objs the_registry p = Some this"
  by (auto simp: the_registry_def)

text \<open>C18. Started with the registry the \<open>init\<close> functions build, and in whatever order the range over the
  registry goes, \<open>main\<close> gets to the wait for a signal with six goroutines started, one for each
  registered probe; each of these probes has been initialised and is its own module's child. When
  the memory limit cannot be lifted, nothing is started.\<close>

theorem main_starts_all:
  assumes "package_init = Ret reg" and "enumerates (GetModules reg) order"
  shows "(\<exists>s. main_setup None pid ctx logger order reg = MainWaiting s
      \<and> distinct (ms_started s)
      \<and> set (ms_started s) = {MBPFCallProbe, MTCPProbe, MTCPSecProbe, MProcProbe, MUDNSProbe, MJavaRasp}
      \<and> \<not> ms_cancelled s
      \<and> (\<forall>p \<in> set (ms_started s). \<exists>this. rg_objs (ms_reg s) p = Some this
           \<and> probe_ready this \<and> mod_child (pb_Module this) = Some p))
    \<and> main_setup (Some err) pid ctx logger order reg = MainFatal [LogErr '''' err]"
proof -
  have reg: "reg = the_registry" using trans [OF assms(1) [symmetric] package_init_eq] by (rule go.inject(1) [THEN iffD1])
  note en = enumerates_the_registry [OF assms(2) [unfolded reg]]
  let ?s = "\<lparr>ms_reg = reg, ms_started = [], ms_cancelled = False,
         ms_log = [LogText ''https://github.com/ehids/ehids-agent'',
                   LogText (Sprintf [Lit ''process pid: '', Dec pid])]\<rparr>"
  have "rg_objs (ms_reg ?s) p \<noteq> None" if "(k, p) \<in> set order" for k p
  proof -
    from that have "p \<in> snd ` set order" by force
    then show ?thesis unfolding en(2) using the_registry_objs by (auto simp: reg)
  qed
  then have objs: "\<forall>(k, p)\<in>set order. rg_objs (ms_reg ?s) p \<noteq> None" by blast
  obtain s where s: "main_loop ctx logger order ?s = MainWaiting s"
    "ms_started s = ms_started ?s @ map snd order" "ms_cancelled s = ms_cancelled ?s"
    "\<forall>p. rg_objs (ms_reg s) p =
          (if p \<in> snd ` set order
           then map_option (\<lambda>this. snd (IModule_Init p ctx logger this)) (rg_objs (ms_reg ?s) p)
           else rg_objs (ms_reg ?s) p)"
    using main_loop_waits [OF objs en(1), of ctx logger] by blast
  have started: "set (ms_started s) = snd ` set order" using s(2) by simp
  have "\<exists>this. rg_objs (ms_reg s) p = Some this \<and> probe_ready this \<and> mod_child (pb_Module this) = Some p"
    if "p \<in> set (ms_started s)" for p
  proof -
    from that have "p \<in> snd ` set order" by (simp add: started)
    moreover from this obtain obj where "rg_objs the_registry p = Some obj"
      unfolding en(2) using the_registry_objs by blast
    ultimately have "rg_objs (ms_reg s) p = Some (snd (IModule_Init p ctx logger obj))"
      using s(4) by (simp add: reg)
    then show ?thesis
      using IModule_Init_ready [of p ctx logger obj]
      by (simp add: IModule_Init_eq Module_SetChild_def)
  qed
  with s en started show ?thesis by (simp add: main_setup_def)
qed

definition sample_order :: "(string \<times> probe_type) list" where
  "sample_order = [(''EBPFProbeUDNS'', MUDNSProbe), (''EBPFProbeBPFCall'', MBPFCallProbe),
     (''EBPFProbeKTCPSec'', MTCPSecProbe), (''EBPFProbeKTCP'', MTCPProbe),
     (''EBPFProbeUJavaRASP'', MJavaRasp), (''EBPFProbeProc'', MProcProbe)]"

theorem main_starts_all_witness:
  "\<exists>s. main_setup None 42 0 0 sample_order the_registry = MainWaiting s \<and> length (ms_started s) = 6"
proof -
  have "(k, v) \<in> set sample_order \<longleftrightarrow> GetModules the_registry k = Some v" for k v
    using GetModules_the_registry by (auto simp: sample_order_def set_eq_iff)
  then have "enumerates (GetModules the_registry) sample_order"
    by (simp add: enumerates_def) (simp add: sample_order_def)
  from main_starts_all [OF package_init_eq this] obtain s where
    "main_setup None 42 0 0 sample_order the_registry = MainWaiting s" "distinct (ms_started s)"
    "set (ms_started s) = {MBPFCallProbe, MTCPProbe, MTCPSecProbe, MProcProbe, MUDNSProbe, MJavaRasp}"
    by blast
  then show ?thesis using distinct_card [of "ms_started s"] by auto
qed

end
