(* ===== verification/Reports.thy ===== *)
theory Reports
  imports Probes
begin

text \<open>
  From a record of the kernel to a line of the log: the event maps of the started probes, their readers
  and their decoders put together.
\<close>

section \<open>Readers of started probes\<close>

lemma probe_events_checked:
  "probe_spec_of p = Some sp \<Longrightarrow> p \<noteq> MUDPProbe \<Longrightarrow> x \<in> set (sp_wanted sp) \<Longrightarrow> \<not> slices_unchecked (snd (snd x))"
  by (cases p) (auto simp: probe_spec_defs)

lemma inited_module:
  "mod_ctx (pb_Module (snd (IModule_Init p ctx logger this))) \<noteq> None"
  "mod_logger (pb_Module (snd (IModule_Init p ctx logger this))) \<noteq> None"
  "mod_child (pb_Module (snd (IModule_Init p ctx logger this))) \<noteq> None"
  using IModule_Init_ready [of p ctx logger this] by (simp_all add: probe_ready_def)

lemma loaded_Module [simp]: "pb_Module (loaded sp ms this) = pb_Module this"
  by (simp add: loaded_def)

lemma loaded_child:
  assumes "probe_spec_of p = Some sp" and "p \<noteq> MUDPProbe"
    and "start_succeeds env sp w ms w'" and "distinct ms" and "em \<in> set ms"
  shows "imodule_child (IModule_Decode p lib rt (loaded sp ms (snd (IModule_Init p ctx logger this))))
     (pb_Module (snd (IModule_Init p ctx logger this))) em (\<lambda>_. True)"
proof -
  note ev = event_probe_of [OF assms(1)]
  from assms(5) obtain i where i: "i < length ms" "em = ms ! i" by (auto simp: in_set_conv_nth)
  have "length ms = length (sp_wanted sp)" by (rule event_probe.loaded_decode(3) [OF ev assms(3,4)])
  then have "\<not> slices_unchecked (snd (snd (sp_wanted sp ! i)))"
    using i(1) probe_events_checked [OF assms(1,2)] by simp
  then have "\<exists>ev. lookup_eventFunc (loaded sp ms (snd (IModule_Init p ctx logger this))) em = Some ev
      \<and> \<not> slices_unchecked ev"
    using event_probe.loaded_decode(1) [OF ev assms(3,4) i(1)] i(2) by blast
  then show ?thesis
    unfolding IModule_Decode_eq by (rule probe_is_child_checked [OF inited_module(1,2)])
qed

lemma Start_loaded:
  assumes "probe_spec_of p = Some sp" and "start_succeeds env sp w ms w'" and "distinct ms"
  shows "\<exists>log'. IModule_Start p env (inited p ctx logger this w log) = Ret (Inr (),
     \<lparr>ps_this = loaded sp ms (snd (IModule_Init p ctx logger this)), ps_world = w', ps_log = log'\<rparr>)"
  using event_probe.start_loaded [OF event_probe_of [OF assms(1)], of "inited p ctx logger this w log" env ms w']
    assms(2,3) by (simp add: inited_def IModule_Init_ready)

text \<open>C11. After a successful start of any probe but the unregistered UDP one, the reader of each of its
  event maps survives every record, however short or malformed: it handles each by exactly one log
  entry, in the order of the records, and goes on.\<close>

theorem probe_reader_records:
  assumes "probe_spec_of p = Some sp" and "p \<noteq> MUDPProbe"
    and "start_succeeds env sp w ms w'" and "distinct ms" and "em \<in> set ms"
  shows "\<exists>t. IModule_Start p env (inited p ctx logger this w log) = Ret (Inr (), t)
    \<and> reader_loop k (pb_Module (ps_this t)) (IModule_Decode p lib rt (ps_this t)) em
        (map (\<lambda>(rc, now). (False, Inr rc, now)) rs @ ins) l =
      reader_loop k (pb_Module (ps_this t)) (IModule_Decode p lib rt (ps_this t)) em ins
        (l @ map (\<lambda>(rc, now). record_entry k (pb_Module (ps_this t)) (IModule_Decode p lib rt (ps_this t)) em rc now) rs)"
proof -
  obtain log' where "IModule_Start p env (inited p ctx logger this w log) = Ret (Inr (),
     \<lparr>ps_this = loaded sp ms (snd (IModule_Init p ctx logger this)), ps_world = w', ps_log = log'\<rparr>)"
    using Start_loaded [OF assms(1,3,4)] by blast
  then show ?thesis
    using imodule_child.reader_loop_records [OF loaded_child [OF assms], of rs] by simp
qed

theorem probe_reader_records_witness:
  "\<exists>t. IModule_Start MTCPProbe sample_env (inited MTCPProbe 0 0 MTCPProbe_mod () []) = Ret (Inr (), t)
    \<and> (\<exists>e. reader_loop PerfReader (pb_Module (ps_this t))
         (IModule_Decode MTCPProbe sample_ebpf_lib \<lparr>rt_zone = \<lambda>_. 0, rt_host = LittleEndian, rt_dns = sample_dns_lib\<rparr> (ps_this t))
         6 [(False, Inr \<lparr>rec_LostSamples = 0, rec_RawSample = [1, 2, 3]\<rparr>, 0)] [] = Waiting [e])"
  using probe_reader_records [OF _ _ sample_start_succeeds, of MTCPProbe 6 0 0 MTCPProbe_mod "[]" PerfReader
      sample_ebpf_lib "\<lparr>rt_zone = \<lambda>_. 0, rt_host = LittleEndian, rt_dns = sample_dns_lib\<rparr>"
      "[(\<lparr>rec_LostSamples = 0, rec_RawSample = [1, 2, 3]\<rparr>, 0)]" "[]" "[]"]
  by (auto simp del: IModule_Start.simps)

section \<open>Records of the kernel\<close>

text \<open>The records that readers of \<open>Run\<close> get. The record of the bpf program goes to the handler of its probe, and
  the UDP probe is not registered.\<close>

datatype kernel_record =
    KTcp event_t
  | KIPv4 ipv4_event_t
  | KIPv6 ipv6_event_t
  | KOther other_socket_event_t
  | KFork proc_info_t
  | KDns data_t
  | KJava jdk_execvpe

fun kr_wf :: "kernel_record \<Rightarrow> bool" where
  "kr_wf (KTcp c) = event_t_wf c"
| "kr_wf (KIPv4 c) = ipv4_event_t_wf c"
| "kr_wf (KIPv6 c) = ipv6_event_t_wf c"
| "kr_wf (KOther c) = other_socket_event_t_wf c"
| "kr_wf (KFork c) = proc_info_t_wf c"
| "kr_wf (KDns c) = data_t_wf c"
| "kr_wf (KJava c) = jdk_execvpe_wf c"

fun kr_bytes :: "kernel_record \<Rightarrow> bytes" where
  "kr_bytes (KTcp c) = event_t_bytes c"
| "kr_bytes (KIPv4 c) = ipv4_event_t_bytes c"
| "kr_bytes (KIPv6 c) = ipv6_event_t_bytes c"
| "kr_bytes (KOther c) = other_socket_event_t_bytes c"
| "kr_bytes (KFork c) = proc_info_t_bytes c"
| "kr_bytes (KDns c) = data_t_bytes c"
| "kr_bytes (KJava c) = jdk_execvpe_bytes c"

text \<open>The probe and the position of the event map a record arrives on.\<close>

fun kr_probe :: "kernel_record \<Rightarrow> probe_type \<times> nat" where
  "kr_probe (KTcp c) = (MTCPProbe, 0)"
| "kr_probe (KIPv4 c) = (MTCPSecProbe, 0)"
| "kr_probe (KIPv6 c) = (MTCPSecProbe, 1)"
| "kr_probe (KOther c) = (MTCPSecProbe, 2)"
| "kr_probe (KFork c) = (MProcProbe, 0)"
| "kr_probe (KDns c) = (MUDNSProbe, 0)"
| "kr_probe (KJava c) = (MJavaRasp, 0)"

text \<open>The event the agent takes it for.\<close>

fun kr_event :: "kernel_record \<Rightarrow> IEventStruct" where
  "kr_event (KTcp c) = EvTCP (TCPEvent_of c)"
| "kr_event (KIPv4 c) = EvIPV4 (EventIPV4_of c)"
| "kr_event (KIPv6 c) = EvIPV6 (EventIPV6_of c)"
| "kr_event (KOther c) = EvOther (EventOther_of c)"
| "kr_event (KFork c) = EvFork (ForkProcEvent_of c ForkProcEvent_new)"
| "kr_event (KDns c) = EvDNS (DNSEVENT_of c)"
| "kr_event (KJava c) = EvJava (JavaJDKExecPeEvent_of c)"

lemma kr_decoded:
  assumes "kr_wf r" and "kr_probe r = (p, i)" and "probe_spec_of p = Some sp"
  shows "i < length (sp_wanted sp) \<and> p \<noteq> MUDPProbe
    \<and> IEvent_Decode rt (kr_bytes r @ pad) (IEvent_Clone (snd (snd (sp_wanted sp ! i)))) = Ret (None, kr_event r)"
  using assms
  by (cases r) (auto simp: probe_spec_defs lift_decode_Ret TCPEvent_Decode_event_t EventIPV4_Decode_ipv4_event_t
      EventIPV6_Decode_ipv6_event_t EventOther_Decode_other_socket_event_t ForkProcEvent_Decode_proc_info_t
      DNSEVENT_Decode_data_t JavaJDKExecPeEvent_Decode_jdk_execvpe ForkProcEvent_Clone_def)

lemma kr_probe_registered:
  "kr_probe r = (p, i) \<Longrightarrow> p \<in> {MTCPProbe, MTCPSecProbe, MProcProbe, MUDNSProbe, MJavaRasp}"
  by (cases r) auto

lemma record_reader_line:
  assumes "kr_wf r" and "kr_probe r = (p, i)" and "probe_spec_of p = Some sp"
    and "start_succeeds env sp w ms w'" and "distinct ms"
  shows "reader_loop k (pb_Module (snd (IModule_Init p ctx logger this)))
      (IModule_Decode p lib rt (loaded sp ms (snd (IModule_Init p ctx logger this)))) (ms ! i)
      [(False, Inr \<lparr>rec_LostSamples = 0, rec_RawSample = kr_bytes r @ pad\<rparr>, now)] l =
    Waiting (l @ [LogReport (report_line (pb_Module this) (IEvent_String rt now (kr_event r)))])"
proof -
  let ?pr = "snd (IModule_Init p ctx logger this)" and ?st = "loaded sp ms (snd (IModule_Init p ctx logger this))"
  note ev = event_probe_of [OF assms(3)]
  note kr = kr_decoded [OF assms(1-3)]
  have i: "i < length ms" using kr event_probe.loaded_decode(3) [OF ev assms(4,5)] by simp
  have "lookup_eventFunc ?st (ms ! i) = Some (snd (snd (sp_wanted sp ! i)))"
    by (rule event_probe.loaded_decode(1) [OF ev assms(4,5) i])
  then have dec: "IModule_Decode p lib rt ?st now (ms ! i) (kr_bytes r @ pad)
      = Ret (IEvent_String rt now (kr_event r), None)"
    using kr by (simp add: IModule_Decode_eq Module_Decode_def EventsDecode_def)
  have "report_line (pb_Module ?pr) = report_line (pb_Module this)"
    by (intro ext) (simp add: report_line_def IModule_Init_eq Module_SetChild_def Module_Init_def)
  then have entry: "record_entry k (pb_Module ?pr) (IModule_Decode p lib rt ?st) (ms ! i)
      \<lparr>rec_LostSamples = 0, rec_RawSample = kr_bytes r @ pad\<rparr> now
      = LogReport (report_line (pb_Module this) (IEvent_String rt now (kr_event r)))"
    by (simp add: record_entry_def dec)
  have "imodule_child (IModule_Decode p lib rt ?st) (pb_Module ?pr) (ms ! i) (\<lambda>_. True)"
    using loaded_child [OF assms(3) _ assms(4,5)] kr i by simp
  from imodule_child.reader_loop_records [OF this,
      of "[(\<lparr>rec_LostSamples = 0, rec_RawSample = kr_bytes r @ pad\<rparr>, now)]" k "[]" l]
  show ?thesis
    by (simp add: entry del: reader_loop.simps(2))
qed

text \<open>C1. End to end: a record the kernel programs of the five registered probes with event maps write (all
  programs but those of the UDP and the bpf probe), with whatever padding, read from the event map it is sent to, is reported as one line with the probe's name and type and the text of the event the
  record decodes to. Nothing is lost and nothing else is written.\<close>

theorem kernel_record_reported:
  assumes "kr_wf r" and "kr_probe r = (p, i)" and "probe_spec_of p = Some sp"
    and "start_succeeds env sp w ms w'" and "distinct ms"
  shows "\<exists>t. IModule_Start p env (inited p ctx logger this w log) = Ret (Inr (), t)
    \<and> reader_loop k (pb_Module (ps_this t)) (IModule_Decode p lib rt (ps_this t)) (ms ! i)
        [(False, Inr \<lparr>rec_LostSamples = 0, rec_RawSample = kr_bytes r @ pad\<rparr>, now)] l =
      Waiting (l @ [LogReport (report_line (pb_Module this) (IEvent_String rt now (kr_event r)))])"
proof -
  obtain log' where "IModule_Start p env (inited p ctx logger this w log) = Ret (Inr (),
     \<lparr>ps_this = loaded sp ms (snd (IModule_Init p ctx logger this)), ps_world = w', ps_log = log'\<rparr>)"
    using Start_loaded [OF assms(3-5)] by blast
  then show ?thesis using record_reader_line [OF assms] by (simp del: reader_loop.simps)
qed

theorem kernel_record_reported_witness:
  "\<exists>t. IModule_Start MTCPProbe sample_env (inited MTCPProbe 0 0 MTCPProbe_mod () []) = Ret (Inr (), t)
    \<and> (\<exists>line. reader_loop PerfReader (pb_Module (ps_this t))
         (IModule_Decode MTCPProbe sample_ebpf_lib \<lparr>rt_zone = \<lambda>_. 0, rt_host = LittleEndian, rt_dns = sample_dns_lib\<rparr> (ps_this t))
         6 [(False, Inr \<lparr>rec_LostSamples = 0, rec_RawSample = event_t_bytes sample_event_t @ [0, 0]\<rparr>, 0)] []
       = Waiting [LogReport (''probeName:EBPFProbeKTCP, probeTpye:kprobe, '' @ line)])"
proof -
  have "kr_wf (KTcp sample_event_t)" by (simp add: event_t_wf_def sample_event_t_def)
  moreover have "report_line (pb_Module MTCPProbe_mod) x = ''probeName:EBPFProbeKTCP, probeTpye:kprobe, '' @ x" for x
    by (simp add: report_line_def MTCPProbe_mod_def zero_probe_named_def PROBE_TYPE_KPROBE_def)
  ultimately show ?thesis
    using kernel_record_reported [OF _ _ _ sample_start_succeeds, of "KTcp sample_event_t" MTCPProbe 0 0 0 MTCPProbe_mod "[]"
        PerfReader sample_ebpf_lib "\<lparr>rt_zone = \<lambda>_. 0, rt_host = LittleEndian, rt_dns = sample_dns_lib\<rparr>" "[0, 0]" 0 "[]"]
    by (auto simp del: IModule_Start.simps reader_loop.simps)
qed

text \<open>C29. The UDP probe's reader: samples of 4 to 19 bytes crash it, all others are handled by one log entry
  each and reading goes on.\<close>

theorem udp_reader_crashes:
  "(4 \<le> length raw \<and> length raw < 20 \<longrightarrow>
      reader_loop PerfReader (pb_Module (snd (MUDPProbe_Init ctx logger this)))
        (Module_Decode lib rt (MUDPProbe_DecodeFun (loaded MUDPProbe_spec [em] (snd (MUDPProbe_Init ctx logger this)))))
        em ((False, Inr \<lparr>rec_LostSamples = 0, rec_RawSample = raw\<rparr>, now) # ins) l = Crashed ''slice bounds out of range'')
   \<and> (length raw < 4 \<or> 20 \<le> length raw \<longrightarrow>
      (\<exists>e. reader_loop PerfReader (pb_Module (snd (MUDPProbe_Init ctx logger this)))
        (Module_Decode lib rt (MUDPProbe_DecodeFun (loaded MUDPProbe_spec [em] (snd (MUDPProbe_Init ctx logger this)))))
        em [(False, Inr \<lparr>rec_LostSamples = 0, rec_RawSample = raw\<rparr>, now)] l = Waiting (l @ [e])))"
proof (intro conjI impI)
  assume raw: "4 \<le> length raw \<and> length raw < 20"
  have "MUDPProbe_DecodeFun (loaded MUDPProbe_spec [em] (snd (MUDPProbe_Init ctx logger this))) em
      = Some (EvUDP UDPEvent_new)"
    by (simp add: MUDPProbe_DecodeFun_def lookup_eventFunc_def loaded_def MUDPProbe_spec_def)
  then have "Module_Decode lib rt (MUDPProbe_DecodeFun (loaded MUDPProbe_spec [em] (snd (MUDPProbe_Init ctx logger this))))
      now em raw = Panic ''slice bounds out of range''"
    using raw UDPEvent_Decode_short(2) [of raw]
    by (simp add: Module_Decode_def EventsDecode_def lift_decode_def)
  then show "reader_loop PerfReader (pb_Module (snd (MUDPProbe_Init ctx logger this)))
        (Module_Decode lib rt (MUDPProbe_DecodeFun (loaded MUDPProbe_spec [em] (snd (MUDPProbe_Init ctx logger this)))))
        em ((False, Inr \<lparr>rec_LostSamples = 0, rec_RawSample = raw\<rparr>, now) # ins) l = Crashed ''slice bounds out of range''"
    using MUDPProbe_Init_ready [of ctx logger this]
    by (auto simp: probe_ready_def ctx_check_def reader_read_def perfEventReader_read_def handle_sample_def)
next
  assume "length raw < 4 \<or> 20 \<le> length raw"
  then show "\<exists>e. reader_loop PerfReader (pb_Module (snd (MUDPProbe_Init ctx logger this)))
        (Module_Decode lib rt (MUDPProbe_DecodeFun (loaded MUDPProbe_spec [em] (snd (MUDPProbe_Init ctx logger this)))))
        em [(False, Inr \<lparr>rec_LostSamples = 0, rec_RawSample = raw\<rparr>, now)] l = Waiting (l @ [e])"
    using kudp_reader.reader_loop_records [of "[(\<lparr>rec_LostSamples = 0, rec_RawSample = raw\<rparr>, now)]"
        PerfReader ctx logger this lib rt em "[]" l] by auto
qed

theorem udp_reader_crashes_witness:
  "reader_loop PerfReader (pb_Module (snd (MUDPProbe_Init 0 0 MUDPProbe_mod)))
     (Module_Decode sample_ebpf_lib \<lparr>rt_zone = \<lambda>_. 0, rt_host = LittleEndian, rt_dns = sample_dns_lib\<rparr>
        (MUDPProbe_DecodeFun (loaded MUDPProbe_spec [3] (snd (MUDPProbe_Init 0 0 MUDPProbe_mod)))))
     3 [(False, Inr \<lparr>rec_LostSamples = 0, rec_RawSample = [1, 0, 0, 0, 65]\<rparr>, 0)] [] = Crashed ''slice bounds out of range''"
  using udp_reader_crashes [of "[1, 0, 0, 0, 65]" 0 0 MUDPProbe_mod sample_ebpf_lib] by simp

end
