(* ===== verification/Imodule_Liveness.thy ===== *)
theory Imodule_Liveness
  imports Imodule_Safety
begin

text \<open>
  What the goroutines of a module eventually do. An execution is an infinite sequence of states, each
  reached from the one before by a step of some goroutine or by no step at all. It is fair to \<open>Run\<close>
  when \<open>Run\<close> is scheduled again and again: at some later time it takes a step, or it has none to
  take because it is blocked or has returned.
\<close>

definition execution :: "cfg \<Rightarrow> Module \<Rightarrow> (nat \<Rightarrow> sys) \<Rightarrow> bool" where
  "execution c m f \<longleftrightarrow> f 0 = sys_init m \<and> (\<forall>i. sys_step c (f i) (f (Suc i)) \<or> f (Suc i) = f i)"

definition fair_to_Run :: "cfg \<Rightarrow> (nat \<Rightarrow> sys) \<Rightarrow> bool" where
  "fair_to_Run c f \<longleftrightarrow> (\<forall>i. \<exists>j\<ge>i. Run_step c (f j) = None \<or> Run_step c (f j) = Some (f (Suc j)))"

lemma execution_reach: "execution c m f \<Longrightarrow> sys_reach c m (f i)"
proof (induction i)
  case 0
  then show ?case by (simp add: execution_def sys_reach.init)
next
  case (Suc i)
  then show ?case unfolding execution_def by (metis sys_reach.step)
qed

text \<open>\<open>Run\<close> as the others see it: only its own steps move it, and they bring it closer to its end.\<close>

lemma Run_step_rank: "Run_step c s = Some t \<Longrightarrow> sy_halt t = None \<Longrightarrow> run_rank c (sy_pc t) < run_rank c (sy_pc s)"
  by (erule Run_step_cases) auto

lemma other_step_pc:
  assumes "sys_step c s t" and "Run_step c s \<noteq> Some t"
  shows "sy_pc t = sy_pc s \<and> (\<exists>es. sy_chan t = sy_chan s @ es)"
  using assms(1)
proof cases
  case run
  then show ?thesis using assms(2) by simp
next
  case watch
  then show ?thesis by (auto simp: run_step_def split: if_splits option.splits)
next
  case (reader i inp)
  from reader(3) show ?thesis
    by (cases rule: reader_step_cases) (auto simp: finish_reader_def split: go.splits)
next
  case cancel
  then show ?thesis by simp
qed

text \<open>\<open>Run\<close> waits only for an error: with one in the channel it is never blocked before it has received it.\<close>

definition has_error :: "sys \<Rightarrow> bool" where
  "has_error s \<longleftrightarrow> sy_chan s \<noteq> [] \<or> (\<exists>e. sy_pc s = RunRead (ReRet (Some e)))"

lemma Run_step_enabled:
  assumes "sys_reach c m s" and "length (cf_events c) \<le> errChan_cap" and "has_error s"
    and "\<nexists>e. sy_pc s = RunRet (Some e)"
  shows "\<exists>t. Run_step c s = Some t"
proof -
  have inv: "length (sy_chan s) + pc_left c (sy_pc s) + rd_count live s \<le> errChan_cap"
    and err: "err_inv s"
    using sys_reach_inv [OF assms(1)] assms(2) by (simp_all add: sys_inv_def chan_inv_def)
  show ?thesis
  proof (cases "sy_pc s")
    case RunStart
    then show ?thesis by (auto split: go.split option.split)
  next
    case (RunRet e)
    then show ?thesis using err assms(4) by (cases e) (auto simp: err_inv_def)
  next
    case (RunRead pc)
    show ?thesis
    proof (cases pc)
      case (ReSpawn evs)
      then show ?thesis using RunRead by (cases evs) (auto split: map_type.split)
    next
      case (ReSend e evs)
      then show ?thesis using RunRead inv by auto
    next
      case ReWait
      then show ?thesis using RunRead assms(3) by (auto simp: has_error_def split: list.split)
    next
      case (ReRet e)
      then show ?thesis using RunRead by (cases e) auto
    qed
  qed
qed

lemma has_error_Run_step:
  assumes "sys_reach c m s" and "has_error s" and "Run_step c s = Some t" and "sy_halt t = None"
  shows "has_error t \<or> (\<exists>e. sy_pc t = RunRet (Some e))"
proof -
  have err: "err_inv s" using sys_reach_inv [OF assms(1)] by (simp add: sys_inv_def)
  from assms(3) show ?thesis
  proof (cases rule: Run_step_cases)
    case (recv e rest)
    then show ?thesis using err by (cases e) (auto simp: has_error_def err_inv_def)
  next
    case go_run
    then show ?thesis using err by (simp add: err_inv_def)
  qed (use assms(2) in \<open>auto simp: has_error_def\<close>)
qed

lemma Run_untouched:
  assumes "execution c m f" and "i \<le> j" and "\<forall>k. i \<le> k \<and> k < j \<longrightarrow> Run_step c (f k) \<noteq> Some (f (Suc k))"
  shows "sy_pc (f j) = sy_pc (f i) \<and> (has_error (f i) \<longrightarrow> has_error (f j))"
  using assms(2,3)
proof (induction j rule: dec_induct)
  case (step j)
  have "sys_step c (f j) (f (Suc j)) \<or> f (Suc j) = f j" using assms(1) by (simp add: execution_def)
  then have "sy_pc (f (Suc j)) = sy_pc (f j) \<and> (\<exists>es. sy_chan (f (Suc j)) = sy_chan (f j) @ es)"
    using other_step_pc [of c "f j" "f (Suc j)"] step.prems step.hyps by (auto simp del: Run_step.simps)
  then have "sy_pc (f (Suc j)) = sy_pc (f j) \<and> (has_error (f j) \<longrightarrow> has_error (f (Suc j)))"
    by (auto simp: has_error_def)
  then show ?case using step.IH step.prems by (simp del: Run_step.simps)
qed simp

lemma error_ends_Run:
  assumes "execution c m f" and "fair_to_Run c f" and "\<forall>i. sy_halt (f i) = None"
    and "length (cf_events c) \<le> errChan_cap" and "has_error (f i)"
  shows "\<exists>j\<ge>i. \<exists>e. sy_pc (f j) = RunRet (Some e)"
  using assms(5)
proof (induction "run_rank c (sy_pc (f i))" arbitrary: i rule: less_induct)
  case less
  let ?turn = "\<lambda>j. i \<le> j \<and> (Run_step c (f j) = None \<or> Run_step c (f j) = Some (f (Suc j)))"
  define j where "j = (LEAST j. ?turn j)"
  have "\<exists>j. ?turn j" using assms(2) by (auto simp: fair_to_Run_def)
  then have turn: "?turn j" unfolding j_def by (rule LeastI_ex)
  have "\<forall>k. i \<le> k \<and> k < j \<longrightarrow> Run_step c (f k) \<noteq> Some (f (Suc k))"
    using not_less_Least [where P = ?turn] unfolding j_def by blast
  then have same: "sy_pc (f j) = sy_pc (f i)" and err: "has_error (f j)"
    using Run_untouched [OF assms(1)] turn less.prems by blast+
  show ?case
  proof (cases "\<exists>e. sy_pc (f j) = RunRet (Some e)")
    case True
    then show ?thesis using turn by blast
  next
    case False
    then have run: "Run_step c (f j) = Some (f (Suc j))"
      using Run_step_enabled [OF execution_reach [OF assms(1)] assms(4) err] turn by auto
    then have rank: "run_rank c (sy_pc (f (Suc j))) < run_rank c (sy_pc (f i))"
      using Run_step_rank assms(3) same by metis
    have "has_error (f (Suc j)) \<or> (\<exists>e. sy_pc (f (Suc j)) = RunRet (Some e))"
      using has_error_Run_step [OF execution_reach [OF assms(1)] err run] assms(3) by simp
    then show ?thesis
    proof
      assume "has_error (f (Suc j))"
      from less.hyps [OF rank this] show ?thesis using turn by (meson Suc_leD le_trans)
    next
      assume "\<exists>e. sy_pc (f (Suc j)) = RunRet (Some e)"
      then show ?thesis using turn by (meson le_SucI)
    qed
  qed
qed

text \<open>C7. An error in the channel ends \<open>Run\<close>: in every execution that is fair to \<open>Run\<close> and in which the
  process does not panic, once some goroutine has sent an error, and whatever the other goroutines do
  meanwhile, \<open>Run\<close> returns with an error.\<close>

theorem sent_error_ends_run:
  assumes "execution c m f" and "fair_to_Run c f" and "\<forall>i. sy_halt (f i) = None"
    and "length (cf_events c) \<le> 8" and "sy_chan (f i) \<noteq> []"
  shows "\<exists>j\<ge>i. \<exists>e. sy_pc (f j) = RunRet (Some e)"
  using error_ends_Run [OF assms(1-3)] assms(4,5) by (simp add: errChan_cap_def has_error_def)

text \<open>A module with one map whose reader cannot be created: seven steps to the return of \<open>Run\<close>.\<close>

definition sample_run :: "nat \<Rightarrow> sys" where
  "sample_run n =
    (let s0 = sys_init sample_module; e = Errorw ''creating events reader dns: '' EOF '''';
         rd = (\<lambda>pc. [\<lparr>rdr_kind = PerfReader, rdr_map = 7, rdr_pc = pc, rdr_opened = False, rdr_deferred = 0, rdr_closes = 0\<rparr>]);
         states = [s0, s0\<lparr>sy_pc := RunRead (ReSpawn [7])\<rparr>,
           s0\<lparr>sy_pc := RunRead (ReSpawn []), sy_rdrs := rd RdNew\<rparr>,
           s0\<lparr>sy_pc := RunRead ReWait, sy_rdrs := rd RdNew\<rparr>,
           s0\<lparr>sy_pc := RunRead ReWait, sy_rdrs := rd (RdSend e)\<rparr>,
           s0\<lparr>sy_pc := RunRead ReWait, sy_rdrs := rd RdExit, sy_chan := [Some e]\<rparr>,
           s0\<lparr>sy_pc := RunRead (ReRet (Some e)), sy_rdrs := rd RdExit\<rparr>,
           s0\<lparr>sy_pc := RunRet (Some e), sy_rdrs := rd RdExit\<rparr>]
     in states ! min n 7)"

lemma sample_run_ge: "7 \<le> n \<Longrightarrow> sample_run n = sample_run 7"
  by (simp add: sample_run_def)

lemma sample_run_steps:
  "Run_step (sample_cfg [7]) (sample_run 0) = Some (sample_run 1)"
  "Run_step (sample_cfg [7]) (sample_run 1) = Some (sample_run 2)"
  "Run_step (sample_cfg [7]) (sample_run 2) = Some (sample_run 3)"
  "reader_step (sample_cfg [7]) 0 (NewResult (Some EOF)) (sample_run 3) = Some (sample_run 4)"
  "reader_step (sample_cfg [7]) 0 NoInput (sample_run 4) = Some (sample_run 5)"
  "Run_step (sample_cfg [7]) (sample_run 5) = Some (sample_run 6)"
  "Run_step (sample_cfg [7]) (sample_run 6) = Some (sample_run 7)"
  "Run_step (sample_cfg [7]) (sample_run 7) = None"
  by (simp_all add: sample_run_def Let_def sys_init_def sample_cfg_def sample_ebpf_lib_def sample_module_def
      new_reader_def reader_step_def reader_new_def set_reader_def reader_goto_def reader_return_def new_result_def
      errChan_cap_def)

lemma sample_run_sel:
  "sy_halt (sample_run n) = None" "n \<in> {3, 4} \<Longrightarrow> length (sy_rdrs (sample_run n)) = 1"
  "sy_chan (sample_run 5) \<noteq> []"
proof -
  have "min n 7 \<in> {0, 1, 2, 3, 4, 5, 6, 7}" by auto
  then show "sy_halt (sample_run n) = None"
    by (auto simp: sample_run_def Let_def sys_init_def)
qed (auto simp: sample_run_def Let_def)

lemma sample_run_execution: "execution (sample_cfg [7]) sample_module sample_run"
proof -
  have "sys_step (sample_cfg [7]) (sample_run i) (sample_run (Suc i)) \<or> sample_run (Suc i) = sample_run i" for i
  proof -
    consider "i \<in> {0, 1, 2, 5, 6}" | "i = 3" | "i = 4" | "7 \<le> i" by force
    then show ?thesis
    proof cases
      case 1
      then have "Run_step (sample_cfg [7]) (sample_run i) = Some (sample_run (Suc i))"
        using sample_run_steps(1-3,6,7) by (auto simp: numeral_eq_Suc simp del: Run_step.simps)
      then show ?thesis using sample_run_sel(1) sys_step.run by blast
    next
      case 2
      then show ?thesis
        using sys_step.reader [OF sample_run_sel(1), of 0 3 "sample_cfg [7]" "NewResult (Some EOF)" "sample_run 4"]
          sample_run_sel(2) [of 3] sample_run_steps(4) by simp
    next
      case 3
      then show ?thesis
        using sys_step.reader [OF sample_run_sel(1), of 0 4 "sample_cfg [7]" NoInput "sample_run 5"]
          sample_run_sel(2) [of 4] sample_run_steps(5) by simp
    next
      case 4
      then show ?thesis using sample_run_ge [of i] sample_run_ge [of "Suc i"] by simp
    qed
  qed
  moreover have "sample_run 0 = sys_init sample_module" by (simp add: sample_run_def Let_def)
  ultimately show ?thesis by (simp add: execution_def)
qed

lemma sample_run_fair: "fair_to_Run (sample_cfg [7]) sample_run"
  unfolding fair_to_Run_def
proof
  fix i
  have "Run_step (sample_cfg [7]) (sample_run (max i 7)) = None"
    using sample_run_steps(8) sample_run_ge [of "max i 7"] by (simp del: Run_step.simps)
  then show "\<exists>j\<ge>i. Run_step (sample_cfg [7]) (sample_run j) = None
      \<or> Run_step (sample_cfg [7]) (sample_run j) = Some (sample_run (Suc j))"
    by (intro exI [of _ "max i 7"]) (simp del: Run_step.simps)
qed

theorem sent_error_ends_run_witness:
  "\<exists>j\<ge>5. \<exists>e. sy_pc (sample_run j) = RunRet (Some e)"
  by (rule sent_error_ends_run [OF sample_run_execution sample_run_fair])
    (simp_all add: sample_run_sel sample_cfg_def)

end
