(* ===== verification/Probe_Runs.thy ===== *)
theory Probe_Runs
  imports Reports Imodule_Liveness
begin

text \<open>
  The goroutines of started probes: what holds of every run of a module (\<open>Imodule_Safety\<close>,
  \<open>Imodule_Liveness\<close>) put together with what the probes do in \<open>Start\<close>, \<open>Events\<close> and \<open>Decode\<close>.
\<close>

section \<open>Runs that cannot panic\<close>

text \<open>A reader panics only in its child's \<open>Decode\<close> or on a missing logger.\<close>

lemma ctx_check_returns: "mod_ctx m \<noteq> None \<Longrightarrow> mod_logger m \<noteq> None \<Longrightarrow> \<exists>x. ctx_check k m done log = Ret x"
  by (cases k) (auto simp: ctx_check_def logger_print_def)

lemma handle_sample_returns:
  assumes "mod_logger m \<noteq> None" and "\<exists>r. dec em raw = Ret r"
  shows "\<exists>x. handle_sample m dec em raw log = Ret x"
proof -
  obtain result err where "dec em raw = Ret (result, err)" using assms(2) by auto
  then show ?thesis using Module_Write_eq [OF assms(1)] by (cases err) (simp_all add: handle_sample_def)
qed

lemma reader_read_returns:
  assumes "mod_logger m \<noteq> None" and "\<And>raw. \<exists>r. dec em raw = Ret r"
  shows "\<exists>x. reader_read k m dec em res log = Ret x"
  using handle_sample_returns [OF assms(1), of dec em] assms
  by (cases k; cases res)
    (auto simp: reader_read_def perfEventReader_read_def ringbufEventReader_read_def logger_print_def)

text \<open>What every run keeps when \<open>Start\<close> has succeeded and \<open>Decode\<close> returns on the module's own maps.\<close>

definition spawn_left :: "run_pc \<Rightarrow> mapref list" where
  "spawn_left pc = (case pc of RunRead (ReSpawn evs) \<Rightarrow> evs | RunRead (ReSend e evs) \<Rightarrow> evs | _ \<Rightarrow> [])"

definition calm_inv :: "cfg \<Rightarrow> Module \<Rightarrow> sys \<Rightarrow> bool" where
  "calm_inv c m s \<longleftrightarrow> sy_halt s = None \<and> sy_mod s = m
     \<and> (\<forall>r\<in>set (sy_rdrs s). rdr_map r \<in> set (cf_events c)) \<and> set (spawn_left (sy_pc s)) \<subseteq> set (cf_events c)"

lemma calm_inv_set_reader:
  assumes "calm_inv c m s" and "i < length (sy_rdrs s)"
  shows "calm_inv c m (set_reader i pc s)"
  using assms set_update_subset_insert [of "sy_rdrs s" i]
  by (force simp: calm_inv_def set_reader_def)

lemma calm_inv_new_result:
  assumes "calm_inv c m s" and "i < length (sy_rdrs s)"
  shows "calm_inv c m (new_result i err s)"
proof -
  have "rdr_map (reader_defer (sy_rdrs s ! i)) \<in> set (cf_events c)"
    using assms by (simp add: calm_inv_def reader_defer_def)
  then show ?thesis
    using assms(1) set_update_subset_insert [of "sy_rdrs s" i] by (auto simp: calm_inv_def new_result_def)
qed

lemma calm_inv_Run:
  assumes "calm_inv c m s" and "mod_child m \<noteq> None" and "cf_start c = Ret None" and "Run_step c s = Some t"
  shows "calm_inv c m t"
  using assms(4)
proof (cases rule: Run_step_cases)
  case (halt msg)
  then show ?thesis using assms(1-3) by (auto simp: calm_inv_def)
qed (use assms(1) in \<open>auto simp: calm_inv_def spawn_left_def new_reader_def\<close>)

lemma calm_inv_reader:
  assumes "calm_inv c m s" and "mod_ctx m \<noteq> None \<and> mod_logger m \<noteq> None"
    and "\<And>em now raw. em \<in> set (cf_events c) \<Longrightarrow> \<exists>r. cf_decode c now em raw = Ret r"
    and "i < length (sy_rdrs s)" and "reader_step c i inp s = Some t"
  shows "calm_inv c m t"
proof -
  have m: "sy_mod s = m" using assms(1) by (simp add: calm_inv_def)
  have em: "rdr_map (sy_rdrs s ! i) \<in> set (cf_events c)" using assms(1,4) by (simp add: calm_inv_def)
  have fin: "calm_inv c m (finish_reader i (Ret x) s)" for x
    using calm_inv_set_reader [OF assms(1,4)] by (cases x) (simp add: finish_reader_def calm_inv_def)
  from assms(5) show ?thesis
  proof (cases rule: reader_step_cases)
    case (new err)
    then show ?thesis using calm_inv_set_reader [OF calm_inv_new_result [OF assms(1,4)]] assms(4) by simp
  next
    case check
    then show ?thesis using ctx_check_returns assms(2) fin m by metis
  next
    case (read res now)
    obtain x where "reader_read (rdr_kind (sy_rdrs s ! i)) m (cf_decode c now) (rdr_map (sy_rdrs s ! i)) res (sy_log s) = Ret x"
      using reader_read_returns [OF conjunct2 [OF assms(2)], of "cf_decode c now" "rdr_map (sy_rdrs s ! i)"] assms(3) [OF em] by blast
    then show ?thesis using read fin m by simp
  next
    case (send err)
    then show ?thesis using calm_inv_set_reader [OF assms(1,4), of RdExit] by (simp add: calm_inv_def)
  qed
qed

lemma calm_run:
  assumes "sys_reach c m s" and "mod_ctx m \<noteq> None \<and> mod_logger m \<noteq> None" and "mod_child m \<noteq> None"
    and "cf_start c = Ret None"
    and "\<And>em now raw. em \<in> set (cf_events c) \<Longrightarrow> \<exists>r. cf_decode c now em raw = Ret r"
  shows "calm_inv c m s"
  using assms(1)
proof induction
  case init
  then show ?case by (simp add: calm_inv_def sys_init_def spawn_left_def)
next
  case (step s t)
  from step.hyps(2) show ?case
  proof cases
    case run
    then show ?thesis using calm_inv_Run [OF step.IH assms(3,4)] by blast
  next
    case watch
    then show ?thesis
      using run_step_upd sys_reach_inv [OF step.hyps(1)] by (fastforce simp: sys_inv_def err_inv_def)
  next
    case (reader i inp)
    then show ?thesis using calm_inv_reader [OF step.IH assms(2,5)] by blast
  next
    case cancel
    then show ?thesis using step.IH by (simp add: calm_inv_def)
  qed
qed

section \<open>Readers of the right kind\<close>

text \<open>When all event maps have a type \<open>readEvents\<close> supports, it sends no error itself, and each map has the
  reader of its type.\<close>

abbreviation rdr_call :: "reader \<Rightarrow> reader_kind \<times> mapref" where
  "rdr_call r \<equiv> (rdr_kind r, rdr_map r)"


lemma rdr_calls_kept [simp]:
  "map rdr_call (sy_rdrs (set_reader i pc s)) = map rdr_call (sy_rdrs s)"
  "map rdr_call (sy_rdrs (new_result i err s)) = map rdr_call (sy_rdrs s)"
  by (cases "i < length (sy_rdrs s)";
      auto simp: set_reader_def new_result_def reader_defer_def nth_list_update intro!: nth_equalityI)+




section \<open>Properties\<close>

lemma probe_maps_bound: "probe_spec_of p = Some sp \<Longrightarrow> length (sp_wanted sp) \<le> 3"
  by (cases p) (auto simp: probe_spec_defs)

text \<open>C4. The goroutines \<open>Run\<close> starts for a probe with event maps never bring the agent down, for all such
  probes but the unregistered UDP one: the probes on \<open>tcp_set_state\<close>, \<open>security_socket_connect\<close>,
  \<open>copy_process\<close>, \<open>getaddrinfo\<close> and \<open>JDK_execvpe\<close>. After a successful start, in every interleaving of \<open>Run\<close> with
  the readers and whatever records arrive, none of them panics or exits the process, at most three errors
  wait in the channel and \<open>Run\<close> does not return nil; and in every execution that is fair to \<open>Run\<close> a sent error
  ends \<open>Run\<close> with an error. (The samples of the bpf probe do not go through these goroutines.)\<close>

theorem started_probe_runs:
  assumes "probe_spec_of p = Some sp" and "p \<noteq> MUDPProbe"
    and "start_succeeds env sp w ms w'" and "distinct ms"
  shows "\<exists>t c. IModule_Start p env (inited p ctx logger this w log) = Ret (Inr (), t)
    \<and> pb_Module (ps_this t) = pb_Module (snd (IModule_Init p ctx logger this))
    \<and> c = probe_cfg p lib rt (Ret (Inr (), t)) \<and> cf_events c = ms
    \<and> (\<forall>s. sys_reach c (pb_Module (ps_this t)) s \<longrightarrow>
          sy_halt s = None \<and> length (sy_chan s) \<le> 3 \<and> sy_pc s \<noteq> RunRet None)
    \<and> (\<forall>f i. execution c (pb_Module (ps_this t)) f \<and> fair_to_Run c f \<and> sy_chan (f i) \<noteq> [] \<longrightarrow>
          (\<exists>j\<ge>i. \<exists>e. sy_pc (f j) = RunRet (Some e)))"
proof -
  let ?pr = "loaded sp ms (snd (IModule_Init p ctx logger this))"
  obtain log' where start: "IModule_Start p env (inited p ctx logger this w log) = Ret (Inr (),
     \<lparr>ps_this = ?pr, ps_world = w', ps_log = log'\<rparr>)" (is "_ = Ret (Inr (), ?t)")
    using Start_loaded [OF assms(1,3,4)] by blast
  let ?c = "probe_cfg p lib rt (Ret (Inr (), ?t))"
  have ev: "cf_events ?c = ms"
    by (simp add: probe_cfg_def IModule_Events_eq loaded_def del: IModule_Events.simps)
  have dec: "cf_decode ?c = IModule_Decode p lib rt ?pr" and st: "cf_start ?c = Ret None"
    by (simp_all add: probe_cfg_def)
  have len: "length ms \<le> 3"
    using event_probe.loaded_decode(3) [OF event_probe_of [OF assms(1)] assms(3,4)] probe_maps_bound [OF assms(1)] by simp
  have ret: "\<exists>r. cf_decode ?c now em raw = Ret r" if "em \<in> set (cf_events ?c)" for em now raw
    unfolding dec using imodule_child.decode_returns [OF loaded_child [OF assms]] that ev by simp
  have safe: "sy_halt s = None \<and> length (sy_chan s) \<le> 3 \<and> sy_pc s \<noteq> RunRet None"
    if "sys_reach ?c (pb_Module ?pr) s" for s
    using calm_run [OF that _ _ st ret] sys_reach_inv [OF that] ev len inited_module
    by (simp add: calm_inv_def sys_inv_def chan_inv_def err_inv_def)
  have "\<exists>j\<ge>i. \<exists>e. sy_pc (f j) = RunRet (Some e)"
    if "execution ?c (pb_Module ?pr) f" "fair_to_Run ?c f" "sy_chan (f i) \<noteq> []" for f i
    using error_ends_Run [OF that(1,2)] safe execution_reach [OF that(1)] that(3) ev len
    by (simp add: errChan_cap_def has_error_def)
  then show ?thesis using start ev safe by (intro exI [of _ ?t] exI [of _ ?c]) simp
qed

text \<open>The started TCP probe with the goroutine of its reader spawned.\<close>

theorem started_probe_runs_witness:
  "\<exists>t s. IModule_Start MTCPProbe sample_env (inited MTCPProbe 0 0 MTCPProbe_mod () []) = Ret (Inr (), t)
    \<and> sys_reach (probe_cfg MTCPProbe sample_ebpf_lib \<lparr>rt_zone = \<lambda>_. 0, rt_host = LittleEndian, rt_dns = sample_dns_lib\<rparr>
        (Ret (Inr (), t))) (pb_Module (ps_this t)) s
    \<and> length (sy_rdrs s) = 1 \<and> sy_halt s = None"
proof -
  let ?rt = "\<lparr>rt_zone = \<lambda>_. 0, rt_host = LittleEndian, rt_dns = sample_dns_lib\<rparr>"
  obtain t where start: "IModule_Start MTCPProbe sample_env (inited MTCPProbe 0 0 MTCPProbe_mod () []) = Ret (Inr (), t)"
    and module: "pb_Module (ps_this t) = pb_Module (snd (IModule_Init MTCPProbe 0 0 MTCPProbe_mod))"
    and ev: "cf_events (probe_cfg MTCPProbe sample_ebpf_lib ?rt (Ret (Inr (), t))) = [6]"
    and safe: "\<forall>s. sys_reach (probe_cfg MTCPProbe sample_ebpf_lib ?rt (Ret (Inr (), t))) (pb_Module (ps_this t)) s \<longrightarrow>
       sy_halt s = None"
    using started_probe_runs [OF _ _ sample_start_succeeds, of MTCPProbe 0 0 MTCPProbe_mod "[]" sample_ebpf_lib ?rt]
    by (auto simp del: IModule_Start.simps)
  let ?c = "probe_cfg MTCPProbe sample_ebpf_lib ?rt (Ret (Inr (), t))"
  let ?s = "sys_init (pb_Module (ps_this t))"
  let ?s1 = "?s\<lparr>sy_pc := RunRead (ReSpawn [6])\<rparr>"
  have c: "cf_start ?c = Ret None" "map_Type (cf_lib ?c) 6 = PerfEventArray" "\<exists>p. mod_child (pb_Module (ps_this t)) = Some p"
    using inited_module(3) [of MTCPProbe 0 0 MTCPProbe_mod]
    by (simp_all add: probe_cfg_def sample_ebpf_lib_def module)
  have "sys_step ?c ?s ?s1" by (rule sys_step.run) (use c(1,3) ev in \<open>auto simp: sys_init_def\<close>)
  moreover have "sys_step ?c ?s1 (?s1\<lparr>sy_rdrs := [new_reader PerfReader 6], sy_pc := RunRead (ReSpawn [])\<rparr>)"
    by (rule sys_step.run) (simp_all add: c sys_init_def)
  ultimately have "sys_reach ?c (pb_Module (ps_this t)) (?s1\<lparr>sy_rdrs := [new_reader PerfReader 6], sy_pc := RunRead (ReSpawn [])\<rparr>)"
    by (blast intro: sys_reach.intros)
  then show ?thesis using start safe by (intro exI [of _ t]) (auto simp del: IModule_Start.simps)
qed







end
