(* ===== verification/Kern_Programs.thy ===== *)
theory Kern_Programs
  imports Kern_Structs "HOL-Library.AList"
begin

text \<open>
  The handlers of \<open>kern/*.c\<close> that produce the records of \<open>Kern_Structs\<close>.

  A handler is a function of what it reads: the arguments of the probed function, the values of the
  eBPF helpers (\<open>bpf_task\<close>), and the memory \<open>bpf_probe_read\<close> finds behind its pointers. Its result is
  the new content of its maps and the record it sends, if any. An eBPF hash map is an association
  list; an update of a new key fails when the map is full, and the handlers ignore that.
\<close>

unbundle bit_operations_syntax

section \<open>Helpers\<close>

type_synonym ('k, 'v) bpf_hash = "('k \<times> 'v) list"

definition bpf_map_lookup_elem :: "('k, 'v) bpf_hash \<Rightarrow> 'k \<Rightarrow> 'v option" where
  "bpf_map_lookup_elem m k = map_of m k"

definition bpf_map_update_elem :: "nat \<Rightarrow> 'k \<Rightarrow> 'v \<Rightarrow> ('k, 'v) bpf_hash \<Rightarrow> ('k, 'v) bpf_hash" where
  "bpf_map_update_elem cap k v m =
     (if map_of m k \<noteq> None \<or> length m < cap then AList.update k v m else m)"

definition bpf_map_delete_elem :: "'k \<Rightarrow> ('k, 'v) bpf_hash \<Rightarrow> ('k, 'v) bpf_hash" where
  "bpf_map_delete_elem k m = AList.delete k m"

record bpf_task =
  bt_pid_tgid :: u64
  bt_uid_gid :: u64
  bt_comm :: bytes
  bt_ktime_ns :: u64

text \<open>\<open>u32 pid = bpf_get_current_pid_tgid() >> 32\<close> and \<open>u32 uid = bpf_get_current_uid_gid()\<close>.\<close>

definition cur_pid :: "bpf_task \<Rightarrow> u32" where
  "cur_pid t = ucast (drop_bit 32 (bt_pid_tgid t))"

definition cur_uid :: "bpf_task \<Rightarrow> u32" where
  "cur_uid t = ucast (bt_uid_gid t)"

lemma lookup_update [simp]:
  "map_of (bpf_map_update_elem cap k v m) j =
     (if j = k \<and> (map_of m k \<noteq> None \<or> length m < cap) then Some v else map_of m j)"
  by (simp add: bpf_map_update_elem_def update_conv')

lemma lookup_delete [simp]:
  "map_of (bpf_map_delete_elem k m) j = (if j = k then None else map_of m j)"
  by (simp add: bpf_map_delete_elem_def delete_conv')

lemma length_AList_update:
  "length (AList.update k v m) = (if map_of m k = None then Suc (length m) else length m)"
  by (induction m) auto

lemma length_update_le: "length m \<le> cap \<Longrightarrow> length (bpf_map_update_elem cap k v m) \<le> cap"
  by (auto simp: bpf_map_update_elem_def length_AList_update)

lemma length_delete_le: "length (bpf_map_delete_elem k m) \<le> length m"
  by (simp add: bpf_map_delete_elem_def AList.length_delete_le)

section \<open>\<open>tcp_set_state_kern.c\<close>\<close>

definition F_OUTBOUND :: u8 where "F_OUTBOUND = 0x1"
definition F_CONNECTED :: u8 where "F_CONNECTED = 0x10"

definition TCP_ESTABLISHED :: i32 where "TCP_ESTABLISHED = 1"
definition TCP_SYN_SENT :: i32 where "TCP_SYN_SENT = 2"
definition TCP_CLOSE :: i32 where "TCP_CLOSE = 7"
definition TCP_LAST_ACK :: i32 where "TCP_LAST_ACK = 9"

lemmas tcp_state_defs = TCP_ESTABLISHED_def TCP_SYN_SENT_def TCP_CLOSE_def TCP_LAST_ACK_def

record conn_t =
  cn_pid :: u32
  cn_start_ns :: u64
  cn_flags :: u8
  cn_task :: bytes

definition conn_zero :: conn_t where
  "conn_zero = \<lparr>cn_pid = 0, cn_start_ns = 0, cn_flags = 0, cn_task = replicate 16 0\<rparr>"

definition conns_max :: nat where "conns_max = 10240"

text \<open>The fields of the socket the handler reads.\<close>

record sock_fields =
  sk_family :: u16
  sk_rcv_saddr :: u32
  sk_daddr :: u32
  sk_num :: u16
  sk_dport :: u16
  sk_bytes_received :: u64
  sk_bytes_acked :: u64

record tcp_call =
  tc_sk :: u64
  tc_state :: i32
  tc_task :: bpf_task
  tc_sock :: sock_fields

type_synonym conns = "(u64, conn_t) bpf_hash"

definition attach_pid :: "bpf_task \<Rightarrow> conn_t \<Rightarrow> conn_t" where
  "attach_pid t conn = conn\<lparr>cn_task := bt_comm t, cn_pid := cur_pid t\<rparr>"

definition is_loopback :: "u32 \<Rightarrow> bool" where
  "is_loopback a \<longleftrightarrow> a AND 0xff = 0x7f"

definition tcp_event :: "tcp_call \<Rightarrow> conn_t \<Rightarrow> event_t" where
  "tcp_event x conn =
    \<lparr>ev_start_ns = cn_start_ns conn, ev_end_ns = bt_ktime_ns (tc_task x), ev_pid = cn_pid conn,
     ev_laddr = sk_rcv_saddr (tc_sock x), ev_lport = sk_num (tc_sock x),
     ev_raddr = sk_daddr (tc_sock x), ev_rport = sk_dport (tc_sock x), ev_flags = cn_flags conn,
     ev_rx_b = sk_bytes_received (tc_sock x), ev_tx_b = sk_bytes_acked (tc_sock x),
     ev_task = cn_task conn, ev_family = sk_family (tc_sock x), ev_uid = cur_uid (tc_task x)\<rparr>"

definition kprobe__tcp_set_state :: "tcp_call \<Rightarrow> conns \<Rightarrow> conns \<times> event_t option" where
  "kprobe__tcp_set_state x conns =
    (if tc_sk x = 0 then (conns, None)
     else
      let sk = tc_sk x; state = tc_state x; t = tc_task x;
          pconn = bpf_map_lookup_elem conns sk; conn = conn_zero
      in if state = TCP_SYN_SENT then
           (let conns1 = (if pconn \<noteq> None then bpf_map_delete_elem sk conns else conns);
                conn1 = conn\<lparr>cn_flags := F_OUTBOUND, cn_start_ns := bt_ktime_ns t\<rparr>
            in (bpf_map_update_elem conns_max sk (attach_pid t conn1) conns1, None))
         else case pconn of
           None \<Rightarrow>
             (if state = TCP_ESTABLISHED then
                (bpf_map_update_elem conns_max sk
                   (conn\<lparr>cn_flags := cn_flags conn OR F_CONNECTED, cn_start_ns := bt_ktime_ns t\<rparr>) conns, None)
              else (conns, None))
         | Some conn1 \<Rightarrow>
             (if state = TCP_ESTABLISHED then
                (bpf_map_update_elem conns_max sk (conn1\<lparr>cn_flags := cn_flags conn1 OR F_CONNECTED\<rparr>) conns, None)
              else if state = TCP_LAST_ACK then
                (bpf_map_update_elem conns_max sk (attach_pid t conn1) conns, None)
              else if state \<noteq> TCP_CLOSE then (conns, None)
              else if sk_family (tc_sock x) \<noteq> 2 then (bpf_map_delete_elem sk conns, None)
              else if is_loopback (sk_rcv_saddr (tc_sock x)) \<and> is_loopback (sk_daddr (tc_sock x))
              then (bpf_map_delete_elem sk conns, None)
              else (bpf_map_delete_elem sk conns, Some (tcp_event x conn1))))"

text \<open>A sequence of calls, of any sockets, and the records it sends.\<close>

fun tcp_run :: "tcp_call list \<Rightarrow> conns \<Rightarrow> conns \<times> event_t list" where
  "tcp_run [] conns = (conns, [])"
| "tcp_run (x # xs) conns =
    (let (conns1, ev) = kprobe__tcp_set_state x conns; (conns2, evs) = tcp_run xs conns1
     in (conns2, (case ev of None \<Rightarrow> evs | Some e \<Rightarrow> e # evs)))"

lemma tcp_run_append:
  "tcp_run (xs @ ys) conns =
    (let (conns1, e1) = tcp_run xs conns; (conns2, e2) = tcp_run ys conns1 in (conns2, e1 @ e2))"
  by (induction xs arbitrary: conns) (auto simp: Let_def split: prod.splits option.splits)

lemma tcp_other_socket:
  "k \<noteq> tc_sk x \<Longrightarrow> map_of (fst (kprobe__tcp_set_state x conns)) k = map_of conns k"
  by (auto simp: kprobe__tcp_set_state_def Let_def split: option.splits)

lemma tcp_conns_bounded:
  "length conns \<le> conns_max \<Longrightarrow> length (fst (kprobe__tcp_set_state x conns)) \<le> conns_max"
  using length_delete_le [of "tc_sk x" conns]
  by (auto simp: kprobe__tcp_set_state_def Let_def split: option.splits intro!: length_update_le)

lemma tcp_run_bounded: "length conns \<le> conns_max \<Longrightarrow> length (fst (tcp_run xs conns)) \<le> conns_max"
proof (induction xs arbitrary: conns)
  case (Cons x xs)
  then show ?case
    using Cons.IH [OF tcp_conns_bounded [OF Cons.prems, of x]]
    by (auto simp: Let_def split: prod.splits)
qed simp

text \<open>A socket while its connection is up: a call for it in a state other than \<open>TCP_SYN_SENT\<close> and
  \<open>TCP_CLOSE\<close> keeps its entry, with the flags and the owner the state implies.\<close>

definition conn_next :: "tcp_call \<Rightarrow> conn_t \<Rightarrow> conn_t" where
  "conn_next x conn =
    (if tc_state x = TCP_ESTABLISHED then conn\<lparr>cn_flags := cn_flags conn OR F_CONNECTED\<rparr>
     else if tc_state x = TCP_LAST_ACK then attach_pid (tc_task x) conn
     else conn)"

lemma tcp_tracked_step:
  assumes "map_of conns sk = Some conn" and "tc_sk x = sk \<Longrightarrow> tc_state x \<noteq> TCP_SYN_SENT \<and> tc_state x \<noteq> TCP_CLOSE"
  shows "map_of (fst (kprobe__tcp_set_state x conns)) sk
    = Some (if tc_sk x = sk \<and> sk \<noteq> 0 then conn_next x conn else conn)"
proof (cases "tc_sk x = sk \<and> sk \<noteq> 0")
  case True
  then show ?thesis
    using assms by (auto simp: kprobe__tcp_set_state_def bpf_map_lookup_elem_def conn_next_def Let_def)
next
  case False
  then show ?thesis
    using assms(1) tcp_other_socket [of sk x conns] by (cases "tc_sk x = sk") (auto simp: kprobe__tcp_set_state_def)
qed

lemma tcp_tracked_run:
  assumes "sk \<noteq> 0" and "map_of conns sk = Some conn"
    and "\<forall>x\<in>set xs. tc_sk x = sk \<longrightarrow> tc_state x \<noteq> TCP_SYN_SENT \<and> tc_state x \<noteq> TCP_CLOSE"
  shows "map_of (fst (tcp_run xs conns)) sk = Some (fold conn_next (filter (\<lambda>x. tc_sk x = sk) xs) conn)"
  using assms(2,3)
proof (induction xs arbitrary: conns conn)
  case (Cons x xs)
  have "map_of (fst (kprobe__tcp_set_state x conns)) sk = Some (if tc_sk x = sk then conn_next x conn else conn)"
    using tcp_tracked_step [OF Cons.prems(1), of x] Cons.prems(2) assms(1) by auto
  from Cons.IH [OF this] Cons.prems(2) show ?case
    by (auto simp: Let_def split: prod.splits)
qed simp

lemma length_delete_less: "map_of m k \<noteq> None \<Longrightarrow> length (bpf_map_delete_elem k m) < length m"
  by (induction m) (auto simp: bpf_map_delete_elem_def less_Suc_eq_le AList.length_delete_le)

lemma fold_conn_next:
  "fold conn_next xs conn =
    conn\<lparr>cn_flags := (if \<exists>x\<in>set xs. tc_state x = TCP_ESTABLISHED then cn_flags conn OR F_CONNECTED else cn_flags conn),
      cn_pid := last (cn_pid conn # map (cur_pid \<circ> tc_task) (filter (\<lambda>x. tc_state x = TCP_LAST_ACK) xs)),
      cn_task := last (cn_task conn # map (bt_comm \<circ> tc_task) (filter (\<lambda>x. tc_state x = TCP_LAST_ACK) xs))\<rparr>"
proof (induction xs arbitrary: conn)
  case (Cons x xs)
  then show ?case
    by (auto simp: conn_next_def attach_pid_def tcp_state_defs or.assoc)
qed simp

lemma tcp_SYN_SENT_tracks:
  assumes "tc_sk a \<noteq> 0" and "tc_state a = TCP_SYN_SENT"
    and "length conns \<le> conns_max" and "map_of conns (tc_sk a) \<noteq> None \<or> length conns < conns_max"
  shows "map_of (fst (kprobe__tcp_set_state a conns)) (tc_sk a) =
      Some \<lparr>cn_pid = cur_pid (tc_task a), cn_start_ns = bt_ktime_ns (tc_task a), cn_flags = F_OUTBOUND,
        cn_task = bt_comm (tc_task a)\<rparr>"
    and "snd (kprobe__tcp_set_state a conns) = None"
  using assms length_delete_less [of conns "tc_sk a"]
  by (auto simp: kprobe__tcp_set_state_def bpf_map_lookup_elem_def attach_pid_def conn_zero_def Let_def)

lemma tcp_CLOSE_sends:
  assumes "tc_sk z \<noteq> 0" and "tc_state z = TCP_CLOSE" and "map_of conns (tc_sk z) = Some conn"
    and "sk_family (tc_sock z) = 2"
    and "\<not> (is_loopback (sk_rcv_saddr (tc_sock z)) \<and> is_loopback (sk_daddr (tc_sock z)))"
  shows "kprobe__tcp_set_state z conns = (bpf_map_delete_elem (tc_sk z) conns, Some (tcp_event z conn))"
  using assms by (simp add: kprobe__tcp_set_state_def bpf_map_lookup_elem_def tcp_state_defs Let_def)

text \<open>An outbound connection seen by the handler, whatever calls other sockets make in between: after
  \<open>TCP_SYN_SENT\<close> for a socket (with room in the map), calls for it in other states than
  \<open>TCP_SYN_SENT\<close> and \<open>TCP_CLOSE\<close>, and \<open>TCP_CLOSE\<close> for a non-loopback IPv4 peer, the last record
  sent is that of this connection. It starts at the time of the first call and ends at the time of
  the last, is marked outbound, and as connected exactly when \<open>TCP_ESTABLISHED\<close> was seen; it
  carries the pid and the command of the task of the first call or of the last \<open>TCP_LAST_ACK\<close>,
  but the uid of the closing task. The socket is no longer tracked, and the map never exceeds its
  capacity.\<close>

theorem tcp_outbound_lifecycle:
  assumes "tc_sk a = sk" and "tc_sk z = sk" and "sk \<noteq> 0"
    and "tc_state a = TCP_SYN_SENT" and "tc_state z = TCP_CLOSE"
    and "length conns \<le> conns_max" and "map_of conns sk \<noteq> None \<or> length conns < conns_max"
    and "\<forall>x\<in>set xs. tc_sk x = sk \<longrightarrow> tc_state x \<noteq> TCP_SYN_SENT \<and> tc_state x \<noteq> TCP_CLOSE"
    and "sk_family (tc_sock z) = 2"
    and "\<not> (is_loopback (sk_rcv_saddr (tc_sock z)) \<and> is_loopback (sk_daddr (tc_sock z)))"
  shows "\<exists>m evs. tcp_run (a # xs @ [z]) conns = (m, evs @
      [\<lparr>ev_start_ns = bt_ktime_ns (tc_task a), ev_end_ns = bt_ktime_ns (tc_task z),
        ev_pid = cur_pid (tc_task (last (a # filter (\<lambda>x. tc_sk x = sk \<and> tc_state x = TCP_LAST_ACK) xs))),
        ev_laddr = sk_rcv_saddr (tc_sock z), ev_lport = sk_num (tc_sock z),
        ev_raddr = sk_daddr (tc_sock z), ev_rport = sk_dport (tc_sock z),
        ev_flags = (if \<exists>x\<in>set xs. tc_sk x = sk \<and> tc_state x = TCP_ESTABLISHED
          then F_OUTBOUND OR F_CONNECTED else F_OUTBOUND),
        ev_rx_b = sk_bytes_received (tc_sock z), ev_tx_b = sk_bytes_acked (tc_sock z),
        ev_task = bt_comm (tc_task (last (a # filter (\<lambda>x. tc_sk x = sk \<and> tc_state x = TCP_LAST_ACK) xs))),
        ev_family = 2, ev_uid = cur_uid (tc_task z)\<rparr>])
    \<and> map_of m sk = None \<and> length m \<le> conns_max"
proof -
  let ?c0 = "fst (kprobe__tcp_set_state a conns)"
  let ?mine = "filter (\<lambda>x. tc_sk x = sk) xs"
  let ?acks = "filter (\<lambda>x. tc_sk x = sk \<and> tc_state x = TCP_LAST_ACK) xs"
  obtain m1 evs where run: "tcp_run xs ?c0 = (m1, evs)" by (cases "tcp_run xs ?c0")
  define conn where "conn = fold conn_next ?mine \<lparr>cn_pid = cur_pid (tc_task a),
    cn_start_ns = bt_ktime_ns (tc_task a), cn_flags = F_OUTBOUND, cn_task = bt_comm (tc_task a)\<rparr>"
  have "map_of (fst (tcp_run xs ?c0)) sk = Some conn"
    unfolding conn_def
    using tcp_tracked_run [OF assms(3) _ assms(8)] tcp_SYN_SENT_tracks(1) [of a conns] assms(1,3,4,6,7) by metis
  then have "map_of m1 sk = Some conn"
    using run by simp
  then have close: "kprobe__tcp_set_state z m1 = (bpf_map_delete_elem sk m1, Some (tcp_event z conn))"
    using tcp_CLOSE_sends [of z m1 conn] assms by simp
  have "snd (kprobe__tcp_set_state a conns) = None"
    using tcp_SYN_SENT_tracks(2) [of a conns] assms by simp
  then have run_all: "tcp_run (a # xs @ [z]) conns = (bpf_map_delete_elem sk m1, evs @ [tcp_event z conn])"
    using close run by (auto simp: tcp_run_append Let_def split: prod.splits)
  have acks: "filter (\<lambda>x. tc_state x = TCP_LAST_ACK) ?mine = ?acks"
    by (simp add: conj_commute)
  have owner: "last (f a # map f ?acks) = f (last (a # ?acks))" for f :: "tcp_call \<Rightarrow> 'b"
    by (simp add: last_map)
  have "length (bpf_map_delete_elem sk m1) \<le> conns_max"
    using tcp_run_bounded [OF assms(6), of "a # xs @ [z]"] run_all by simp
  then show ?thesis
    using run_all owner [of "cur_pid \<circ> tc_task"] owner [of "bt_comm \<circ> tc_task"] assms(9)
    by (auto simp: tcp_event_def conn_def fold_conn_next acks)
qed

definition sample_task :: "u32 \<Rightarrow> u64 \<Rightarrow> bpf_task" where
  "sample_task pid ns = \<lparr>bt_pid_tgid = push_bit 32 (ucast pid), bt_uid_gid = 1000, bt_comm = replicate 16 0x61,
    bt_ktime_ns = ns\<rparr>"

definition sample_tcp_call :: "u64 \<Rightarrow> i32 \<Rightarrow> u32 \<Rightarrow> u64 \<Rightarrow> tcp_call" where
  "sample_tcp_call sk state pid ns = \<lparr>tc_sk = sk, tc_state = state, tc_task = sample_task pid ns,
    tc_sock = \<lparr>sk_family = 2, sk_rcv_saddr = 0x0f02000a, sk_daddr = 0x08080808, sk_num = 40000,
      sk_dport = 0x5000, sk_bytes_received = 10, sk_bytes_acked = 20\<rparr>\<rparr>"

lemma tcp_outbound_lifecycle_witness:
  "\<exists>m evs e. tcp_run
     [sample_tcp_call 16 TCP_SYN_SENT 7 100, sample_tcp_call 32 TCP_ESTABLISHED 8 110,
      sample_tcp_call 16 TCP_ESTABLISHED 0 120, sample_tcp_call 32 TCP_CLOSE 8 130,
      sample_tcp_call 16 TCP_CLOSE 0 140] [] = (m, evs @ [e])
     \<and> ev_start_ns e = 100 \<and> ev_end_ns e = 140 \<and> ev_pid e = 7 \<and> ev_flags e = 0x11 \<and> ev_uid e = 1000
     \<and> map_of m 16 = None"
  using tcp_outbound_lifecycle [of "sample_tcp_call 16 TCP_SYN_SENT 7 100" 16 "sample_tcp_call 16 TCP_CLOSE 0 140" "[]"
      "[sample_tcp_call 32 TCP_ESTABLISHED 8 110, sample_tcp_call 16 TCP_ESTABLISHED 0 120,
        sample_tcp_call 32 TCP_CLOSE 8 130]"]
  by (auto simp: sample_tcp_call_def sample_task_def tcp_state_defs conns_max_def is_loopback_def
      cur_pid_def cur_uid_def F_OUTBOUND_def F_CONNECTED_def)

end
