(* ===== verification/Kern_Connect.thy ===== *)
theory Kern_Connect
  imports Kern_Programs Event_Ktcp_Sec
begin

text \<open>
  The handler of \<open>kern/sec_socket_connect_kern.c\<close> and the records it sends, followed to the event
  the agent decodes from them. The handler reads the address family, which has two bytes in a
  \<open>struct sockaddr\<close>, as four, so it compares the family together with the two bytes after it.
\<close>

unbundle bit_operations_syntax

definition KAF_UNSPEC :: u32 where "KAF_UNSPEC = 0"
definition KAF_UNIX :: u32 where "KAF_UNIX = 1"
definition KAF_INET :: u32 where "KAF_INET = 2"
definition KAF_INET6 :: u32 where "KAF_INET6 = 10"

lemmas af_defs = KAF_UNSPEC_def KAF_UNIX_def KAF_INET_def KAF_INET6_def

text \<open>The arguments of one call: the two pointers, the socket fields found behind the first and the
  memory behind the second.\<close>

record connect_call =
  cc_skp :: u64
  cc_sock :: sock_fields
  cc_address :: u64
  cc_memory :: bytes
  cc_task :: bpf_task

datatype connect_record =
  Ipv4_events ipv4_event_t | Ipv6_events ipv6_event_t | Other_socket_events other_socket_event_t

definition connect_ts_us :: "bpf_task \<Rightarrow> u64" where
  "connect_ts_us t = bt_ktime_ns t div 1000"

definition address_family :: "bytes \<Rightarrow> u32" where
  "address_family mem = le_word (take 4 mem)"

definition kprobe__security_socket_connect :: "connect_call \<Rightarrow> connect_record option" where
  "kprobe__security_socket_connect x =
    (let t = cc_task x; pid = cur_pid t; uid = cur_uid t
     in if cc_skp x = 0 then None
        else if cc_address x = 0 then None
        else
          let af = address_family (cc_memory x)
          in if af = KAF_INET then
               (let data4 = \<lparr>e4_ts_us = connect_ts_us t, e4_pid = pid, e4_uid = uid, e4_af = af,
                      e4_laddr = sk_rcv_saddr (cc_sock x), e4_lport = sk_num (cc_sock x),
                      e4_daddr = sk_daddr (cc_sock x), e4_dport = sk_dport (cc_sock x),
                      e4_task = bt_comm t\<rparr>
                in if e4_dport data4 \<noteq> 0 then Some (Ipv4_events data4) else None)
             else if af = KAF_INET6 then
               (let data6 = \<lparr>e6_ts_us = connect_ts_us t, e6_pid = pid, e6_uid = uid, e6_af = af,
                      e6_task = bt_comm t, e6_daddr = take 16 (drop 8 (cc_memory x)),
                      e6_dport = le_word (take 2 (drop 2 (cc_memory x)))\<rparr>
                in if e6_dport data6 \<noteq> 0 then Some (Ipv6_events data6) else None)
             else if af \<noteq> KAF_UNIX \<and> af \<noteq> KAF_UNSPEC then
               Some (Other_socket_events \<lparr>eo_ts_us = connect_ts_us t, eo_pid = pid, eo_uid = uid,
                 eo_af = af, eo_task = bt_comm t\<rparr>)
             else None)"

lemma address_family_halves:
  assumes "length mem \<ge> 4"
  shows "ucast (address_family mem) = (le_word (take 2 mem) :: u16)"
    and "ucast (drop_bit 16 (address_family mem)) = (le_word (take 2 (drop 2 mem)) :: u16)"
proof -
  have "le16 (ucast (address_family mem)) @ le16 (ucast (drop_bit 16 (address_family mem))) = take 4 mem"
    unfolding le32_split [symmetric] address_family_def
    by (rule le32_le_word) (use assms in simp)
  moreover have "take 4 mem = take 2 mem @ take 2 (drop 2 mem)"
    using take_add [of 2 2 mem] by simp
  ultimately have "le16 (ucast (address_family mem)) = take 2 mem"
    and "le16 (ucast (drop_bit 16 (address_family mem))) = take 2 (drop 2 mem)"
    using assms by (simp_all add: append_eq_append_conv)
  then show "ucast (address_family mem) = (le_word (take 2 mem) :: u16)"
    and "ucast (drop_bit 16 (address_family mem)) = (le_word (take 2 (drop 2 mem)) :: u16)"
    using le_word_le16 by metis+
qed

lemma af_port_halves:
  "ucast (address_family (le16 fam @ le16 port @ rest)) = fam"
  "ucast (drop_bit 16 (address_family (le16 fam @ le16 port @ rest))) = port"
  using address_family_halves [of "le16 fam @ le16 port @ rest"] by simp_all

lemma le32_inj: "le32 v = le32 w \<Longrightarrow> v = w"
  using le_word_le32 by metis

lemma ucast_u16_u32 [simp]: "ucast (ucast w :: u32) = (w :: u16)"
  by (rule bit_word_eqI) (auto simp: bit_simps)

lemma address_family_zero_port: "address_family (le16 fam @ le16 0 @ rest) = ucast fam"
proof (rule le32_inj)
  have "drop_bit 16 (ucast fam :: u32) = 0"
    by (rule bit_word_eqI) (auto simp: bit_simps dest: bit_imp_le_length)
  then show "le32 (address_family (le16 fam @ le16 0 @ rest)) = le32 (ucast fam)"
    by (simp add: le32_split [of "address_family _"] le32_split [of "ucast fam"] af_port_halves)
qed

lemma address_family_port_nonzero:
  assumes "port \<noteq> 0"
  shows "address_family (le16 fam @ le16 port @ rest) \<notin> {KAF_UNSPEC, KAF_UNIX, KAF_INET, KAF_INET6}"
proof
  assume "address_family (le16 fam @ le16 port @ rest) \<in> {KAF_UNSPEC, KAF_UNIX, KAF_INET, KAF_INET6}"
  then have "drop_bit 16 (address_family (le16 fam @ le16 port @ rest)) = 0"
    by (auto simp: af_defs)
  then show False using af_port_halves(2) [of fam port rest] assms by simp
qed

text \<open>The record of another family, and the one for an IPv4 address whose port bytes are zero.\<close>

definition other_record :: "connect_call \<Rightarrow> u32 \<Rightarrow> other_socket_event_t" where
  "other_record x af = \<lparr>eo_ts_us = bt_ktime_ns (cc_task x) div 1000, eo_pid = cur_pid (cc_task x),
    eo_uid = cur_uid (cc_task x), eo_af = af, eo_task = bt_comm (cc_task x)\<rparr>"

definition ipv4_record :: "connect_call \<Rightarrow> ipv4_event_t" where
  "ipv4_record x = \<lparr>e4_ts_us = bt_ktime_ns (cc_task x) div 1000, e4_pid = cur_pid (cc_task x),
    e4_uid = cur_uid (cc_task x), e4_af = 2, e4_laddr = sk_rcv_saddr (cc_sock x),
    e4_lport = sk_num (cc_sock x), e4_daddr = sk_daddr (cc_sock x), e4_dport = sk_dport (cc_sock x),
    e4_task = bt_comm (cc_task x)\<rparr>"

lemma connect_port_nonzero:
  assumes "cc_skp x \<noteq> 0" and "cc_address x \<noteq> 0" and "cc_memory x = le16 fam @ le16 port @ rest"
    and "port \<noteq> 0"
  shows "kprobe__security_socket_connect x =
    Some (Other_socket_events (other_record x (address_family (le16 fam @ le16 port @ rest))))"
  using address_family_port_nonzero [OF assms(4), of fam rest] assms(1-3)
  by (simp add: kprobe__security_socket_connect_def connect_ts_us_def other_record_def Let_def)

lemma ucast_u16_eq: "(ucast v :: u32) = ucast w \<longleftrightarrow> v = (w :: u16)"
  using ucast_u16_u32 by metis

lemma connect_port_zero:
  assumes "cc_skp x \<noteq> 0" and "cc_address x \<noteq> 0" and "cc_memory x = le16 fam @ le16 0 @ rest"
  shows "kprobe__security_socket_connect x =
    (if fam = 2 then (if sk_dport (cc_sock x) = 0 then None else Some (Ipv4_events (ipv4_record x)))
     else if fam \<in> {0, 1, 10} then None
     else Some (Other_socket_events (other_record x (ucast fam))))"
  using assms ucast_u16_eq [of fam 0] ucast_u16_eq [of fam 1] ucast_u16_eq [of fam 2] ucast_u16_eq [of fam 10]
  by (simp add: kprobe__security_socket_connect_def connect_ts_us_def other_record_def ipv4_record_def
      Let_def address_family_zero_port af_defs)

text \<open>C12. What a connect call is reported as, for any family and the two bytes after it, which hold the
  port of an internet address and the first two characters of a socket path. When these two bytes are
  not both zero, the handler takes the call for one of another family, whatever the family
  is, and the agent decodes the record to an event with the right family and a task that consists of
  the two bytes followed by the first fourteen bytes of the command. Only when they are zero is the
  family itself looked at. No IPv6 record is ever sent.\<close>

theorem connect_call_reported:
  assumes "cc_skp x \<noteq> 0" and "cc_address x \<noteq> 0" and "cc_memory x = le16 fam @ le16 port @ rest"
    and "length (bt_comm (cc_task x)) = 16"
  shows "(port \<noteq> 0 \<longrightarrow> (\<exists>r. kprobe__security_socket_connect x = Some (Other_socket_events r)
      \<and> EventOther_Decode (other_socket_event_t_bytes r @ pad) e = Ret (None,
          \<lparr>oth_TSUS = bt_ktime_ns (cc_task x) div 1000, oth_PID = cur_pid (cc_task x),
           oth_UID = cur_uid (cc_task x), oth_AF = fam,
           oth_TASK = le16 port @ take 14 (bt_comm (cc_task x))\<rparr>)))
    \<and> (port = 0 \<longrightarrow> kprobe__security_socket_connect x =
      (if fam = 2 then (if sk_dport (cc_sock x) = 0 then None else Some (Ipv4_events (ipv4_record x)))
       else if fam \<in> {0, 1, 10} then None
       else Some (Other_socket_events (other_record x (ucast fam)))))
    \<and> kprobe__security_socket_connect x \<noteq> Some (Ipv6_events r6)"
proof (cases "port = 0")
  case True
  then show ?thesis using connect_port_zero [OF assms(1,2), of fam rest] assms(3) by auto
next
  case False
  then show ?thesis
    using connect_port_nonzero [OF assms(1-3) False] assms(4)
    by (simp add: EventOther_Decode_other_socket_event_t other_socket_event_t_wf_def EventOther_of_def
        other_record_def af_port_halves)
qed

text \<open>A DNS query to port 53 over IPv4 by \<open>systemd-resolve\<close>: the family is reported right, the task starts with the port.\<close>

lemma connect_call_reported_witness:
  "\<exists>r. kprobe__security_socket_connect
      \<lparr>cc_skp = 1, cc_sock = tc_sock (sample_tcp_call 0 0 0 0), cc_address = 1,
       cc_memory = le16 2 @ le16 0x3500 @ [127, 0, 0, 53], cc_task = sample_task 864 5000\<rparr>
      = Some (Other_socket_events r)
    \<and> EventOther_Decode (other_socket_event_t_bytes r @ [0, 0, 0, 0]) EventOther_new = Ret (None,
        \<lparr>oth_TSUS = 5, oth_PID = 864, oth_UID = 1000, oth_AF = 2, oth_TASK = le16 0x3500 @ replicate 14 0x61\<rparr>)"
  using connect_call_reported [of "\<lparr>cc_skp = 1, cc_sock = tc_sock (sample_tcp_call 0 0 0 0), cc_address = 1,
       cc_memory = le16 2 @ le16 0x3500 @ [127, 0, 0, 53], cc_task = sample_task 864 5000\<rparr>"
      2 "0x3500" "[127, 0, 0, 53]" "[0, 0, 0, 0]" EventOther_new]
  by (auto simp: sample_task_def cur_pid_def cur_uid_def)

end
