(* ===== verification/Kern_Lookup.thy ===== *)
theory Kern_Lookup
  imports Kern_Programs Event_Kudp
begin

text \<open>
  The two kernel programs that pair the entry of a function with its return through a map:
  \<open>kern/dns_lookup_kern.c\<close>, whose maps are keyed by process, and \<open>kern/udp_lookup_kern.c\<close>, whose
  map is keyed by thread. The memory behind a saved pointer is an argument of the return handler.
\<close>

unbundle bit_operations_syntax

section \<open>\<open>dns_lookup_kern.c\<close>\<close>

record val_t =
  vt_pid :: u32
  vt_host :: bytes

definition dns_map_max :: nat where "dns_map_max = 1024"

record dns_maps =
  dm_start :: "(u32, val_t) bpf_hash"
  dm_currres :: "(u32, u64) bpf_hash"

text \<open>The first result found behind the pointer \<open>getaddrinfo\<close> stores its list through.\<close>

record addrinfo =
  ai_family :: u32
  ai_sin_addr :: u32
  ai_sin6_addr :: bytes

record entry_call =
  en_di :: u64
  en_host :: bytes
  en_cx :: u64
  en_task :: bpf_task

record return_call =
  rc_task :: bpf_task
  rc_result :: "u64 \<Rightarrow> addrinfo"

definition getaddrinfo_entry :: "entry_call \<Rightarrow> dns_maps \<Rightarrow> dns_maps" where
  "getaddrinfo_entry x m =
    (if en_di x = 0 then m
     else
      let pid = cur_pid (en_task x); val = \<lparr>vt_pid = pid, vt_host = en_host x\<rparr>; res = en_cx x
      in m\<lparr>dm_start := bpf_map_update_elem dns_map_max pid val (dm_start m),
           dm_currres := bpf_map_update_elem dns_map_max pid res (dm_currres m)\<rparr>)"

definition addrinfo_data :: "val_t \<Rightarrow> u32 \<Rightarrow> addrinfo \<Rightarrow> data_t" where
  "addrinfo_data val uid r =
    \<lparr>dt_pid = vt_pid val, dt_uid = uid, dt_af = ai_family r,
     dt_ip4addr = (if ai_family r = 2 then ai_sin_addr r else 0),
     dt_ip6addr = (if ai_family r = 10 then ai_sin6_addr r else replicate 16 0),
     dt_host = vt_host val\<rparr>"

definition getaddrinfo_return :: "return_call \<Rightarrow> dns_maps \<Rightarrow> dns_maps \<times> data_t option" where
  "getaddrinfo_return x m =
    (let pid = cur_pid (rc_task x)
     in case bpf_map_lookup_elem (dm_start m) pid of
          None \<Rightarrow> (m, None)
        | Some valp \<Rightarrow>
           (case bpf_map_lookup_elem (dm_currres m) pid of
              None \<Rightarrow> (m, None)
            | Some resx \<Rightarrow>
               (if resx = 0 then (m, None)
                else
                  let data = addrinfo_data valp (cur_uid (rc_task x)) (rc_result x resx)
                  in (m\<lparr>dm_start := bpf_map_delete_elem pid (dm_start m),
                        dm_currres := bpf_map_delete_elem pid (dm_currres m)\<rparr>, Some data))))"

datatype dns_call = Entry entry_call | Return return_call

fun dns_step :: "dns_call \<Rightarrow> dns_maps \<Rightarrow> dns_maps \<times> data_t option" where
  "dns_step (Entry x) m = (getaddrinfo_entry x m, None)"
| "dns_step (Return x) m = getaddrinfo_return x m"

fun dns_run :: "dns_call list \<Rightarrow> dns_maps \<Rightarrow> dns_maps \<times> data_t list" where
  "dns_run [] m = (m, [])"
| "dns_run (c # cs) m =
    (let (m1, d) = dns_step c m; (m2, ds) = dns_run cs m1
     in (m2, (case d of None \<Rightarrow> ds | Some r \<Rightarrow> r # ds)))"

definition dns_maps_empty :: dns_maps where
  "dns_maps_empty = \<lparr>dm_start = [], dm_currres = []\<rparr>"

fun call_pid :: "dns_call \<Rightarrow> u32" where
  "call_pid (Entry x) = cur_pid (en_task x)"
| "call_pid (Return x) = cur_pid (rc_task x)"

text \<open>What a process finds in the maps under its own pid, and the room left in them.\<close>

definition dns_view :: "u32 \<Rightarrow> dns_maps \<Rightarrow> val_t option \<times> u64 option" where
  "dns_view p m = (map_of (dm_start m) p, map_of (dm_currres m) p)"

definition dns_room :: "nat \<Rightarrow> dns_maps \<Rightarrow> bool" where
  "dns_room n m \<longleftrightarrow> length (dm_start m) + n \<le> dns_map_max \<and> length (dm_currres m) + n \<le> dns_map_max"

definition dns_keyed :: "dns_maps \<Rightarrow> bool" where
  "dns_keyed m \<longleftrightarrow> (\<forall>k v. map_of (dm_start m) k = Some v \<longrightarrow> vt_pid v = k)"

lemmas dns_step_defs = getaddrinfo_entry_def getaddrinfo_return_def bpf_map_lookup_elem_def Let_def

lemma dns_step_keyed: "dns_keyed m \<Longrightarrow> dns_keyed (fst (dns_step c m))"
  by (cases c) (auto simp: dns_keyed_def dns_step_defs split: option.splits if_splits)

lemma dns_step_record_pid:
  "dns_keyed m \<Longrightarrow> snd (dns_step c m) = Some d \<Longrightarrow> dt_pid d = call_pid c"
  by (cases c) (auto simp: dns_keyed_def dns_step_defs addrinfo_data_def split: option.splits if_splits)

lemma length_update_Suc: "length (bpf_map_update_elem cap k v m) \<le> Suc (length m)"
  by (simp add: bpf_map_update_elem_def length_AList_update)

lemma dns_step_room:
  assumes "dns_room (Suc n) m"
  shows "dns_room n (fst (dns_step c m))"
proof (cases c)
  case (Entry x)
  then show ?thesis
    using assms
      length_update_Suc [of dns_map_max "cur_pid (en_task x)" "\<lparr>vt_pid = cur_pid (en_task x), vt_host = en_host x\<rparr>" "dm_start m"]
      length_update_Suc [of dns_map_max "cur_pid (en_task x)" "en_cx x" "dm_currres m"]
    by (auto simp: dns_room_def dns_step_defs)
next
  case (Return x)
  then show ?thesis
    using assms length_delete_le [of "cur_pid (rc_task x)" "dm_start m"]
      length_delete_le [of "cur_pid (rc_task x)" "dm_currres m"]
    by (auto simp: dns_room_def dns_step_defs split: option.splits)
qed

lemma dns_step_other: "p \<noteq> call_pid c \<Longrightarrow> dns_view p (fst (dns_step c m)) = dns_view p m"
  by (cases c) (auto simp: dns_view_def dns_step_defs split: option.splits)

lemma dns_step_same:
  assumes "dns_view (call_pid c) s = dns_view (call_pid c) t" and "dns_room (Suc n) s" and "dns_room (Suc k) t"
  shows "snd (dns_step c s) = snd (dns_step c t)"
    and "dns_view (call_pid c) (fst (dns_step c s)) = dns_view (call_pid c) (fst (dns_step c t))"
  using assms
  by (cases c; auto simp: dns_view_def dns_room_def dns_step_defs split: option.splits)+

lemma dns_run_isolated:
  assumes "dns_view p s = dns_view p t" and "dns_room (length cs) s" and "dns_room (length cs) t"
    and "dns_keyed s" and "dns_keyed t"
  shows "filter (\<lambda>d. dt_pid d = p) (snd (dns_run cs s)) = snd (dns_run (filter (\<lambda>c. call_pid c = p) cs) t)"
  using assms
proof (induction cs arbitrary: s t)
  case (Cons c cs)
  then have room: "dns_room (Suc (length cs)) s" "dns_room (Suc (length cs)) t" by simp_all
  have t_weak: "dns_room (length cs) t" using room(2) by (simp add: dns_room_def)
  show ?case
  proof (cases "call_pid c = p")
    case True
    have "filter (\<lambda>d. dt_pid d = p) (snd (dns_run cs (fst (dns_step c s))))
        = snd (dns_run (filter (\<lambda>c. call_pid c = p) cs) (fst (dns_step c t)))"
      using dns_step_same(2) [OF _ room] True Cons.prems
      by (intro Cons.IH dns_step_keyed dns_step_room [OF room(1)] dns_step_room [OF room(2)]) auto
    moreover have "snd (dns_step c s) = snd (dns_step c t)"
      using dns_step_same(1) [OF _ room, of c] True Cons.prems(1) by simp
    ultimately show ?thesis
      using True dns_step_record_pid [OF Cons.prems(4), of c]
      by (auto simp: Let_def split: prod.splits option.splits)
  next
    case False
    have "filter (\<lambda>d. dt_pid d = p) (snd (dns_run cs (fst (dns_step c s))))
        = snd (dns_run (filter (\<lambda>c. call_pid c = p) cs) t)"
      using dns_step_other [of p c s] False Cons.prems t_weak
      by (intro Cons.IH dns_step_keyed dns_step_room [OF room(1)]) auto
    then show ?thesis
      using False dns_step_record_pid [OF Cons.prems(4), of c]
      by (auto simp: Let_def split: prod.splits option.splits)
  qed
qed simp

text \<open>C13. The records of one process depend only on its own calls, however these interleave with the calls
  of other processes, as long as the maps cannot fill up. Of its own calls, an entry followed by a
  return gives one record with the host of the entry and the first address found at the return. But
  two threads of one process share an entry: when their calls overlap, the first return reports the
  host of the second call and the second return reports nothing.\<close>

theorem getaddrinfo_records:
  assumes "length cs \<le> dns_map_max"
    and "cur_pid (en_task a) = p" and "cur_pid (en_task b) = p"
    and "cur_pid (rc_task x) = p" and "cur_pid (rc_task y) = p"
    and "en_di a \<noteq> 0" and "en_di b \<noteq> 0" and "en_cx a \<noteq> 0" and "en_cx b \<noteq> 0"
  shows "filter (\<lambda>d. dt_pid d = p) (snd (dns_run cs dns_maps_empty))
      = snd (dns_run (filter (\<lambda>c. call_pid c = p) cs) dns_maps_empty)
    \<and> dns_run [Entry a, Return x] dns_maps_empty
      = (dns_maps_empty, [addrinfo_data \<lparr>vt_pid = p, vt_host = en_host a\<rparr> (cur_uid (rc_task x)) (rc_result x (en_cx a))])
    \<and> dns_run [Entry a, Entry b, Return x, Return y] dns_maps_empty
      = (dns_maps_empty, [addrinfo_data \<lparr>vt_pid = p, vt_host = en_host b\<rparr> (cur_uid (rc_task x)) (rc_result x (en_cx b))])"
proof (intro conjI)
  show "filter (\<lambda>d. dt_pid d = p) (snd (dns_run cs dns_maps_empty))
      = snd (dns_run (filter (\<lambda>c. call_pid c = p) cs) dns_maps_empty)"
    using assms(1) by (intro dns_run_isolated) (simp_all add: dns_room_def dns_keyed_def dns_maps_empty_def)
qed (use assms(2-) in \<open>simp_all add: dns_step_defs dns_maps_empty_def dns_map_max_def
      bpf_map_update_elem_def bpf_map_delete_elem_def\<close>)

definition sample_entry :: "u32 \<Rightarrow> byte \<Rightarrow> u64 \<Rightarrow> entry_call" where
  "sample_entry pid h res = \<lparr>en_di = 1, en_host = h # replicate 79 0, en_cx = res, en_task = sample_task pid 0\<rparr>"

definition sample_return :: "u32 \<Rightarrow> return_call" where
  "sample_return pid = \<lparr>rc_task = sample_task pid 0,
    rc_result = (\<lambda>res. \<lparr>ai_family = 2, ai_sin_addr = ucast res, ai_sin6_addr = replicate 16 0\<rparr>)\<rparr>"

lemma getaddrinfo_records_witness:
  "map (\<lambda>d. (hd (dt_host d), dt_ip4addr d)) (snd (dns_run [Entry (sample_entry 7 65 100),
      Entry (sample_entry 7 66 200), Return (sample_return 7), Return (sample_return 7)] dns_maps_empty))
    = [(66, 200)]"
  using getaddrinfo_records [of "[]" "sample_entry 7 65 100" 7 "sample_entry 7 66 200" "sample_return 7" "sample_return 7"]
  by (auto simp: sample_entry_def sample_return_def sample_task_def cur_pid_def addrinfo_data_def)

section \<open>\<open>udp_lookup_kern.c\<close>\<close>

definition MAX_PKT :: i32 where "MAX_PKT = 512"
definition ITER_IOVEC :: u32 where "ITER_IOVEC = 4"
definition udp_map_max :: nat where "udp_map_max = 10240"

text \<open>What \<open>bpf_probe_read\<close> finds behind a \<open>struct msghdr *\<close>: the iterator's type, the length of the first
  \<open>iovec\<close> and the bytes at its base.\<close>

record msghdr =
  mh_iter_type :: u32
  mh_iov_len :: u64
  mh_iov_base :: "nat \<Rightarrow> byte"

record recvmsg_call =
  rv_dport :: u16
  rv_msg :: u64
  rv_task :: bpf_task

record recvmsg_return =
  rr_copied :: i32
  rr_msghdr :: "u64 \<Rightarrow> msghdr"
  rr_comm_ok :: bool
  rr_task :: bpf_task

type_synonym udp_table = "(u64, u64) bpf_hash"

definition trace_udp_recvmsg :: "recvmsg_call \<Rightarrow> udp_table \<Rightarrow> udp_table" where
  "trace_udp_recvmsg x tbl =
    (if rv_dport x = 13568 then bpf_map_update_elem udp_map_max (bt_pid_tgid (rv_task x)) (rv_msg x) tbl
     else tbl)"

text \<open>The lookup in the one-element array \<open>dns_data\<close> always succeeds.\<close>

definition trace_ret_udp_recvmsg :: "recvmsg_return \<Rightarrow> udp_table \<Rightarrow> udp_table \<times> dns_data_t option" where
  "trace_ret_udp_recvmsg x tbl =
    (let pid_tgid = bt_pid_tgid (rr_task x)
     in case bpf_map_lookup_elem tbl pid_tgid of
          None \<Rightarrow> (tbl, None)
        | Some msgp \<Rightarrow>
           (let msghdr = rr_msghdr x msgp; copied = rr_copied x; tbl1 = bpf_map_delete_elem pid_tgid tbl
            in if mh_iter_type msghdr \<noteq> ITER_IOVEC then (tbl1, None)
               else if copied <s 0 \<or> MAX_PKT <s copied then (tbl1, None)
               else
                 let buflen0 = (copied :: u32);
                     buflen1 = (if buflen0 > MAX_PKT then MAX_PKT else buflen0);
                     buflen = buflen1 AND 0x1ff
                 in if ucast buflen > mh_iov_len msghdr then (tbl1, None)
                    else if \<not> rr_comm_ok x then (tbl1, None)
                    else (tbl1, Some \<lparr>dd_pid = cur_pid (rr_task x), dd_comm = bt_comm (rr_task x),
                      dd_pkt = map (mh_iov_base msghdr) [0..<unat buflen]\<rparr>)))"

datatype udp_call = Recv recvmsg_call | RetRecv recvmsg_return

fun udp_thread :: "udp_call \<Rightarrow> u64" where
  "udp_thread (Recv x) = bt_pid_tgid (rv_task x)"
| "udp_thread (RetRecv x) = bt_pid_tgid (rr_task x)"

fun udp_step :: "udp_call \<Rightarrow> udp_table \<Rightarrow> udp_table \<times> dns_data_t option" where
  "udp_step (Recv x) tbl = (trace_udp_recvmsg x tbl, None)"
| "udp_step (RetRecv x) tbl = trace_ret_udp_recvmsg x tbl"

definition udp_table_after :: "udp_call list \<Rightarrow> udp_table \<Rightarrow> udp_table" where
  "udp_table_after cs tbl = fold (\<lambda>c t. fst (udp_step c t)) cs tbl"

lemmas udp_step_defs = trace_udp_recvmsg_def trace_ret_udp_recvmsg_def bpf_map_lookup_elem_def Let_def

lemma udp_step_other: "k \<noteq> udp_thread c \<Longrightarrow> map_of (fst (udp_step c tbl)) k = map_of tbl k"
  by (cases c) (auto simp: udp_step_defs split: option.splits)

lemma udp_table_other:
  "\<forall>c\<in>set cs. udp_thread c \<noteq> k \<Longrightarrow> map_of (udp_table_after cs tbl) k = map_of tbl k"
proof (induction cs arbitrary: tbl)
  case (Cons c cs)
  then show ?case using udp_step_other [of k c tbl] by (auto simp: udp_table_after_def)
qed (simp add: udp_table_after_def)

text \<open>The packet length that is sent for a return value.\<close>

definition sent_len :: "i32 \<Rightarrow> u64 \<Rightarrow> nat option" where
  "sent_len copied iov_len =
    (if sint copied < 0 \<or> 512 < sint copied then None
     else if sint copied = 512 then Some 0
     else if unat iov_len < nat (sint copied) then None
     else Some (nat (sint copied)))"

lemma sint_32_nonneg:
  fixes c :: i32
  assumes "0 \<le> sint c"
  shows "sint c = uint c"
proof -
  have "take_bit 32 (uint c) = uint c"
    using uint_lt2p [of c] by (simp add: take_bit_int_eq_self)
  then have "sint c = uint c - 2 ^ 32 * of_bool (bit (uint c) 31)"
    using signed_take_bit_eq_take_bit_minus [of 31 "uint c"] by (simp add: sint_uint)
  then show ?thesis using assms uint_lt2p [of c] by (cases "bit (uint c) 31") auto
qed

lemma and_1ff: "w AND 0x1ff = take_bit 9 (w :: u32)"
  by (simp add: take_bit_eq_mask mask_eq_exp_minus_1)

lemma unat_and_1ff: "unat (w AND 0x1ff :: u32) = unat w mod 512"
proof -
  have "unat (w AND 0x1ff) = take_bit 9 (unat w)" by (simp only: and_1ff unsigned_take_bit_eq)
  then show ?thesis by (simp add: take_bit_eq_mod)
qed

lemma trace_ret_sent_len:
  assumes "map_of tbl (bt_pid_tgid (rr_task x)) = Some msg" and "mh_iter_type (rr_msghdr x msg) = ITER_IOVEC"
    and "rr_comm_ok x"
  shows "trace_ret_udp_recvmsg x tbl = (bpf_map_delete_elem (bt_pid_tgid (rr_task x)) tbl,
    map_option (\<lambda>n. \<lparr>dd_pid = cur_pid (rr_task x), dd_comm = bt_comm (rr_task x),
      dd_pkt = map (mh_iov_base (rr_msghdr x msg)) [0..<n]\<rparr>) (sent_len (rr_copied x) (mh_iov_len (rr_msghdr x msg))))"
proof (cases "sint (rr_copied x) < 0 \<or> 512 < sint (rr_copied x)")
  case True
  then show ?thesis
    using assms by (auto simp: udp_step_defs sent_len_def word_sless_alt MAX_PKT_def)
next
  case False
  define n where "n = unat (rr_copied x)"
  have n: "sint (rr_copied x) = int n" using False by (simp add: n_def sint_32_nonneg)
  then have "n \<le> 512" using False by linarith
  then have "\<not> rr_copied x > 512" by (simp add: word_less_nat_alt n_def)
  moreover have "n mod 512 = (if n = 512 then 0 else n)" using \<open>n \<le> 512\<close> by auto
  moreover have "take_bit 64 m = m" if "m \<le> 512" for m :: nat
    using that by (simp add: take_bit_nat_eq_self)
  ultimately show ?thesis
    using assms False \<open>n \<le> 512\<close> unat_and_1ff [of "rr_copied x"]
    by (auto simp: udp_step_defs sent_len_def word_sless_alt MAX_PKT_def word_less_nat_alt
        unsigned_ucast_eq n n_def [symmetric])
qed

text \<open>C14. A DNS answer received by a thread, with any calls of other threads between entry and return: the
  record sent carries the thread's process, its command and the packet, for a packet of fewer than
  512 bytes that fits its buffer. A packet of exactly 512 bytes, the largest the program admits, is sent
  with no packet bytes at all. Larger packets and failed calls are not reported. The thread's entry is
  gone afterwards. A record that is sent has at least the 20 bytes the agent's decoder
  slices, so the decoder does not panic on it.\<close>

theorem udp_recvmsg_reported:
  assumes "bt_pid_tgid (rv_task a) = k" and "bt_pid_tgid (rr_task x) = k" and "rv_dport a = 13568"
    and "map_of tbl k \<noteq> None \<or> length tbl < udp_map_max"
    and "\<forall>c\<in>set cs. udp_thread c \<noteq> k"
    and "mh_iter_type (rr_msghdr x (rv_msg a)) = ITER_IOVEC" and "rr_comm_ok x"
    and "length (bt_comm (rr_task x)) = 16"
  shows "\<exists>tbl' sent. trace_ret_udp_recvmsg x (udp_table_after cs (trace_udp_recvmsg a tbl)) = (tbl', sent)
    \<and> map_of tbl' k = None
    \<and> (sint (rr_copied x) < 0 \<or> 512 < sint (rr_copied x) \<longrightarrow> sent = None)
    \<and> (sint (rr_copied x) = 512 \<longrightarrow> (\<exists>r. sent = Some r \<and> dns_data_t_bytes r = le32 (cur_pid (rr_task x)) @ bt_comm (rr_task x)))
    \<and> (0 \<le> sint (rr_copied x) \<and> sint (rr_copied x) < 512 \<and> sint (rr_copied x) \<le> uint (mh_iov_len (rr_msghdr x (rv_msg a))) \<longrightarrow>
        (\<exists>r. sent = Some r \<and> dns_data_t_bytes r = le32 (cur_pid (rr_task x)) @ bt_comm (rr_task x)
          @ map (mh_iov_base (rr_msghdr x (rv_msg a))) [0..<nat (sint (rr_copied x))]))
    \<and> (\<forall>r pad e s. sent = Some r \<longrightarrow> UDPEvent_Decode lib (dns_data_t_bytes r @ pad) e \<noteq> Panic s)"
proof -
  let ?tbl = "udp_table_after cs (trace_udp_recvmsg a tbl)"
  have "map_of ?tbl k = Some (rv_msg a)"
    using udp_table_other [OF assms(5)] assms(1,3,4) by (auto simp: trace_udp_recvmsg_def)
  then have ret: "trace_ret_udp_recvmsg x ?tbl = (bpf_map_delete_elem k ?tbl,
    map_option (\<lambda>n. \<lparr>dd_pid = cur_pid (rr_task x), dd_comm = bt_comm (rr_task x),
      dd_pkt = map (mh_iov_base (rr_msghdr x (rv_msg a))) [0..<n]\<rparr>)
      (sent_len (rr_copied x) (mh_iov_len (rr_msghdr x (rv_msg a)))))"
    using trace_ret_sent_len [of ?tbl x "rv_msg a"] assms(2,6,7) by simp
  have no_panic: "UDPEvent_Decode lib p e = Panic s \<Longrightarrow> length p < 20" for p e s
    using UDPEvent_Decode_long [of p lib e] by (fastforce simp: Let_def not_less [symmetric] split: sum.splits)
  have fits: "\<not> unat w < nat i" if "i \<le> uint w" for w :: u64 and i :: int
    using that by (simp add: not_less nat_le_iff)
  show ?thesis
    unfolding ret using assms(8) fits
    by (auto simp: sent_len_def dns_data_t_bytes_def dest!: no_panic)
qed

definition sample_recv :: "u64 \<Rightarrow> recvmsg_call" where
  "sample_recv k = \<lparr>rv_dport = 13568, rv_msg = 64, rv_task = (sample_task 0 0)\<lparr>bt_pid_tgid := k\<rparr>\<rparr>"

definition sample_ret_recv :: "i32 \<Rightarrow> u64 \<Rightarrow> recvmsg_return" where
  "sample_ret_recv n k = \<lparr>rr_copied = n,
    rr_msghdr = (\<lambda>_. \<lparr>mh_iter_type = ITER_IOVEC, mh_iov_len = 512, mh_iov_base = (\<lambda>i. word_of_nat i)\<rparr>),
    rr_comm_ok = True, rr_task = (sample_task 0 0)\<lparr>bt_pid_tgid := k\<rparr>\<rparr>"

lemma udp_recvmsg_reported_witness:
  "\<exists>tbl sent r. trace_ret_udp_recvmsg (sample_ret_recv 512 5)
      (udp_table_after [Recv (sample_recv 6)] (trace_udp_recvmsg (sample_recv 5) [])) = (tbl, sent)
    \<and> map_of tbl 5 = None \<and> sent = Some r \<and> length (dns_data_t_bytes r) = 20
    \<and> (\<forall>pad e s. UDPEvent_Decode sample_dns_lib (dns_data_t_bytes r @ pad) e \<noteq> Panic s)"
  using udp_recvmsg_reported [of "sample_recv 5" 5 "sample_ret_recv 512 5" "[]" "[Recv (sample_recv 6)]" sample_dns_lib]
  by (auto simp: sample_recv_def sample_ret_recv_def udp_map_max_def sample_task_def)

end
