(* ===== verification/Kern_Exec.thy ===== *)
theory Kern_Exec
  imports Kern_Programs Event_Proc Event_Java Event_Bpf_Call
begin

text \<open>
  The handlers of \<open>kern/proc_kern.c\<close>, \<open>kern/java_exec_kern.c\<close> and \<open>kern/bpf_call_kern.c\<close>, and what the
  agent decodes from the records they send. What a chain of kernel reads finds (\<open>BPF_CORE_READ\<close>,
  \<open>READ_KERN\<close>) is a field of the handler's argument; the memory at a user address is the list of the
  bytes that can be read there. Memory that a handler does not write keeps what it held before.
\<close>

unbundle bit_operations_syntax

section \<open>Reads of memory\<close>

text \<open>\<open>bpf_probe_read\<close> of \<open>n\<close> bytes into a buffer: a fault fills them with zeros.\<close>

definition probe_read :: "nat \<Rightarrow> bytes \<Rightarrow> bytes \<Rightarrow> bytes" where
  "probe_read n mem old = (if n \<le> length mem then take n mem else replicate n 0) @ drop n old"

text \<open>\<open>bpf_probe_read_str\<close> into a buffer of \<open>n\<close> bytes: at most \<open>n - 1\<close> bytes before the first zero, and
  a zero; a fault fills the whole buffer with zeros.\<close>

definition probe_read_str :: "nat \<Rightarrow> bytes \<Rightarrow> bytes \<Rightarrow> bytes" where
  "probe_read_str n mem old =
    (let s = take (n - 1) (takeWhile (\<lambda>b. b \<noteq> 0) mem)
     in if length s = n - 1 \<or> length s < length mem then s @ 0 # drop (Suc (length s)) old
        else replicate n 0)"

lemma length_probe_read [simp]: "n \<le> length old \<Longrightarrow> length (probe_read n mem old) = length old"
  by (simp add: probe_read_def)

lemma length_probe_read_str [simp]:
  assumes "length old = n" and "0 < n"
  shows "length (probe_read_str n mem old) = n"
proof -
  have "length (take (n - 1) (takeWhile (\<lambda>b. b \<noteq> 0) mem)) < n" using assms(2) by simp
  then show ?thesis using assms by (auto simp: probe_read_str_def Let_def)
qed

section \<open>\<open>java_exec_kern.c\<close>\<close>

record execvpe_call =
  jc_mode :: u64
  jc_file :: u64
  jc_file_mem :: bytes
  jc_argv_ok :: bool
  jc_task :: bpf_task

definition java_JDK_execvpe :: "execvpe_call \<Rightarrow> jdk_execvpe option" where
  "java_JDK_execvpe x =
    (if jc_mode x = 0 then None
     else if jc_file x = 0 then None
     else
      let val = \<lparr>jx_pid = cur_pid (jc_task x), jx_mode = jc_mode x,
            jx_file = probe_read_str 128 (jc_file_mem x) (replicate 128 0)\<rparr>
      in if \<not> jc_argv_ok x then None else Some val)"

section \<open>\<open>proc_kern.c\<close>\<close>

definition EVENT_FORK :: i32 where "EVENT_FORK = 1"

text \<open>What the handler reads of the child's \<open>task_struct\<close>.\<close>

record child_task =
  ct_pid :: u32
  ct_tgid :: u32
  ct_arg_start :: u64
  ct_arg_end :: u64
  ct_parent_pid :: u32
  ct_parent_tgid :: u32
  ct_grandparent_pid :: u32
  ct_grandparent_tgid :: u32
  ct_uid :: u32
  ct_gid :: u32
  ct_start_time :: u64
  ct_uts_inum :: u32

record copy_process_return =
  cp_child :: child_task
  cp_args_mem :: bytes
  cp_task :: bpf_task

text \<open>The record is filled in the memory the ring buffer reserves, \<open>None\<close> when it is full.\<close>

definition kretprobe_copy_process :: "copy_process_return \<Rightarrow> proc_info_t option \<Rightarrow> proc_info_t option" where
  "kretprobe_copy_process x reserved =
    (case reserved of
       None \<Rightarrow> None
     | Some p \<Rightarrow>
        (let task = cp_child x;
             p1 = p\<lparr>pi_type := EVENT_FORK, pi_child_pid := ct_pid task, pi_child_tgid := ct_tgid task,
                    pi_comm := bt_comm (cp_task x)\<rparr>;
             len = unat ((ct_arg_end task - ct_arg_start task) AND 0x7f);
             p2 = p1\<lparr>pi_cmdline := probe_read len (cp_args_mem x) (pi_cmdline p1)\<rparr>;
             p3 = p2\<lparr>pi_filepath := probe_read_str 128 (cp_args_mem x) (pi_filepath p2)\<rparr>
         in Some (p3\<lparr>pi_parent_pid := ct_parent_pid task, pi_parent_tgid := ct_parent_tgid task,
              pi_grandparent_pid := ct_grandparent_pid task,
              pi_grandparent_tgid := ct_grandparent_tgid task,
              pi_uid := ct_uid task, pi_gid := ct_gid task, pi_start_time := ct_start_time task,
              pi_uts_inum := ct_uts_inum task\<rparr>)))"

section \<open>\<open>bpf_call_kern.c\<close>\<close>

record task_ids =
  ti_pid :: u32
  ti_tgid :: u32
  ti_nspid :: u32
  ti_nstgid :: u32

record bpf_caller =
  bl_self :: task_ids
  bl_parent :: task_ids
  bl_grandparent :: task_ids
  bl_euid :: u32
  bl_gid :: u32
  bl_egid :: u32
  bl_start_time :: u64
  bl_uts_inum :: u32
  bl_uts_name :: u64
  bl_uts_name_mem :: bytes
  bl_arg_start :: u64
  bl_arg_end :: u64
  bl_args_mem :: bytes
  bl_task :: bpf_task

definition get_proc_cmdline :: "bpf_caller \<Rightarrow> i32 \<Rightarrow> bytes \<Rightarrow> bytes" where
  "get_proc_cmdline x sz cmdline =
    (let len0 = (ucast (bl_arg_end x - bl_arg_start x) :: i32);
         len = (if \<not> len0 <s sz then sz - 1 else len0)
     in probe_read (unat (len AND (sz - 1))) (bl_args_mem x) cmdline)"

definition get_common_proc :: "bpf_caller \<Rightarrow> proc_common \<Rightarrow> proc_common" where
  "get_common_proc x procinfo =
    (let p1 = procinfo\<lparr>pc_pid := ti_pid (bl_self x), pc_tgid := ti_tgid (bl_self x),
           pc_nspid := ti_nspid (bl_self x), pc_nstgid := ti_nstgid (bl_self x),
           pc_uid := cur_uid (bl_task x), pc_euid := bl_euid x, pc_gid := bl_gid x, pc_egid := bl_egid x,
           pc_start_time := bl_start_time x, pc_uts_inum := bl_uts_inum x,
           pc_ppid := ti_pid (bl_parent x), pc_ptgid := ti_tgid (bl_parent x),
           pc_nsppid := ti_nspid (bl_parent x), pc_nsptgid := ti_nstgid (bl_parent x),
           pc_pppid := ti_pid (bl_grandparent x), pc_pptgid := ti_tgid (bl_grandparent x),
           pc_nspppid := ti_nspid (bl_grandparent x), pc_nspptgid := ti_nstgid (bl_grandparent x),
           pc_comm := bt_comm (bl_task x)\<rparr>;
         p2 = (if bl_uts_name x \<noteq> 0
           then p1\<lparr>pc_uts_name := probe_read_str 64 (bl_uts_name_mem x) (pc_uts_name p1)\<rparr> else p1)
     in p2\<lparr>pc_cmdline := get_proc_cmdline x 256 (pc_cmdline p2)\<rparr>)"

text \<open>The event is a fresh copy of the one element of \<open>bpf_context_gen\<close>, stored in the LRU map
  \<open>bpf_context\<close> under the thread, so what the map held before does not matter.\<close>

definition make_event ::
    "bpf_context_t option \<Rightarrow> u64 \<Rightarrow> (u64 \<rightharpoonup> bpf_context_t) \<Rightarrow> (u64 \<rightharpoonup> bpf_context_t) \<times> bpf_context_t option" where
  "make_event gen pid_tgid m =
    (case gen of
       None \<Rightarrow> (m, None)
     | Some bpf_ctx \<Rightarrow> (let m1 = m(pid_tgid \<mapsto> bpf_ctx) in (m1, m1 pid_tgid)))"

definition tracepoint_sys_enter_bpf ::
    "bpf_context_t option \<Rightarrow> i32 \<Rightarrow> bpf_caller \<Rightarrow> (u64 \<rightharpoonup> bpf_context_t)
     \<Rightarrow> (u64 \<rightharpoonup> bpf_context_t) \<times> bpf_context_t option" where
  "tracepoint_sys_enter_bpf gen cmd x m =
    (let pid_tgid = bt_pid_tgid (bl_task x)
     in case make_event gen pid_tgid m of
          (m1, None) \<Rightarrow> (m1, None)
        | (m1, Some ev) \<Rightarrow>
           (let ev1 = ev\<lparr>bc_cmd := cmd, bc_procinfo := get_common_proc x (bc_procinfo ev)\<rparr>
            in (m1(pid_tgid \<mapsto> ev1), Some ev1)))"

lemma unat_and_7f: "unat (w AND 0x7f :: u64) \<le> 127"
proof -
  have "w AND 0x7f \<le> 0x7f" by (rule word_and_le1)
  then show ?thesis by (simp add: word_le_nat_alt)
qed

section \<open>Properties\<close>

text \<open>C15. A fork as the agent reports it: the handler fills the record for every return of \<open>copy_process\<close>
  unless the ring buffer is full, and the decoder, which does not know the record's first field, gives
  every report the child pid 1, the value of \<open>EVENT_FORK\<close>. The child's pid and tgid are reported as the
  child's tgid and the parent's pid, and so on down to the uid, reported as the gid, and the
  namespace, reported as memory the handler has not written. The reported command starts with
  the bytes of the start time.\<close>

theorem fork_call_reported:
  assumes "proc_info_t_wf p" and "length (bt_comm (cp_task x)) = 16"
  shows "kretprobe_copy_process x None = None
    \<and> (\<exists>r ev. kretprobe_copy_process x (Some p) = Some r
        \<and> ForkProcEvent_Decode (proc_info_t_bytes r @ pad) e = Ret (None, ev)
        \<and> fe_ChildPid ev = 1 \<and> fe_ChildTgid ev = ct_pid (cp_child x) \<and> fe_ParentPid ev = ct_tgid (cp_child x)
        \<and> fe_ParentTgid ev = ct_parent_pid (cp_child x) \<and> fe_GrandParentPid ev = ct_parent_tgid (cp_child x)
        \<and> fe_GrandParentTgid ev = ct_grandparent_pid (cp_child x) \<and> fe_Uid ev = ct_grandparent_tgid (cp_child x)
        \<and> fe_Gid ev = ct_uid (cp_child x) \<and> fe_Cwd_level ev = ct_gid (cp_child x)
        \<and> fe_UtsInum ev = pi_cwd_level p
        \<and> fe_Comm ev = le64 (ct_start_time (cp_child x)) @ take 8 (bt_comm (cp_task x)))"
proof -
  obtain r where r: "kretprobe_copy_process x (Some p) = Some r"
    by (simp add: kretprobe_copy_process_def Let_def)
  have "unat ((ct_arg_end (cp_child x) - ct_arg_start (cp_child x)) AND 0x7f) \<le> 128"
    by (rule order_trans [OF unat_and_7f]) simp
  then have "proc_info_t_wf r"
    using r assms by (auto simp: kretprobe_copy_process_def proc_info_t_wf_def Let_def)
  then show ?thesis
    using r ForkProcEvent_Decode_proc_info_t [of r pad e]
    by (auto simp: kretprobe_copy_process_def ForkProcEvent_of_def EVENT_FORK_def Let_def)
qed

lemma probe_read_str_zero:
  assumes "0 \<notin> set s" and "0 < n"
  shows "probe_read_str n (s @ 0 # rest) (replicate n 0) = take (n - 1) s @ replicate (n - min (length s) (n - 1)) 0"
proof -
  have t: "takeWhile (\<lambda>b. b \<noteq> 0) (s @ 0 # rest) = s"
    using assms(1) by (induction s) auto
  show ?thesis
    using assms(2) by (cases n) (auto simp: probe_read_str_def t Let_def min_def Suc_diff_le simp flip: replicate_Suc)
qed

text \<open>C16. A process started by the JVM as the agent decodes it: for a call with a mode, a file name and
  readable arguments, the pid, the mode and the name, cut to 127 bytes and filled with zeros; other calls
  are not reported.\<close>

theorem exec_call_reported:
  assumes "jc_file_mem x = s @ 0 # rest" and "0 \<notin> set s"
  shows "(if jc_mode x = 0 \<or> jc_file x = 0 \<or> \<not> jc_argv_ok x then java_JDK_execvpe x = None
     else \<exists>r. java_JDK_execvpe x = Some r
       \<and> JavaJDKExecPeEvent_Decode (jdk_execvpe_bytes r @ pad) e = Ret (None,
           \<lparr>java_Pid = cur_pid (jc_task x), java_Mode = jc_mode x,
            java_File = take 127 s @ replicate (128 - min (length s) 127) 0\<rparr>))"
  using assms
  by (auto simp: java_JDK_execvpe_def Let_def probe_read_str_zero JavaJDKExecPeEvent_Decode_jdk_execvpe
      jdk_execvpe_wf_def JavaJDKExecPeEvent_of_def)

lemma sint_small:
  fixes c :: i32
  assumes "unat c < 2 ^ 31"
  shows "sint c = int (unat c)"
proof -
  have "int (unat c) < int (2 ^ 31)" using assms by (simp only: of_nat_less_iff)
  then have "uint c < 2 ^ 31" by simp
  then have "signed_take_bit 31 (uint c) = uint c"
    by (intro signed_take_bit_int_eq_self) (simp_all add: order_trans [of _ 0])
  then show ?thesis by (simp add: sint_uint)
qed

lemma get_proc_cmdline_zero:
  assumes "n = unat (bl_arg_end x - bl_arg_start x)" and "n < 2 ^ 31" and "n \<le> length (bl_args_mem x)"
  shows "get_proc_cmdline x 256 (replicate 256 0)
    = take (min n 255) (bl_args_mem x) @ replicate (256 - min n 255) 0"
proof -
  define c where "c = (ucast (bl_arg_end x - bl_arg_start x) :: i32)"
  have u: "unat c = n"
    using assms(1,2) by (simp add: c_def unsigned_ucast_eq take_bit_nat_eq_self)
  then have s: "c <s 256 \<longleftrightarrow> n < 256"
    using sint_small [of c] assms(2) by (simp add: word_sless_alt)
  have low: "unat (c AND 255) = n mod 256"
  proof -
    have "c AND 255 = take_bit 8 c" by (simp add: take_bit_eq_mask mask_eq_exp_minus_1)
    then have "unat (c AND 255) = take_bit 8 (unat c)" by (simp only: unsigned_take_bit_eq)
    then show ?thesis by (simp add: u take_bit_eq_mod)
  qed
  show ?thesis
    using assms(3) s low
    by (auto simp: get_proc_cmdline_def c_def [symmetric] Let_def probe_read_def min_def)
qed

text \<open>The element of \<open>bpf_context_gen\<close>, which no program writes.\<close>

definition bpf_context_zero :: bpf_context_t where
  "bpf_context_zero = \<lparr>bc_cmd = 0, bc_pending = 0, bc_procinfo =
    \<lparr>pc_pid = 0, pc_tgid = 0, pc_nspid = 0, pc_nstgid = 0, pc_ppid = 0, pc_ptgid = 0, pc_nsppid = 0,
     pc_nsptgid = 0, pc_pppid = 0, pc_pptgid = 0, pc_nspppid = 0, pc_nspptgid = 0, pc_uid = 0, pc_euid = 0,
     pc_gid = 0, pc_egid = 0, pc_uts_inum = 0, pc_pending = 0, pc_start_time = 0,
     pc_comm = replicate 16 0, pc_cmdline = replicate 256 0, pc_uts_name = replicate 64 0\<rparr>\<rparr>"

lemma length_get_proc_cmdline:
  "length old = 256 \<Longrightarrow> length (get_proc_cmdline x 256 old) = 256"
proof -
  assume old: "length old = 256"
  have "w AND 255 \<le> 255" for w :: i32 by (rule word_and_le1)
  then have "unat (w AND 255) \<le> 255" for w :: i32 by (simp add: word_le_nat_alt)
  then show ?thesis
    using old by (simp add: get_proc_cmdline_def Let_def order_trans [of _ 255])
qed

text \<open>C17. A call of \<open>bpf(2)\<close> as the agent decodes it: whatever the map of contexts held, the event has the
  name of the command; the pid and tgid, on the host and in their namespaces, of the caller, its parent and
  its grandparent; the caller's real and effective user and group, start time, namespace, command name and
  node name; and the first 255 bytes of its command line with the zero bytes between the arguments shown
  as blanks.\<close>

theorem bpf_call_reported:
  assumes "length (bt_comm (bl_task x)) = 16"
    and "n = unat (bl_arg_end x - bl_arg_start x)" and "n < 2 ^ 31" and "n \<le> length (bl_args_mem x)"
    and "bl_uts_name_mem x = name @ 0 # rest" and "0 \<notin> set name"
  shows "\<exists>m' r ev. tracepoint_sys_enter_bpf (Some bpf_context_zero) cmd x m = (m', Some r)
    \<and> m' (bt_pid_tgid (bl_task x)) = Some r
    \<and> BpfCallEvent_Decode LittleEndian (bpf_context_t_bytes r @ pad) e = Ret (None, ev)
    \<and> BPFCmd_String (uint cmd) = Ret (be_Type ev)
    \<and> pe_Pid ev = ti_pid (bl_self x) \<and> pe_Tgid ev = ti_tgid (bl_self x)
    \<and> pe_NsPid ev = ti_nspid (bl_self x) \<and> pe_NsTgid ev = ti_nstgid (bl_self x)
    \<and> pe_PPid ev = ti_pid (bl_parent x) \<and> pe_PTgid ev = ti_tgid (bl_parent x)
    \<and> pe_NsPPid ev = ti_nspid (bl_parent x) \<and> pe_NsPTgid ev = ti_nstgid (bl_parent x)
    \<and> pe_PPPid ev = ti_pid (bl_grandparent x) \<and> pe_PPTgid ev = ti_tgid (bl_grandparent x)
    \<and> pe_NsPPPid ev = ti_nspid (bl_grandparent x) \<and> pe_NsPPTgid ev = ti_nstgid (bl_grandparent x)
    \<and> pe_Uid ev = cur_uid (bl_task x) \<and> pe_Euid ev = bl_euid x \<and> pe_Gid ev = bl_gid x \<and> pe_Egid ev = bl_egid x
    \<and> pe_UtsInum ev = bl_uts_inum x \<and> pe_Start_time ev = bl_start_time x
    \<and> pe_Comm ev = string_of_bytes (TrimRight0 (bt_comm (bl_task x)))
    \<and> pe_UtsName ev = (if bl_uts_name x = 0 then [] else string_of_bytes (take 63 name))
    \<and> pe_Cmdline ev = string_of_bytes (Replace0 (TrimRight0 (take (min n 255) (bl_args_mem x))))"
proof -
  let ?r = "bpf_context_zero\<lparr>bc_cmd := cmd, bc_procinfo := get_common_proc x (bc_procinfo bpf_context_zero)\<rparr>"
  have "tracepoint_sys_enter_bpf (Some bpf_context_zero) cmd x m
      = (m(bt_pid_tgid (bl_task x) \<mapsto> ?r), Some ?r)"
    by (simp add: tracepoint_sys_enter_bpf_def make_event_def Let_def)
  moreover have "proc_common_wf (bc_procinfo ?r)"
    using assms(1) length_get_proc_cmdline
    by (simp add: proc_common_wf_def get_common_proc_def bpf_context_zero_def Let_def)
  then obtain ty where "BPFCmd_String (uint (bc_cmd ?r)) = Ret ty"
      "BpfCallEvent_Decode LittleEndian (bpf_context_t_bytes ?r @ pad) e = Ret (None, BpfCallEvent_of ?r ty)"
    using BpfCallEvent_Decode_padded [of ?r pad e] by blast
  moreover have "TrimRight0 (take 63 name) = take 63 name"
    using assms(6) by (intro TrimRight0_id) (metis in_set_takeD last_in_set)
  moreover have "string_of_bytes (TrimRight0 (replicate 64 0)) = []" by (simp add: TrimRight0_def string_of_bytes_def)
  ultimately show ?thesis
    using get_proc_cmdline_zero [OF assms(2-4)] probe_read_str_zero [OF assms(6), of 64 rest]
    by (simp add: BpfCallEvent_of_def get_common_proc_def bpf_context_zero_def Let_def assms(5))
qed

definition sample_proc_memory :: proc_info_t where
  "sample_proc_memory = \<lparr>pi_type = 0, pi_child_pid = 0, pi_child_tgid = 0, pi_parent_pid = 0, pi_parent_tgid = 0,
    pi_grandparent_pid = 0, pi_grandparent_tgid = 0, pi_uid = 0, pi_gid = 0, pi_cwd_level = 0xdead,
    pi_uts_inum = 0, pi_pad = 0, pi_start_time = 0, pi_comm = replicate 16 0,
    pi_cmdline = replicate 128 0, pi_filepath = replicate 128 0\<rparr>"

definition sample_fork :: copy_process_return where
  "sample_fork = \<lparr>cp_child = \<lparr>ct_pid = 900, ct_tgid = 900, ct_arg_start = 4096, ct_arg_end = 4100,
      ct_parent_pid = 800, ct_parent_tgid = 800, ct_grandparent_pid = 700, ct_grandparent_tgid = 700,
      ct_uid = 1000, ct_gid = 1001, ct_start_time = 5, ct_uts_inum = 77\<rparr>,
    cp_args_mem = [108, 115, 0, 97], cp_task = sample_task 800 5\<rparr>"

theorem fork_call_reported_witness:
  "\<exists>r ev. kretprobe_copy_process sample_fork (Some sample_proc_memory) = Some r
     \<and> ForkProcEvent_Decode (proc_info_t_bytes r @ []) ForkProcEvent_new = Ret (None, ev)
     \<and> fe_ChildPid ev = 1 \<and> fe_ChildTgid ev = 900 \<and> fe_Gid ev = 1000 \<and> fe_UtsInum ev = 0xdead"
  using fork_call_reported [of sample_proc_memory sample_fork "[]" ForkProcEvent_new]
  by (auto simp: proc_info_t_wf_def sample_proc_memory_def sample_fork_def sample_task_def)

theorem exec_call_reported_witness:
  "\<exists>r. java_JDK_execvpe \<lparr>jc_mode = 3, jc_file = 1, jc_file_mem = [108, 115] @ 0 # [], jc_argv_ok = True,
       jc_task = sample_task 409049 0\<rparr> = Some r
     \<and> JavaJDKExecPeEvent_Decode (jdk_execvpe_bytes r @ [0]) JavaJDKExecPeEvent_new = Ret (None,
         \<lparr>java_Pid = 409049, java_Mode = 3, java_File = [108, 115] @ replicate 126 0\<rparr>)"
  using exec_call_reported [of "\<lparr>jc_mode = 3, jc_file = 1, jc_file_mem = [108, 115] @ 0 # [], jc_argv_ok = True,
       jc_task = sample_task 409049 0\<rparr>" "[108, 115]" "[]" "[0]" JavaJDKExecPeEvent_new]
  by (simp add: sample_task_def cur_pid_def)

definition sample_bpf_caller :: bpf_caller where
  "sample_bpf_caller = \<lparr>bl_self = \<lparr>ti_pid = 10, ti_tgid = 10, ti_nspid = 1, ti_nstgid = 1\<rparr>,
    bl_parent = \<lparr>ti_pid = 9, ti_tgid = 9, ti_nspid = 0, ti_nstgid = 0\<rparr>,
    bl_grandparent = \<lparr>ti_pid = 8, ti_tgid = 7, ti_nspid = 4, ti_nstgid = 3\<rparr>,
    bl_euid = 0, bl_gid = 0, bl_egid = 0, bl_start_time = 5, bl_uts_inum = 77, bl_uts_name = 1,
    bl_uts_name_mem = [104, 0], bl_arg_start = 100, bl_arg_end = 104, bl_args_mem = [98, 0, 99, 0],
    bl_task = sample_task 10 0\<rparr>"

theorem bpf_call_reported_witness:
  "\<exists>m' r ev. tracepoint_sys_enter_bpf (Some bpf_context_zero) 5 sample_bpf_caller Map.empty = (m', Some r)
     \<and> BpfCallEvent_Decode LittleEndian (bpf_context_t_bytes r @ []) BpfCallEvent_new = Ret (None, ev)
     \<and> be_Type ev = ''BPF_PROG_LOAD'' \<and> pe_Pid ev = 10 \<and> pe_PTgid ev = 9 \<and> pe_PPPid ev = 8 \<and> pe_NsPPTgid ev = 3
     \<and> pe_UtsName ev = ''h'' \<and> pe_Cmdline ev = ''b c''"
proof -
  have n: "(4::nat) = unat (bl_arg_end sample_bpf_caller - bl_arg_start sample_bpf_caller)"
    and name: "bl_uts_name_mem sample_bpf_caller = [104] @ 0 # []"
    by (simp_all add: sample_bpf_caller_def)
  have "BPFCmd_String 5 = Ret ''BPF_PROG_LOAD''"
    by (simp add: BPFCmd_String_in_range BPFCmd_names_def)
  moreover have "string_of_bytes (Replace0 (TrimRight0 [98, 0, 99, 0])) = ''b c''" "string_of_bytes [104] = ''h''"
    by (simp_all add: TrimRight0_def Replace0_def string_of_bytes_def char_of_def bit_iff_odd)
  ultimately show ?thesis
    using bpf_call_reported [OF _ n _ _ name, of 5 Map.empty "[]" BpfCallEvent_new]
    by (auto simp: sample_bpf_caller_def sample_task_def)
qed

end
