(* ===== verification/Assets_Restore.thy ===== *)
theory Assets_Restore
  imports Assets
begin

text \<open>
  The functions of \<open>assets/ebpf_probe.go\<close> that write assets to files. A call of package \<open>os\<close> is
  a value of \<open>os_call\<close>; \<open>os_err\<close> says which calls fail. A function gives the calls it makes, in
  order, and its error. \<open>filepath.Clean\<close>, \<open>Join\<close> and \<open>Dir\<close> are those of the Unix targets of the
  agent. \<open>RestoreAssets\<close> calls itself on the children of a directory; its model has fuel, and
  four levels are enough for every name.
\<close>

section \<open>Paths\<close>

fun clean_parts :: "bool \<Rightarrow> string list \<Rightarrow> string list \<Rightarrow> string list" where
  "clean_parts rooted acc [] = rev acc"
| "clean_parts rooted acc (p # ps) =
    (if p = [] \<or> p = ''.'' then clean_parts rooted acc ps
     else if p = ''..'' then
       (case acc of
          a # as \<Rightarrow> if a \<noteq> ''..'' then clean_parts rooted as ps else clean_parts rooted (p # acc) ps
        | [] \<Rightarrow> if rooted then clean_parts rooted [] ps else clean_parts rooted [p] ps)
     else clean_parts rooted (p # acc) ps)"

definition Clean :: "string \<Rightarrow> string" where
  "Clean path =
    (if path = [] then ''.''
     else
      let rooted = hd path = CHR ''/'';
          out = join_with (CHR ''/'') (clean_parts rooted [] (Split (CHR ''/'') path))
      in if rooted then CHR ''/'' # out else if out = [] then ''.'' else out)"

definition filepath_Join :: "string list \<Rightarrow> string" where
  "filepath_Join elems =
    (case dropWhile (\<lambda>e. e = []) elems of [] \<Rightarrow> [] | es \<Rightarrow> Clean (join_with (CHR ''/'') es))"

definition filepath_Dir :: "string \<Rightarrow> string" where
  "filepath_Dir path = Clean (rev (dropWhile (\<lambda>c. c \<noteq> CHR ''/'') (rev path)))"

definition filePath :: "string \<Rightarrow> string \<Rightarrow> string" where
  "filePath dir name = filepath_Join (dir # Split (CHR ''/'') (cannonicalName name))"

section \<open>Writing\<close>

datatype os_call =
    MkdirAll string nat
  | WriteFile string bytes nat
  | Chtimes string "int \<times> int" "int \<times> int"

type_synonym os_result = "os_call list \<times> goerr option"

definition RestoreAsset :: "(os_call \<Rightarrow> goerr option) \<Rightarrow> asset_env \<Rightarrow> string \<Rightarrow> string \<Rightarrow> os_result" where
  "RestoreAsset os_err ae dir name =
    (case Asset ae name of
       (_, Some err) \<Rightarrow> ([], Some err)
     | (data, None) \<Rightarrow>
        (case AssetInfo ae name of
           Inl err \<Rightarrow> ([], Some err)
         | Inr info \<Rightarrow>
            (let mk = MkdirAll (filePath dir (filepath_Dir name)) 0x1ed;
                 wr = WriteFile (filePath dir name) data (FileInfo_Mode info);
                 ch = Chtimes (filePath dir name) (FileInfo_ModTime info) (FileInfo_ModTime info)
             in case os_err mk of
                  Some err \<Rightarrow> ([mk], Some err)
                | None \<Rightarrow> (case os_err wr of
                    Some err \<Rightarrow> ([mk, wr], Some err)
                  | None \<Rightarrow> ([mk, wr, ch], os_err ch)))))"

text \<open>The loop over the children; \<open>None\<close> when a recursive call runs out of fuel.\<close>

fun restore_children :: "(string \<Rightarrow> os_result option) \<Rightarrow> string list \<Rightarrow> os_result option" where
  "restore_children f [] = Some ([], None)"
| "restore_children f (child # children) =
    (case f child of
       None \<Rightarrow> None
     | Some (calls, Some err) \<Rightarrow> Some (calls, Some err)
     | Some (calls, None) \<Rightarrow> map_option (map_prod (\<lambda>cs. calls @ cs) id) (restore_children f children))"

fun RestoreAssets ::
  "nat \<Rightarrow> (os_call \<Rightarrow> goerr option) \<Rightarrow> asset_env \<Rightarrow> range_order \<Rightarrow> string \<Rightarrow> string \<Rightarrow> os_result option" where
  "RestoreAssets 0 os_err ae order dir name = None"
| "RestoreAssets (Suc n) os_err ae order dir name =
    (case AssetDir order name of
       Inl _ \<Rightarrow> Some (RestoreAsset os_err ae dir name)
     | Inr children \<Rightarrow>
        restore_children (\<lambda>child. RestoreAssets n os_err ae order dir (filepath_Join [name, child])) children)"

section \<open>Lemmas\<close>

lemma restore_children_total:
  "(\<And>c. c \<in> set cs \<Longrightarrow> f c \<noteq> None) \<Longrightarrow> restore_children f cs \<noteq> None"
  by (induction cs) (auto split: option.splits)

lemma restore_children_cong:
  "(\<And>c. c \<in> set cs \<Longrightarrow> f c = g c) \<Longrightarrow> restore_children f cs = restore_children g cs"
  by (induction cs) (auto split: option.splits)

lemma restore_children_ok:
  "(\<And>c. c \<in> set cs \<Longrightarrow> f c = Some (calls c, None)) \<Longrightarrow>
     restore_children f cs = Some (concat (map calls cs), None)"
  by (induction cs) auto

text \<open>The names the recursion meets below each directory.\<close>

lemma join_names:
  "filepath_Join ['''', ''user''] = ''user''"
  "filepath_Join [''user'', ''bytecode''] = ''user/bytecode''"
  "f \<in> set asset_files \<Longrightarrow> filepath_Join [''user/bytecode'', f] = ''user/bytecode/'' @ f"
  by (auto simp: filepath_Join_def Clean_def asset_files_def)

definition asset_path :: "string \<Rightarrow> string" where
  "asset_path f = ''user/bytecode/'' @ f"

lemma cannonicalName_bytecode:
  "cannonicalName name = ''user/bytecode'' \<Longrightarrow> name = ''user/bytecode'' \<or> name = ''user'' @ [CHR 0x5C] @ ''bytecode''"
  "cannonicalName name = ''user'' \<Longrightarrow> name = ''user''"
  by (auto simp: cannonicalName_def map_eq_Cons_conv split: if_splits)

lemma AssetDir_file:
  assumes "f \<in> set asset_files" and "cannonicalName name = asset_path f"
  shows "AssetDir order name = Inl (PathError ''open'' name ErrNotExist)"
  using assms by (auto simp: AssetDir_def asset_path_def asset_files_def bintree_root_def cannonicalName_def)

lemma join_bytecode:
  assumes "f \<in> set asset_files" and "cannonicalName name = ''user/bytecode''"
  shows "cannonicalName (filepath_Join [name, f]) = asset_path f"
  using cannonicalName_bytecode(1) [OF assms(2)] assms(1)
  by (elim disjE) (auto simp: filepath_Join_def Clean_def asset_files_def asset_path_def cannonicalName_def)

lemma AssetInfo_of_Asset: "Asset ae name = (data, None) \<Longrightarrow> \<exists>info. AssetInfo ae name = Inr info"
  by (auto simp: Asset_def AssetInfo_def split: option.splits sum.splits)

text \<open>The files a sequence of calls writes, with their content.\<close>

definition written :: "os_call list \<Rightarrow> (string \<times> bytes) list" where
  "written calls = concat (map (\<lambda>c. case c of WriteFile p data _ \<Rightarrow> [(p, data)] | _ \<Rightarrow> []) calls)"

lemma written_append [simp]: "written (a @ b) = written a @ written b"
  by (simp add: written_def)

lemma written_concat: "written (concat xss) = concat (map written xss)"
  by (induction xss) (simp_all add: written_def)

lemma RestoreAsset_ok:
  assumes "Asset ae name = (data, None)" and "\<And>c. os_err c = None"
  shows "snd (RestoreAsset os_err ae dir name) = None"
    and "written (fst (RestoreAsset os_err ae dir name)) = [(filePath dir name, data)]"
  using AssetInfo_of_Asset [OF assms(1)] assms
  by (auto simp: RestoreAsset_def written_def Let_def)

text \<open>The recursion, level by level.\<close>

lemma RestoreAssets_bytecode:
  assumes "\<And>xs. mset (order xs) = mset xs" and "cannonicalName name = ''user/bytecode''"
  shows "RestoreAssets (Suc (Suc n)) os_err ae order dir name =
    restore_children (\<lambda>f. Some (RestoreAsset os_err ae dir (filepath_Join [name, f]))) (order asset_files)"
proof -
  have "AssetDir order name = Inr (order asset_files)"
    using AssetDir_cases [of order name, OF assms(1)] assms(2) by (auto simp: cannonicalName_def)
  moreover have "set (order asset_files) = set asset_files"
    using assms(1) by (metis mset_eq_setD)
  ultimately show ?thesis
    using AssetDir_file [OF _ join_bytecode [OF _ assms(2)]]
    by (auto intro!: restore_children_cong)
qed

lemma restore_single: "restore_children f [c] = f c"
  by (auto split: option.splits)

lemma RestoreAssets_user:
  assumes "\<And>xs. mset (order xs) = mset xs"
  shows "RestoreAssets (Suc n) os_err ae order dir ''user'' = RestoreAssets n os_err ae order dir ''user/bytecode''"
    and "RestoreAssets (Suc n) os_err ae order dir '''' = RestoreAssets n os_err ae order dir ''user''"
  using AssetDir_cases [of order "''user''", OF assms] AssetDir_cases [of order "''''", OF assms]
  by (simp_all add: restore_single join_names cannonicalName_def del: restore_children.simps)

lemma RestoreAssets_total:
  assumes "\<And>xs. mset (order xs) = mset xs"
  shows "RestoreAssets (Suc (Suc (Suc (Suc n)))) os_err ae order dir name \<noteq> None"
proof -
  have bytecode: "RestoreAssets (Suc (Suc k)) os_err ae order dir nm \<noteq> None"
    if "cannonicalName nm = ''user/bytecode''" for nm k
    using RestoreAssets_bytecode [of order nm, OF assms that] restore_children_total by simp
  consider "name = ''''" | "cannonicalName name = ''user''" | "cannonicalName name = ''user/bytecode''"
    | "AssetDir order name = Inl (PathError ''open'' name ErrNotExist)"
    using AssetDir_cases [of order name, OF assms] by (auto split: if_splits)
  then show ?thesis
  proof cases
    case 1
    then show ?thesis
      using bytecode [of "''user/bytecode''"] by (simp only: RestoreAssets_user [OF assms]) (simp add: cannonicalName_def)
  next
    case 2
    then show ?thesis
      using bytecode [of "''user/bytecode''"] cannonicalName_bytecode(2) [of name]
      by (simp only: RestoreAssets_user [OF assms]) (simp add: cannonicalName_def)
  qed (use bytecode in auto)
qed

lemma RestoreAssets_files:
  assumes "\<And>xs. mset (order xs) = mset xs" and "\<And>c. os_err c = None"
    and "\<And>f. f \<in> set asset_files \<Longrightarrow> snd (Asset ae (asset_path f)) = None"
  shows "\<exists>calls. RestoreAssets (Suc (Suc j)) os_err ae order dir ''user/bytecode'' = Some (calls, None)
    \<and> written calls = map (\<lambda>f. (filePath dir (asset_path f), fst (Asset ae (asset_path f)))) (order asset_files)"
proof -
  let ?calls = "\<lambda>f. fst (RestoreAsset os_err ae dir (asset_path f))"
  have set: "set (order asset_files) = set asset_files" using assms(1) by (metis mset_eq_setD)
  have one: "RestoreAsset os_err ae dir (asset_path f) = (?calls f, None)"
      "written (?calls f) = [(filePath dir (asset_path f), fst (Asset ae (asset_path f)))]"
    if "f \<in> set asset_files" for f
    using RestoreAsset_ok [of ae "asset_path f" "fst (Asset ae (asset_path f))" os_err dir]
      assms(2,3) that by (simp_all add: prod_eq_iff)
  have join: "filepath_Join [''user/bytecode'', f] = asset_path f" if "f \<in> set asset_files" for f
    using join_names(3) [OF that] by (simp add: asset_path_def)
  have "RestoreAssets (Suc (Suc j)) os_err ae order dir ''user/bytecode''
      = restore_children (\<lambda>f. Some (RestoreAsset os_err ae dir (filepath_Join [''user/bytecode'', f]))) (order asset_files)"
    by (rule RestoreAssets_bytecode) (simp_all add: assms(1) cannonicalName_def)
  also have "\<dots> = Some (concat (map ?calls (order asset_files)), None)"
    using one(1) set join by (intro restore_children_ok) simp
  finally have run: "RestoreAssets (Suc (Suc j)) os_err ae order dir ''user/bytecode''
      = Some (concat (map ?calls (order asset_files)), None)" .
  have "map (\<lambda>f. written (?calls f)) (order asset_files)
      = map (\<lambda>f. [(filePath dir (asset_path f), fst (Asset ae (asset_path f)))]) (order asset_files)"
    using one(2) set by (intro map_cong) simp_all
  from arg_cong [OF this, of concat] have "written (concat (map ?calls (order asset_files)))
      = map (\<lambda>f. (filePath dir (asset_path f), fst (Asset ae (asset_path f)))) (order asset_files)"
    by (simp only: written_concat map_map o_def concat_map_singleton)
  then show ?thesis using run by blast
qed

text \<open>C40. \<open>RestoreAssets\<close> returns for every name, whatever fails. On the root of the tree, on \<open>user\<close> and
  on \<open>user/bytecode\<close>, when all assets can be read and no call of the system fails, it returns no error
  and writes each of the seven object files exactly once, with the bytes \<open>Asset\<close> gives for it, under
  its path in the given directory.\<close>

theorem RestoreAssets_restores:
  assumes order: "\<And>xs. mset (order xs) = mset xs"
  shows "(4 \<le> n \<longrightarrow> RestoreAssets n os_err ae order dir name \<noteq> None)
    \<and> (4 \<le> n \<and> name \<in> {'''', ''user'', ''user/bytecode''} \<and> (\<forall>c. os_err c = None)
        \<and> (\<forall>f\<in>set asset_files. snd (Asset ae (asset_path f)) = None) \<longrightarrow>
       (\<exists>calls. RestoreAssets n os_err ae order dir name = Some (calls, None)
          \<and> written calls = map (\<lambda>f. (filePath dir (asset_path f), fst (Asset ae (asset_path f)))) (order asset_files)
          \<and> mset (order asset_files) = mset asset_files))"
proof -
  have total: "\<exists>k. n = Suc (Suc (Suc (Suc k)))" if "4 \<le> n"
    using that by (intro exI [of _ "n - 4"]) simp
  have returns: "RestoreAssets n os_err ae order dir name \<noteq> None" if n4: "4 \<le> n"
  proof -
    obtain k where n: "n = Suc (Suc (Suc (Suc k)))" using total [OF n4] by (elim exE)
    show ?thesis unfolding n by (rule RestoreAssets_total [OF order])
  qed
  have "\<exists>calls. RestoreAssets n os_err ae order dir name = Some (calls, None)
      \<and> written calls = map (\<lambda>f. (filePath dir (asset_path f), fst (Asset ae (asset_path f)))) (order asset_files)"
    if n4: "4 \<le> n" and nm: "name \<in> {'''', ''user'', ''user/bytecode''}" and "\<forall>c. os_err c = None"
      and "\<forall>f\<in>set asset_files. snd (Asset ae (asset_path f)) = None"
  proof -
    obtain k where n: "n = Suc (Suc (Suc (Suc k)))" using total [OF n4] by (elim exE)
    have "\<exists>j. RestoreAssets n os_err ae order dir name = RestoreAssets (Suc (Suc j)) os_err ae order dir ''user/bytecode''"
    proof -
      consider "name = ''''" | "name = ''user''" | "name = ''user/bytecode''" using nm by blast
      then show ?thesis
      proof cases
        case 1
        show ?thesis unfolding n 1 RestoreAssets_user [OF order] by (rule exI, rule refl)
      next
        case 2
        show ?thesis unfolding n 2 RestoreAssets_user [OF order] by (rule exI, rule refl)
      next
        case 3
        show ?thesis unfolding n 3 by (rule exI, rule refl)
      qed
    qed
    then obtain j where j: "RestoreAssets n os_err ae order dir name
        = RestoreAssets (Suc (Suc j)) os_err ae order dir ''user/bytecode''" ..
    show ?thesis unfolding j using that(3,4) by (intro RestoreAssets_files order) simp_all
  qed
  with returns order show ?thesis by blast
qed

definition sample_asset_env :: asset_env where
  "sample_asset_env = \<lparr>ae_gunzip = (\<lambda>b. Inr (b, None, None)),
    ae_blobs = \<lparr>bindataUserBytecodeBpfcallkernO_data = [1], bindataUserBytecodeDnslookupkernO_data = [2],
      bindataUserBytecodeJavaexeckernO_data = [3], bindataUserBytecodeProckernO_data = [4],
      bindataUserBytecodeSecsocketconnectkernO_data = [5], bindataUserBytecodeTcpsetstatekernO_data = [6],
      bindataUserBytecodeUdplookupkernO_data = [7]\<rparr>\<rparr>"

lemma RestoreAssets_restores_witness:
  "\<exists>calls. RestoreAssets 4 (\<lambda>_. None) sample_asset_env (\<lambda>xs. xs) ''/tmp'' '''' = Some (calls, None)
    \<and> length (written calls) = 7
    \<and> written calls ! 3 = (''/tmp/user/bytecode/proc_kern.o'', [4])"
proof -
  have "\<forall>f\<in>set asset_files. snd (Asset sample_asset_env (asset_path f)) = None"
    by (simp add: asset_files_def asset_path_def Asset_eq asset_blobs_def asset_bytes_def bindataRead_def
        sample_asset_env_def cannonicalName_def)
  moreover have "filePath ''/tmp'' (asset_path ''proc_kern.o'') = ''/tmp/user/bytecode/proc_kern.o''"
    by (simp add: filePath_def asset_path_def filepath_Join_def Clean_def cannonicalName_def)
  moreover have "fst (Asset sample_asset_env (asset_path ''proc_kern.o'')) = [4]"
    by (simp add: asset_path_def Asset_eq asset_blobs_def asset_bytes_def bindataRead_def
        sample_asset_env_def cannonicalName_def)
  ultimately show ?thesis
    using RestoreAssets_restores [of "\<lambda>xs. xs" 4 "\<lambda>_. None" sample_asset_env "''/tmp''" "''''"]
    by (auto simp: asset_files_def)
qed

end
