(* ===== verification/Spec2Isabelle.thy ===== *)
theory Spec2Isabelle
  imports Agent_Main Probe_Runs Kern_Connect Kern_Lookup Kern_Exec Assets_Restore
begin

text \<open>
  \<^bold>\<open>Verification of ehids-agent\<close>

  The agent observes a Linux host. Seven eBPF programs (\<open>kern/*.c\<close>) are attached to kernel and
  library functions and send records through perf and ring buffers. The Go program embeds their
  object files (\<open>assets/ebpf_probe.go\<close>), loads them through one \<^emph>\<open>probe\<close> per program (\<open>user/probe_*.go\<close>),
  reads the records with one goroutine per event map (\<open>user/imodule.go\<close>), decodes each record into an
  \<^emph>\<open>event\<close> (\<open>user/event_*.go\<close>) and prints the event as a line of the log. The probes register themselves
  at package initialisation (\<open>user/register.go\<close>); \<open>main.go\<close> initialises every registered probe and runs
  it in a goroutine until a signal arrives.

  \<^bold>\<open>The theories, bottom up\<close>

  \<^item> \<open>Go_Prelude\<close>, \<open>Go_Binary\<close>, \<open>Go_Fmt\<close>: the Go values and library functions the code uses. Panics are the
    type \<open>go\<close>, errors the datatype \<open>goerr\<close>. A decoder is a list of \<open>binary.Read\<close> statements run by
    \<open>exec_reads\<close>; what holds of every such list (success exactly from a size on, independence of padding,
    errors at and inside a field, kept invariants) is proved once, and the locales \<open>event_struct\<close> and
    \<open>strict_event_struct\<close> state the contract of an event. \<open>Sprintf0\<close> is \<open>fmt.Sprintf\<close> with a format known
    only at run time.
  \<^item> \<open>Common\<close>, \<open>Bpf_Cmd\<close>: \<open>user/common.go\<close> and \<open>user/bpf_cmd.go\<close>. The printed address determines the
    address; the packed name table gives every command its name.
  \<^item> \<open>Kern_Structs\<close>, \<open>Kern_Objects\<close>: the records of \<open>kern/*.c\<close> with their byte layout, and the programs and
    maps of each object file.
  \<^item> \<open>Event_Tcp\<close>, \<open>Event_Ktcp_Sec\<close>, \<open>Event_Proc\<close>, \<open>Event_Udns\<close>, \<open>Event_Java\<close>, \<open>Event_Bpf_Call\<close>, \<open>Event_Kudp\<close>: one theory
    per \<open>user/event_*.go\<close>, with \<open>Decode\<close>, \<open>String\<close> and \<open>Clone\<close>. Each relates the decoder to the bytes of
    the kernel's record, as a round trip where the two sides agree and as the exact shift where they do not,
    gives its errors and panics, and the text of the report.
  \<^item> \<open>Ievent\<close>: the interface \<open>IEventStruct\<close> as a datatype over the nine event types with dispatch; events keep
    their dynamic type and array sizes, and padding never changes an event.
  \<^item> \<open>Imodule\<close>, \<open>Imodule_Safety\<close>, \<open>Imodule_Liveness\<close>: \<open>user/imodule.go\<close>. \<open>reader_loop\<close> is one reader over the results
    of its calls; \<open>sys_step\<close> interleaves \<open>Run\<close> with \<open>readEvents\<close>, all readers, the watcher and the cancellation of
    the context. The locale \<open>imodule_child\<close> is what a reader needs of its probe. Invariants: \<open>Run\<close> never
    returns \<open>nil\<close>, the error channel never blocks a sender, each reader is closed exactly once. Events are fresh and of
    the prototype's type. After cancellation the
    goroutines come to rest and the number of reports is bounded. An error that was sent ends \<open>Run\<close> in every
    fair execution.
  \<^item> \<open>Assets\<close>, \<open>Assets_Restore\<close>: \<open>assets/ebpf_probe.go\<close>, with the table, the tree, and the functions that write
    assets to files as sequences of system calls.
  \<^item> \<open>Probe_Base\<close>, \<open>Register\<close>, \<open>Probe_Ktcp\<close>, \<open>Probe_Ktcp_Sec\<close>, \<open>Probe_Proc\<close>, \<open>Probe_Udns\<close>, \<open>Probe_Kudp\<close>, \<open>Probe_Java\<close>,
    \<open>Probe_Bpf_Call\<close>: the probes and their registry. A method is a function on receiver, world and log.
    \<open>load_spec\<close> is the abstract specification of a start; the locale \<open>event_probe\<close> says that a probe's \<open>start\<close>
    refines it, and every probe with event maps interprets it.
  \<^item> \<open>Probes\<close>: dispatch of the interface \<open>IModule\<close>, package initialisation, and the refinement and the
    loaded state for all probes.
  \<^item> \<open>Kern_Programs\<close>, \<open>Kern_Connect\<close>, \<open>Kern_Lookup\<close>, \<open>Kern_Exec\<close>: the handlers of the seven kernel programs as functions on
    their maps, over arbitrary sequences of calls, followed to the event the agent decodes.
  \<^item> \<open>Reports\<close>: a record of the kernel read after a successful start is one line of the log.
  \<^item> \<open>Probe_Runs\<close>: the goroutines \<open>Run\<close> starts for a probe with event maps. But for the UDP probe, no record and no
    interleaving makes one panic, and an error ends \<open>Run\<close>; the results on goroutines, on starts and on decoders
    put together. Every probe starts on the object file of its program (\<open>serves_object\<close> says what the
    manager package promises for one), and reads all buffers the program writes to.
  \<^item> \<open>Agent_Main\<close>: \<open>main.go\<close> up to the wait for a signal, for any order of the registry, and the stop.
  \<^item> This theory: a connection followed through all of them.

  \<^bold>\<open>Arguments of the model\<close>

  Code outside the repository is an argument: the packages \<open>ebpfmanager\<close> and \<open>cilium/ebpf\<close> (\<open>penv\<close>, \<open>ebpf_lib\<close>, the
  results of \<open>NewReader\<close> and \<open>Read\<close>), the DNS parser (\<open>dns_lib\<close>), \<open>gzip\<close> and the seven compressed object files
  (\<open>asset_env\<close>), the results of system calls, the clock and the time zone, and the order in which Go ranges over a
  map. The DNS parser returns on every input. For the kernel programs the arguments are the values of the eBPF helpers and the memory that reads find. No
  property assumes more of them than its statement says.

  \<^bold>\<open>Bounds and fuel\<close>

  Integers have their width throughout (\<open>word\<close> types); the error channel has its capacity 8 and the maps of the kernel
  programs have theirs (10240 and 1024). Only \<open>RestoreAssets\<close> has fuel: four levels are enough for every name, which
  is part of its property. All other functions are total; readers and \<open>Run\<close> are step functions, since they do not end.

  \<^bold>\<open>Choices\<close>

  A slice handed to a decoder has capacity equal to its length. An error printed with \<open>%v\<close> or \<open>%s\<close> is kept as
  the error value. Each probe struct is allocated once, so a pointer to it is its type. Kernel records are those
  of a little-endian host; the decoder of the bpf probe is modelled for both byte orders. A handler of a kernel program
  runs without another one in between; an insertion into a full hash map is dropped. The lookup of element 0 of a
  per-CPU array and of an entry of an LRU map just inserted succeed. The C struct \<open>addrinfo\<close> is given by the fields
  the handler reads through its pointers. \<open>%q\<close> is modelled for names without characters to escape, as all asset names
  are. A deferred call is counted when it is deferred and made by the return of its goroutine.

  \<^bold>\<open>Not modelled\<close>

  The eBPF headers (\<open>kern/vmlinux.h\<close>, \<open>kern/bpf\<close>, \<open>kern/common.h\<close>), whose types enter through the fields the
  handlers read; the debug prints of the bpf program and its unused buffers; the message \<open>event_kudp.go\<close> prints to
  the standard output; \<open>user/iclose.go\<close>, an interface no code uses; the build files, the documentation and the Java
  example. The byte literals of the object files are arguments, as the properties do not depend on them.
\<close>

unbundle bit_operations_syntax

section \<open>A connection from the kernel to the log\<close>

lemma is_loopback_memory: "is_loopback (le_word [a, b, c, d]) \<longleftrightarrow> a = 127"
proof -
  have "unat (le_word [a, b, c, d] AND 0xff :: u32) = unat a"
  proof -
    have "unat (le_word [a, b, c, d] AND 0xff :: u32) = take_bit 8 (unat (le_word [a, b, c, d] :: u32))"
      by (simp add: unsigned_and_eq take_bit_eq_mask mask_eq_exp_minus_1)
    also have "\<dots> = le_nat [a, b, c, d] mod 256"
      using unat_le_word [of "[a, b, c, d]", where 'a = 32] by (simp add: take_bit_eq_mod)
    also have "\<dots> = (unat a + 256 * le_nat [b, c, d]) mod 256" by (simp only: le_nat.simps)
    also have "\<dots> = unat a" using unat_byte_less [of a] by (simp only: mod_mult_self2 mod_less)
    finally show ?thesis .
  qed
  then show ?thesis by (simp add: is_loopback_def word_unat_eq_iff)
qed

lemma outbound_flags:
  "bit (if est then F_OUTBOUND OR F_CONNECTED else F_OUTBOUND) 0"
  "bit (if est then F_OUTBOUND OR F_CONNECTED else F_OUTBOUND) 4 \<longleftrightarrow> est"
  by (simp_all add: F_OUTBOUND_def F_CONNECTED_def bit_iff_odd)

text \<open>C2. An outbound connection from the kernel to the log. Take the calls of \<open>tcp_set_state\<close> on a
  machine, in any interleaving of its sockets, with an IPv4 connection to a host that is not
  local: it is opened, may be established, and is closed. The last record the kernel program sends for
  them, with any padding, makes the reader of the started TCP probe write exactly one line, and the
  program forgets the socket. The line names the process and command that opened the connection, or
  closed it from its side last; the user of the closing task, cut to 16 bits; the bytes received and
  acknowledged; both addresses in dotted order; the direction \<open>OUT\<close>; and the result \<open>True\<close> exactly
  when the connection was established. Its remote port \<open>p1 * 256 + p0\<close> is printed byte-swapped.\<close>

theorem outbound_connection_reported:
  assumes "tc_sk a = sk" and "tc_sk z = sk" and "sk \<noteq> 0"
    and "tc_state a = TCP_SYN_SENT" and "tc_state z = TCP_CLOSE"
    and "length conns < conns_max"
    and "\<forall>x\<in>set xs. tc_sk x = sk \<longrightarrow> tc_state x \<noteq> TCP_SYN_SENT \<and> tc_state x \<noteq> TCP_CLOSE"
    and "sk_family (tc_sock z) = 2"
    and "sk_rcv_saddr (tc_sock z) = le_word [l1, l2, l3, l4]" and "sk_daddr (tc_sock z) = le_word [r1, r2, r3, r4]"
    and "sk_dport (tc_sock z) = le_word [p1, p0]" and "\<not> (l1 = 127 \<and> r1 = 127)"
    and "\<forall>x\<in>set (a # xs). length (bt_comm (tc_task x)) = 16"
    and "start_succeeds env MTCPProbe_spec w [em] w'"
    and "owner = tc_task (last (a # filter (\<lambda>x. tc_sk x = sk \<and> tc_state x = TCP_LAST_ACK) xs))"
  shows "\<exists>m evs r t start. tcp_run (a # xs @ [z]) conns = (m, evs @ [r]) \<and> map_of m sk = None \<and> length start = 8
    \<and> IModule_Start MTCPProbe env (inited MTCPProbe ctx logger this w log) = Ret (Inr (), t)
    \<and> reader_loop PerfReader (pb_Module (ps_this t)) (IModule_Decode MTCPProbe lib rt (ps_this t)) em
        [(False, Inr \<lparr>rec_LostSamples = 0, rec_RawSample = event_t_bytes r @ pad\<rparr>, now)] l =
      Waiting (l @ [LogReport (report_line (pb_Module this)
        (''start time:'' @ start @ '', family:AF_INET, PID:'' @ itoa (uint (cur_pid owner))
         @ '', command:'' @ string_of_bytes (bt_comm owner)
         @ '', UID:'' @ itoa (uint (ucast (cur_uid (tc_task z)) :: u16))
         @ '', rx:'' @ itoa (uint (sk_bytes_received (tc_sock z)))
         @ '', tx:'' @ itoa (uint (sk_bytes_acked (tc_sock z)))
         @ '', dest:'' @ dotted r1 r2 r3 r4 @ '':'' @ itoa_nat (unat p0 * 256 + unat p1)
         @ '', source:'' @ dotted l1 l2 l3 l4 @ '', type:OUT, result:''
         @ (if \<exists>x\<in>set xs. tc_sk x = sk \<and> tc_state x = TCP_ESTABLISHED then ''True'' else ''False'')))])"
proof -
  let ?est = "\<exists>x\<in>set xs. tc_sk x = sk \<and> tc_state x = TCP_ESTABLISHED"
  have loop: "\<not> (is_loopback (sk_rcv_saddr (tc_sock z)) \<and> is_loopback (sk_daddr (tc_sock z)))"
    using assms(9,10,12) by (simp add: is_loopback_memory)
  obtain m evs r where run: "tcp_run (a # xs @ [z]) conns = (m, evs @ [r])" "map_of m sk = None"
    and r: "r = \<lparr>ev_start_ns = bt_ktime_ns (tc_task a), ev_end_ns = bt_ktime_ns (tc_task z),
        ev_pid = cur_pid owner, ev_laddr = sk_rcv_saddr (tc_sock z), ev_lport = sk_num (tc_sock z),
        ev_raddr = sk_daddr (tc_sock z), ev_rport = sk_dport (tc_sock z),
        ev_flags = (if ?est then F_OUTBOUND OR F_CONNECTED else F_OUTBOUND),
        ev_rx_b = sk_bytes_received (tc_sock z), ev_tx_b = sk_bytes_acked (tc_sock z),
        ev_task = bt_comm owner, ev_family = 2, ev_uid = cur_uid (tc_task z)\<rparr>"
    using tcp_outbound_lifecycle [OF assms(1-5) _ _ assms(7,8) loop, of conns] assms(6,15) by auto
  have "last (a # filter (\<lambda>x. tc_sk x = sk \<and> tc_state x = TCP_LAST_ACK) xs) \<in> set (a # xs)"
    using last_in_set [of "filter (\<lambda>x. tc_sk x = sk \<and> tc_state x = TCP_LAST_ACK) xs"] by auto
  then have wf: "kr_wf (KTcp r)" using assms(13,15) r by (auto simp: event_t_wf_def)
  obtain log' where start: "IModule_Start MTCPProbe env (inited MTCPProbe ctx logger this w log) = Ret (Inr (),
     \<lparr>ps_this = loaded MTCPProbe_spec [em] (snd (IModule_Init MTCPProbe ctx logger this)), ps_world = w', ps_log = log'\<rparr>)"
    using Start_loaded [OF _ assms(14), of MTCPProbe ctx logger this log] by (auto simp del: IModule_Start.simps)
  have line: "reader_loop PerfReader (pb_Module (snd (IModule_Init MTCPProbe ctx logger this)))
      (IModule_Decode MTCPProbe lib rt (loaded MTCPProbe_spec [em] (snd (IModule_Init MTCPProbe ctx logger this)))) em
      [(False, Inr \<lparr>rec_LostSamples = 0, rec_RawSample = event_t_bytes r @ pad\<rparr>, now)] l =
    Waiting (l @ [LogReport (report_line (pb_Module this) (IEvent_String rt now (EvTCP (TCPEvent_of r))))])"
    using record_reader_line [OF wf _ _ assms(14), of MTCPProbe 0] by (simp del: reader_loop.simps)
  obtain t where t: "length t = 8" "IEvent_String rt now (EvTCP (TCPEvent_of r)) =
     ''start time:'' @ t @ '', family:AF_INET, PID:'' @ itoa (uint (cur_pid owner))
         @ '', command:'' @ string_of_bytes (bt_comm owner)
         @ '', UID:'' @ itoa (uint (ucast (cur_uid (tc_task z)) :: u16))
         @ '', rx:'' @ itoa (uint (sk_bytes_received (tc_sock z)))
         @ '', tx:'' @ itoa (uint (sk_bytes_acked (tc_sock z)))
         @ '', dest:'' @ dotted r1 r2 r3 r4 @ '':'' @ itoa_nat (unat p0 * 256 + unat p1)
         @ '', source:'' @ dotted l1 l2 l3 l4 @ '', type:OUT, result:''
         @ (if ?est then ''True'' else ''False'')"
    using tcp_report [of "TCPEvent_of r" r1 r2 r3 r4 l1 l2 l3 l4 p1 p0] assms(9-11) outbound_flags [of ?est]
    by (auto simp: TCPEvent_of_def r TCPEvent_family_def AF_INET_def)
  show ?thesis
    using run start line t by (intro exI [of _ m] exI [of _ evs] exI [of _ r] exI) (auto simp del: reader_loop.simps IModule_Start.simps)
qed

text \<open>A request to port 80 of 8.8.8.8 by process 7, established while another socket comes and goes.\<close>

definition sample_connection :: "tcp_call list" where
  "sample_connection = [sample_tcp_call 32 TCP_ESTABLISHED 8 110, sample_tcp_call 16 TCP_ESTABLISHED 0 120,
     sample_tcp_call 32 TCP_CLOSE 8 130]"

lemma sample_tcp_call_sock:
  "sk_rcv_saddr (tc_sock (sample_tcp_call sk st pid ns)) = le_word [10, 0, 2, 15]"
  "sk_daddr (tc_sock (sample_tcp_call sk st pid ns)) = le_word [8, 8, 8, 8]"
  "sk_dport (tc_sock (sample_tcp_call sk st pid ns)) = le_word [0, 80]"
  by (simp_all add: sample_tcp_call_def le_word_def)

lemma sample_tcp_call_sel:
  "tc_sk (sample_tcp_call sk st pid ns) = sk" "tc_state (sample_tcp_call sk st pid ns) = st"
  "tc_task (sample_tcp_call sk st pid ns) = sample_task pid ns"
  "sk_family (tc_sock (sample_tcp_call sk st pid ns)) = 2"
  "sk_bytes_received (tc_sock (sample_tcp_call sk st pid ns)) = 10"
  "sk_bytes_acked (tc_sock (sample_tcp_call sk st pid ns)) = 20"
  "bt_comm (sample_task pid ns) = replicate 16 0x61" "cur_uid (sample_task pid ns) = 1000"
  "cur_pid (sample_task 7 ns) = 7"
  by (simp_all add: sample_tcp_call_def sample_task_def cur_uid_def cur_pid_def)

lemma sample_connection_calls:
  "\<forall>x\<in>set sample_connection. tc_sk x = 16 \<longrightarrow> tc_state x \<noteq> TCP_SYN_SENT \<and> tc_state x \<noteq> TCP_CLOSE"
  "\<exists>x\<in>set sample_connection. tc_sk x = 16 \<and> tc_state x = TCP_ESTABLISHED"
  "\<forall>x\<in>set (sample_tcp_call 16 TCP_SYN_SENT 7 100 # sample_connection). length (bt_comm (tc_task x)) = 16"
  "sample_task 7 100 = tc_task (last (sample_tcp_call 16 TCP_SYN_SENT 7 100
     # filter (\<lambda>x. tc_sk x = 16 \<and> tc_state x = TCP_LAST_ACK) sample_connection))"
  by (simp_all add: sample_connection_def sample_tcp_call_sel tcp_state_defs)

theorem outbound_connection_reported_witness:
  "\<exists>m evs r t start. tcp_run (sample_tcp_call 16 TCP_SYN_SENT 7 100 # sample_connection @ [sample_tcp_call 16 TCP_CLOSE 0 140]) []
      = (m, evs @ [r]) \<and> length start = 8
    \<and> IModule_Start MTCPProbe sample_env (inited MTCPProbe 0 0 MTCPProbe_mod () []) = Ret (Inr (), t)
    \<and> reader_loop PerfReader (pb_Module (ps_this t))
        (IModule_Decode MTCPProbe sample_ebpf_lib \<lparr>rt_zone = \<lambda>_. 0, rt_host = LittleEndian, rt_dns = sample_dns_lib\<rparr> (ps_this t)) 6
        [(False, Inr \<lparr>rec_LostSamples = 0, rec_RawSample = event_t_bytes r @ [0]\<rparr>, 0)] [] =
      Waiting [LogReport (''probeName:EBPFProbeKTCP, probeTpye:kprobe, start time:'' @ start
         @ '', family:AF_INET, PID:7, command:'' @ string_of_bytes (replicate 16 0x61)
         @ '', UID:1000, rx:10, tx:20, dest:'' @ dotted 8 8 8 8 @ '':20480, source:'' @ dotted 10 0 2 15 @ '', type:OUT, result:True'')]"
proof -
  have line: "report_line (pb_Module MTCPProbe_mod) x = ''probeName:EBPFProbeKTCP, probeTpye:kprobe, '' @ x" for x
    by (simp add: report_line_def MTCPProbe_mod_def zero_probe_named_def PROBE_TYPE_KPROBE_def)
  have num: "itoa 7 = ''7''" "itoa 1000 = ''1000''" "itoa 10 = ''10''" "itoa 20 = ''20''" "itoa_nat 20480 = ''20480''"
    by (simp_all add: itoa_def itoa_nat.simps digit_char_def char_of_def bit_iff_odd)
  have "(16::u64) \<noteq> 0" "length ([] :: conns) < conns_max" "\<not> ((10::byte) = 127 \<and> (8::byte) = 127)"
    by (simp_all add: conns_max_def)
  note reported = outbound_connection_reported [where a = "sample_tcp_call 16 TCP_SYN_SENT 7 100"
      and z = "sample_tcp_call 16 TCP_CLOSE 0 140" and ctx = 0 and logger = 0 and this = MTCPProbe_mod
      and log = "[]" and lib = sample_ebpf_lib and pad = "[0]" and now = 0 and l = "[]"
      and rt = "\<lparr>rt_zone = \<lambda>_. 0, rt_host = LittleEndian, rt_dns = sample_dns_lib\<rparr>",
      OF sample_tcp_call_sel(1) sample_tcp_call_sel(1) this(1) sample_tcp_call_sel(2) sample_tcp_call_sel(2)
      this(2) sample_connection_calls(1) sample_tcp_call_sel(4) sample_tcp_call_sock this(3)
      sample_connection_calls(3) sample_start_succeeds sample_connection_calls(4)]
  let ?z = "sample_tcp_call 16 TCP_CLOSE 0 140"
  have words: "report_line (pb_Module MTCPProbe_mod)
        (''start time:'' @ start @ '', family:AF_INET, PID:'' @ itoa (uint (cur_pid (sample_task 7 100)))
         @ '', command:'' @ string_of_bytes (bt_comm (sample_task 7 100))
         @ '', UID:'' @ itoa (uint (ucast (cur_uid (tc_task ?z)) :: u16))
         @ '', rx:'' @ itoa (uint (sk_bytes_received (tc_sock ?z))) @ '', tx:'' @ itoa (uint (sk_bytes_acked (tc_sock ?z)))
         @ '', dest:'' @ dotted 8 8 8 8 @ '':'' @ itoa_nat (unat (80::byte) * 256 + unat (0::byte))
         @ '', source:'' @ dotted 10 0 2 15 @ '', type:OUT, result:'' @ ''True'') =
      ''probeName:EBPFProbeKTCP, probeTpye:kprobe, start time:'' @ start
         @ '', family:AF_INET, PID:7, command:'' @ string_of_bytes (replicate 16 0x61)
         @ '', UID:1000, rx:10, tx:20, dest:'' @ dotted 8 8 8 8 @ '':20480, source:'' @ dotted 10 0 2 15
         @ '', type:OUT, result:True''" for start
    by (simp add: line num sample_tcp_call_sel)
  show ?thesis
    using reported [unfolded if_P [OF sample_connection_calls(2)] words append_Nil] by blast
qed

end
